(* ===== verification/JS_Prelude.thy ===== *)
theory JS_Prelude
  imports Main "HOL-Library.AList" "HOL-Library.Sublist"
begin

text \<open>
  The JavaScript values and standard-library operations the frontend uses, and the lemmas the
  components share. A JavaScript string is a \<^typ>\<open>string\<close>: one \<^typ>\<open>char\<close> per UTF-16 code unit
  below 256, which covers every character the code computes with. Captions outside ASCII
  (Portuguese diacritics, arrows, dashes) are display text that no code compares: they are
  written in their ASCII transliteration. \<open>undefined\<close> and \<open>null\<close> are both \<^const>\<open>None\<close>,
  since the code reads optional fields only through truthiness, \<open>??\<close>, \<open>?.\<close> and \<open>||\<close>.
\<close>

section \<open>Truthiness, optional values\<close>

named_theorems js \<open>equations of the JavaScript operations, for unfolding\<close>

definition jif :: "bool \<Rightarrow> 'a \<Rightarrow> 'a list" where
  "jif c v = (if c then [v] else [])"

definition truthy :: "string option \<Rightarrow> bool" where
  "truthy s = (case s of None \<Rightarrow> False | Some t \<Rightarrow> t \<noteq> [])"

definition nullish :: "'a option \<Rightarrow> 'a \<Rightarrow> 'a" where
  "nullish x d = (case x of None \<Rightarrow> d | Some v \<Rightarrow> v)"

definition str_or :: "string \<Rightarrow> string \<Rightarrow> string" where
  "str_or a b = (if a \<noteq> [] then a else b)"

definition ostr_or :: "string option \<Rightarrow> string option \<Rightarrow> string option" where
  "ostr_or a b = (if truthy a then a else b)"

lemma truthy_simps [simp]:
  "truthy None = False" "truthy (Some t) = (t \<noteq> [])"
  by (simp_all add: truthy_def)

lemma nullish_simps [simp]:
  "nullish None d = d" "nullish (Some v) d = v"
  by (simp_all add: nullish_def)

lemma jif_simps [simp]:
  "jif True v = [v]" "jif False v = []"
  by (simp_all add: jif_def)

lemma set_jif [simp]: "x \<in> set (jif c v) \<longleftrightarrow> c \<and> x = v"
  by (auto simp: jif_def)

lemma ball_jif [simp]: "(\<forall>x \<in> set (jif c v). P x) \<longleftrightarrow> (c \<longrightarrow> P v)"
  by auto

lemma list_ex_jif [simp]: "list_ex P (jif c v) = (c \<and> P v)"
  by (simp add: jif_def)

lemma map_jif [simp]: "map f (jif c v) = jif c (f v)"
  by (simp add: jif_def)

lemma jif_Nil_iff [simp]: "jif c v = [] \<longleftrightarrow> \<not> c"
  by (simp add: jif_def)

lemma concat_jif [simp]: "concat (jif c xs) = (if c then xs else [])"
  by (simp add: jif_def)

lemma find_SomeD: "Some x = find P xs \<Longrightarrow> x \<in> set xs \<and> P x"
  by (auto simp: eq_commute [of "Some x"] find_Some_iff)

section \<open>Toggling in an array\<close>

text \<open>\<open>xs.includes(x) ? xs.filter((y) => y !== x) : [...xs, x]\<close>.\<close>

definition arr_toggle :: "'a \<Rightarrow> 'a list \<Rightarrow> 'a list" where
  "arr_toggle x xs = (if List.member xs x then filter (\<lambda>y. y \<noteq> x) xs else xs @ [x])"

lemma set_arr_toggle: "set (arr_toggle x xs) = (if x \<in> set xs then set xs - {x} else insert x (set xs))"
  by (auto simp: arr_toggle_def)

lemma distinct_arr_toggle [simp]: "distinct xs \<Longrightarrow> distinct (arr_toggle x xs)"
  by (simp add: arr_toggle_def)

lemma arr_toggle_subset: "x \<in> A \<Longrightarrow> set xs \<subseteq> A \<Longrightarrow> set (arr_toggle x xs) \<subseteq> A"
  by (auto simp: set_arr_toggle)

lemma arr_toggle_twice: "distinct xs \<Longrightarrow> set (arr_toggle x (arr_toggle x xs)) = set xs"
  by (auto simp: set_arr_toggle)

section \<open>Strings\<close>

definition is_space :: "char \<Rightarrow> bool" where
  "is_space c \<longleftrightarrow> c \<in> set [CHR 0x09, CHR 0x0A, CHR 0x0B, CHR 0x0C, CHR 0x0D, CHR 0x20, CHR 0xA0]"

definition trim :: "string \<Rightarrow> string" where
  "trim s = rev (dropWhile is_space (rev (dropWhile is_space s)))"

lemma trim_Nil [simp]: "trim [] = []"
  by (simp add: trim_def)

text \<open>Stripping the ends of a text, for any notion of white space.\<close>

definition strip :: "('a \<Rightarrow> bool) \<Rightarrow> 'a list \<Rightarrow> 'a list" where
  "strip P s = rev (dropWhile P (rev (dropWhile P s)))"

lemma trim_strip: "trim = strip is_space"
  by (simp add: fun_eq_iff trim_def strip_def)

lemma hd_dropWhile_not: "dropWhile P xs \<noteq> [] \<Longrightarrow> \<not> P (hd (dropWhile P xs))"
  by (induction xs) auto

lemma last_strip: "strip P s \<noteq> [] \<Longrightarrow> \<not> P (last (strip P s))"
  by (metis hd_dropWhile_not hd_rev rev_is_Nil_conv rev_rev_ident strip_def)

lemma dropWhile_rev_stop: "\<not> P c \<Longrightarrow> dropWhile P (xs @ [c]) = dropWhile P xs @ [c]"
  by (induction xs) auto

lemma hd_strip: "strip P s \<noteq> [] \<Longrightarrow> \<not> P (hd (strip P s))"
proof (cases "dropWhile P s")
  case Nil
  then show "strip P s \<noteq> [] \<Longrightarrow> ?thesis" by (simp add: strip_def)
next
  case (Cons c cs)
  then have "\<not> P c" using hd_dropWhile_not [of P s] by simp
  with Cons show ?thesis by (simp add: strip_def dropWhile_rev_stop)
qed

lemma strip_eq_Nil: "strip P s = [] \<Longrightarrow> c \<in> set s \<Longrightarrow> P c"
proof -
  assume s: "strip P s = []" and c: "c \<in> set s"
  then have "\<forall>d \<in> set (dropWhile P s). P d" by (simp add: strip_def)
  moreover have "dropWhile P s \<noteq> [] \<Longrightarrow> \<not> P (hd (dropWhile P s))" by (rule hd_dropWhile)
  ultimately have "dropWhile P s = []" using hd_in_set by blast
  then show ?thesis using c by simp
qed

lemma strip_id: "s \<noteq> [] \<Longrightarrow> \<not> P (hd s) \<Longrightarrow> \<not> P (last s) \<Longrightarrow> strip P s = s"
proof -
  assume s: "s \<noteq> []" "\<not> P (hd s)" "\<not> P (last s)"
  have "dropWhile P s = s" using s by (cases s) auto
  moreover have "dropWhile P (rev s) = rev s" using s by (cases "rev s") (auto simp: hd_rev)
  ultimately show ?thesis by (simp add: strip_def)
qed

lemma strip_strip [simp]: "strip P (strip P s) = strip P s"
proof (cases "strip P s = []")
  case True
  have "strip P [] = []" by (simp add: strip_def)
  with True show ?thesis by simp
next
  case False
  then show ?thesis by (intro strip_id) (simp_all add: hd_strip last_strip)
qed

lemmas last_trim = last_strip [of is_space, folded trim_strip]
  and hd_trim = hd_strip [of is_space, folded trim_strip]
  and trim_eq_Nil = strip_eq_Nil [of is_space, folded trim_strip]
  and trim_id = strip_id [of _ is_space, folded trim_strip]
  and trim_trim [simp] = strip_strip [of is_space, folded trim_strip]

fun join :: "string \<Rightarrow> string list \<Rightarrow> string" where
  "join sep [] = []"
| "join sep [x] = x"
| "join sep (x # y # ys) = x @ sep @ join sep (y # ys)"

lemma set_join: "c \<in> set (join d xs) \<Longrightarrow> c \<in> set d \<or> (\<exists>x \<in> set xs. c \<in> set x)"
  by (induction d xs rule: join.induct) auto

definition quoted :: "string \<Rightarrow> string" where
  "quoted s = [CHR 0x22] @ s @ [CHR 0x22]"

text \<open>\<open>s.split(/[p]+/)\<close>: split at maximal runs of the separator characters \<open>p\<close>.\<close>

function split_runs :: "(char \<Rightarrow> bool) \<Rightarrow> string \<Rightarrow> string list" where
  "split_runs p s =
     takeWhile (\<lambda>c. \<not> p c) s #
     (case dropWhile (\<lambda>c. \<not> p c) s of [] \<Rightarrow> []
      | c # cs \<Rightarrow> split_runs p (dropWhile p cs))"
  by pat_completeness auto
termination
proof (relation "measure (\<lambda>(p, s). length s)", goal_cases)
  case 1
  then show ?case by simp
next
  case (2 p s c cs)
  have "length (dropWhile p cs) \<le> length cs" by (rule length_dropWhile_le)
  moreover have "length (dropWhile (\<lambda>c. \<not> p c) s) \<le> length s" by (rule length_dropWhile_le)
  ultimately show ?case using 2 by simp
qed

declare split_runs.simps [simp del]

lemma split_runs_last:
  "dropWhile (\<lambda>c. \<not> p c) s = [] \<Longrightarrow> split_runs p s = [takeWhile (\<lambda>c. \<not> p c) s]"
  by (subst split_runs.simps) (simp only: list.case)

lemma split_runs_step:
  "dropWhile (\<lambda>c. \<not> p c) s = d # ds \<Longrightarrow>
   split_runs p s = takeWhile (\<lambda>c. \<not> p c) s # split_runs p (dropWhile p ds)"
  by (subst split_runs.simps) (simp only: list.case)

lemma split_runs_no_sep: "t \<in> set (split_runs p s) \<Longrightarrow> c \<in> set t \<Longrightarrow> \<not> p c"
proof (induction p s arbitrary: t rule: split_runs.induct)
  case (1 p s)
  consider "dropWhile (\<lambda>c. \<not> p c) s = []" | d ds where "dropWhile (\<lambda>c. \<not> p c) s = d # ds"
    by (cases "dropWhile (\<lambda>c. \<not> p c) s") auto
  then show ?case
  proof cases
    case 1
    with \<open>t \<in> set (split_runs p s)\<close> have "t = takeWhile (\<lambda>c. \<not> p c) s"
      by (simp only: split_runs_last) simp
    then show ?thesis using \<open>c \<in> set t\<close> by (auto dest: set_takeWhileD)
  next
    case 2
    with "1.prems" consider "t = takeWhile (\<lambda>c. \<not> p c) s" | "t \<in> set (split_runs p (dropWhile p ds))"
      by (auto simp: split_runs_step)
    then show ?thesis using "1.IH" [OF 2 _ \<open>c \<in> set t\<close>] \<open>c \<in> set t\<close>
      by cases (auto dest: set_takeWhileD)
  qed
qed

lemma split_runs_set: "t \<in> set (split_runs p s) \<Longrightarrow> c \<in> set t \<Longrightarrow> c \<in> set s"
proof (induction p s arbitrary: t rule: split_runs.induct)
  case (1 p s)
  show ?case
  proof (cases "dropWhile (\<lambda>c. \<not> p c) s")
    case Nil
    with 1 show ?thesis by (auto simp: split_runs_last dest: set_takeWhileD)
  next
    case (Cons d ds)
    then have "set ds \<subseteq> set s" by (metis set_dropWhileD set_subset_Cons subset_iff)
    then show ?thesis using "1.prems" "1.IH" [OF Cons] set_dropWhileD
      by (auto simp: split_runs_step [OF Cons] dest: set_takeWhileD set_dropWhileD)
  qed
qed

lemma no_sep_split: "\<forall>c \<in> set s. \<not> p c \<Longrightarrow> split_runs p s = [s]"
  by (subst split_runs_last) (auto simp: dropWhile_eq_Nil_conv takeWhile_eq_all_conv)

lemma sep_split: "\<forall>c \<in> set s. \<not> p c \<Longrightarrow> p d \<Longrightarrow> \<not> p (hd r) \<Longrightarrow> r \<noteq> [] \<Longrightarrow>
   split_runs p (s @ d # r) = s # split_runs p r"
proof -
  assume a: "\<forall>c \<in> set s. \<not> p c" "p d" "\<not> p (hd r)" "r \<noteq> []"
  then have "dropWhile (\<lambda>c. \<not> p c) (s @ d # r) = d # r" "takeWhile (\<lambda>c. \<not> p c) (s @ d # r) = s"
    by (simp_all add: dropWhile_append takeWhile_append)
  moreover have "dropWhile p r = r" using a by (cases r) auto
  ultimately show ?thesis by (simp add: split_runs_step)
qed

text \<open>\<open>toUpperCase\<close> and \<open>toLowerCase\<close> on the code units below 256 whose other case is below 256
  too (sharp s, micro and y-diaeresis are left as they are).\<close>

definition up_char :: "char \<Rightarrow> char" where
  "up_char c = (let n = of_char c :: nat in
     if 97 \<le> n \<and> n \<le> 122 \<or> 224 \<le> n \<and> n \<le> 254 \<and> n \<noteq> 247 then char_of (n - 32) else c)"

definition low_char :: "char \<Rightarrow> char" where
  "low_char c = (let n = of_char c :: nat in
     if 65 \<le> n \<and> n \<le> 90 \<or> 192 \<le> n \<and> n \<le> 222 \<and> n \<noteq> 215 then char_of (n + 32) else c)"

lemma low_char_low [simp]: "low_char (low_char c) = low_char c"
proof -
  let ?n = "of_char c :: nat"
  have "of_char (char_of (?n + 32) :: char) = ?n + 32" if "?n \<le> 222" using that by simp
  then show ?thesis by (auto simp: low_char_def Let_def)
qed

abbreviation toUpperCase :: "string \<Rightarrow> string" where
  "toUpperCase s \<equiv> map up_char s"

abbreviation toLowerCase :: "string \<Rightarrow> string" where
  "toLowerCase s \<equiv> map low_char s"

abbreviation str_includes :: "string \<Rightarrow> string \<Rightarrow> bool" where
  "str_includes s t \<equiv> sublist t s"

text \<open>\<open>s.split(d)\<close> for a separator of one character.\<close>

fun split_on :: "char \<Rightarrow> string \<Rightarrow> string list" where
  "split_on d [] = [[]]"
| "split_on d (c # cs) = (if c = d then [] # split_on d cs
     else (case split_on d cs of [] \<Rightarrow> [[c]] | w # ws \<Rightarrow> (c # w) # ws))"

lemma split_on_no_sep: "w \<in> set (split_on d s) \<Longrightarrow> d \<notin> set w"
  by (induction d s arbitrary: w rule: split_on.induct) (auto split: if_splits list.splits)

lemma split_on_none: "d \<notin> set s \<Longrightarrow> split_on d s = [s]"
  by (induction d s rule: split_on.induct) auto

lemma split_on_sep: "d \<notin> set s \<Longrightarrow> split_on d (s @ d # r) = s # split_on d r"
  by (induction d s rule: split_on.induct) auto

text \<open>\<open>s.split(",").map((t) => t.trim()).filter(Boolean)\<close>: the list in a comma-separated field. An item is what such a
  field can hold; joined with commas the items are read back.\<close>

definition comma_items :: "string \<Rightarrow> string list" where
  "comma_items raw = filter (\<lambda>t. t \<noteq> []) (map trim (split_on (CHR '','') raw))"

definition item_ok :: "string \<Rightarrow> bool" where
  "item_ok t \<longleftrightarrow> t \<noteq> [] \<and> trim t = t \<and> CHR '','' \<notin> set t"

lemma trim_set: "set (trim s) \<subseteq> set s"
  by (auto simp: trim_def dest!: set_dropWhileD)

lemma comma_items_ok: "list_all item_ok (comma_items raw)"
  using trim_set split_on_no_sep by (fastforce simp: list_all_iff comma_items_def item_ok_def)

lemma trim_spaced: "trim t = t \<Longrightarrow> trim (CHR '' '' # t) = t"
  by (simp add: trim_def is_space_def)

lemma split_on_join:
  "\<forall>t \<in> set ts. CHR '','' \<notin> set t \<Longrightarrow> ts \<noteq> [] \<Longrightarrow>
   split_on (CHR '','') (join '', '' ts) = hd ts # map (\<lambda>t. CHR '' '' # t) (tl ts)"
proof (induction "'', ''" ts rule: join.induct)
  case (3 x y ys)
  have "split_on (CHR '','') (join '', '' (x # y # ys)) = split_on (CHR '','') (x @ CHR '','' # (CHR '' '' # join '', '' (y # ys)))"
    by simp
  also have "\<dots> = x # split_on (CHR '','') (CHR '' '' # join '', '' (y # ys))" by (rule split_on_sep) (use 3 in simp)
  also have "split_on (CHR '','') (CHR '' '' # join '', '' (y # ys)) = (CHR '' '' # y) # map (\<lambda>t. CHR '' '' # t) ys"
    using 3 by simp
  finally show ?case by simp
qed (auto simp: split_on_none)

lemma comma_items_join: "list_all item_ok ts \<Longrightarrow> comma_items (join '', '' ts) = ts"
proof (cases ts)
  case (Cons t us)
  assume ok: "list_all item_ok ts"
  then have all: "\<forall>t \<in> set ts. CHR '','' \<notin> set t \<and> trim t = t \<and> t \<noteq> []"
    by (auto simp: list_all_iff item_ok_def)
  then have "split_on (CHR '','') (join '', '' ts) = t # map (\<lambda>t. CHR '' '' # t) us"
    using split_on_join [of ts] Cons by auto
  then show ?thesis using all Cons trim_spaced
    by (auto simp: comma_items_def filter_id_conv intro!: map_idI)
qed (simp add: comma_items_def)

section \<open>Numbers in decimal\<close>

definition digit :: "nat \<Rightarrow> char" where
  "digit d = char_of (48 + d)"

fun str_nat :: "nat \<Rightarrow> string" where
  "str_nat n = (if n < 10 then [digit n] else str_nat (n div 10) @ [digit (n mod 10)])"

declare str_nat.simps [simp del]

definition str_int :: "int \<Rightarrow> string" where
  "str_int i = (if i < 0 then CHR ''-'' # str_nat (nat (- i)) else str_nat (nat i))"

definition is_digit :: "char \<Rightarrow> bool" where
  "is_digit c \<longleftrightarrow> (let n = of_char c :: nat in 48 \<le> n \<and> n \<le> 57)"

definition dval :: "char \<Rightarrow> nat" where
  "dval c = of_char c - 48"

definition nat_str :: "string \<Rightarrow> nat" where
  "nat_str s = foldl (\<lambda>a c. 10 * a + dval c) 0 s"

lemma dval_digit [simp]: "d < 10 \<Longrightarrow> dval (digit d) = d"
  by (simp add: dval_def digit_def)

lemma is_digit_digit [simp]: "d < 10 \<Longrightarrow> is_digit (digit d)"
  by (simp add: is_digit_def digit_def Let_def)

lemma nat_str_snoc: "nat_str (s @ [c]) = 10 * nat_str s + dval c"
  by (simp add: nat_str_def)

lemma nat_str_str_nat [simp]: "nat_str (str_nat n) = n"
proof (induction n rule: str_nat.induct)
  case (1 n)
  show ?case
  proof (cases "n < 10")
    case True
    then show ?thesis by (subst str_nat.simps) (simp add: nat_str_def)
  next
    case False
    then have "nat_str (str_nat n) = 10 * (n div 10) + n mod 10"
      using "1.IH" by (subst str_nat.simps) (simp add: nat_str_snoc)
    then show ?thesis by simp
  qed
qed

lemma str_nat_inj [simp]: "str_nat m = str_nat n \<longleftrightarrow> m = n"
  by (metis nat_str_str_nat)

lemma str_nat_nonempty [simp]: "str_nat n \<noteq> []"
  by (subst str_nat.simps) simp

lemma str_nat_digits: "\<forall>c \<in> set (str_nat n). is_digit c"
proof (induction n rule: str_nat.induct)
  case (1 n)
  then show ?case by (subst str_nat.simps) auto
qed

text \<open>A JavaScript number: an integer, another finite or infinite float (kept as its text) or
  \<open>NaN\<close>. Integers are exact, as doubles are below \<open>2 ^ 53\<close>.\<close>

datatype jsnumber = JInt int | JFloat string | JNaN

definition num_text :: "jsnumber \<Rightarrow> string" where
  "num_text n = (case n of JInt i \<Rightarrow> str_int i | JFloat t \<Rightarrow> t | JNaN \<Rightarrow> ''NaN'')"

definition numeral :: "string \<Rightarrow> bool" where
  "numeral s \<longleftrightarrow> s \<noteq> [] \<and> list_all is_digit s"

text \<open>\<open>Number(s)\<close>: blank text is 0, a signed integer literal is its value; every other text is
  read by the host's number parser \<open>other\<close>.\<close>

definition js_Number :: "(string \<Rightarrow> jsnumber) \<Rightarrow> string \<Rightarrow> jsnumber" where
  "js_Number other s = (let t = trim s in
     if t = [] then JInt 0
     else if numeral t then JInt (int (nat_str t))
     else if hd t = CHR ''-'' \<and> numeral (tl t) then JInt (- int (nat_str (tl t)))
     else other t)"

text \<open>\<open>Math.round (a / b)\<close> for integers and \<open>b > 0\<close>: the integer nearest to the quotient, halves
  upwards.\<close>

definition math_round_div :: "int \<Rightarrow> int \<Rightarrow> int" where
  "math_round_div a b = (2 * a + b) div (2 * b)"

lemma math_round_div_bounds:
  "0 < b \<Longrightarrow> 2 * a - b < 2 * b * math_round_div a b \<and> 2 * b * math_round_div a b \<le> 2 * a + b"
proof -
  assume b: "0 < b"
  let ?q = "(2 * a + b) div (2 * b)" and ?r = "(2 * a + b) mod (2 * b)"
  have "2 * b * ?q + ?r = 2 * a + b" by (rule mult_div_mod_eq)
  moreover have "0 \<le> ?r" "?r < 2 * b" using b by simp_all
  ultimately show ?thesis unfolding math_round_div_def by linarith
qed

text \<open>\<open>xs.slice(a, b)\<close> with \<open>0 \<le> a \<le> b\<close>, and \<open>xs.slice(-n)\<close>.\<close>

lemma math_round_exact: "0 < b \<Longrightarrow> math_round_div (n * b) b = n"
proof -
  assume b: "0 < b"
  have "2 * (n * b) + b = b + n * (2 * b)" by simp
  moreover have "(b + n * (2 * b)) div (2 * b) = n + b div (2 * b)" using b by (intro div_mult_self1) simp
  moreover have "b div (2 * b) = 0" using b by (simp add: div_pos_pos_trivial)
  ultimately show ?thesis unfolding math_round_div_def by (simp only: add_0_right)
qed

definition slice :: "nat \<Rightarrow> nat \<Rightarrow> 'a list \<Rightarrow> 'a list" where
  "slice a b xs = take (b - a) (drop a xs)"

definition slice_last :: "nat \<Rightarrow> 'a list \<Rightarrow> 'a list" where
  "slice_last n xs = drop (length xs - n) xs"

lemma length_slice [simp]: "length (slice a b xs) = min (b - a) (length xs - a)"
  by (simp add: slice_def)

lemma length_slice_last [simp]: "length (slice_last n xs) = min n (length xs)"
  by (simp add: slice_last_def)

lemma set_slice_last: "set (slice_last n xs) \<subseteq> set xs"
  by (simp add: slice_last_def set_drop_subset)

text \<open>\<open>parseInt(s)\<close> without a radix: white space and a sign are skipped, \<open>0x\<close> starts a hexadecimal
  number, the digits are read up to the first other character. \<^const>\<open>None\<close> is \<open>NaN\<close>.\<close>

definition hexdig :: "char \<Rightarrow> nat option" where
  "hexdig c = (let n = of_char c in
     if 48 \<le> n \<and> n \<le> 57 then Some (n - 48)
     else if 65 \<le> n \<and> n \<le> 70 then Some (n - 55)
     else if 97 \<le> n \<and> n \<le> 102 then Some (n - 87) else None)"

definition parse_nat :: "string \<Rightarrow> nat option" where
  "parse_nat s =
     (if take 2 s = ''0x'' \<or> take 2 s = ''0X''
      then let ds = takeWhile (\<lambda>c. hexdig c \<noteq> None) (drop 2 s)
           in if ds = [] then None else Some (foldl (\<lambda>a c. 16 * a + nullish (hexdig c) 0) 0 ds)
      else let ds = takeWhile is_digit s in if ds = [] then None else Some (nat_str ds))"

definition parseInt :: "string \<Rightarrow> int option" where
  "parseInt s = (let t = dropWhile is_space s in
     case t of
       [] \<Rightarrow> None
     | c # r \<Rightarrow> if c = CHR ''-'' then map_option (\<lambda>n. - int n) (parse_nat r)
         else if c = CHR ''+'' then map_option int (parse_nat r)
         else map_option int (parse_nat t))"

lemma takeWhile_all: "\<forall>c \<in> set s. P c \<Longrightarrow> takeWhile P s = s"
  by (induction s) auto

lemma parse_nat_str_nat [simp]: "parse_nat (str_nat n) = Some n"
proof -
  have "take 2 (str_nat n) \<noteq> ''0x'' \<and> take 2 (str_nat n) \<noteq> ''0X''"
  proof -
    have "\<forall>c \<in> set (take 2 (str_nat n)). is_digit c" using str_nat_digits set_take_subset by fastforce
    then show ?thesis by (auto simp: is_digit_def)
  qed
  then show ?thesis using str_nat_digits [of n] by (simp add: parse_nat_def takeWhile_all)
qed

lemma parseInt_str_int [simp]: "parseInt (str_int i) = Some i"
proof (cases "i < 0")
  case True
  then show ?thesis by (simp add: parseInt_def str_int_def is_space_def)
next
  case False
  obtain c r where n: "str_nat (nat i) = c # r" using str_nat_nonempty by (cases "str_nat (nat i)") auto
  have "is_digit c" using str_nat_digits [of "nat i"] n by simp
  then have "\<not> is_space c" "c \<noteq> CHR ''-''" "c \<noteq> CHR ''+''" by (auto simp: is_digit_def is_space_def)
  then show ?thesis using False n parse_nat_str_nat [of "nat i"] by (simp add: parseInt_def str_int_def)
qed

end
