(* ===== verification/JS_Sets.thy ===== *)
theory JS_Sets
  imports JS_Prelude
begin

text \<open>
  The insertion-ordered \<open>Set\<close> and \<open>Map\<close> of JavaScript. The components that keep a \<open>Set\<close> of
  expanded or collapsed keys rely only on the interface \<open>js_set\<close>: their toggle operation is
  specified once, inside that locale, and the list model provides the laws.
\<close>

section \<open>The interface\<close>

locale js_set =
  fixes has :: "'s \<Rightarrow> 'a \<Rightarrow> bool"
    and add :: "'a \<Rightarrow> 's \<Rightarrow> 's"
    and del :: "'a \<Rightarrow> 's \<Rightarrow> 's"
    and wf :: "'s \<Rightarrow> bool"
  assumes has_add: "wf s \<Longrightarrow> has (add x s) y \<longleftrightarrow> y = x \<or> has s y"
    and has_del: "wf s \<Longrightarrow> has (del x s) y \<longleftrightarrow> y \<noteq> x \<and> has s y"
    and wf_add: "wf s \<Longrightarrow> wf (add x s)"
    and wf_del: "wf s \<Longrightarrow> wf (del x s)"
begin

lemma toggle_has: "wf s \<Longrightarrow> has (if has s x then del x s else add x s) y \<longleftrightarrow> (if y = x then \<not> has s x else has s y)"
  by (simp add: has_add has_del)

lemma toggle_wf: "wf s \<Longrightarrow> wf (if has s x then del x s else add x s)"
  by (simp add: wf_add wf_del)

lemma toggle_twice:
  assumes "wf s" and "t = (if has s x then del x s else add x s)"
  shows "has (if has t x then del x t else add x t) y \<longleftrightarrow> has s y"
proof -
  have t: "wf t" and has_t: "has t z \<longleftrightarrow> (if z = x then \<not> has s x else has s z)" for z
    using assms by (simp_all only: toggle_has toggle_wf)
  show ?thesis unfolding toggle_has [OF t] by (simp add: has_t)
qed

end

section \<open>The list model\<close>

definition set_has :: "'a list \<Rightarrow> 'a \<Rightarrow> bool" where
  "set_has s x = List.member s x"

definition set_add :: "'a \<Rightarrow> 'a list \<Rightarrow> 'a list" where
  "set_add x s = (if set_has s x then s else s @ [x])"

definition set_del :: "'a \<Rightarrow> 'a list \<Rightarrow> 'a list" where
  "set_del x s = removeAll x s"

definition set_toggle :: "'a \<Rightarrow> 'a list \<Rightarrow> 'a list" where
  "set_toggle x s = (if set_has s x then set_del x s else set_add x s)"

text \<open>\<open>new Set(xs)\<close>: the first occurrence of each element, in order.\<close>

definition set_of :: "'a list \<Rightarrow> 'a list" where
  "set_of xs = foldl (\<lambda>s x. set_add x s) [] xs"

lemma set_has_iff [simp]: "set_has s x \<longleftrightarrow> x \<in> set s"
  by (simp add: set_has_def)

interpretation jset: js_set set_has set_add set_del distinct
  by unfold_locales (auto simp: set_add_def set_del_def distinct_removeAll)

lemma set_toggle_has: "distinct s \<Longrightarrow> set_has (set_toggle x s) y \<longleftrightarrow> (if y = x then \<not> set_has s x else set_has s y)"
  unfolding set_toggle_def by (rule jset.toggle_has)

lemma distinct_toggle [simp]: "distinct s \<Longrightarrow> distinct (set_toggle x s)"
  unfolding set_toggle_def by (rule jset.toggle_wf)

lemma set_toggle_twice: "distinct s \<Longrightarrow> set (set_toggle x (set_toggle x s)) = set s"
  using jset.toggle_twice [OF _ refl, of s x] unfolding set_toggle_def by (simp add: set_eq_iff)

lemma foldl_set_add: "distinct (s @ xs) \<Longrightarrow> foldl (\<lambda>s x. set_add x s) s xs = s @ xs"
  by (induction xs arbitrary: s) (auto simp: set_add_def)

lemma set_of_distinct: "distinct xs \<Longrightarrow> set_of xs = xs"
  by (simp add: set_of_def foldl_set_add)

lemma distinct_set_of [simp]: "distinct (set_of xs)"
proof -
  have "distinct s \<Longrightarrow> distinct (foldl (\<lambda>s x. set_add x s) s xs)" for s
    by (induction xs arbitrary: s) (auto intro: jset.wf_add)
  then show ?thesis by (simp add: set_of_def)
qed

lemma set_set_of: "set (set_of xs) = set xs"
proof -
  have "set (foldl (\<lambda>s x. set_add x s) s xs) = set s \<union> set xs" for s :: "'a list"
    by (induction xs arbitrary: s) (auto simp: set_add_def)
  then show ?thesis by (simp add: set_of_def)
qed

section \<open>Maps in insertion order\<close>

text \<open>\<open>m.set(k, v)\<close> is \<^const>\<open>AList.update\<close>: in place for a known key, at the end for a new one.
  \<open>new Map(pairs)\<close> folds it.\<close>

definition map_of_entries :: "('k \<times> 'v) list \<Rightarrow> ('k \<times> 'v) list" where
  "map_of_entries ps = foldl (\<lambda>m p. AList.update (fst p) (snd p) m) [] ps"

lemma map_of_entries_snoc [simp]:
  "map_of_entries (ps @ [p]) = AList.update (fst p) (snd p) (map_of_entries ps)"
  by (simp add: map_of_entries_def)

lemma map_of_entries_keys [simp]: "fst ` set (map_of_entries ps) = fst ` set ps"
proof (induction ps rule: rev_induct)
  case Nil
  then show ?case by (simp add: map_of_entries_def)
next
  case (snoc p ps)
  have "fst ` set (map_of_entries (ps @ [p])) = dom (map_of (map_of_entries (ps @ [p])))"
    by (simp add: dom_map_of_conv_image_fst)
  also have "\<dots> = insert (fst p) (dom (map_of (map_of_entries ps)))"
    by (simp add: update_conv')
  finally show ?case using snoc by (auto simp: dom_map_of_conv_image_fst)
qed

lemma distinct_map_of_entries [simp]: "distinct (map fst (map_of_entries ps))"
  by (induction ps rule: rev_induct) (simp_all add: map_of_entries_def distinct_update)

lemma map_of_entries_last:
  "map_of (map_of_entries ps) k = map_of (rev ps) k"
proof (induction ps rule: rev_induct)
  case Nil
  then show ?case by (simp add: map_of_entries_def)
next
  case (snoc p ps)
  then show ?case by (cases p) (simp add: update_conv')
qed

end
