(* ===== verification/Web.thy ===== *)
theory Web
  imports JS_Sets
begin

text \<open>
  The browser and library surface the components talk to: JSON values, request paths
  (\<open>encodeURIComponent\<close>), \<open>localStorage\<close>, the effects a handler can have, and the snapshots of
  queries and mutations that the third-party query library hands to a component. The library
  itself is not modelled: a snapshot is an argument of the definitions that read it.
\<close>

section \<open>JSON\<close>

datatype json = JNull | JBool bool | JNum jsnumber | JStr string
  | JArr "json list" | JObj "(string \<times> json) list"

text \<open>\<open>JSON.stringify\<close> leaves out the members whose value is \<open>undefined\<close>.\<close>

definition jobj :: "(string \<times> json option) list \<Rightarrow> json" where
  "jobj fs = JObj (concat (map (\<lambda>(k, v). case v of None \<Rightarrow> [] | Some j \<Rightarrow> [(k, j)]) fs))"

definition jstrs :: "string list \<Rightarrow> json" where
  "jstrs ss = JArr (map JStr ss)"

text \<open>\<open>x || null\<close>.\<close>

definition or_null :: "string \<Rightarrow> json" where
  "or_null x = (if x \<noteq> [] then JStr x else JNull)"

fun jfield :: "json \<Rightarrow> string \<Rightarrow> json option" where
  "jfield (JObj fs) k = map_of fs k"
| "jfield _ k = None"

lemma jfield_jobj: "jfield (jobj fs) k = map_of (concat (map (\<lambda>(k, v). case v of None \<Rightarrow> [] | Some j \<Rightarrow> [(k, j)]) fs)) k"
  by (simp add: jobj_def)

definition str_field :: "json \<Rightarrow> string \<Rightarrow> string option" where
  "str_field j k = (case jfield j k of Some (JStr s) \<Rightarrow> Some s | _ \<Rightarrow> None)"

text \<open>\<open>String(v)\<close> of a parsed value.\<close>

fun js_String :: "json \<Rightarrow> string" where
  "js_String JNull = ''null''"
| "js_String (JBool b) = (if b then ''true'' else ''false'')"
| "js_String (JNum n) = num_text n"
| "js_String (JStr s) = s"
| "js_String (JArr xs) = join '','' (map js_String xs)"
| "js_String (JObj fs) = ''[object Object]''"

section \<open>URI components\<close>

definition unreserved :: "char \<Rightarrow> bool" where
  "unreserved c \<longleftrightarrow> (let n = of_char c :: nat in
     65 \<le> n \<and> n \<le> 90 \<or> 97 \<le> n \<and> n \<le> 122 \<or> 48 \<le> n \<and> n \<le> 57) \<or> c \<in> set ''-_.!~*()'' \<or> c = CHR 0x27"

definition hexdigit :: "nat \<Rightarrow> char" where
  "hexdigit d = (if d < 10 then char_of (48 + d) else char_of (55 + d))"

definition pct :: "nat \<Rightarrow> string" where
  "pct b = [CHR ''%'', hexdigit (b div 16), hexdigit (b mod 16)]"

definition enc_char :: "char \<Rightarrow> string" where
  "enc_char c = (let n = of_char c in
     if unreserved c then [c]
     else if n < 128 then pct n
     else pct (192 + n div 64) @ pct (128 + n mod 64))"

definition encodeURIComponent :: "string \<Rightarrow> string" where
  "encodeURIComponent s = concat (map enc_char s)"

definition hexval :: "char \<Rightarrow> nat option" where
  "hexval c = (let n = of_char c in
     if 48 \<le> n \<and> n \<le> 57 then Some (n - 48)
     else if 65 \<le> n \<and> n \<le> 70 then Some (n - 55)
     else if 97 \<le> n \<and> n \<le> 102 then Some (n - 87) else None)"

definition hexbyte :: "char \<Rightarrow> char \<Rightarrow> nat option" where
  "hexbyte h l = (case (hexval h, hexval l) of (Some a, Some b) \<Rightarrow> Some (16 * a + b) | _ \<Rightarrow> None)"

text \<open>\<open>decodeURIComponent\<close>: \<^const>\<open>None\<close> is the \<open>URIError\<close> of a malformed escape (or a code point
  of 256 and above, which the character model does not hold).\<close>

fun decodeURIComponent :: "string \<Rightarrow> string option" where
  "decodeURIComponent [] = Some []"
| "decodeURIComponent (c # cs) =
     (if c \<noteq> CHR ''%'' then map_option (Cons c) (decodeURIComponent cs)
      else (case cs of
        h # l # r \<Rightarrow> (case hexbyte h l of
            None \<Rightarrow> None
          | Some b \<Rightarrow>
              if b < 128 then map_option (Cons (char_of b)) (decodeURIComponent r)
              else if b = 194 \<or> b = 195 then
                (case r of
                  p # h2 # l2 # r2 \<Rightarrow> (case hexbyte h2 l2 of
                      None \<Rightarrow> None
                    | Some b2 \<Rightarrow> if p = CHR ''%'' \<and> 128 \<le> b2 \<and> b2 < 192
                        then map_option (Cons (char_of ((b - 192) * 64 + (b2 - 128)))) (decodeURIComponent r2)
                        else None)
                | _ \<Rightarrow> None)
              else None)
      | _ \<Rightarrow> None))"

lemma hexval_hexdigit [simp]: "d < 16 \<Longrightarrow> hexval (hexdigit d) = Some d"
  by (simp add: hexval_def hexdigit_def Let_def)

lemma hexbyte_pct [simp]: "b < 256 \<Longrightarrow> hexbyte (hexdigit (b div 16)) (hexdigit (b mod 16)) = Some b"
  by (simp add: hexbyte_def less_mult_imp_div_less)

lemma of_char_lt [simp]: "(of_char c :: nat) < 256"
  by (metis of_char_of char_of_take_bit_eq nat_of_char_less_256)

lemma decode_enc_char [simp]:
  "decodeURIComponent (enc_char c @ r) = map_option (Cons c) (decodeURIComponent r)"
proof -
  let ?n = "of_char c :: nat"
  consider "unreserved c" | "\<not> unreserved c" "?n < 128" | "\<not> unreserved c" "128 \<le> ?n" by linarith
  then show ?thesis
  proof cases
    case 1
    then have "c \<noteq> CHR ''%''" by (auto simp: unreserved_def)
    with 1 show ?thesis by (simp add: enc_char_def)
  next
    case 2
    then show ?thesis by (simp add: enc_char_def pct_def Let_def)
  next
    case 3
    have lt: "?n mod 64 < 64" by simp
    have split: "?n = ?n div 64 * 64 + ?n mod 64" by simp
    have "?n div 64 = 2 \<or> ?n div 64 = 3" using 3 of_char_lt [of c] by linarith
    then show ?thesis
    proof
      assume q: "?n div 64 = 2"
      then have "?n = 128 + ?n mod 64" using split by linarith
      then have "c = char_of (128 + ?n mod 64)" by (metis char_of_char)
      then show ?thesis
        using 3 lt q hexbyte_pct [of 194] hexbyte_pct [of "128 + ?n mod 64"]
        by (simp add: enc_char_def pct_def Let_def del: hexbyte_pct)
    next
      assume q: "?n div 64 = 3"
      then have "?n = 192 + ?n mod 64" using split by linarith
      then have "c = char_of (192 + ?n mod 64)" by (metis char_of_char)
      then show ?thesis
        using 3 lt q hexbyte_pct [of 195] hexbyte_pct [of "128 + ?n mod 64"]
        by (simp add: enc_char_def pct_def Let_def del: hexbyte_pct)
    qed
  qed
qed

lemma decode_encode [simp]: "decodeURIComponent (encodeURIComponent s) = Some s"
  by (induction s) (simp_all add: encodeURIComponent_def)

lemma encodeURIComponent_inj: "encodeURIComponent s = encodeURIComponent t \<Longrightarrow> s = t"
  by (metis decode_encode option.inject)

definition uri_safe :: "char \<Rightarrow> bool" where
  "uri_safe c \<longleftrightarrow> unreserved c \<or> c = CHR ''%''"

lemma unreserved_hexdigit: "d < 16 \<Longrightarrow> unreserved (hexdigit d)"
  by (simp add: unreserved_def hexdigit_def Let_def)

lemma pct_safe: "b < 256 \<Longrightarrow> c \<in> set (pct b) \<Longrightarrow> uri_safe c"
proof -
  assume "b < 256" and c: "c \<in> set (pct b)"
  then have "unreserved (hexdigit (b div 16))" "unreserved (hexdigit (b mod 16))"
    by (intro unreserved_hexdigit; simp add: less_mult_imp_div_less)+
  with c show ?thesis by (auto simp: pct_def uri_safe_def)
qed

lemma enc_char_safe: "c \<in> set (enc_char d) \<Longrightarrow> uri_safe c"
proof -
  assume "c \<in> set (enc_char d)"
  then consider "unreserved d" "c = d" | "c \<in> set (pct (of_char d))"
    | "c \<in> set (pct (192 + of_char d div 64))" | "c \<in> set (pct (128 + of_char d mod 64))"
    by (auto simp: enc_char_def Let_def split: if_splits)
  then show ?thesis
  proof cases
    case 1
    then show ?thesis by (simp add: uri_safe_def)
  next
    case 2
    then show ?thesis using of_char_lt pct_safe by blast
  next
    case 3
    have "192 + of_char d div 64 < (256::nat)" using of_char_lt [of d] by linarith
    then show ?thesis using 3 by (rule pct_safe)
  next
    case 4
    then show ?thesis by (rule pct_safe [rotated]) (simp add: less_mult_imp_div_less)
  qed
qed

lemma encodeURIComponent_safe: "c \<in> set (encodeURIComponent s) \<Longrightarrow> uri_safe c"
  by (auto simp: encodeURIComponent_def intro: enc_char_safe)

lemma uri_unsafe_delims: "\<not> uri_safe (CHR ''&'')" "\<not> uri_safe (CHR ''='')" "\<not> uri_safe (CHR ''/'')"
  "\<not> uri_safe (CHR ''?'')" "\<not> uri_safe (CHR ''#'')"
  by (simp_all add: uri_safe_def unreserved_def)

lemma uri_param:
  "takeWhile (\<lambda>c. c \<noteq> CHR ''&'') (encodeURIComponent s) = encodeURIComponent s"
  "takeWhile (\<lambda>c. c \<noteq> CHR ''&'') (encodeURIComponent s @ CHR ''&'' # r) = encodeURIComponent s"
proof -
  have "\<forall>c \<in> set (encodeURIComponent s). c \<noteq> CHR ''&''" using encodeURIComponent_safe uri_unsafe_delims by metis
  then show "takeWhile (\<lambda>c. c \<noteq> CHR ''&'') (encodeURIComponent s) = encodeURIComponent s"
    "takeWhile (\<lambda>c. c \<noteq> CHR ''&'') (encodeURIComponent s @ CHR ''&'' # r) = encodeURIComponent s"
    by (simp_all add: takeWhile_append)
qed

section \<open>Search parameters\<close>

text \<open>\<open>application/x-www-form-urlencoded\<close>, as \<open>URLSearchParams\<close> writes it.\<close>

definition form_char :: "char \<Rightarrow> string" where
  "form_char c = (if c = CHR '' '' then ''+''
     else if c \<in> set ''!~()'' \<or> c = CHR 0x27 then pct (of_char c) else enc_char c)"

definition form_param :: "string \<times> string \<Rightarrow> string" where
  "form_param kv = concat (map form_char (fst kv)) @ ''='' @ concat (map form_char (snd kv))"

definition form_encode :: "(string \<times> string) list \<Rightarrow> string" where
  "form_encode ps = join ''&'' (map form_param ps)"

section \<open>The host: clock, dates, formatting\<close>

text \<open>What depends on the browser's locale, time zone and clock. \<open>date_ms\<close> is
  \<open>new Date(s).getTime()\<close>, with \<^const>\<open>None\<close> for \<open>NaN\<close>; \<open>local_fields\<close> are the local year, month
  (from 0), day, hour and minute; \<open>locale_fmt opts\<close> is the locale formatting with the options written in the source.\<close>

record host =
  now_ms :: int
  date_ms :: "string \<Rightarrow> int option"
  iso_of_ms :: "int \<Rightarrow> string"
  local_fields :: "int \<Rightarrow> int \<times> nat \<times> nat \<times> nat \<times> nat"
  locale_ts :: "string \<Rightarrow> string"
  locale_short :: "string \<Rightarrow> string"
  locale_date :: "string \<Rightarrow> string"
  locale_fmt :: "string \<Rightarrow> string \<Rightarrow> string"
  json_pretty :: "json \<Rightarrow> string"
  json_text :: "json \<Rightarrow> string"
  json_parse :: "string \<Rightarrow> json option"
  other_number :: "string \<Rightarrow> jsnumber"

text \<open>A host to evaluate definitions on: times are decimal milliseconds, local time is UTC of the
  first day, and lists of strings are written with a marker before each string and each character.\<close>

definition mark_strs :: "string list \<Rightarrow> string" where
  "mark_strs xs = concat (map (\<lambda>s. CHR ''s'' # concat (map (\<lambda>c. [CHR ''c'', c]) s)) xs)"

fun unmark :: "string \<Rightarrow> string \<times> string list" where
  "unmark (t # u) = (if t = CHR ''c'' then (case u of c # r \<Rightarrow> (c # fst (unmark r), snd (unmark r)) | [] \<Rightarrow> ([], []))
     else ([], fst (unmark u) # snd (unmark u)))"
| "unmark [] = ([], [])"

definition sample_host :: host where
  "sample_host = \<lparr>now_ms = 0,
     date_ms = (\<lambda>s. if numeral s then Some (int (nat_str s)) else None),
     iso_of_ms = (\<lambda>t. str_nat (nat t)),
     local_fields = (\<lambda>t. (1970, 0, 1, nat (t div 3600000), nat (t div 60000 mod 60))),
     locale_ts = id, locale_short = id, locale_date = id, locale_fmt = (\<lambda>_. id),
     json_pretty = (\<lambda>_. []),
     json_text = (\<lambda>j. case j of JArr xs \<Rightarrow> CHR ''['' # mark_strs (map (\<lambda>x. case x of JStr s \<Rightarrow> s | _ \<Rightarrow> []) xs) | _ \<Rightarrow> []),
     json_parse = (\<lambda>s. case s of [] \<Rightarrow> None | c # r \<Rightarrow> Some (jstrs (snd (unmark r)))),
     other_number = (\<lambda>_. JNaN)\<rparr>"

lemma unmark_chars: "unmark (concat (map (\<lambda>c. [CHR ''c'', c]) s) @ r) = (s @ fst (unmark r), snd (unmark r))"
  by (induction s) auto

lemma unmark_mark: "unmark (mark_strs xs) = ([], xs)"
  by (induction xs) (simp_all add: mark_strs_def unmark_chars)

lemma sample_host_json: "json_parse sample_host (json_text sample_host (jstrs xs)) = Some (jstrs xs)"
  by (simp add: sample_host_def jstrs_def o_def unmark_mark)

section \<open>localStorage\<close>

text \<open>\<^const>\<open>None\<close>: every access throws (storage disabled), which the callers catch.\<close>

type_synonym storage = "(string \<rightharpoonup> string) option"

definition ls_get :: "storage \<Rightarrow> string \<Rightarrow> string option" where
  "ls_get st k = (case st of None \<Rightarrow> None | Some m \<Rightarrow> m k)"

definition ls_set :: "string \<Rightarrow> string \<Rightarrow> storage \<Rightarrow> storage" where
  "ls_set k v st = map_option (\<lambda>m. m(k \<mapsto> v)) st"

lemma ls_get_set [simp]: "st \<noteq> None \<Longrightarrow> ls_get (ls_set k v st) k' = (if k' = k then Some v else ls_get st k')"
  by (auto simp: ls_get_def ls_set_def)

lemma ls_set_None_iff [simp]: "ls_set k v st = None \<longleftrightarrow> st = None"
  by (simp add: ls_set_def)

text \<open>What a page keeps there under a key of its own: \<open>stored_setting\<close> reads nothing else, \<open>persisted\<close> also reads back what it
  wrote. The pages provide the laws; what follows is used for all of them.\<close>

locale stored_setting =
  fixes key :: string and load :: "storage \<Rightarrow> 'v"
  assumes load_local: "ls_get st key = ls_get st' key \<Longrightarrow> load st = load st'"
begin

lemma load_other: "k \<noteq> key \<Longrightarrow> load (ls_set k x st) = load st"
  by (rule load_local) (auto simp: ls_get_def ls_set_def split: option.split)

lemma load_others: "key \<notin> fst ` set ws \<Longrightarrow> load (foldl (\<lambda>st (k, x). ls_set k x st) st ws) = load st"
  by (induction ws rule: rev_induct) (auto simp: load_other)

end

locale persisted = stored_setting key load for key :: string and load :: "storage \<Rightarrow> 'v" +
  fixes enc :: "'v \<Rightarrow> string" and valid :: "'v \<Rightarrow> bool"
  assumes load_saved: "valid v \<Longrightarrow> st \<noteq> None \<Longrightarrow> load (ls_set key (enc v) st) = v"
begin

definition kept :: "storage \<Rightarrow> 'v \<Rightarrow> bool" where
  "kept st v \<longleftrightarrow> (st \<noteq> None \<longrightarrow> load st = v)"

lemma kept_load: "kept st (load st)"
  by (simp add: kept_def)

lemma kept_save: "valid v \<Longrightarrow> kept (ls_set key (enc v) st) v"
  by (simp add: kept_def load_saved)

lemma last_write_wins:
  "valid v \<Longrightarrow> st \<noteq> None \<Longrightarrow> key \<notin> fst ` set ws \<Longrightarrow> load (foldl (\<lambda>st (k, x). ls_set k x st) (ls_set key (enc v) st) ws) = v"
  by (simp add: load_others load_saved)

end

section \<open>Errors thrown while rendering or handling\<close>

datatype js_error = TypeError | RangeError

section \<open>Effects\<close>

text \<open>What a handler does besides changing its component's state, in the order it does it.\<close>

datatype effect =
    Request string string "json option"   \<comment> \<open>method, path, JSON body\<close>
  | Toast string string                   \<comment> \<open>message, variant\<close>
  | Invalidate "string list"              \<comment> \<open>query key\<close>
  | Navigate string
  | NavigateReplace string
  | Callback string "string list"         \<comment> \<open>a function prop and its arguments\<close>
  | Logout
  | Reload

fun is_request :: "effect \<Rightarrow> bool" where
  "is_request (Request _ _ _) = True"
| "is_request _ = False"

section \<open>Query and mutation snapshots\<close>

record 'a query =
  qdata :: "'a option"
  isLoading :: bool
  isError :: bool
  isFetching :: bool
  isSuccess :: bool

record 'v mutation =
  isPending :: bool
  variables :: "'v option"

text \<open>A query with its data there and nothing under way, and a mutation at rest.\<close>

definition loaded :: "'a \<Rightarrow> 'a query" where
  "loaded d = \<lparr>qdata = Some d, isLoading = False, isError = False, isFetching = False, isSuccess = True\<rparr>"

definition idle :: "'v mutation" where
  "idle = \<lparr>isPending = False, variables = None\<rparr>"

text \<open>The documented relation between the flags of a query snapshot: data is present exactly on
  success or beside an error of a later refetch; the first load is an active fetch without data.\<close>

definition query_ok :: "'a query \<Rightarrow> bool" where
  "query_ok q \<longleftrightarrow> (isSuccess q \<longrightarrow> qdata q \<noteq> None \<and> \<not> isError q)
     \<and> (isLoading q \<longrightarrow> qdata q = None \<and> isFetching q \<and> \<not> isError q \<and> \<not> isSuccess q)"

end
