(* ===== verification/Runtime.thy ===== *)
theory Runtime
  imports Web
begin

text \<open>
  The view layer: a rendered component is a tree of elements whose attributes carry the events
  of the component, and a user can cause exactly the events that the tree offers. \<open>reach\<close> gives
  the states a component can reach, with the effects it has had, when at every moment the user
  acts on the view rendered from arbitrary props (query snapshots, permissions, child state) and
  the network settles requests at any time. The locale \<open>component\<close> turns a per-event invariant
  into one of all reachable states and all emitted effects.
\<close>

section \<open>Rendered trees\<close>

text \<open>
  \<open>Cls\<close> lists the class-name arguments of a shared UI element; class names and inline styles
  of other elements are layout only and are left out. \<open>OnSelf\<close> is the idiom
  \<open>e.target === e.currentTarget \<and> f()\<close>, \<open>OnClickStop\<close> a click handler that also stops
  propagation, \<open>StopClick\<close> one that does nothing else. \<open>Prop\<close> and \<open>PropF\<close> are function props of a
  mounted child component, which the child may call (\<open>PropF\<close> with a text of its choice).
\<close>

datatype 'e attr =
    At string string
  | Bo string bool
  | Cls "string list"
  | OnClick 'e
  | OnClickStop 'e
  | StopClick
  | OnSelf 'e
  | OnChange "string \<Rightarrow> 'e"
  | OnSubmit 'e
  | OnEnter 'e
  | Prop string 'e
  | PropF string "string \<Rightarrow> 'e"

datatype 'e vnode = Txt string | El string "'e attr list" "'e vnode list"

abbreviation el :: "string \<Rightarrow> 'e vnode list \<Rightarrow> 'e vnode" where
  "el t ks \<equiv> El t [] ks"

fun own_click :: "bool \<Rightarrow> 'e attr \<Rightarrow> 'e list" where
  "own_click direct (OnClick e) = [e]"
| "own_click direct (OnClickStop e) = [e]"
| "own_click direct (OnSelf e) = (if direct then [e] else [])"
| "own_click direct _ = []"

fun is_stop :: "'e attr \<Rightarrow> bool" where
  "is_stop (OnClickStop e) = True"
| "is_stop StopClick = True"
| "is_stop _ = False"

fun is_flag :: "string \<Rightarrow> 'e attr \<Rightarrow> bool" where
  "is_flag n (Bo m b) = (m = n \<and> b)"
| "is_flag n _ = False"

fun has_attr :: "string \<Rightarrow> string \<Rightarrow> 'e attr \<Rightarrow> bool" where
  "has_attr n v (At m w) = (m = n \<and> w = v)"
| "has_attr n v _ = False"

text \<open>A disabled form control dispatches no event, nor do the elements inside it.\<close>

definition dead :: "string \<Rightarrow> 'e attr list \<Rightarrow> bool" where
  "dead t as \<longleftrightarrow> t \<in> set [''button'', ''input'', ''select'', ''textarea''] \<and> list_ex (is_flag ''disabled'') as"

text \<open>The event sequences of the possible clicks in a tree: one for each element as the target, its
  own handlers first and then those of its ancestors until one stops the propagation.\<close>

fun clicks :: "'e vnode \<Rightarrow> ('e list \<times> bool) list" where
  "clicks (Txt s) = []"
| "clicks (El t as ks) =
     (if dead t as then []
      else (concat (map (own_click True) as), list_ex is_stop as) #
        map (\<lambda>(es, st). if st then (es, st) else (es @ concat (map (own_click False) as), list_ex is_stop as))
          (concat (map clicks ks)))"

fun option_values :: "'e vnode list \<Rightarrow> string list" where
  "option_values [] = []"
| "option_values (El t as ks # vs) =
     (if t = ''option'' then concat (map (\<lambda>a. case a of At n v \<Rightarrow> if n = ''value'' then [v] else [] | _ \<Rightarrow> []) as) else [])
     @ option_values vs"
| "option_values (Txt s # vs) = option_values vs"

lemma option_values_options [simp]:
  "option_values (map (\<lambda>s. El ''option'' [At ''value'' (f s)] (g s)) xs) = map f xs"
  by (induction xs) simp_all

fun own_change :: "string \<Rightarrow> 'e attr \<Rightarrow> 'e list" where
  "own_change x (OnChange f) = [f x]"
| "own_change x _ = []"

text \<open>What can be entered into an element: nothing into a read-only one, an option into a select.\<close>

definition enterable :: "string \<Rightarrow> 'e attr list \<Rightarrow> 'e vnode list \<Rightarrow> string \<Rightarrow> bool" where
  "enterable t as ks x \<longleftrightarrow> \<not> list_ex (is_flag ''readOnly'') as \<and> (t = ''select'' \<longrightarrow> List.member (option_values ks) x)"

text \<open>The events of entering the text \<open>x\<close> into an input, or choosing the option \<open>x\<close> of a select.\<close>

fun changes :: "string \<Rightarrow> 'e vnode \<Rightarrow> 'e list" where
  "changes x (Txt s) = []"
| "changes x (El t as ks) = (if dead t as then [] else
     (if enterable t as ks x then concat (map (own_change x) as) else []) @ concat (map (changes x) ks))"

text \<open>A form submits when it holds an enabled submit button (a button whose type is not
  \<open>button\<close>) and every required control has a value.\<close>

fun can_submit :: "'e vnode \<Rightarrow> bool" where
  "can_submit (Txt s) = False"
| "can_submit (El t as ks) =
     (t = ''button'' \<and> \<not> dead t as \<and> \<not> list_ex (has_attr ''type'' ''button'') as \<or> list_ex can_submit ks)"

fun required_ok :: "'e vnode \<Rightarrow> bool" where
  "required_ok (Txt s) = True"
| "required_ok (El t as ks) =
     (\<not> (list_ex (is_flag ''required'') as \<and> list_ex (has_attr ''value'' []) as) \<and> list_all required_ok ks)"

definition submittable :: "string \<Rightarrow> 'e vnode list \<Rightarrow> bool" where
  "submittable t ks \<longleftrightarrow> t = ''form'' \<and> list_ex can_submit ks \<and> list_all required_ok ks"

fun own_submit :: "'e attr \<Rightarrow> 'e list" where
  "own_submit (OnSubmit e) = [e]"
| "own_submit _ = []"

fun submits :: "'e vnode \<Rightarrow> 'e list" where
  "submits (Txt s) = []"
| "submits (El t as ks) = (if dead t as then [] else
     (if submittable t ks then concat (map own_submit as) else []) @ concat (map submits ks))"

fun own_call :: "string \<Rightarrow> 'e attr \<Rightarrow> 'e list" where
  "own_call x (Prop n e) = [e]"
| "own_call x (PropF n f) = [f x]"
| "own_call x _ = []"

fun calls :: "string \<Rightarrow> 'e vnode \<Rightarrow> 'e list" where
  "calls x (Txt s) = []"
| "calls x (El t as ks) = (if dead t as then [] else concat (map (own_call x) as) @ concat (map (calls x) ks))"

text \<open>\<open>OnEnter\<close> is a key handler that acts on the Enter key only.\<close>

fun own_enter :: "'e attr \<Rightarrow> 'e list" where
  "own_enter (OnEnter e) = [e]"
| "own_enter _ = []"

fun enters :: "'e vnode \<Rightarrow> 'e list" where
  "enters (Txt s) = []"
| "enters (El t as ks) = (if dead t as then [] else concat (map own_enter as) @ concat (map enters ks))"

text \<open>What one user action can cause: a click, an entry of the text \<open>x\<close>, a form submission, a press of
  Enter, or the call of a function prop by a mounted child.\<close>

definition fires :: "'e vnode \<Rightarrow> string \<Rightarrow> 'e list \<Rightarrow> bool" where
  "fires v x es \<longleftrightarrow> es \<in> set (map fst (clicks v))
     \<or> es \<in> set (map (\<lambda>e. [e]) (changes x v @ submits v @ enters v @ calls x v))"

text \<open>The texts on the screen, and the elements of a given tag (mounted child components appear as
  elements named after them).\<close>

fun texts :: "'e vnode \<Rightarrow> string list" where
  "texts (Txt s) = [s]"
| "texts (El t as ks) = concat (map texts ks)"

fun mounts :: "string \<Rightarrow> 'e vnode \<Rightarrow> bool" where
  "mounts n (Txt s) = False"
| "mounts n (El t as ks) = (t = n \<or> list_ex (mounts n) ks)"

text \<open>A child component's view inside its parent: its events wrapped into the parent's.\<close>

abbreviation embed :: "('a \<Rightarrow> 'b) \<Rightarrow> 'a vnode \<Rightarrow> 'b vnode" where
  "embed f v \<equiv> map_vnode f v"

section \<open>Every event a tree offers\<close>

fun attr_all :: "(string \<Rightarrow> bool) \<Rightarrow> bool \<Rightarrow> ('e \<Rightarrow> bool) \<Rightarrow> 'e attr \<Rightarrow> bool" where
  "attr_all D S P (OnClick e) = P e"
| "attr_all D S P (OnClickStop e) = P e"
| "attr_all D S P (OnSelf e) = P e"
| "attr_all D S P (OnSubmit e) = (S \<longrightarrow> P e)"
| "attr_all D S P (OnEnter e) = P e"
| "attr_all D S P (Prop n e) = P e"
| "attr_all D S P (OnChange f) = (\<forall>x. D x \<longrightarrow> P (f x))"
| "attr_all D S P (PropF n f) = (\<forall>x. P (f x))"
| "attr_all D S P _ = True"

text \<open>\<open>offers P v\<close>: every event that a click or an entry in \<open>v\<close> can cause satisfies \<open>P\<close>, the
  disabled controls left out.\<close>

fun offers :: "('e \<Rightarrow> bool) \<Rightarrow> 'e vnode \<Rightarrow> bool" where
  "offers P (Txt s) = True"
| "offers P (El t as ks) = (dead t as \<or> (\<forall>a \<in> set as. attr_all (enterable t as ks) (submittable t ks) P a) \<and> (\<forall>k \<in> set ks. offers P k))"

text \<open>The converse bound: \<open>never P v\<close>, no event of \<open>v\<close> satisfies \<open>P\<close>.\<close>

abbreviation never :: "('e \<Rightarrow> bool) \<Rightarrow> 'e vnode \<Rightarrow> bool" where
  "never P v \<equiv> offers (\<lambda>e. \<not> P e) v"

lemma offers_True [simp]: "offers (\<lambda>e. True) v"
proof (induction v)
  case (El t as ks)
  have "attr_all D S (\<lambda>e. True) a" for D S and a :: "'a attr" by (cases a) auto
  with El show ?case by auto
qed simp

lemma own_click_all: "e \<in> set (own_click d a) \<Longrightarrow> attr_all D S P a \<Longrightarrow> P e"
  by (cases a) (auto split: if_splits)

lemma own_change_all: "e \<in> set (own_change x a) \<Longrightarrow> D x \<Longrightarrow> attr_all D S P a \<Longrightarrow> P e"
  by (cases a) auto

lemma own_submit_all: "e \<in> set (own_submit a) \<Longrightarrow> S \<Longrightarrow> attr_all D S P a \<Longrightarrow> P e"
  by (cases a) auto

lemma clicks_offers: "offers P v \<Longrightarrow> (es, st) \<in> set (clicks v) \<Longrightarrow> e \<in> set es \<Longrightarrow> P e"
proof (induction v arbitrary: es st)
  case (Txt s)
  then show ?case by simp
next
  case (El t as ks)
  from El.prems have alive: "\<not> dead t as" by (auto split: if_splits)
  with El.prems have as: "\<forall>a \<in> set as. attr_all (enterable t as ks) (submittable t ks) P a" and ks: "\<forall>k \<in> set ks. offers P k" by auto
  have own: "P e" if "e \<in> set (concat (map (own_click d) as))" for d
    using that as by (auto dest: own_click_all)
  from alive El.prems(2) consider "es = concat (map (own_click True) as)"
    | es' st' k where "k \<in> set ks" "(es', st') \<in> set (clicks k)"
        "es = es' \<or> es = es' @ concat (map (own_click False) as)"
    by (auto split: if_splits)
  then show ?case
  proof cases
    case 1
    then show ?thesis using El.prems(3) own by blast
  next
    case 2
    then have "e \<in> set es' \<or> e \<in> set (concat (map (own_click False) as))" using El.prems(3) by auto
    then show ?thesis using own El.IH [OF 2(1) _ 2(2)] ks 2(1) by blast
  qed
qed

lemma changes_offers: "offers P v \<Longrightarrow> e \<in> set (changes x v) \<Longrightarrow> P e"
proof (induction v)
  case (Txt s)
  then show ?case by simp
next
  case (El t as ks)
  then have "\<not> dead t as" by (auto split: if_splits)
  with El show ?case by (auto split: if_splits dest: own_change_all)
qed

lemma submits_offers: "offers P v \<Longrightarrow> e \<in> set (submits v) \<Longrightarrow> P e"
proof (induction v)
  case (Txt s)
  then show ?case by simp
next
  case (El t as ks)
  then have "\<not> dead t as" by (auto split: if_splits)
  with El show ?case by (auto split: if_splits dest: own_submit_all)
qed

lemma own_call_all: "e \<in> set (own_call x a) \<Longrightarrow> attr_all D S P a \<Longrightarrow> P e"
  by (cases a) auto

lemma own_enter_all: "e \<in> set (own_enter a) \<Longrightarrow> attr_all D S P a \<Longrightarrow> P e"
  by (cases a) auto

lemma enters_offers: "offers P v \<Longrightarrow> e \<in> set (enters v) \<Longrightarrow> P e"
proof (induction v)
  case (Txt s)
  then show ?case by simp
next
  case (El t as ks)
  then have "\<not> dead t as" by (auto split: if_splits)
  with El show ?case by (auto split: if_splits dest: own_enter_all)
qed

lemma calls_offers: "offers P v \<Longrightarrow> e \<in> set (calls x v) \<Longrightarrow> P e"
proof (induction v)
  case (Txt s)
  then show ?case by simp
next
  case (El t as ks)
  then have "\<not> dead t as" by (auto split: if_splits)
  with El show ?case by (auto split: if_splits dest: own_call_all)
qed

lemma fires_offers: "fires v x es \<Longrightarrow> offers P v \<Longrightarrow> list_all P es"
  by (auto simp: fires_def list_all_iff dest: clicks_offers changes_offers submits_offers enters_offers calls_offers)

lemma offers_mono: "offers P v \<Longrightarrow> (\<And>e. P e \<Longrightarrow> Q e) \<Longrightarrow> offers Q v"
proof (induction v)
  case (Txt s)
  then show ?case by simp
next
  case (El t as ks)
  have "attr_all D S P a \<Longrightarrow> attr_all D S Q a" for D S a using El.prems(2) by (cases a) auto
  with El show ?case by auto
qed

text \<open>The clicks of a tree, from the target outwards.\<close>

definition can_click :: "'e vnode \<Rightarrow> 'e list \<Rightarrow> bool" where
  "can_click v es \<longleftrightarrow> es \<in> set (map fst (clicks v))"

lemma can_click_El:
  "\<not> dead t as \<Longrightarrow> concat (map (own_click False) as) = [] \<Longrightarrow>
   can_click (El t as ks) es \<longleftrightarrow> es = concat (map (own_click True) as) \<or> (\<exists>k \<in> set ks. can_click k es)"
  by (force simp: can_click_def image_iff split: if_splits)

lemma can_click_Txt [simp]: "\<not> can_click (Txt s) es"
  by (simp add: can_click_def)

lemma can_click_own: "\<not> dead t as \<Longrightarrow> can_click (El t as ks) (concat (map (own_click True) as))"
  by (simp add: can_click_def)

lemma can_click_fires: "can_click v es \<Longrightarrow> fires v x es"
  by (auto simp: can_click_def fires_def)

section \<open>One handler per click\<close>

text \<open>\<open>sealed v\<close>: no click in \<open>v\<close> both runs a handler and bubbles out of it. \<open>solo v\<close>: no click in
  \<open>v\<close> runs more than one handler.\<close>

fun sealed :: "'e vnode \<Rightarrow> bool" where
  "sealed (Txt s) = True"
| "sealed (El t as ks) = (dead t as \<or> list_ex is_stop as
     \<or> concat (map (own_click True) as) = [] \<and> concat (map (own_click False) as) = [] \<and> (\<forall>k \<in> set ks. sealed k))"

fun solo :: "'e vnode \<Rightarrow> bool" where
  "solo (Txt s) = True"
| "solo (El t as ks) = (dead t as
     \<or> length (concat (map (own_click True) as)) \<le> 1 \<and> (\<forall>k \<in> set ks. solo k)
       \<and> (concat (map (own_click False) as) = []
          \<or> length (concat (map (own_click False) as)) \<le> 1 \<and> (\<forall>k \<in> set ks. sealed k)))"

lemma clicks_sealed: "sealed v \<Longrightarrow> (es, st) \<in> set (clicks v) \<Longrightarrow> st \<or> es = []"
proof (induction v arbitrary: es st)
  case (Txt s)
  then show ?case by simp
next
  case (El t as ks)
  then have alive: "\<not> dead t as" by (auto split: if_splits)
  show ?case
  proof (cases "list_ex is_stop as")
    case True
    with El.prems alive show ?thesis by (auto split: if_splits)
  next
    case False
    with El.prems alive have none: "concat (map (own_click True) as) = []" "concat (map (own_click False) as) = []"
      and kids: "\<forall>k \<in> set ks. sealed k" by auto
    have "st' \<or> es' = []" if "k \<in> set ks" "(es', st') \<in> set (clicks k)" for k es' st'
      using that El.IH kids by blast
    with El.prems(2) alive none False show ?thesis by (fastforce split: if_splits)
  qed
qed

lemma clicks_solo: "solo v \<Longrightarrow> (es, st) \<in> set (clicks v) \<Longrightarrow> length es \<le> 1"
proof (induction v arbitrary: es st)
  case (Txt s)
  then show ?case by simp
next
  case (El t as ks)
  then have alive: "\<not> dead t as" by (auto split: if_splits)
  with El.prems have own: "length (concat (map (own_click True) as)) \<le> 1" and kids: "\<forall>k \<in> set ks. solo k"
    and up: "concat (map (own_click False) as) = []
      \<or> length (concat (map (own_click False) as)) \<le> 1 \<and> (\<forall>k \<in> set ks. sealed k)" by auto
  from alive El.prems(2) consider "es = concat (map (own_click True) as)"
    | es' st' k where "k \<in> set ks" "(es', st') \<in> set (clicks k)"
        "es = es' \<or> \<not> st' \<and> es = es' @ concat (map (own_click False) as)"
    by (auto split: if_splits)
  then show ?case
  proof cases
    case 1
    then show ?thesis using own by simp
  next
    case 2
    then have len: "length es' \<le> 1" using El.IH kids by blast
    show ?thesis
    proof (cases "concat (map (own_click False) as) = []")
      case True
      then show ?thesis using 2(3) len by (auto simp del: concat_eq_Nil_conv)
    next
      case False
      then have "length (concat (map (own_click False) as)) \<le> 1" "sealed k" using up 2(1) by blast+
      then show ?thesis using 2 len clicks_sealed [OF \<open>sealed k\<close> 2(2)] by auto
    qed
  qed
qed

lemma fires_solo: "fires v x es \<Longrightarrow> solo v \<Longrightarrow> length es \<le> 1"
  by (auto simp: fires_def dest: clicks_solo)

text \<open>The event a user causes is the only one of its action, and one that the tree offers.\<close>

lemma fires_one: "fires v x es \<Longrightarrow> solo v \<Longrightarrow> offers P v \<Longrightarrow> e \<in> set es \<Longrightarrow> es = [e] \<and> P e"
  using fires_solo [of v x es] fires_offers [of v x es P] by (cases es) auto

lemma own_click_map [simp]: "own_click d (map_attr f a) = map f (own_click d a)"
  by (cases a) auto

lemma is_stop_map [simp]: "is_stop (map_attr f a) = is_stop a"
  by (cases a) auto

lemma is_flag_map [simp]: "is_flag n (map_attr f a) = is_flag n a"
  by (cases a) auto

lemma has_attr_map [simp]: "has_attr n v (map_attr f a) = has_attr n v a"
  by (cases a) auto

lemma dead_map [simp]: "dead t (map (map_attr f) as) = dead t as"
  by (simp add: dead_def list_ex_iff)

lemma option_values_map [simp]: "option_values (map (map_vnode f) ks) = option_values ks"
proof -
  have "(case map_attr f a of At n v \<Rightarrow> g n v | _ \<Rightarrow> []) = (case a of At n v \<Rightarrow> g n v | _ \<Rightarrow> [])"
    for g :: "string \<Rightarrow> string \<Rightarrow> string list" and a by (cases a) auto
  then show ?thesis by (induction ks rule: option_values.induct) (auto simp: o_def)
qed

lemma enterable_map [simp]: "enterable t (map (map_attr f) as) (map (map_vnode f) ks) = enterable t as ks"
  by (simp add: enterable_def fun_eq_iff list_ex_iff)

lemma can_submit_embed [simp]: "can_submit (embed f v) = can_submit v"
  by (induction v) (auto simp: list_ex_iff)

lemma required_ok_embed [simp]: "required_ok (embed f v) = required_ok v"
  by (induction v) (auto simp: list_ex_iff list_all_iff)

lemma submittable_embed [simp]: "submittable t (map (map_vnode f) ks) = submittable t ks"
  by (simp add: submittable_def list_ex_iff list_all_iff)

lemma offers_embed [simp]: "offers P (embed f v) = offers (\<lambda>e. P (f e)) v"
proof (induction v)
  case (El t as ks)
  have "attr_all D S P (map_attr f a) = attr_all D S (\<lambda>e. P (f e)) a" for D S a by (cases a) auto
  with El show ?case by auto
qed simp

lemma concat_own_click_map: "concat (map (own_click d) (map (map_attr f) as)) = map f (concat (map (own_click d) as))"
  by (induction as) auto

lemma sealed_embed [simp]: "sealed (embed f v) = sealed v"
proof (induction v)
  case (El t as ks)
  then show ?case unfolding vnode.map sealed.simps concat_own_click_map dead_map
    by (auto simp: list_ex_iff)
qed simp

lemma solo_embed [simp]: "solo (embed f v) = solo v"
proof (induction v)
  case (El t as ks)
  then show ?case unfolding vnode.map solo.simps concat_own_click_map dead_map
    by (auto simp: list_ex_iff)
qed simp

section \<open>Components: reachable states and emitted effects\<close>

fun run :: "('s \<Rightarrow> 'e \<Rightarrow> 's \<times> 'f list) \<Rightarrow> 's \<Rightarrow> 'e list \<Rightarrow> 's \<times> 'f list" where
  "run h s [] = (s, [])"
| "run h s (e # es) = (let (s1, o1) = h s e; (s2, o2) = run h s1 es in (s2, o1 @ o2))"

inductive reach :: "('s \<Rightarrow> bool) \<Rightarrow> ('p \<Rightarrow> 's \<Rightarrow> 'e vnode) \<Rightarrow> ('s \<Rightarrow> 'e \<Rightarrow> 's \<times> 'f list) \<Rightarrow> ('e \<Rightarrow> bool)
    \<Rightarrow> 's \<Rightarrow> 'f list \<Rightarrow> bool"
  for init :: "'s \<Rightarrow> bool" and view :: "'p \<Rightarrow> 's \<Rightarrow> 'e vnode" and handle :: "'s \<Rightarrow> 'e \<Rightarrow> 's \<times> 'f list"
    and net :: "'e \<Rightarrow> bool" where
  mount: "init s \<Longrightarrow> reach init view handle net s []"
| act: "reach init view handle net s log \<Longrightarrow> fires (view p s) x es \<Longrightarrow> run handle s es = (s', out) \<Longrightarrow>
    reach init view handle net s' (log @ out)"
| settle: "reach init view handle net s log \<Longrightarrow> net e \<Longrightarrow> handle s e = (s', out) \<Longrightarrow>
    reach init view handle net s' (log @ out)"

text \<open>One action on the mounted component, and one request settled in it.\<close>

lemma reach_act1:
  "init s \<Longrightarrow> fires (view p s) x [e] \<Longrightarrow> handle s e = (s', out) \<Longrightarrow> reach init view handle net s' out"
  using reach.act [OF reach.mount, of init s view p x "[e]" handle s' out net] by simp

lemma reach_settle1:
  "init s \<Longrightarrow> net e \<Longrightarrow> handle s e = (s', out) \<Longrightarrow> reach init view handle net s' out"
  using reach.settle [OF reach.mount, of init s net e handle s' out view] by simp

text \<open>Runs are written step by step: entering a text that has no effect but on the state, and a click.\<close>

lemma reach_enter:
  "reach init view handle net s log \<Longrightarrow> e \<in> set (changes x (view p s)) \<Longrightarrow> handle s e = (s', []) \<Longrightarrow>
   reach init view handle net s' log"
  using reach.act [of init view handle net s log p x "[e]" s' "[]"] by (simp add: fires_def)

lemma reach_click:
  "reach init view handle net s log \<Longrightarrow> can_click (view p s) [e] \<Longrightarrow> handle s e = (s', out) \<Longrightarrow>
   reach init view handle net s' (log @ out)"
  using reach.act [of init view handle net s log p "[]" "[e]" s' out] can_click_fires [of "view p s" "[e]" "[]"] by simp

text \<open>
  The interface of a component: what its user may trigger in a state (\<open>allowed\<close>), the invariant of
  its state, and the effects it may have. The component provides the laws; the client gets them for
  every reachable state and the whole log of effects.
\<close>

lemma run_none_or_one: "length es \<le> 1 \<Longrightarrow> run h s es = (case es of [] \<Rightarrow> (s, []) | e # _ \<Rightarrow> h s e)"
  by (cases es) (simp_all add: split_def)

locale component =
  fixes init :: "'s \<Rightarrow> bool" and view :: "'p \<Rightarrow> 's \<Rightarrow> 'e vnode"
    and handle :: "'s \<Rightarrow> 'e \<Rightarrow> 's \<times> 'f list" and net :: "'e \<Rightarrow> bool"
    and allowed :: "'s \<Rightarrow> 'e \<Rightarrow> bool" and inv :: "'s \<Rightarrow> bool" and safe :: "'f \<Rightarrow> bool"
  assumes inv_mount: "init s \<Longrightarrow> inv s"
    and view_solo: "inv s \<Longrightarrow> solo (view p s)"
    and view_allowed: "inv s \<Longrightarrow> offers (allowed s) (view p s)"
    and net_allowed: "inv s \<Longrightarrow> net e \<Longrightarrow> allowed s e"
    and handle_inv: "inv s \<Longrightarrow> allowed s e \<Longrightarrow> inv (fst (handle s e))"
    and handle_safe: "inv s \<Longrightarrow> allowed s e \<Longrightarrow> list_all safe (snd (handle s e))"
begin

lemma run_inv:
  assumes "inv s" "fires (view p s) x es" "run handle s es = (s', out)"
  shows "inv s' \<and> list_all safe out"
proof -
  have "list_all (allowed s) es" using assms fires_offers view_allowed by blast
  moreover have "length es \<le> 1" using assms fires_solo view_solo by blast
  ultimately show ?thesis
    using assms handle_inv [of s "hd es"] handle_safe [of s "hd es"]
    by (cases es) (auto simp: run_none_or_one)
qed

lemma reach_inv: "reach init view handle net s log \<Longrightarrow> inv s \<and> list_all safe log"
proof (induction rule: reach.induct)
  case (mount s)
  then show ?case by (simp add: inv_mount)
next
  case (act s log p x es s' out)
  then have "inv s' \<and> list_all safe out" using run_inv by blast
  with act show ?case by simp
next
  case (settle s log e s' out)
  then show ?case using handle_inv [of s e] handle_safe [of s e] net_allowed by auto
qed

lemma reachable_inv: "reach init view handle net s log \<Longrightarrow> inv s"
  using reach_inv by blast

lemma emitted_safe: "reach init view handle net s log \<Longrightarrow> f \<in> set log \<Longrightarrow> safe f"
  using reach_inv by (auto simp: list_all_iff)

end

text \<open>A component whose effects are never requests: what a page must be for a user without the
  permission to operate.\<close>

locale read_only = component init view handle net allowed inv "\<lambda>f. \<not> is_request f"
  for init :: "'s \<Rightarrow> bool" and view :: "'p \<Rightarrow> 's \<Rightarrow> 'e vnode"
    and handle :: "'s \<Rightarrow> 'e \<Rightarrow> 's \<times> effect list" and net :: "'e \<Rightarrow> bool"
    and allowed :: "'s \<Rightarrow> 'e \<Rightarrow> bool" and inv :: "'s \<Rightarrow> bool"
begin

lemma no_request: "reach init view handle net s log \<Longrightarrow> \<not> list_ex is_request log"
  using reach_inv by (auto simp: list_all_iff list_ex_iff)

end

end
