(* ===== verification/ApiClient.thy ===== *)
theory ApiClient
  imports Runtime
begin

text \<open>
  The HTTP client and the session hooks: \<open>api/client.ts\<close>, \<open>api/types.ts\<close> (the session types),
  \<open>hooks/useSession.ts\<close>, \<open>hooks/usePermission.ts\<close> and \<open>hooks/useBranding.ts\<close>. The network is a
  function from the issued request to its outcome.
\<close>

section \<open>The CSRF cookie\<close>

text \<open>The match of \<open>/(?:^|; )jl_csrf=([^;]*)/\<close>: at the start of the cookie string, else after the first
  separator where it fits.\<close>

fun csrf_scan :: "string \<Rightarrow> string option" where
  "csrf_scan s =
     (if prefix ''; jl_csrf='' s then Some (takeWhile (\<lambda>c. c \<noteq> CHR '';'') (drop 10 s))
      else (case s of [] \<Rightarrow> None | c # cs \<Rightarrow> csrf_scan cs))"

declare csrf_scan.simps [simp del]

definition csrf_match :: "string \<Rightarrow> string option" where
  "csrf_match s =
     (if prefix ''jl_csrf='' s then Some (takeWhile (\<lambda>c. c \<noteq> CHR '';'') (drop 8 s)) else csrf_scan s)"

text \<open>\<^const>\<open>None\<close> is the \<open>URIError\<close> that \<open>decodeURIComponent\<close> throws.\<close>

definition csrfToken :: "string \<Rightarrow> string option" where
  "csrfToken cookie = (case csrf_match cookie of None \<Rightarrow> Some [] | Some m \<Rightarrow> decodeURIComponent m)"

section \<open>Requests\<close>

definition headers :: "string \<Rightarrow> (string \<times> string) list \<Rightarrow> (string \<times> string) list" where
  "headers token extra = map_of_entries
     ([(''Content-Type'', ''application/json''), (''X-CSRF-Token'', token)] @ extra)"

record fetch_init =
  f_path :: string
  f_method :: string
  f_credentials :: string
  f_headers :: "(string \<times> string) list"
  f_body :: "string option"
  f_redirect :: "string option"

datatype outcome =
    NetworkFailure string
  | Response (status: nat) (statusText: string) (rtext: "string option") (rjson: "json option")

datatype api_error = UriError | FetchError string | HttpError string | JsonError

definition res_ok :: "nat \<Rightarrow> bool" where
  "res_ok n \<longleftrightarrow> 200 \<le> n \<and> n \<le> 299"

definition fetch_of :: "host \<Rightarrow> string \<Rightarrow> string \<Rightarrow> string \<Rightarrow> json option \<Rightarrow> fetch_init" where
  "fetch_of h tok mth path body = \<lparr>f_path = path, f_method = mth, f_credentials = ''same-origin'',
     f_headers = headers tok [], f_body = map_option (json_text h) body, f_redirect = None\<rparr>"

text \<open>The result of a request and whether it dispatched \<open>jlm:session-expired\<close> on the window.\<close>

definition request :: "host \<Rightarrow> string \<Rightarrow> (fetch_init \<Rightarrow> outcome) \<Rightarrow> string \<Rightarrow> string \<Rightarrow> json option
    \<Rightarrow> (api_error + json) \<times> bool" where
  "request h cookie net mth path body =
     (case csrfToken cookie of
        None \<Rightarrow> (Inl UriError, False)
      | Some tok \<Rightarrow>
          (case net (fetch_of h tok mth path body) of
             NetworkFailure m \<Rightarrow> (Inl (FetchError m), False)
           | Response st stt txt js \<Rightarrow>
               if \<not> res_ok st
               then (Inl (HttpError (str_nat st @ '' '' @ stt @ '': '' @ nullish txt [])), st = 401)
               else (case js of None \<Rightarrow> Inl JsonError | Some j \<Rightarrow> Inr j, False)))"

definition api_get where "api_get h ck net path = request h ck net ''GET'' path None"
definition api_post where "api_post h ck net path body = request h ck net ''POST'' path body"
definition api_put where "api_put h ck net path body = request h ck net ''PUT'' path body"
definition api_patch where "api_patch h ck net path body = request h ck net ''PATCH'' path body"
definition api_delete where "api_delete h ck net path = request h ck net ''DELETE'' path None"

text \<open>What a component can have issued: a request effect is carried out by the client's verb.\<close>

definition perform :: "host \<Rightarrow> string \<Rightarrow> (fetch_init \<Rightarrow> outcome) \<Rightarrow> effect \<Rightarrow> ((api_error + json) \<times> bool) option" where
  "perform h ck net f = (case f of
      Request mth path body \<Rightarrow> Some (request h ck net mth path body)
    | _ \<Rightarrow> None)"

text \<open>\<open>logout\<close>: the window's new location, \<^const>\<open>None\<close> when the promise rejects before it is set.\<close>

definition logout_init :: "string \<Rightarrow> fetch_init" where
  "logout_init tok = \<lparr>f_path = ''/auth/logout'', f_method = ''POST'', f_credentials = ''same-origin'',
     f_headers = [(''X-CSRF-Token'', tok)], f_body = None, f_redirect = Some ''follow''\<rparr>"

definition logout :: "string \<Rightarrow> (fetch_init \<Rightarrow> outcome) \<Rightarrow> string option" where
  "logout cookie net = (case csrfToken cookie of
      None \<Rightarrow> None
    | Some tok \<Rightarrow> (case net (logout_init tok) of NetworkFailure _ \<Rightarrow> Some ''/'' | Response _ _ _ _ \<Rightarrow> Some ''/''))"

section \<open>Session types and hooks\<close>

datatype session_state = Unauthenticated | Forbidden | NeedsTenant | Ready | Unavailable

record tenant =
  t_tenant_id :: string
  t_display_name :: "string option"
  t_role :: "string option"

record session =
  se_state :: session_state
  se_principal_id :: "string option"
  se_tenant_id :: "string option"
  se_display_name :: "string option"
  se_email :: "string option"
  se_permissions :: "string list option"
  se_memberships :: "tenant list option"
  se_environment :: "string option"

definition usePermission :: "session option \<Rightarrow> string \<Rightarrow> bool" where
  "usePermission se p = (case se of None \<Rightarrow> False
     | Some s \<Rightarrow> (case se_permissions s of None \<Rightarrow> False | Some ps \<Rightarrow> List.member ps p))"

definition useCanOperate :: "session option \<Rightarrow> bool" where
  "useCanOperate se = usePermission se ''monitoring:operate''"

definition useCanAdmin :: "session option \<Rightarrow> bool" where
  "useCanAdmin se = usePermission se ''tenant:admin''"

record branding =
  b_configured :: bool
  b_brand_name :: "string option"
  b_brand_color :: "string option"
  b_logo_url :: "string option"

text \<open>The effect of \<open>useBranding\<close> on the root element's \<open>--brand\<close> property: set to the colour, or
  removed.\<close>

definition branding_effect :: "branding option \<Rightarrow> string option" where
  "branding_effect b = (case b of None \<Rightarrow> None
     | Some br \<Rightarrow> if b_configured br \<and> truthy (b_brand_color br) then b_brand_color br else None)"

definition branding_enabled :: "string option \<Rightarrow> bool" where
  "branding_enabled tenantId = truthy tenantId"

section \<open>Properties\<close>

text \<open>A cookie string as the browser builds it: \<open>name=value\<close> pairs joined by a separator.\<close>

definition cookie_text :: "(string \<times> string) list \<Rightarrow> string" where
  "cookie_text ps = join ''; '' (map (\<lambda>(n, v). n @ ''='' @ v) ps)"

definition cookie_ok :: "string \<times> string \<Rightarrow> bool" where
  "cookie_ok p \<longleftrightarrow> CHR '';'' \<notin> set (fst p) \<and> CHR ''='' \<notin> set (fst p) \<and> CHR '';'' \<notin> set (snd p)"

lemma prefix_name_eq:
  assumes "CHR ''='' \<notin> set n" "CHR ''='' \<notin> set m"
  shows "prefix (m @ ''='') (n @ CHR ''='' # r) \<longleftrightarrow> n = m"
  using assms
proof (induction m arbitrary: n)
  case Nil
  then show ?case by (cases n) auto
next
  case (Cons c m)
  then show ?case by (cases n) auto
qed

lemma csrf_scan_skip:
  "CHR '';'' \<notin> set s \<Longrightarrow> csrf_scan (s @ r) = csrf_scan r"
proof (induction s)
  case (Cons c s)
  then have "\<not> prefix ''; jl_csrf='' (c # s @ r)" by auto
  with Cons show ?case by (subst csrf_scan.simps) auto
qed simp

lemma csrf_scan_Nil [simp]: "csrf_scan [] = None"
  by (subst csrf_scan.simps) simp

lemma takeWhile_value: "CHR '';'' \<notin> set v \<Longrightarrow> takeWhile (\<lambda>c. c \<noteq> CHR '';'') (v @ r) =
    v @ takeWhile (\<lambda>c. c \<noteq> CHR '';'') r"
  by (induction v) auto

lemma cookie_text_Cons:
  "cookie_text ((n, v) # ps) = n @ ''='' @ v @ (if ps = [] then [] else ''; '' @ cookie_text ps)"
  by (cases ps) (auto simp: cookie_text_def)

lemma csrf_scan_sep:
  assumes "ps \<noteq> []" "list_all cookie_ok ps"
  shows "csrf_scan (''; '' @ cookie_text ps) = map_of ps ''jl_csrf''"
  using assms
proof (induction ps)
  case (Cons p ps)
  obtain n v where p: "p = (n, v)" by fastforce
  let ?rest = "if ps = [] then [] else ''; '' @ cookie_text ps"
  have ok: "CHR '';'' \<notin> set n" "CHR ''='' \<notin> set n" "CHR '';'' \<notin> set v"
    using Cons.prems p by (auto simp: cookie_ok_def)
  have hit: "prefix ''; jl_csrf='' (''; '' @ n @ ''='' @ v @ ?rest) \<longleftrightarrow> n = ''jl_csrf''"
    using prefix_name_eq [of n "''jl_csrf''"] ok by simp
  have rest: "csrf_scan ?rest = map_of ps ''jl_csrf''" using Cons by auto
  have tw: "takeWhile (\<lambda>c. c \<noteq> CHR '';'') ?rest = []" by simp
  show ?case
  proof (cases "n = ''jl_csrf''")
    case True
    then show ?thesis using hit tw ok unfolding p cookie_text_Cons
      by (subst csrf_scan.simps) (simp add: takeWhile_value)
  next
    case False
    then have "\<not> prefix ''; jl_csrf='' (''; '' @ n @ ''='' @ v @ ?rest)" using hit by simp
    then have "csrf_scan (''; '' @ n @ ''='' @ v @ ?rest) = csrf_scan (('' '' @ n @ ''='' @ v) @ ?rest)"
      by (subst csrf_scan.simps) simp
    also have "\<dots> = csrf_scan ?rest" using ok by (intro csrf_scan_skip) auto
    finally show ?thesis using rest False unfolding p cookie_text_Cons by simp
  qed
qed simp

lemma csrf_match_cookie_text:
  assumes "list_all cookie_ok ps"
  shows "csrf_match (cookie_text ps) = map_of ps ''jl_csrf''"
proof (cases ps)
  case Nil
  then show ?thesis by (simp add: csrf_match_def cookie_text_def)
next
  case (Cons p qs)
  obtain n v where p: "p = (n, v)" by fastforce
  let ?rest = "if qs = [] then [] else ''; '' @ cookie_text qs"
  have ok: "CHR '';'' \<notin> set n" "CHR ''='' \<notin> set n" "CHR '';'' \<notin> set v" and qs: "list_all cookie_ok qs"
    using assms Cons p by (auto simp: cookie_ok_def)
  have tx: "cookie_text ps = (n @ ''='' @ v) @ ?rest" unfolding Cons p cookie_text_Cons by simp
  have hit: "prefix ''jl_csrf='' ((n @ ''='' @ v) @ ?rest) \<longleftrightarrow> n = ''jl_csrf''"
    using prefix_name_eq [of n "''jl_csrf''"] ok by simp
  have rest: "csrf_scan ?rest = map_of qs ''jl_csrf''"
    using csrf_scan_sep [OF _ qs] by (cases "qs = []") simp_all
  show ?thesis
  proof (cases "n = ''jl_csrf''")
    case True
    then show ?thesis using hit ok unfolding tx csrf_match_def
      by (simp add: Cons p takeWhile_value)
  next
    case False
    have "csrf_scan ((n @ ''='' @ v) @ ?rest) = csrf_scan ?rest" using ok by (intro csrf_scan_skip) auto
    then show ?thesis using hit False rest unfolding tx csrf_match_def by (simp add: Cons p)
  qed
qed

lemma csrfToken_jar:
  assumes "list_all cookie_ok jar"
  shows "csrfToken (cookie_text jar) =
    (case map_of jar ''jl_csrf'' of None \<Rightarrow> Some [] | Some v \<Rightarrow> decodeURIComponent v)"
  by (simp add: csrfToken_def csrf_match_cookie_text assms)

lemma headers_token [simp]:
  "headers tok [] = [(''Content-Type'', ''application/json''), (''X-CSRF-Token'', tok)]"
  by (simp add: headers_def map_of_entries_def)

text \<open>C2: whatever else is in the cookie jar, a request carries exactly the token that was stored
  (URI-encoded) in the jl_csrf cookie: what the client sees of the network depends only on the
  answers to same-origin requests whose X-CSRF-Token header is that token.\<close>

theorem request_carries_csrf_token:
  assumes "list_all cookie_ok jar" and "map_of jar ''jl_csrf'' = Some (encodeURIComponent tok)"
    and "\<And>i. f_path i = path \<Longrightarrow> f_method i = mth \<Longrightarrow> map_of (f_headers i) ''X-CSRF-Token'' = Some tok \<Longrightarrow>
      f_credentials i = ''same-origin'' \<Longrightarrow> f_body i = map_option (json_text h) body \<Longrightarrow> net i = net' i"
  shows "request h (cookie_text jar) net mth path body = request h (cookie_text jar) net' mth path body"
  using assms by (simp add: request_def fetch_of_def csrfToken_jar)

theorem request_carries_csrf_token_witness:
  "request sample_host (cookie_text [(''theme'', ''dark''), (''jl_csrf'', encodeURIComponent ''a;b=c'')])
     (\<lambda>i. Response 200 ''OK'' None (if map_of (f_headers i) ''X-CSRF-Token'' = Some ''a;b=c'' then Some (JBool True) else None))
     ''POST'' ''/api/tenant/select'' None
   = request sample_host (cookie_text [(''theme'', ''dark''), (''jl_csrf'', encodeURIComponent ''a;b=c'')])
     (\<lambda>i. Response 200 ''OK'' None (Some (JBool True))) ''POST'' ''/api/tenant/select'' None"
proof (rule request_carries_csrf_token [where tok = "''a;b=c''"])
  have enc: "encodeURIComponent ''a;b=c'' = ''a%3Bb%3Dc''" by code_simp
  show "list_all cookie_ok [(''theme'', ''dark''), (''jl_csrf'', encodeURIComponent ''a;b=c'')]"
    unfolding enc by (simp add: cookie_ok_def)
qed simp_all

text \<open>A request yields a JSON value exactly when the CSRF cookie decodes and the server answers
  the one request issued with a 2xx status and a JSON body; every other outcome is an error.\<close>

lemma request_outcome:
  "fst (request h ck net mth path body) = Inr j \<longleftrightarrow>
     (\<exists>tok st stt txt. csrfToken ck = Some tok \<and> 200 \<le> st \<and> st \<le> 299
        \<and> net (fetch_of h tok mth path body) = Response st stt txt (Some j))"
  by (auto simp: request_def res_ok_def split: option.splits outcome.splits)

text \<open>The session-expired event is dispatched exactly for a 401 answer: no other status, no
  network failure and no local error raises the re-login overlay.\<close>

lemma session_expired_iff_401:
  "snd (request h ck net mth path body) \<longleftrightarrow>
     (\<exists>tok stt txt js. csrfToken ck = Some tok \<and> net (fetch_of h tok mth path body) = Response 401 stt txt js)"
  by (auto simp: request_def res_ok_def split: option.splits outcome.splits)

text \<open>Logging out ends on the start page whatever the network does, unless the jl_csrf cookie is
  not decodable: then the token read throws outside the try block and nothing happens.\<close>

lemma logout_leaves_page:
  assumes "list_all cookie_ok jar"
  shows "logout (cookie_text jar) net = Some ''/'' \<longleftrightarrow>
    (map_of jar ''jl_csrf'' = None \<or> Option.bind (map_of jar ''jl_csrf'') decodeURIComponent \<noteq> None)"
  using assms by (auto simp: logout_def csrfToken_jar split: option.splits outcome.splits)

theorem logout_leaves_page_witness:
  "logout (cookie_text [(''jl_csrf'', ''ok'')]) (\<lambda>_. NetworkFailure ''offline'') = Some ''/''
   \<and> logout (cookie_text [(''jl_csrf'', ''100%'')]) (\<lambda>_. Response 200 ''OK'' None None) \<noteq> Some ''/''"
proof
  show "logout (cookie_text [(''jl_csrf'', ''ok'')]) (\<lambda>_. NetworkFailure ''offline'') = Some ''/''"
    by (subst logout_leaves_page) (simp_all add: cookie_ok_def)
  show "logout (cookie_text [(''jl_csrf'', ''100%'')]) (\<lambda>_. Response 200 ''OK'' None None) \<noteq> Some ''/''"
    by (subst logout_leaves_page) (simp_all add: cookie_ok_def)
qed

end
