(* ===== verification/UiKit.thy ===== *)
theory UiKit
  imports ApiClient
begin

text \<open>
  The shared interface elements of \<open>components/ui\<close> (badge, button, card, spinner, confirmation
  modal, toast), the error boundary, and the mutation observer of \<open>main.tsx\<close> that reports every
  failed mutation as a toast. \<open>Cls\<close> lists the arguments given to \<open>cn\<close>, whose merging of class
  names is third-party.
\<close>

section \<open>Badge, button, card, spinner\<close>

definition badge_variants :: "string \<Rightarrow> string" where
  "badge_variants v =
     (if v = ''success'' then ''bg-[#16301f] text-[var(--green)] border-[#1d4228]''
      else if v = ''warning'' then ''bg-[#3a2a1a] text-[var(--yellow)] border-[#4a3820]''
      else if v = ''danger'' then ''bg-[#3a1a1a] text-[var(--red)] border-[#4a2020]''
      else if v = ''info'' then ''bg-[#1a2640] text-[var(--brand)] border-[#243050]''
      else if v = ''muted'' then ''bg-transparent text-[var(--text-dim)] border-transparent''
      else ''bg-[var(--surface-2)] text-[var(--text-muted)] border-[var(--border)]'')"

definition Badge :: "string \<Rightarrow> 'e vnode list \<Rightarrow> 'e vnode" where
  "Badge variant kids = El ''span''
     [Cls [''inline-flex items-center px-2 py-0.5 rounded-full text-xs font-medium border'',
           badge_variants variant]] kids"

definition button_variants :: "string \<Rightarrow> string" where
  "button_variants v =
     (if v = ''secondary'' then ''bg-[var(--surface-2)] hover:bg-[var(--border)] text-[var(--text)]''
      else if v = ''ghost'' then ''bg-transparent hover:bg-[var(--surface-2)] text-[var(--text-muted)] hover:text-[var(--text)]''
      else if v = ''link'' then ''bg-transparent text-[var(--brand)] hover:underline p-0 h-auto''
      else ''bg-[#2f6fed] hover:bg-[var(--brand-hover)] text-white'')"

definition button_sizes :: "string \<Rightarrow> string" where
  "button_sizes s = (if s = ''sm'' then ''px-2.5 py-1 text-xs'' else ''px-4 py-2 text-sm'')"

definition Button :: "string \<Rightarrow> string \<Rightarrow> 'e attr list \<Rightarrow> 'e vnode list \<Rightarrow> 'e vnode" where
  "Button variant sz props kids = El ''button''
     (Cls [''inline-flex items-center justify-center gap-1.5 rounded-md font-medium'',
           ''border border-transparent cursor-pointer transition-colors'',
           ''disabled:opacity-50 disabled:pointer-events-none'',
           button_variants variant, button_sizes sz] # props) kids"

abbreviation button :: "'e attr list \<Rightarrow> 'e vnode list \<Rightarrow> 'e vnode" where
  "button as kids \<equiv> El ''button'' as kids"

definition Card :: "'e vnode list \<Rightarrow> 'e vnode" where
  "Card kids = El ''div'' [Cls [''bg-[var(--surface)] border border-[var(--border)] rounded-xl p-4'']] kids"

definition CardHeader :: "'e vnode list \<Rightarrow> 'e vnode" where
  "CardHeader kids = El ''div'' [Cls [''flex items-center justify-between mb-3'']] kids"

definition Spinner :: "'e vnode" where
  "Spinner = El ''div'' [Cls [''w-5 h-5 border-2 border-[var(--border)] border-t-[var(--brand)]'',
                              ''rounded-full animate-spin'']] []"

definition FullPageSpinner :: "'e vnode" where
  "FullPageSpinner = el ''div'' [Spinner]"

lemma offers_Badge [simp]: "offers P (Badge v ks) = (\<forall>k \<in> set ks. offers P k)"
  by (simp add: Badge_def dead_def)

lemma offers_Button [simp]:
  "offers P (Button v s as ks) =
     (list_ex (is_flag ''disabled'') as \<or> (\<forall>a \<in> set as. attr_all (enterable ''button'' as ks) False P a) \<and> (\<forall>k \<in> set ks. offers P k))"
proof -
  have "enterable ''button'' (Cls c # as) ks = enterable ''button'' as ks" for c by (simp add: enterable_def fun_eq_iff)
  then show ?thesis by (simp add: Button_def dead_def submittable_def)
qed

lemma offers_Card [simp]:
  "offers P (Card ks) = (\<forall>k \<in> set ks. offers P k)" "offers P (CardHeader ks) = (\<forall>k \<in> set ks. offers P k)"
  "offers P Spinner" "offers P FullPageSpinner"
  by (simp_all add: Card_def CardHeader_def Spinner_def FullPageSpinner_def dead_def)

lemma dead_simps [simp]:
  "dead t [] = False" "dead ''div'' as = False" "dead ''span'' as = False" "dead ''p'' as = False" "dead ''tr'' as = False"
  "dead ''td'' as = False" "dead ''th'' as = False" "dead ''form'' as = False" "dead ''option'' as = False"
  "dead ''button'' as = list_ex (is_flag ''disabled'') as"
  "dead ''input'' as = list_ex (is_flag ''disabled'') as"
  "dead ''select'' as = list_ex (is_flag ''disabled'') as"
  "dead ''textarea'' as = list_ex (is_flag ''disabled'') as"
  by (simp_all add: dead_def)

lemma form_kit [simp]:
  "can_submit (Button v s as ks) \<longleftrightarrow> \<not> list_ex (is_flag ''disabled'') as \<and> \<not> list_ex (has_attr ''type'' ''button'') as
     \<or> list_ex can_submit ks"
  "required_ok (Button v s as ks) \<longleftrightarrow>
     \<not> (list_ex (is_flag ''required'') as \<and> list_ex (has_attr ''value'' []) as) \<and> list_all required_ok ks"
  "\<not> can_submit Spinner" "required_ok Spinner"
  by (simp_all add: Button_def dead_def Spinner_def)

lemma solo_Badge [simp]: "solo (Badge v ks) = (\<forall>k \<in> set ks. solo k)"
  by (simp add: Badge_def)

lemma solo_Button [simp]:
  "solo (Button v s as ks) = (list_ex (is_flag ''disabled'') as
     \<or> length (concat (map (own_click True) as)) \<le> 1 \<and> (\<forall>k \<in> set ks. solo k)
       \<and> (concat (map (own_click False) as) = []
          \<or> length (concat (map (own_click False) as)) \<le> 1 \<and> (\<forall>k \<in> set ks. sealed k)))"
  by (simp add: Button_def)

lemma solo_Card [simp]:
  "solo (Card ks) = (\<forall>k \<in> set ks. solo k)" "solo (CardHeader ks) = (\<forall>k \<in> set ks. solo k)"
  "solo Spinner" "solo FullPageSpinner"
  by (simp_all add: Card_def CardHeader_def Spinner_def FullPageSpinner_def)

lemma sealed_kit [simp]:
  "sealed (Badge v ks) = (\<forall>k \<in> set ks. sealed k)" "sealed Spinner"
  by (simp_all add: Badge_def Spinner_def)

lemma mounts_Badge [simp]: "mounts n (Badge v ks) = (n = ''span'' \<or> list_ex (mounts n) ks)"
  by (auto simp: Badge_def)

lemma mounts_Button [simp]: "mounts n (Button v s as ks) = (n = ''button'' \<or> list_ex (mounts n) ks)"
  by (auto simp: Button_def)

lemma mounts_Spinner [simp]: "mounts n Spinner = (n = ''div'')" "mounts n FullPageSpinner = (n = ''div'')"
  by (auto simp: Spinner_def FullPageSpinner_def)

lemma sealed_Button [simp]:
  "sealed (Button v s as ks) = (list_ex (is_flag ''disabled'') as \<or> list_ex is_stop as
     \<or> concat (map (own_click True) as) = [] \<and> concat (map (own_click False) as) = [] \<and> (\<forall>k \<in> set ks. sealed k))"
  by (simp add: Button_def)

lemma can_click_Button:
  "\<not> list_ex (is_flag ''disabled'') as \<Longrightarrow> can_click (Button v s as ks) (concat (map (own_click True) as))"
  unfolding Button_def using can_click_own [of "''button''" "Cls c # as" for c] by (simp add: dead_def)

lemma can_click_button1 [simp]:
  "can_click (button [OnClick e] ks) [e]"
  "\<not> b \<Longrightarrow> can_click (button [OnClick e, Bo ''disabled'' b] ks) [e]"
  using can_click_own [of "''button''" "[OnClick e]" ks] can_click_own [of "''button''" "[OnClick e, Bo ''disabled'' b]" ks]
  by (simp_all add: dead_def)

lemma can_click_Button1 [simp]:
  "can_click (Button v s [OnClick e] ks) [e]"
  "\<not> b \<Longrightarrow> can_click (Button v s [OnClick e, Bo ''disabled'' b] ks) [e]"
  using can_click_Button [of "[OnClick e]"] can_click_Button [of "[OnClick e, Bo ''disabled'' b]"] by simp_all

lemma can_click_kid: "can_click k es \<Longrightarrow> k \<in> set ks \<Longrightarrow> can_click (el ''div'' ks) es"
  by (auto simp: can_click_El)

text \<open>A select over a list of values with their captions: only its values can be chosen.\<close>

definition select_view :: "string \<Rightarrow> (string \<Rightarrow> 'e) \<Rightarrow> (string \<times> string) list \<Rightarrow> 'e vnode" where
  "select_view v f opts = El ''select'' [At ''value'' v, OnChange f]
     (map (\<lambda>o'. El ''option'' [At ''value'' (fst o')] [Txt (snd o')]) opts)"

lemma select_view_laws [simp]:
  "solo (select_view v f opts)"
  "offers P (select_view v f opts) \<longleftrightarrow> (\<forall>x \<in> set (map fst opts). P (f x))"
  "\<not> can_submit (select_view v f opts)" "required_ok (select_view v f opts)"
  by (auto simp: select_view_def enterable_def list_ex_iff list_all_iff)

lemma select_change:
  "y \<in> set (map fst opts) \<Longrightarrow> f y \<in> set (changes y (select_view v f opts))"
  by (simp add: select_view_def enterable_def dead_def)

text \<open>The body of a tab: a spinner while the list is loaded, a message when it is empty, else a table.\<close>

definition list_table :: "'a list query \<Rightarrow> string \<Rightarrow> string list \<Rightarrow> ('a \<Rightarrow> 'e vnode list) \<Rightarrow> 'e vnode" where
  "list_table q msg heads rows =
     (let xs = nullish (qdata q) []
      in if isLoading q then el ''div'' [Spinner]
         else if xs = [] then el ''p'' [Txt msg]
         else el ''table'' [el ''thead'' [el ''tr'' (map (\<lambda>c. el ''th'' [Txt c]) heads)], el ''tbody'' (concat (map rows xs))])"

lemma list_table_laws [simp]:
  "solo (list_table q m hs rows) \<longleftrightarrow> isLoading q \<or> (\<forall>x \<in> set (nullish (qdata q) []). \<forall>k \<in> set (rows x). solo k)"
  "offers P (list_table q m hs rows) \<longleftrightarrow> isLoading q \<or> (\<forall>x \<in> set (nullish (qdata q) []). \<forall>k \<in> set (rows x). offers P k)"
  by (auto simp: list_table_def Let_def)

text \<open>The tabs of a page.\<close>

definition tab_bar :: "(string \<Rightarrow> 'e) \<Rightarrow> (string \<times> string) list \<Rightarrow> 'e vnode" where
  "tab_bar f tabs = el ''div'' (map (\<lambda>(i, l). El ''button'' [At ''key'' i, OnClick (f i)] [Txt l]) tabs)"

lemma tab_bar_laws [simp]:
  "solo (tab_bar f tabs)" "offers P (tab_bar f tabs) \<longleftrightarrow> (\<forall>i \<in> set (map fst tabs). P (f i))"
  by (auto simp: tab_bar_def dead_def)

text \<open>The initials of a name, as the shell and the client cards compute them.\<close>

definition initials :: "string \<Rightarrow> string" where
  "initials name = toUpperCase (slice 0 2 (join [] (map (take 1) (split_on (CHR '' '') name))))"

text \<open>The plain overlay that two administration pages define alike.\<close>

definition Modal :: "'e \<Rightarrow> 'e vnode list \<Rightarrow> 'e vnode" where
  "Modal onClose kids = El ''div'' [OnSelf onClose] [el ''div'' (button [OnClick onClose] [el ''X'' []] # kids)]"

lemma Modal_laws [simp]:
  "solo (Modal e ks) = (\<forall>k \<in> set ks. solo k)" "offers P (Modal e ks) = (P e \<and> (\<forall>k \<in> set ks. offers P k))"
  by (auto simp: Modal_def)

section \<open>Confirmation modal\<close>

record 'e confirm_props =
  cm_title :: string
  cm_description :: string
  cm_confirmLabel :: "string option"
  cm_cancelLabel :: "string option"
  cm_destructive :: bool
  cm_isPending :: bool
  cm_onConfirm :: 'e
  cm_onCancel :: 'e

definition ConfirmModal :: "'e confirm_props \<Rightarrow> 'e vnode" where
  "ConfirmModal p = El ''div'' [OnSelf (cm_onCancel p)]
     [el ''div''
       [button [OnClick (cm_onCancel p)] [el ''X'' []],
        el ''div''
          (jif (cm_destructive p) (el ''AlertTriangle'' []) @
           [el ''div'' [el ''h3'' [Txt (cm_title p)], el ''p'' [Txt (cm_description p)]]]),
        el ''div''
          [Button ''primary'' ''md'' [OnClick (cm_onConfirm p), Bo ''disabled'' (cm_isPending p)]
             [if cm_isPending p then Spinner else Txt (nullish (cm_confirmLabel p) ''Confirmar'')],
           Button ''ghost'' ''md'' [Bo ''autoFocus'' True, OnClick (cm_onCancel p)]
             [Txt (nullish (cm_cancelLabel p) ''Cancelar'')]]]]"

text \<open>The modal's window listener: the events of a key press while it is mounted.\<close>

definition confirm_keydown :: "'e confirm_props \<Rightarrow> string \<Rightarrow> 'e list" where
  "confirm_keydown p key = jif (key = ''Escape'') (cm_onCancel p)"

lemma offers_ConfirmModal [simp]:
  "offers P (ConfirmModal p) = (P (cm_onCancel p) \<and> (cm_isPending p \<or> P (cm_onConfirm p)))"
  by (auto simp: ConfirmModal_def dead_def)

lemma solo_ConfirmModal [simp]: "solo (ConfirmModal p)"
  by (simp add: ConfirmModal_def)

text \<open>The confirmation for the item whose id was asked about, shown while that item is in the list.\<close>

definition ask_modal :: "string option \<Rightarrow> ('a \<Rightarrow> string) \<Rightarrow> 'a list \<Rightarrow> (string \<Rightarrow> 'a \<Rightarrow> 'e confirm_props) \<Rightarrow> 'e vnode list" where
  "ask_modal asked key xs f = (case (asked, find (\<lambda>x. Some (key x) = asked) xs) of
     (Some i, Some x) \<Rightarrow> jif (i \<noteq> []) (ConfirmModal (f i x)) | _ \<Rightarrow> [])"

lemma ask_modalD:
  "k \<in> set (ask_modal asked key xs f) \<Longrightarrow> \<exists>x \<in> set xs. asked = Some (key x) \<and> k = ConfirmModal (f (key x) x)"
  by (auto simp: ask_modal_def split: option.splits dest!: find_SomeD)

section \<open>Toasts\<close>

datatype toast_variant = TSuccess | TError | TWarning | TInfo

record toast =
  to_id :: string
  to_message :: string
  to_variant :: toast_variant
  to_duration :: "nat option"

record toast_state =
  toasts :: "toast list"
  counter :: nat

definition toast_init :: toast_state where
  "toast_init = \<lparr>toasts = [], counter = 0\<rparr>"

definition toast_show :: "string \<Rightarrow> toast_variant option \<Rightarrow> nat option \<Rightarrow> toast_state \<Rightarrow> toast_state" where
  "toast_show message variant duration s =
     (let n = Suc (counter s) in
      \<lparr>toasts = slice_last 4 (toasts s) @
          [\<lparr>to_id = ''toast-'' @ str_nat n, to_message = message,
            to_variant = nullish variant TInfo, to_duration = duration\<rparr>],
       counter = n\<rparr>)"

definition toast_remove :: "string \<Rightarrow> toast_state \<Rightarrow> toast_state" where
  "toast_remove i s = s\<lparr>toasts := filter (\<lambda>t. to_id t \<noteq> i) (toasts s)\<rparr>"

text \<open>One toast on the screen: shown on the next animation frame, hidden after its duration or on a
  click, and removed 300 ms after it was hidden. A step gives the new visibility and the timers
  it starts.\<close>

datatype item_event = Frame | HideTimer | RemoveTimer | CloseClick

fun toast_item_mount :: "toast \<Rightarrow> bool \<times> (item_event \<times> nat) list" where
  "toast_item_mount t = (False, [(Frame, 0), (HideTimer, nullish (to_duration t) 4000)])"

fun toast_item_step :: "bool \<Rightarrow> item_event \<Rightarrow> bool \<times> (item_event \<times> nat) list \<times> bool" where
  "toast_item_step visible Frame = (True, [], False)"
| "toast_item_step visible HideTimer = (False, [(RemoveTimer, 300)], False)"
| "toast_item_step visible CloseClick = (False, [(RemoveTimer, 300)], False)"
| "toast_item_step visible RemoveTimer = (visible, [], True)"

fun toast_icon :: "toast_variant \<Rightarrow> string" where
  "toast_icon TSuccess = ''CheckCircle''"
| "toast_icon TError = ''XCircle''"
| "toast_icon TWarning = ''AlertTriangle''"
| "toast_icon TInfo = ''Info''"

fun toast_color :: "toast_variant \<Rightarrow> string" where
  "toast_color TSuccess = ''var(--green)''"
| "toast_color TError = ''var(--red)''"
| "toast_color TWarning = ''var(--yellow)''"
| "toast_color TInfo = ''var(--brand)''"

definition ToastItem :: "toast \<Rightarrow> bool \<Rightarrow> item_event vnode" where
  "ToastItem t visible = El ''div''
     [At ''opacity'' (if visible then ''1'' else ''0''), At ''pointerEvents'' (if visible then ''auto'' else ''none'')]
     [El (toast_icon (to_variant t)) [At ''color'' (toast_color (to_variant t))] [],
      el ''span'' [Txt (to_message t)],
      button [OnClick CloseClick] [el ''X'' []]]"

definition ToastProvider :: "toast_state \<Rightarrow> (string \<Rightarrow> bool) \<Rightarrow> (string \<times> item_event) vnode list" where
  "ToastProvider s visible =
     [el ''div'' (map (\<lambda>t. embed (Pair (to_id t)) (ToastItem t (visible (to_id t)))) (toasts s))]"

section \<open>Mutation observer\<close>

record mut_error =
  me_detail :: "string option"
  me_message :: "string option"

record mut_event =
  ev_type :: string
  ev_status :: string
  ev_error :: "mut_error option"

definition observe_mutation :: "mut_event \<Rightarrow> (string \<times> toast_variant) option" where
  "observe_mutation ev =
     (if ev_type ev = ''updated'' \<and> ev_status ev = ''error''
      then let e = ev_error ev;
               d = (case e of None \<Rightarrow> None | Some x \<Rightarrow> me_detail x);
               m = (case e of None \<Rightarrow> None | Some x \<Rightarrow> me_message x)
           in Some (nullish d (nullish m ''Ocorreu um erro. Tente novamente.''), TError)
      else None)"

text \<open>An error thrown by the client is a plain \<open>Error\<close>: it has a message and no \<open>detail\<close>.\<close>

definition error_of :: "api_error \<Rightarrow> mut_error" where
  "error_of e = \<lparr>me_detail = None, me_message = Some (case e of HttpError m \<Rightarrow> m | FetchError m \<Rightarrow> m
      | UriError \<Rightarrow> ''URI malformed'' | JsonError \<Rightarrow> ''Unexpected end of JSON input'')\<rparr>"

text \<open>The \<open>detail\<close> of an error, or the fallback message.\<close>

definition detail_or :: "mut_error \<Rightarrow> string \<Rightarrow> string" where
  "detail_or e fallback = nullish (me_detail e) fallback"

text \<open>\<open>e.detail ?? e.message ?? fallback\<close>.\<close>

definition detail_msg_or :: "mut_error \<Rightarrow> string \<Rightarrow> string" where
  "detail_msg_or e fallback = nullish (me_detail e) (nullish (me_message e) fallback)"

text \<open>\<open>e.message || fallback\<close>.\<close>

definition message_or :: "mut_error \<Rightarrow> string \<Rightarrow> string" where
  "message_or e fallback = str_or (nullish (me_message e) []) fallback"

section \<open>Error boundary\<close>

definition ErrorBoundary :: "bool \<Rightarrow> string option \<Rightarrow> effect vnode \<Rightarrow> effect vnode" where
  "ErrorBoundary dev err children =
     (case err of
        Some stack \<Rightarrow> el ''div''
          ([el ''p'' [Txt ''Algo deu errado. Recarregue a pagina.''],
            button [OnClick Reload] [Txt ''Recarregar'']] @
           jif dev (el ''pre'' [Txt stack]))
      | None \<Rightarrow> children)"

section \<open>Properties\<close>

text \<open>What a click in the confirmation modal can do: nothing, cancel, or -- only while no
  request is pending -- confirm; never two of them at once, wherever the click lands.\<close>

lemma confirm_modal_clicks:
  "fires (ConfirmModal p) x es \<longleftrightarrow>
     es = [] \<or> es = [cm_onCancel p] \<or> (\<not> cm_isPending p \<and> es = [cm_onConfirm p])"
  by (auto simp: fires_def ConfirmModal_def Button_def Spinner_def)

text \<open>The toast queue under any sequence of shown and removed toasts.\<close>

datatype toast_op = OpShow string "toast_variant option" "nat option" | OpRemove string

fun toast_apply :: "toast_state \<Rightarrow> toast_op \<Rightarrow> toast_state" where
  "toast_apply s (OpShow m v d) = toast_show m v d s"
| "toast_apply s (OpRemove i) = toast_remove i s"

definition toast_run :: "toast_op list \<Rightarrow> toast_state" where
  "toast_run ops = foldl toast_apply toast_init ops"

lemma map_slice_last: "map f (slice_last n xs) = slice_last n (map f xs)"
  by (simp add: slice_last_def drop_map)

definition toast_numbers :: "toast_state \<Rightarrow> nat list \<Rightarrow> bool" where
  "toast_numbers s ns \<longleftrightarrow> map to_id (toasts s) = map (\<lambda>n. ''toast-'' @ str_nat n) ns
     \<and> sorted_wrt (<) ns \<and> (\<forall>n \<in> set ns. n \<le> counter s) \<and> length ns \<le> 5"

lemma toast_numbers_init: "toast_numbers toast_init []"
  by (simp add: toast_numbers_def toast_init_def)

lemma toast_numbers_show:
  "toast_numbers s ns \<Longrightarrow> toast_numbers (toast_show m v d s) (slice_last 4 ns @ [Suc (counter s)])"
proof -
  assume s: "toast_numbers s ns"
  have "map to_id (slice_last 4 (toasts s)) = slice_last 4 (map to_id (toasts s))" by (simp add: map_slice_last)
  also have "\<dots> = map (\<lambda>n. ''toast-'' @ str_nat n) (slice_last 4 ns)"
    using s unfolding toast_numbers_def map_slice_last by (elim conjE) (simp only:)
  finally have "map to_id (slice_last 4 (toasts s)) = map (\<lambda>n. ''toast-'' @ str_nat n) (slice_last 4 ns)" .
  moreover have "n \<le> counter s" if "n \<in> set (slice_last 4 ns)" for n
    using s subsetD [OF set_slice_last that] by (simp add: toast_numbers_def)
  moreover have "sorted_wrt (<) (slice_last 4 ns)"
    using s by (simp add: toast_numbers_def slice_last_def sorted_wrt_drop)
  ultimately show ?thesis
    by (auto simp: toast_numbers_def toast_show_def Let_def sorted_wrt_append less_Suc_eq_le intro: le_SucI)
qed

lemma toast_numbers_remove:
  "toast_numbers s ns \<Longrightarrow> toast_numbers (toast_remove i s) (filter (\<lambda>n. ''toast-'' @ str_nat n \<noteq> i) ns)"
proof -
  assume s: "toast_numbers s ns"
  have "map to_id (filter (\<lambda>t. to_id t \<noteq> i) (toasts s)) = filter (\<lambda>j. j \<noteq> i) (map to_id (toasts s))"
    by (simp add: filter_map o_def)
  also have "\<dots> = map (\<lambda>n. ''toast-'' @ str_nat n) (filter (\<lambda>n. ''toast-'' @ str_nat n \<noteq> i) ns)"
    using s by (simp add: toast_numbers_def filter_map o_def)
  finally show ?thesis using s
    by (auto simp: toast_numbers_def toast_remove_def sorted_wrt_filter intro: le_trans [OF length_filter_le])
qed

lemma toast_run_numbers: "\<exists>ns. toast_numbers (toast_run ops) ns"
proof (induction ops rule: rev_induct)
  case Nil
  then show ?case using toast_numbers_init by (auto simp: toast_run_def)
next
  case (snoc op ops)
  then obtain ns where ns: "toast_numbers (toast_run ops) ns" by blast
  have "toast_run (ops @ [op]) = toast_apply (toast_run ops) op" by (simp add: toast_run_def)
  then show ?case
    using ns toast_numbers_show toast_numbers_remove by (cases op) (auto, blast+)
qed

text \<open>C30: after any sequence of toasts shown and removed, at most five are on the screen and no two
  share an id (the React key and the handle by which an expired toast is removed).\<close>

theorem toast_queue:
  "length (toasts (toast_run ops)) \<le> 5 \<and> distinct (map to_id (toasts (toast_run ops)))"
proof -
  obtain ns where ns: "toast_numbers (toast_run ops) ns" using toast_run_numbers by blast
  then have "distinct ns" by (auto simp: toast_numbers_def strict_sorted_iff)
  moreover have "inj (\<lambda>n. ''toast-'' @ str_nat n)" by (rule injI) simp
  ultimately have "distinct (map (\<lambda>n. ''toast-'' @ str_nat n) ns)"
    by (simp add: distinct_map inj_on_subset [of _ UNIV])
  moreover have "length (toasts (toast_run ops)) = length ns"
    using ns unfolding toast_numbers_def by (metis length_map)
  ultimately show ?thesis using ns by (simp add: toast_numbers_def)
qed

text \<open>The life of a toast on the screen: its timers fire in the order of their deadlines, and the
  user may close it at any moment. The relation holds at \<open>now\<close> while the toast is still in the queue.\<close>

inductive toast_life :: "toast \<Rightarrow> nat \<Rightarrow> bool \<Rightarrow> (item_event \<times> nat) list \<Rightarrow> bool" for t :: toast where
  life_mount: "toast_item_mount t = (v, ts) \<Longrightarrow> toast_life t 0 v ts"
| life_timer: "toast_life t now v ts \<Longrightarrow> (e, n) \<in> set ts \<Longrightarrow> \<forall>p \<in> set ts. n \<le> snd p \<Longrightarrow>
    toast_item_step v e = (v', new, False) \<Longrightarrow>
    toast_life t n v' (remove1 (e, n) ts @ map (\<lambda>(e, d). (e, n + d)) new)"
| life_click: "toast_life t now v ts \<Longrightarrow> now \<le> n \<Longrightarrow> \<forall>p \<in> set ts. n \<le> snd p \<Longrightarrow>
    toast_item_step v CloseClick = (v', new, False) \<Longrightarrow>
    toast_life t n v' (ts @ map (\<lambda>(e, d). (e, n + d)) new)"

lemma toast_life_pending:
  "toast_life t now v ts \<Longrightarrow>
   (HideTimer, nullish (to_duration t) 4000) \<in> set ts \<and> now \<le> nullish (to_duration t) 4000
   \<or> (\<exists>n \<le> nullish (to_duration t) 4000 + 300. (RemoveTimer, n) \<in> set ts \<and> now \<le> n)"
proof (induction rule: toast_life.induct)
  case (life_mount v ts)
  then show ?case by auto
next
  case (life_timer now v ts e n v' new)
  have e: "e \<noteq> RemoveTimer" using life_timer.hyps by (cases e) auto
  from life_timer.IH show ?case
  proof
    assume hide: "(HideTimer, nullish (to_duration t) 4000) \<in> set ts \<and> now \<le> nullish (to_duration t) 4000"
    then have n: "n \<le> nullish (to_duration t) 4000" using life_timer.hyps by auto
    show ?thesis using hide n e life_timer.hyps(4) by (cases e) (auto simp: in_set_remove1)
  next
    assume "\<exists>m \<le> nullish (to_duration t) 4000 + 300. (RemoveTimer, m) \<in> set ts \<and> now \<le> m"
    then obtain m where m: "m \<le> nullish (to_duration t) 4000 + 300" "(RemoveTimer, m) \<in> set ts" by blast
    moreover have "n \<le> m" using m life_timer.hyps by auto
    moreover have "(RemoveTimer, m) \<in> set (remove1 (e, n) ts)" using m e by (simp add: in_set_remove1)
    ultimately show ?thesis by auto
  qed
next
  case (life_click now v ts n v' new)
  then show ?case by fastforce
qed

text \<open>C31: whenever it is clicked and however its timers interleave, a toast leaves the queue at
  the latest 300 ms after its duration (4000 ms by default).\<close>

theorem toast_bounded_life: "toast_life t now v ts \<Longrightarrow> now \<le> nullish (to_duration t) 4000 + 300"
  using toast_life_pending by fastforce

theorem toast_bounded_life_witness:
  "toast_life \<lparr>to_id = ''toast-1'', to_message = ''Salvo'', to_variant = TSuccess, to_duration = Some 1000\<rparr> 700
     False [(HideTimer, 1000), (RemoveTimer, 1000)]
   \<and> 700 \<le> nullish (to_duration \<lparr>to_id = ''toast-1'', to_message = ''Salvo'', to_variant = TSuccess, to_duration = Some 1000\<rparr>) 4000 + 300"
proof -
  let ?t = "\<lparr>to_id = ''toast-1'', to_message = ''Salvo'', to_variant = TSuccess, to_duration = Some 1000\<rparr> :: toast"
  have a: "toast_life ?t 0 False [(Frame, 0), (HideTimer, 1000)]" by (rule life_mount) simp
  have b: "toast_life ?t 0 True [(HideTimer, 1000)]" using life_timer [OF a, of Frame 0 True] by simp
  have c: "toast_life ?t 700 False [(HideTimer, 1000), (RemoveTimer, 1000)]" using life_click [OF b, of 700 False] by simp
  show ?thesis using c toast_bounded_life [OF c] by blast
qed

text \<open>A mutation that the server refuses is always reported: the client rejects it and the
  observer of the mutation cache shows one error toast, whose text is the status line and body.\<close>

lemma failed_request_toast:
  assumes "csrfToken ck = Some tok" and "\<not> (200 \<le> st \<and> st \<le> 299)"
    and "net (fetch_of h tok mth path body) = Response st stt (Some reason) js"
  shows "\<exists>e. fst (request h ck net mth path body) = Inl e
    \<and> observe_mutation \<lparr>ev_type = ''updated'', ev_status = ''error'', ev_error = Some (error_of e)\<rparr>
      = Some (str_nat st @ '' '' @ stt @ '': '' @ reason, TError)"
  using assms by (auto simp: request_def res_ok_def observe_mutation_def error_of_def)

theorem failed_request_toast_witness:
  "\<exists>e. fst (request sample_host [] (\<lambda>_. Response 409 ''Conflict'' (Some ''in use'') None) ''DELETE'' ''/x'' None) = Inl e
    \<and> observe_mutation \<lparr>ev_type = ''updated'', ev_status = ''error'', ev_error = Some (error_of e)\<rparr>
      = Some (str_nat 409 @ '' '' @ ''Conflict'' @ '': '' @ ''in use'', TError)"
  by (rule failed_request_toast [where tok = "[]" and js = None]) (simp_all add: csrfToken_def csrf_match_def)

section \<open>A refusal stays on the screen\<close>

text \<open>The observer's report of a mutation that settled with an error.\<close>

definition report_failure :: "api_error \<Rightarrow> toast_state \<Rightarrow> toast_state" where
  "report_failure e s = (case observe_mutation \<lparr>ev_type = ''updated'', ev_status = ''error'', ev_error = Some (error_of e)\<rparr> of
     None \<Rightarrow> s | Some (m, v) \<Rightarrow> toast_show m (Some v) None s)"

fun is_show :: "toast_op \<Rightarrow> bool" where
  "is_show (OpShow m v d) = True"
| "is_show (OpRemove i) = False"

text \<open>\<open>behind t k s\<close>: the toast \<open>t\<close> is in the queue with at most \<open>k\<close> newer ones.\<close>

definition behind :: "toast \<Rightarrow> nat \<Rightarrow> toast_state \<Rightarrow> bool" where
  "behind t k s \<longleftrightarrow> (\<exists>old newer. toasts s = old @ t # newer \<and> length newer \<le> k)"

lemma behind_show: "behind t k s \<Longrightarrow> k \<le> 3 \<Longrightarrow> behind t (Suc k) (toast_show m v d s)"
proof -
  assume "behind t k s" "k \<le> 3"
  then obtain old newer where s: "toasts s = old @ t # newer" "length newer \<le> k" by (auto simp: behind_def)
  have "slice_last 4 (toasts s) = drop (length newer + length old - 3) old @ t # newer"
    using s \<open>k \<le> 3\<close> by (simp add: slice_last_def add.commute)
  then show ?thesis using s(2) by (fastforce simp: behind_def toast_show_def Let_def)
qed

lemma behind_remove: "behind t k s \<Longrightarrow> i \<noteq> to_id t \<Longrightarrow> behind t k (toast_remove i s)"
  unfolding behind_def toast_remove_def by (fastforce intro: le_trans [OF length_filter_le])

lemma behind_run:
  "behind t k s \<Longrightarrow> k + length (filter is_show ops) \<le> 4 \<Longrightarrow> OpRemove (to_id t) \<notin> set ops \<Longrightarrow>
   behind t (k + length (filter is_show ops)) (foldl toast_apply s ops)"
proof (induction ops arbitrary: k s)
  case (Cons op ops)
  then show ?case using behind_show [of t k s] behind_remove [of t k s] by (cases op) fastforce+
qed simp

text \<open>C7: a mutation that the server refuses is reported by an error toast with the status line and the reason, and neither four
  more toasts -- among them the page's own message -- nor the removal of others take it off the screen: only its own timer or
  button does.\<close>

theorem refusal_stays_reported:
  assumes "csrfToken ck = Some tok" "net (fetch_of h tok mth path body) = Response st stt (Some reason) js" "\<not> (200 \<le> st \<and> st \<le> 299)"
    and "fst (request h ck net mth path body) = Inl e"
    and "length (filter is_show ops) \<le> 4" "OpRemove (''toast-'' @ str_nat (Suc (counter s))) \<notin> set ops"
  shows "\<lparr>to_id = ''toast-'' @ str_nat (Suc (counter s)), to_message = str_nat st @ '' '' @ stt @ '': '' @ reason,
     to_variant = TError, to_duration = None\<rparr> \<in> set (toasts (foldl toast_apply (report_failure e s) ops))"
proof -
  let ?t = "\<lparr>to_id = ''toast-'' @ str_nat (Suc (counter s)), to_message = str_nat st @ '' '' @ stt @ '': '' @ reason,
    to_variant = TError, to_duration = None\<rparr>"
  have "behind ?t 0 (report_failure e s)"
    using failed_request_toast [where net = net and h = h and tok = tok and mth = mth and path = path and body = body, OF assms(1,3,2)] assms(4) by (auto simp: report_failure_def behind_def toast_show_def Let_def)
  then have "behind ?t (length (filter is_show ops)) (foldl toast_apply (report_failure e s) ops)"
    using behind_run [of ?t 0 "report_failure e s" ops] assms(5,6) by simp
  then show ?thesis by (auto simp: behind_def)
qed

theorem refusal_stays_reported_witness:
  "\<lparr>to_id = ''toast-1'', to_message = ''409 Conflict: in use'', to_variant = TError, to_duration = None\<rparr>
     \<in> set (toasts (foldl toast_apply (report_failure (HttpError ''409 Conflict: in use'') toast_init)
      [OpShow ''Erro ao remover.'' (Some TError) None, OpShow ''b'' None None, OpRemove ''toast-3'', OpShow ''c'' None None, OpShow ''d'' None None]))"
proof -
  let ?net = "\<lambda>_. Response 409 ''Conflict'' (Some ''in use'') None"
  have r: "fst (request sample_host [] ?net ''DELETE'' ''/x'' None) = Inl (HttpError ''409 Conflict: in use'')" by code_simp
  have c: "csrfToken [] = Some []" by code_simp
  have n: "str_nat (Suc (counter toast_init)) = ''1''" "str_nat 409 = ''409''" by code_simp+
  show ?thesis using refusal_stays_reported [of "[]" "[]" ?net sample_host "''DELETE''" "''/x''" None 409 "''Conflict''" "''in use''" None
      "HttpError ''409 Conflict: in use''" "[OpShow ''Erro ao remover.'' (Some TError) None, OpShow ''b'' None None, OpRemove ''toast-3'',
      OpShow ''c'' None None, OpShow ''d'' None None]" toast_init] c r unfolding n by simp
qed

end
