(* ===== verification/Shell.thy ===== *)
theory Shell
  imports UiKit
begin

text \<open>
  The protected shell, \<open>components/Shell.tsx\<close>: the session gate, the navigation tree with its
  permission guards and badges, the routing between views and paths, and the sidebar state kept
  in \<open>localStorage\<close>. The router and the query library are third-party: the current path and the
  query data are props of the view, a navigation is an effect.
\<close>

section \<open>Views and paths\<close>

definition VIEW_TO_PATH :: "(string \<times> string) list" where
  "VIEW_TO_PATH =
    [(''noc'', ''/''),
     (''alerts'', ''/alerts''),
     (''incidents'', ''/incidents''),
     (''policies'', ''/policies''),
     (''changes'', ''/changes''),
     (''sla'', ''/sla''),
     (''automation'', ''/automation''),
     (''reports'', ''/reports''),
     (''aiops'', ''/aiops''),
     (''finops'', ''/finops''),
     (''monitoring'', ''/monitoring''),
     (''inventory'', ''/inventory''),
     (''alertmanager'', ''/alertmanager''),
     (''infra'', ''/infra''),
     (''maintenance'', ''/maintenance''),
     (''platform'', ''/platform''),
     (''channels'', ''/channels''),
     (''escalation'', ''/escalation''),
     (''team'', ''/team''),
     (''apikeys'', ''/api-keys''),
     (''audit'', ''/audit''),
     (''msp'', ''/msp''),
     (''kb'', ''/kb''),
     (''users'', ''/admin/users''),
     (''platform-admin'', ''/platform-admin'')]"

definition PATH_TO_VIEW :: "(string \<times> string) list" where
  "PATH_TO_VIEW = map_of_entries (map (\<lambda>(v, p). (p, v)) VIEW_TO_PATH)"

text \<open>A path name starts with a slash, so the lookup meets no inherited property of the object.\<close>

definition currentViewFromPath :: "string \<Rightarrow> string" where
  "currentViewFromPath pathname = nullish (map_of PATH_TO_VIEW pathname) ''noc''"

section \<open>Query selections: the badge counts\<close>

definition jarr :: "json \<Rightarrow> json list" where
  "jarr d = (case d of JArr xs \<Rightarrow> xs | _ \<Rightarrow> [])"

definition jstr_field :: "json \<Rightarrow> string \<Rightarrow> string option" where
  "jstr_field j k = (case jfield j k of Some (JStr s) \<Rightarrow> Some s | _ \<Rightarrow> None)"

definition select_length :: "json \<Rightarrow> nat" where
  "select_length d = length (jarr d)"

definition select_open_changes :: "json \<Rightarrow> nat" where
  "select_open_changes d = length (filter (\<lambda>c. case jstr_field c ''state'' of None \<Rightarrow> False
     | Some st \<Rightarrow> st \<noteq> [] \<and> List.member [''draft'', ''review'', ''approved''] st) (jarr d))"

definition select_unavailable_sources :: "json \<Rightarrow> nat" where
  "select_unavailable_sources d = length (filter (\<lambda>s. case jstr_field s ''operational_evidence_state'' of
       None \<Rightarrow> False | Some st \<Rightarrow> st \<noteq> [] \<and> st \<noteq> ''current'') (jarr d))"

definition window_active :: "host \<Rightarrow> json \<Rightarrow> bool" where
  "window_active h w =
     (case (date_ms h (nullish (jstr_field w ''starts_at'') ''undefined''),
            date_ms h (nullish (jstr_field w ''ends_at'') ''undefined'')) of
        (Some a, Some b) \<Rightarrow> a \<le> now_ms h \<and> now_ms h \<le> b
      | _ \<Rightarrow> False)"

definition select_active_maintenance :: "host \<Rightarrow> json \<Rightarrow> nat" where
  "select_active_maintenance h d = length (filter (window_active h) (jarr d))"

definition select_failed_notifications :: "json \<Rightarrow> nat" where
  "select_failed_notifications d = length (filter (\<lambda>n. jstr_field n ''current_state'' = Some ''failed''
     \<or> jstr_field n ''current_state'' = Some ''permanently_failed'') (jarr d))"

section \<open>State and props\<close>

record shell =
  collapsed :: bool
  collapsedGroups :: "string list"
  sessionExpired :: bool
  store :: storage

text \<open>The data of the shell's queries: \<^const>\<open>None\<close> while there is none.\<close>

record shell_props =
  sh_session :: "session option"
  sh_loading :: bool
  sh_path :: string
  sh_branding :: "branding option"
  sh_mspClients :: "nat option"
  sh_activeAlerts :: "nat option"
  sh_openIncidents :: "nat option"
  sh_openChanges :: "nat option"
  sh_slaBreaches :: "nat option"
  sh_unavailableSources :: "nat option"
  sh_activeMaintenance :: "nat option"
  sh_failedNotifications :: "nat option"
  sh_criticalAlerts :: "nat option"

definition hasMSPClients :: "shell_props \<Rightarrow> bool" where
  "hasMSPClients p \<longleftrightarrow> nullish (sh_mspClients p) 0 > 0"

definition load_collapsed :: "storage \<Rightarrow> bool" where
  "load_collapsed st = (case ls_get st ''jlm_sidebar_collapsed'' of None \<Rightarrow> True | Some v \<Rightarrow> v = ''1'')"

text \<open>\<open>new Set(x)\<close> of a parsed value; \<^const>\<open>None\<close> is the \<open>TypeError\<close> of a value that is not iterable.\<close>

definition set_of_json :: "json \<Rightarrow> string list option" where
  "set_of_json j = (case j of
      JArr xs \<Rightarrow> Some (set_of (concat (map (\<lambda>x. case x of JStr s \<Rightarrow> [s] | _ \<Rightarrow> []) xs)))
    | JStr s \<Rightarrow> Some (set_of (map (\<lambda>c. [c]) s))
    | JNull \<Rightarrow> Some []
    | _ \<Rightarrow> None)"

definition load_collapsedGroups :: "host \<Rightarrow> storage \<Rightarrow> string list" where
  "load_collapsedGroups h st =
     (case ls_get st ''jlm_collapsed_groups'' of
        None \<Rightarrow> []
      | Some stored \<Rightarrow> if stored = [] then []
          else nullish (Option.bind (json_parse h stored) set_of_json) [])"

definition shell_mount :: "host \<Rightarrow> storage \<Rightarrow> shell" where
  "shell_mount h st = \<lparr>collapsed = load_collapsed st, collapsedGroups = load_collapsedGroups h st,
     sessionExpired = False, store = st\<rparr>"

text \<open>The requests of the shell's queries, all held back until the session is ready.\<close>

definition shell_queries :: "session option \<Rightarrow> string list" where
  "shell_queries se = (case se of None \<Rightarrow> [] | Some s \<Rightarrow>
     if se_state s \<noteq> Ready then []
     else let tid = nullish (se_tenant_id s) ''undefined'' in
       [''/api/v1/msp/clients'',
        ''/api/v1/alerting/alerts?lifecycle_state=active'',
        ''/api/v1/alerting/tenants/'' @ tid @ ''/application-error-events'',
        ''/api/v1/itsm/changes'',
        ''/api/v1/sla/breaches'',
        ''/api/v1/monitoring/sources'',
        ''/api/v1/maintenance/windows?tenant_id='' @ tid,
        ''/api/v1/alerting/notifications'',
        ''/api/v1/alerting/alerts?lifecycle_state=active&severity=critical''])"

section \<open>Events\<close>

datatype shell_event =
    GoTo string | ToggleCollapsed | ToggleGroup string | SelectTenant string
  | HandleSelectTenant string | SelectTenantSuccess | ShellLogout | SessionExpired
  | OpenLogin string

text \<open>A template literal prints an absent value as \<open>undefined\<close>.\<close>

definition tpl :: "string option \<Rightarrow> string" where
  "tpl x = nullish x ''undefined''"

definition last_path_key :: "string option \<Rightarrow> string" where
  "last_path_key tenant_id = ''jlm_last_path_'' @ tpl tenant_id"

definition tenant_of :: "session option \<Rightarrow> string option" where
  "tenant_of se = (case se of None \<Rightarrow> None | Some s \<Rightarrow> se_tenant_id s)"

definition select_tenant_request :: "string \<Rightarrow> effect" where
  "select_tenant_request tid =
     Request ''POST'' ''/api/tenant/select'' (Some (jobj [(''tenant_id'', Some (JStr tid))]))"

fun shell_handle :: "host \<Rightarrow> session option \<Rightarrow> shell \<Rightarrow> shell_event \<Rightarrow> shell \<times> effect list" where
  "shell_handle h se s (GoTo v) =
     (let path = nullish (map_of VIEW_TO_PATH v) ''/''
      in (s\<lparr>store := ls_set (last_path_key (tenant_of se)) path (store s)\<rparr>, [Navigate path]))"
| "shell_handle h se s ToggleCollapsed =
     (let nxt = \<not> collapsed s
      in (s\<lparr>collapsed := nxt, store := ls_set ''jlm_sidebar_collapsed'' (if nxt then ''1'' else ''0'') (store s)\<rparr>, []))"
| "shell_handle h se s (ToggleGroup label) =
     (let nxt = set_toggle label (collapsedGroups s)
      in (s\<lparr>collapsedGroups := nxt, store := ls_set ''jlm_collapsed_groups'' (json_text h (jstrs nxt)) (store s)\<rparr>, []))"
| "shell_handle h se s (SelectTenant tid) = (s, [select_tenant_request tid])"
| "shell_handle h se s (HandleSelectTenant tid) = (s, [select_tenant_request tid, Navigate ''/''])"
| "shell_handle h se s SelectTenantSuccess = (s, [Invalidate [''session'']])"
| "shell_handle h se s ShellLogout = (s, [Logout])"
| "shell_handle h se s SessionExpired = (s\<lparr>sessionExpired := True\<rparr>, [])"
| "shell_handle h se s (OpenLogin href) = (s, [Navigate href])"

text \<open>The effect that restores the last visited path, run when the ready tenant changes.\<close>

definition restore_last_path :: "session option \<Rightarrow> string \<Rightarrow> storage \<Rightarrow> effect list" where
  "restore_last_path se pathname st =
     (case se of
        None \<Rightarrow> []
      | Some s \<Rightarrow>
          if se_state s \<noteq> Ready then []
          else (case ls_get st (last_path_key (se_tenant_id s)) of
                  None \<Rightarrow> []
                | Some stored \<Rightarrow>
                    if stored \<noteq> [] \<and> pathname = ''/'' \<and> stored \<noteq> ''/'' then [NavigateReplace stored] else []))"

section \<open>Navigation tree\<close>

record nav_item =
  ni_id :: string
  ni_label :: string
  ni_icon :: string
  ni_description :: string

record nav_group =
  ng_label :: string
  ng_items :: "nav_item list"

abbreviation nav :: "string \<Rightarrow> string \<Rightarrow> string \<Rightarrow> string \<Rightarrow> nav_item" where
  "nav i l c d \<equiv> \<lparr>ni_id = i, ni_label = l, ni_icon = c, ni_description = d\<rparr>"

abbreviation group :: "string \<Rightarrow> nav_item list \<Rightarrow> nav_group" where
  "group l xs \<equiv> \<lparr>ng_label = l, ng_items = xs\<rparr>"

definition spread :: "bool \<Rightarrow> 'a list \<Rightarrow> 'a list" where
  "spread c xs = (if c then xs else [])"

definition navGroups :: "(string \<Rightarrow> bool) \<Rightarrow> bool \<Rightarrow> nav_group list" where
  "navGroups has msp =
    [group ''Operacoes''
       [nav ''noc'' ''NOC'' ''LayoutDashboard'' ''Painel em tempo real'',
        nav ''alerts'' ''Alertas'' ''Bell'' ''Alertas ativos'',
        nav ''incidents'' ''Incidentes'' ''Siren'' ''Gestao de incidentes'',
        nav ''policies'' ''Politicas'' ''Shield'' ''Regras de alerta'']] @
    spread (has ''monitoring:operate'') [group ''ITSM''
       [nav ''changes'' ''Mudancas'' ''GitMerge'' ''Controle de mudancas'',
        nav ''sla'' ''SLA'' ''Clock'' ''Niveis de servico'',
        nav ''automation'' ''Automacao'' ''Zap'' ''Scripts e tarefas'',
        nav ''reports'' ''Relatorios'' ''BarChart2'' ''Relatorios periodicos'']] @
    [group ''Inteligencia''
       [nav ''aiops'' ''AIOps'' ''Brain'' ''Correlacao por IA'',
        nav ''finops'' ''FinOps'' ''DollarSign'' ''Custos de infra''],
     group ''Integracoes''
       ([nav ''monitoring'' ''Monitoramento'' ''Activity'' ''Fontes e integracoes'',
         nav ''inventory'' ''Inventario'' ''Package'' ''Hosts e ativos''] @
        spread (has ''monitoring:operate'')
          [nav ''alertmanager'' ''Alertmanager'' ''Webhook'' ''Regras Prometheus'']),
     group ''Infraestrutura''
       (spread (has ''monitoring:operate'')
          [nav ''infra'' ''Infra'' ''Server'' ''Servidores e redes'',
           nav ''maintenance'' ''Manutencao'' ''Wrench'' ''Janelas de manutencao''] @
        [nav ''platform'' ''Plataforma'' ''Settings2'' ''Configuracoes gerais''])] @
    spread (has ''monitoring:operate'') [group ''Notificacoes''
       [nav ''channels'' ''Canais'' ''MessageSquare'' ''Canais de notificacao'',
        nav ''escalation'' ''Escalonamento'' ''PhoneCall'' ''Politicas de escalonamento'']] @
    spread (has ''tenant:admin'' \<or> has ''audit:read'') [group ''Equipe & Acesso''
       (spread (has ''tenant:admin'')
          [nav ''users'' ''Usuarios'' ''UserPlus'' ''Convidar e gerir usuarios'',
           nav ''team'' ''Equipe'' ''Users'' ''Membros e funcoes'',
           nav ''apikeys'' ''API Keys'' ''KeyRound'' ''Chaves de integracao''] @
        spread (has ''audit:read'') [nav ''audit'' ''Auditoria'' ''ScrollText'' ''Logs de auditoria''])] @
    spread msp [group ''MSP''
       [nav ''msp'' ''Portfolio de Clientes'' ''Building2'' ''Clientes MSP'']] @
    spread (has ''platform_admin'' \<or> has ''tenant:admin'') [group ''Plataforma''
       [nav ''platform-admin'' ''Administracao da Plataforma'' ''ShieldCheck''
          ''Configuracoes globais da plataforma'']]"

definition nav_ids :: "nav_group list \<Rightarrow> string list" where
  "nav_ids gs = concat (map (\<lambda>g. map ni_id (ng_items g)) gs)"

definition currentLabel :: "nav_group list \<Rightarrow> string \<Rightarrow> string" where
  "currentLabel gs view = (case find (\<lambda>i. ni_id i = view) (concat (map ng_items gs)) of
      None \<Rightarrow> [] | Some i \<Rightarrow> ni_label i)"

definition badgeCount :: "shell_props \<Rightarrow> string \<Rightarrow> nat option" where
  "badgeCount p v =
     (if v = ''alerts'' then Some (nullish (sh_activeAlerts p) 0)
      else if v = ''incidents'' then Some (nullish (sh_openIncidents p) 0)
      else if v = ''changes'' then Some (nullish (sh_openChanges p) 0)
      else if v = ''sla'' then Some (nullish (sh_slaBreaches p) 0)
      else if v = ''monitoring'' then Some (nullish (sh_unavailableSources p) 0)
      else if v = ''maintenance'' then Some (nullish (sh_activeMaintenance p) 0)
      else if v = ''channels'' then Some (nullish (sh_failedNotifications p) 0)
      else None)"

definition displayName :: "session \<Rightarrow> string" where
  "displayName s = nullish (se_display_name s) (nullish (se_principal_id s) [])"

section \<open>Rendering: the gate\<close>

definition signin_card :: "session \<Rightarrow> shell_event vnode" where
  "signin_card s = el ''div'' [el ''div''
     ([el ''h1'' [el ''span'' [Txt ''JL''], Txt ''Mirror''],
       el ''p'' [Txt ''Plataforma de operacoes para MSPs e equipes de TI''],
       El ''a'' [At ''href'' ''/auth/login'', OnClick (OpenLogin ''/auth/login'')]
         [Button ''primary'' ''md'' [] [Txt ''Entrar'']]] @
      jif (se_environment s = Some ''development'')
        (el ''div'' [El ''a'' [At ''href'' ''/auth/dev-login'', OnClick (OpenLogin ''/auth/dev-login'')]
           [Txt ''dev sign-in'']]))]"

definition tenant_picker :: "tenant list \<Rightarrow> shell_event vnode" where
  "tenant_picker memberships = el ''div'' [el ''div''
     [el ''h2'' [Txt ''Selecionar workspace''],
      el ''div'' (map (\<lambda>t. button [At ''key'' (t_tenant_id t), OnClick (SelectTenant (t_tenant_id t))]
        [el ''span'' [Txt (nullish (t_display_name t) (t_tenant_id t))],
         el ''span'' [Txt (nullish (t_role t) [])]]) memberships)]]"

section \<open>Rendering: the workspace\<close>

definition badge_text :: "nat \<Rightarrow> string" where
  "badge_text n = (if n > 99 then ''99+'' else str_nat n)"

definition shell_logo :: "shell \<Rightarrow> branding option \<Rightarrow> shell_event vnode" where
  "shell_logo s b =
     (let conf = (case b of None \<Rightarrow> False | Some br \<Rightarrow> b_configured br);
          logo = (case b of None \<Rightarrow> None | Some br \<Rightarrow> b_logo_url br);
          name = (case b of None \<Rightarrow> None | Some br \<Rightarrow> b_brand_name br)
      in el ''div''
        (jif (conf \<and> truthy logo \<and> \<not> collapsed s) (El ''img'' [At ''src'' (nullish logo []), At ''alt'' ''logo''] []) @
         jif (\<not> collapsed s) (el ''span''
           (if conf \<and> truthy name then [el ''span'' [Txt (nullish name [])]]
            else [el ''span'' [Txt ''JL''], Txt ''Mirror''])) @
         jif (collapsed s) (el ''span'' [Txt ''JL''])))"

definition nav_button :: "shell \<Rightarrow> shell_props \<Rightarrow> nav_item \<Rightarrow> shell_event vnode" where
  "nav_button s p item =
     (let active = (currentViewFromPath (sh_path p) = ni_id item);
          badge = badgeCount p (ni_id item)
      in button [At ''key'' (ni_id item), OnClick (GoTo (ni_id item)), Bo ''active'' active,
                 At ''title'' (if collapsed s then ni_label item else ni_description item)]
          ([el ''div''
             (el (ni_icon item) [] #
              jif (nullish badge 0 > 0) (el ''span'' [Txt (badge_text (nullish badge 0))]))] @
           jif (\<not> collapsed s) (el ''span'' [Txt (ni_label item)])))"

definition nav_group_view :: "shell \<Rightarrow> shell_props \<Rightarrow> bool \<Rightarrow> nav_group \<Rightarrow> shell_event vnode" where
  "nav_group_view s p first g =
     (let isGroupCollapsed = (\<not> collapsed s \<and> set_has (collapsedGroups s) (ng_label g))
      in El ''div'' [At ''key'' (ng_label g)]
          ((if \<not> collapsed s
            then [button [OnClick (ToggleGroup (ng_label g))]
                   [el ''span'' [Txt (ng_label g)],
                    El ''ChevronDown'' [At ''transform'' (if isGroupCollapsed then ''rotate(-90deg)'' else ''rotate(0deg)'')] []]]
            else jif (\<not> first) (el ''div'' [])) @
           jif (\<not> isGroupCollapsed) (el ''div'' (map (nav_button s p) (ng_items g)))))"

definition nav_view :: "shell \<Rightarrow> shell_props \<Rightarrow> nav_group list \<Rightarrow> shell_event vnode" where
  "nav_view s p gs = el ''nav'' (map (\<lambda>(gi, g). nav_group_view s p (gi = 0) g) (enumerate 0 gs))"

definition kb_link :: "shell \<Rightarrow> shell_props \<Rightarrow> shell_event vnode" where
  "kb_link s p = el ''div''
     [button [OnClick (GoTo ''kb''), Bo ''active'' (currentViewFromPath (sh_path p) = ''kb''),
              At ''title'' (if collapsed s then ''Base de Conhecimento'' else ''Documentacao e runbooks'')]
       (el ''BookOpen'' [] # jif (\<not> collapsed s) (el ''span'' [Txt ''Base de Conhecimento'']))]"

definition user_box :: "shell \<Rightarrow> session \<Rightarrow> shell_event vnode" where
  "user_box s se =
     (let dn = displayName se; ini = initials dn
      in el ''div''
        [el ''div''
           ([el ''div'' [Txt (str_or ini ''?'')]] @
            jif (\<not> collapsed s) (el ''div'' [el ''div'' [Txt dn], el ''div'' [Txt (nullish (se_tenant_id se) [])]]) @
            jif (\<not> collapsed s) (button [At ''type'' ''button'', At ''title'' ''Sair'', OnClick ShellLogout] [el ''LogOut'' []])),
         button [OnClick ToggleCollapsed, At ''title'' (if collapsed s then ''Expandir menu'' else ''Recolher menu'')]
           (if collapsed s then [el ''ChevronRight'' []] else [el ''ChevronLeft'' [], el ''span'' [Txt ''Recolher'']])])"

definition topbar :: "shell_props \<Rightarrow> session \<Rightarrow> nav_group list \<Rightarrow> shell_event vnode" where
  "topbar p se gs = el ''header''
     [el ''h1'' [Txt (currentLabel gs (currentViewFromPath (sh_path p)))],
      el ''div''
        [button [OnClick (GoTo ''alerts''), At ''title'' ''Alertas criticos'']
           (el ''Bell'' [] # jif (nullish (sh_criticalAlerts p) 0 > 0)
              (el ''span'' [Txt (badge_text (nullish (sh_criticalAlerts p) 0))])),
         el ''span'' [Txt (nullish (se_tenant_id se) [])]]]"

definition msp_banner :: "shell_event vnode" where
  "msp_banner = el ''div'' [el ''span'' [Txt ''Visualizando como cliente''],
     button [OnClick (GoTo ''msp'')] [Txt ''<- Voltar para MSP'']]"

definition PAGES :: "(string \<times> string) list" where
  "PAGES = [(''noc'', ''NOCDashboard''), (''alerts'', ''AlertsPage''), (''monitoring'', ''MonitoringPage''),
     (''inventory'', ''InventoryPage''), (''aiops'', ''AIOpsPage''), (''finops'', ''FinOpsPage''),
     (''platform'', ''PlatformPage''), (''audit'', ''AuditPage''), (''policies'', ''AlertPoliciesPage''),
     (''team'', ''TeamPage''), (''maintenance'', ''MaintenancePage''), (''channels'', ''NotificationChannelsPage''),
     (''escalation'', ''EscalationPage''), (''apikeys'', ''ApiKeysPage''), (''changes'', ''ITSMPage''),
     (''sla'', ''SLAPage''), (''automation'', ''AutomationPage''), (''reports'', ''ReportsPage''),
     (''alertmanager'', ''AlertmanagerPage''), (''infra'', ''InfraPage''), (''kb'', ''KnowledgeBasePage''),
     (''incidents'', ''IncidentResponsePage''), (''msp'', ''MSPOverviewPage''), (''users'', ''UsersAdminPage''),
     (''platform-admin'', ''PlatformAdminPage'')]"

definition main_content :: "string \<Rightarrow> string option \<Rightarrow> shell_event vnode" where
  "main_content view tid = el ''main''
     (map (\<lambda>(v, c). El c (At ''tenantId'' (tpl tid) #
        jif (c = ''MSPOverviewPage'') (PropF ''onSelectTenant'' HandleSelectTenant)) []) (filter (\<lambda>(v, c). view = v) PAGES))"

definition expired_overlay :: "shell_event vnode" where
  "expired_overlay = el ''div'' [el ''div''
     [el ''p'' [Txt ''Sua sessao expirou.''], Button ''primary'' ''md'' [OnClick ShellLogout] [Txt ''Fazer login novamente'']]]"

definition session_has :: "session \<Rightarrow> string \<Rightarrow> bool" where
  "session_has se perm = List.member (nullish (se_permissions se) []) perm"

definition workspace :: "shell_props \<Rightarrow> shell \<Rightarrow> session \<Rightarrow> shell_event vnode" where
  "workspace p s se =
     (let gs = navGroups (session_has se) (hasMSPClients p);
          view = currentViewFromPath (sh_path p)
      in el ''div''
        (jif (sessionExpired s) expired_overlay @
         [el ''aside'' [shell_logo s (sh_branding p), nav_view s p gs, kb_link s p, user_box s se],
          el ''div''
            ([topbar p se gs] @
             jif (hasMSPClients p \<and> view \<noteq> ''msp'') msp_banner @
             [main_content view (se_tenant_id se)])]))"

definition shell_view :: "shell_props \<Rightarrow> shell \<Rightarrow> shell_event vnode" where
  "shell_view p s =
     (if sh_loading p then FullPageSpinner
      else (case sh_session p of
          None \<Rightarrow> el ''div'' [el ''div'' [Txt ''Servico indisponivel.'']]
        | Some se \<Rightarrow>
            (case se_state se of
               Unavailable \<Rightarrow> el ''div'' [el ''div'' [Txt ''Servico indisponivel.'']]
             | Unauthenticated \<Rightarrow> signin_card se
             | Forbidden \<Rightarrow> el ''div'' [el ''div''
                 [el ''p'' [Txt ''Acesso negado -- sem associacao a um workspace ativo.''],
                  Button ''secondary'' ''md'' [OnClick ShellLogout] [Txt ''Sair'']]]
             | NeedsTenant \<Rightarrow>
                 (let memberships = nullish (se_memberships se) []
                  in if memberships = [] then El ''OnboardingPage'' [At ''principalId'' (tpl (se_principal_id se))] []
                     else tenant_picker memberships)
             | Ready \<Rightarrow> workspace p s se)))"

section \<open>Navigation and routing: properties\<close>

lemma spread_simps [simp]: "spread True xs = xs" "spread False xs = []"
  by (simp_all add: spread_def)

lemma set_spread [simp]: "x \<in> set (spread c xs) \<longleftrightarrow> c \<and> x \<in> set xs"
  by (simp add: spread_def)

lemma map_spread [simp]: "map f (spread c xs) = spread c (map f xs)"
  by (simp add: spread_def)

lemma nav_ids_simps [simp]:
  "nav_ids [] = []" "nav_ids (g # gs) = map ni_id (ng_items g) @ nav_ids gs"
  "nav_ids (gs @ gs') = nav_ids gs @ nav_ids gs'" "nav_ids (spread c gs) = spread c (nav_ids gs)"
  by (simp_all add: nav_ids_def spread_def)

lemma path_view:
  assumes "map_of VIEW_TO_PATH v = Some path"
  shows "currentViewFromPath path = v"
proof -
  have "list_all (\<lambda>(v, path). currentViewFromPath path = v) VIEW_TO_PATH" by code_simp
  then show ?thesis using map_of_SomeD [OF assms] by (auto simp: list_all_iff)
qed

text \<open>The router's path-to-view map is the inverse of the menu's view-to-path map, and every
  other path shows the NOC.\<close>

lemma view_of_path_iff:
  "currentViewFromPath path = v \<longleftrightarrow>
     map_of VIEW_TO_PATH v = Some path \<or> v = ''noc'' \<and> path \<notin> set (map snd VIEW_TO_PATH)"
proof -
  have keys: "map_of PATH_TO_VIEW path = None \<longleftrightarrow> path \<notin> set (map snd VIEW_TO_PATH)"
    unfolding PATH_TO_VIEW_def map_of_eq_None_iff map_of_entries_keys by force
  have hit: "map_of VIEW_TO_PATH w = Some path" if "map_of PATH_TO_VIEW path = Some w" for w
  proof -
    have "list_all (\<lambda>(path, w). map_of VIEW_TO_PATH w = Some path) PATH_TO_VIEW" by code_simp
    then show ?thesis using map_of_SomeD [OF that] by (auto simp: list_all_iff)
  qed
  show ?thesis
  proof (cases "map_of PATH_TO_VIEW path")
    case None
    then have "map_of VIEW_TO_PATH v \<noteq> Some path"
      using keys map_of_SomeD [of VIEW_TO_PATH v path] by force
    then show ?thesis using None keys by (auto simp: currentViewFromPath_def)
  next
    case (Some w)
    then have "path \<in> set (map snd VIEW_TO_PATH)" using keys by auto
    then show ?thesis using Some hit [OF Some] path_view [of v path] by (auto simp: currentViewFromPath_def)
  qed
qed

text \<open>The permissions an item of the menu needs, read off the tree.\<close>

lemma nav_ids_navGroups:
  "nav_ids (navGroups has msp) =
    [''noc'', ''alerts'', ''incidents'', ''policies''] @
    spread (has ''monitoring:operate'') [''changes'', ''sla'', ''automation'', ''reports''] @
    [''aiops'', ''finops''] @ [''monitoring'', ''inventory''] @
    spread (has ''monitoring:operate'') [''alertmanager''] @
    spread (has ''monitoring:operate'') [''infra'', ''maintenance''] @ [''platform''] @
    spread (has ''monitoring:operate'') [''channels'', ''escalation''] @
    spread (has ''tenant:admin'' \<or> has ''audit:read'')
      (spread (has ''tenant:admin'') [''users'', ''team'', ''apikeys''] @ spread (has ''audit:read'') [''audit'']) @
    spread msp [''msp''] @
    spread (has ''platform_admin'' \<or> has ''tenant:admin'') [''platform-admin'']"
  by (simp add: navGroups_def)

text \<open>Which views the menu lists, for any set of permissions: the operating views need
  monitoring:operate, the team views tenant:admin, the audit log audit:read, the platform
  administration platform_admin or tenant:admin, and the portfolio at least one client.\<close>

lemma nav_visibility:
  "i \<in> set (nav_ids (navGroups has msp)) \<longleftrightarrow>
     i \<in> set ([''noc'', ''alerts'', ''incidents'', ''policies''] @ [''aiops'', ''finops'']
         @ [''monitoring'', ''inventory''] @ [''platform''])
     \<or> has ''monitoring:operate'' \<and> i \<in> set ([''changes'', ''sla'', ''automation'', ''reports''] @ [''alertmanager'']
         @ [''infra'', ''maintenance''] @ [''channels'', ''escalation''])
     \<or> has ''tenant:admin'' \<and> i \<in> set ([''users'', ''team'', ''apikeys''] @ [''platform-admin''])
     \<or> has ''audit:read'' \<and> i \<in> set [''audit'']
     \<or> has ''platform_admin'' \<and> i \<in> set [''platform-admin'']
     \<or> msp \<and> i \<in> set [''msp'']"
  unfolding nav_ids_navGroups set_append Un_iff set_spread by blast

lemma nav_ids_paged:
  "i \<in> set (nav_ids (navGroups has msp)) \<Longrightarrow> map_of VIEW_TO_PATH i \<noteq> None \<and> map_of PAGES i \<noteq> None"
proof -
  let ?all = "nav_ids (navGroups (\<lambda>_. True) True)"
  have "list_all (\<lambda>i. map_of VIEW_TO_PATH i \<noteq> None \<and> map_of PAGES i \<noteq> None) ?all" by code_simp
  moreover assume "i \<in> set (nav_ids (navGroups has msp))"
  then have "i \<in> set ?all" unfolding nav_ids_navGroups set_append Un_iff set_spread by blast
  ultimately show ?thesis by (simp add: list_all_iff)
qed

lemma distinct_nav_ids: "distinct (nav_ids (navGroups has msp))"
proof -
  have "distinct (nav_ids (navGroups (\<lambda>_. True) True))" by code_simp
  moreover have "subseq (nav_ids (navGroups has msp)) (nav_ids (navGroups (\<lambda>_. True) True))"
    unfolding nav_ids_navGroups by (intro list_emb_append_mono) (auto simp: spread_def)
  ultimately show ?thesis by (metis distinct_nthsI subseq_conv_nths)
qed

text \<open>No menu entry is a dead link, whatever the permissions: a click stores and opens a path on
  which the router mounts the page of that entry, and no entry appears twice.\<close>

lemma nav_reaches_page:
  assumes "i \<in> set (nav_ids (navGroups has msp))"
  shows "\<exists>path c. shell_handle h se s (GoTo i) =
       (s\<lparr>store := ls_set (last_path_key (tenant_of se)) path (store s)\<rparr>, [Navigate path])
     \<and> mounts c (main_content (currentViewFromPath path) tid) \<and> (i, c) \<in> set PAGES
     \<and> distinct (nav_ids (navGroups has msp))"
proof -
  obtain path c where pc: "map_of VIEW_TO_PATH i = Some path" "map_of PAGES i = Some c"
    using nav_ids_paged [OF assms] by auto
  have "currentViewFromPath path = i"
    using pc(1) by (rule path_view)
  then have "mounts c (main_content (currentViewFromPath path) tid)"
    using map_of_SomeD [OF pc(2)] by (auto simp: main_content_def list_ex_iff)
  then show ?thesis using pc map_of_SomeD [OF pc(2)] distinct_nav_ids by (auto simp: Let_def)
qed

theorem nav_reaches_page_witness:
  "\<exists>path c. shell_handle sample_host None (shell_mount sample_host None) (GoTo ''users'') =
       ((shell_mount sample_host None)\<lparr>store := ls_set (last_path_key (tenant_of None)) path None\<rparr>, [Navigate path])
     \<and> mounts c (main_content (currentViewFromPath path) None) \<and> (''users'', c) \<in> set PAGES
     \<and> distinct (nav_ids (navGroups (\<lambda>perm. perm = ''tenant:admin'') False))"
  using nav_reaches_page [of "''users''" "\<lambda>perm. perm = ''tenant:admin''" False sample_host None "shell_mount sample_host None" None]
  by (simp add: nav_ids_navGroups shell_mount_def)

section \<open>The session gate: properties\<close>

text \<open>The tags of the shell's own elements: the name of a page component is none of them.\<close>

definition chrome :: "string list" where
  "chrome = [''div'', ''span'', ''h1'', ''p'', ''a'', ''button'', ''img'', ''aside'', ''nav'', ''header'', ''main'',
     ''h2'', ''ChevronDown'', ''ChevronRight'', ''ChevronLeft'', ''BookOpen'', ''LogOut'', ''OnboardingPage'',
     ''LayoutDashboard'', ''Bell'', ''Siren'', ''Shield'', ''GitMerge'', ''Clock'', ''Zap'', ''BarChart2'', ''Brain'',
     ''DollarSign'', ''Activity'', ''Package'', ''Webhook'', ''Server'', ''Wrench'', ''Settings2'', ''MessageSquare'',
     ''PhoneCall'', ''UserPlus'', ''Users'', ''KeyRound'', ''ScrollText'', ''Building2'', ''ShieldCheck'']"

lemma page_not_chrome: "c \<in> set (map snd PAGES) \<Longrightarrow> c \<notin> set chrome"
proof -
  have "list_all (\<lambda>c. c \<notin> set chrome) (map snd PAGES)" by code_simp
  then show "c \<in> set (map snd PAGES) \<Longrightarrow> c \<notin> set chrome" by (auto simp: list_all_iff)
qed

lemma list_all_spread [simp]: "list_all P (spread c xs) = (c \<longrightarrow> list_all P xs)"
  by (simp add: spread_def)

lemma nav_icons_chrome: "list_all (\<lambda>g. list_all (\<lambda>it. ni_icon it \<in> set chrome) (ng_items g)) (navGroups has msp)"
proof -
  have "\<forall>n \<in> set [''LayoutDashboard'', ''Bell'', ''Siren'', ''Shield'', ''GitMerge'', ''Clock'', ''Zap'', ''BarChart2'', ''Brain'',
     ''DollarSign'', ''Activity'', ''Package'', ''Webhook'', ''Server'', ''Wrench'', ''Settings2'', ''MessageSquare'',
     ''PhoneCall'', ''UserPlus'', ''Users'', ''KeyRound'', ''ScrollText'', ''Building2'', ''ShieldCheck'']. n \<in> set chrome"
    by (simp add: chrome_def)
  then show ?thesis unfolding navGroups_def by simp
qed

lemma mounts_nav_view: "mounts n (nav_view s p gs) \<Longrightarrow>
    list_all (\<lambda>g. list_all (\<lambda>it. ni_icon it \<in> set chrome) (ng_items g)) gs \<Longrightarrow> n \<in> set chrome"
proof -
  assume m: "mounts n (nav_view s p gs)" and gs: "list_all (\<lambda>g. list_all (\<lambda>it. ni_icon it \<in> set chrome) (ng_items g)) gs"
  have tags: "''nav'' \<in> set chrome" "''div'' \<in> set chrome" "''button'' \<in> set chrome" "''span'' \<in> set chrome"
      "''ChevronDown'' \<in> set chrome" by (simp_all add: chrome_def)
  have item: "n \<in> set chrome" if "mounts n (nav_button s p it)" "ni_icon it \<in> set chrome" for it
    using that tags by (auto simp: nav_button_def Let_def list_ex_iff split: if_splits)
  have grp: "n \<in> set chrome" if "mounts n (nav_group_view s p b g)" "list_all (\<lambda>it. ni_icon it \<in> set chrome) (ng_items g)" for b g
    using that tags item by (auto simp: nav_group_view_def Let_def list_ex_iff list_all_iff split: if_splits)
  show ?thesis using m gs tags grp
    by (auto simp: nav_view_def list_ex_iff list_all_iff enumerate_eq_zip dest!: set_zip_rightD)
qed

lemma chrome_tags: "\<forall>n \<in> set [''div'', ''span'', ''h1'', ''p'', ''a'', ''button'', ''img'', ''aside'', ''nav'', ''header'', ''main'',
     ''h2'', ''ChevronDown'', ''ChevronRight'', ''ChevronLeft'', ''BookOpen'', ''LogOut'', ''OnboardingPage'', ''Bell'']. n \<in> set chrome"
  by (simp add: chrome_def)

lemma mounts_main_content:
  "mounts c (main_content v tid) \<longleftrightarrow> c = ''main'' \<or> (v, c) \<in> set PAGES"
  by (auto simp: main_content_def list_ex_iff)

lemma mounts_workspace:
  assumes "c \<notin> set chrome"
  shows "mounts c (workspace p s se) \<longleftrightarrow> (currentViewFromPath (sh_path p), c) \<in> set PAGES"
proof -
  let ?gs = "navGroups (session_has se) (hasMSPClients p)"
  have no: "c \<noteq> ''div''" "c \<noteq> ''span''" "c \<noteq> ''aside''" "c \<noteq> ''button''" "c \<noteq> ''p''" "c \<noteq> ''img''" "c \<noteq> ''header''"
    "c \<noteq> ''h1''" "c \<noteq> ''main''" "c \<noteq> ''BookOpen''" "c \<noteq> ''LogOut''" "c \<noteq> ''ChevronRight''" "c \<noteq> ''ChevronLeft''" "c \<noteq> ''Bell''"
    using assms chrome_tags by auto
  have nav: "\<not> mounts c (nav_view s p ?gs)" using mounts_nav_view [OF _ nav_icons_chrome] assms by blast
  have logo: "\<not> mounts c (shell_logo s b)" for b
    using no by (simp add: shell_logo_def Let_def)
  have kb: "\<not> mounts c (kb_link s p)" using no by (simp add: kb_link_def)
  have user: "\<not> mounts c (user_box s se)" using no by (simp add: user_box_def Let_def)
  have top: "\<not> mounts c (topbar p se gs)" for gs using no by (simp add: topbar_def)
  have rest: "\<not> mounts c expired_overlay" "\<not> mounts c msp_banner" using no by (simp_all add: expired_overlay_def msp_banner_def)
  show ?thesis using no nav logo kb user top rest
    by (simp add: workspace_def Let_def mounts_main_content)
qed

text \<open>Props to evaluate the view on: a query without data each.\<close>

definition blank_props :: shell_props where
  "blank_props = \<lparr>sh_session = None, sh_loading = False, sh_path = ''/audit'', sh_branding = None,
     sh_mspClients = None, sh_activeAlerts = None, sh_openIncidents = None, sh_openChanges = None, sh_slaBreaches = None,
     sh_unavailableSources = None, sh_activeMaintenance = None, sh_failedNotifications = None, sh_criticalAlerts = None\<rparr>"

definition ready_session :: "string \<Rightarrow> session" where
  "ready_session tid = \<lparr>se_state = Ready, se_principal_id = Some ''ana'', se_tenant_id = Some tid, se_display_name = None,
     se_email = None, se_permissions = None, se_memberships = None, se_environment = None\<rparr>"

text \<open>C1: a page is mounted exactly when the session query has answered with a ready session and the
  path is the page's own: the gate fails closed in every other session state. The permissions of
  the session do not occur: the menu hides entries, but opening the path mounts the page.\<close>

theorem page_mounted_iff:
  assumes "c \<in> set (map snd PAGES)"
  shows "mounts c (shell_view p s) \<longleftrightarrow>
    \<not> sh_loading p \<and> (\<exists>se. sh_session p = Some se \<and> se_state se = Ready)
    \<and> (currentViewFromPath (sh_path p), c) \<in> set PAGES"
proof -
  have c: "c \<notin> set chrome" using assms by (rule page_not_chrome)
  then have no: "c \<noteq> ''div''" "c \<noteq> ''span''" "c \<noteq> ''button''" "c \<noteq> ''p''" "c \<noteq> ''h1''" "c \<noteq> ''h2''" "c \<noteq> ''a''" "c \<noteq> ''OnboardingPage''"
    using chrome_tags by auto
  have sign: "\<not> mounts c (signin_card se)" for se using no by (simp add: signin_card_def)
  have pick: "\<not> mounts c (tenant_picker ms)" for ms using no by (simp add: tenant_picker_def list_ex_iff)
  show ?thesis using no sign pick mounts_workspace [OF c]
    by (auto simp: shell_view_def Let_def split: option.splits session_state.splits)
qed

theorem page_mounted_iff_witness:
  "\<not> mounts ''AuditPage'' (shell_view blank_props (shell_mount sample_host None))
   \<and> mounts ''AuditPage'' (shell_view (blank_props\<lparr>sh_session := Some (ready_session ''t1'')\<rparr>) (shell_mount sample_host None))"
proof -
  have c: "''AuditPage'' \<in> set (map snd PAGES)" by (simp add: PAGES_def)
  have "currentViewFromPath ''/audit'' = ''audit''" by code_simp
  then show ?thesis unfolding page_mounted_iff [OF c] by (simp add: PAGES_def blank_props_def ready_session_def)
qed

text \<open>Opening a view records it under the tenant's key, so that coming back to the start page
  returns to it (replacing the history entry), while the start page itself is never restored and
  the record of every other tenant is left alone.\<close>

lemma goto_restored:
  assumes "se_state se = Ready" and "map_of VIEW_TO_PATH v = Some path" and "store s \<noteq> None"
    and "other \<noteq> tpl (se_tenant_id se)"
  shows "restore_last_path (Some se) ''/'' (store (fst (shell_handle h (Some se) s (GoTo v)))) =
           (if v = ''noc'' then [] else [NavigateReplace path])
    \<and> ls_get (store (fst (shell_handle h (Some se) s (GoTo v)))) (last_path_key (Some other))
      = ls_get (store s) (last_path_key (Some other))"
proof -
  have "list_all (\<lambda>(v, path). path \<noteq> [] \<and> (path = ''/'' \<longleftrightarrow> v = ''noc'')) VIEW_TO_PATH" by code_simp
  then have "path \<noteq> []" "path = ''/'' \<longleftrightarrow> v = ''noc''"
    using map_of_SomeD [OF assms(2)] by (auto simp: list_all_iff)
  then show ?thesis using assms
    by (simp add: restore_last_path_def Let_def tenant_of_def last_path_key_def tpl_def)
qed

theorem goto_restored_witness:
  "restore_last_path (Some (ready_session ''t1'')) ''/''
     (store (fst (shell_handle sample_host (Some (ready_session ''t1'')) (shell_mount sample_host (Some Map.empty)) (GoTo ''users''))))
   = [NavigateReplace ''/admin/users'']"
  using goto_restored [of "ready_session ''t1''" "''users''" "''/admin/users''" "shell_mount sample_host (Some Map.empty)" "''t2''" sample_host]
  by (simp add: ready_session_def VIEW_TO_PATH_def shell_mount_def tpl_def)

lemma expired_step: "sessionExpired s \<or> e = SessionExpired \<Longrightarrow> sessionExpired (fst (shell_handle h se s e))"
  by (cases e) (auto simp: Let_def)

lemma expired_run: "sessionExpired s \<or> SessionExpired \<in> set es \<Longrightarrow> sessionExpired (fst (run (shell_handle h se) s es))"
proof (induction es arbitrary: s)
  case (Cons e es)
  then have "sessionExpired (fst (shell_handle h se s e)) \<or> SessionExpired \<in> set es"
    using expired_step [of s e] by auto
  then show ?case using Cons.IH by (simp add: split_def Let_def)
qed simp

text \<open>Once the session-expired event has arrived, every later render of a ready workspace shows
  the re-login overlay: no operation of the shell takes it down.\<close>

lemma expired_overlay_stays:
  assumes "sh_loading p = False" "sh_session p = Some se" "se_state se = Ready" "SessionExpired \<in> set es"
  shows "''Sua sessao expirou.'' \<in> set (texts (shell_view p (fst (run (shell_handle h se0) s es))))"
  using assms expired_run [of s es] by (simp add: shell_view_def workspace_def Let_def expired_overlay_def)

theorem expired_overlay_stays_witness:
  "''Sua sessao expirou.'' \<in> set (texts (shell_view (blank_props\<lparr>sh_session := Some (ready_session ''t1'')\<rparr>)
     (fst (run (shell_handle sample_host None) (shell_mount sample_host None) [SessionExpired, ToggleCollapsed, GoTo ''noc'']))))"
  by (rule expired_overlay_stays [where se = "ready_session ''t1''"]) (simp_all add: blank_props_def ready_session_def)

section \<open>From a refused request to the overlay\<close>

text \<open>The window events that the client dispatches while it carries out the effects of a page, one after the other.\<close>

definition client_events :: "host \<Rightarrow> string \<Rightarrow> (fetch_init \<Rightarrow> outcome) \<Rightarrow> effect list \<Rightarrow> shell_event list" where
  "client_events h ck net out = concat (map (\<lambda>f. case perform h ck net f of Some (_, True) \<Rightarrow> [SessionExpired] | _ \<Rightarrow> []) out)"

definition refused :: "host \<Rightarrow> string \<Rightarrow> (fetch_init \<Rightarrow> outcome) \<Rightarrow> effect \<Rightarrow> bool" where
  "refused h ck net f \<longleftrightarrow> (\<exists>mth path body tok stt txt js. f = Request mth path body \<and> csrfToken ck = Some tok
     \<and> net (fetch_of h tok mth path body) = Response 401 stt txt js)"

lemma perform_refused: "(\<exists>r. perform h ck net f = Some (r, True)) \<longleftrightarrow> refused h ck net f"
proof (cases f)
  case (Request mth path body)
  then have "(\<exists>r. perform h ck net f = Some (r, True)) \<longleftrightarrow> snd (request h ck net mth path body)"
    by (cases "request h ck net mth path body") (simp add: perform_def)
  with Request show ?thesis unfolding session_expired_iff_401 refused_def by blast
qed (simp_all add: perform_def refused_def)

lemma client_events_iff: "SessionExpired \<in> set (client_events h ck net out) \<longleftrightarrow> list_ex (refused h ck net) out"
  unfolding client_events_def list_ex_iff perform_refused [symmetric]
proof -
  have "SessionExpired \<in> set (case x of Some (_, True) \<Rightarrow> [SessionExpired] | _ \<Rightarrow> []) \<longleftrightarrow> (\<exists>r. x = Some (r, True))"
    for x :: "((api_error + json) \<times> bool) option" by (auto split: option.splits bool.splits)
  then show "SessionExpired \<in> set (concat (map (\<lambda>f. case perform h ck net f of Some (_, True) \<Rightarrow> [SessionExpired] | _ \<Rightarrow> []) out))
    \<longleftrightarrow> (\<exists>f \<in> set out. \<exists>r. perform h ck net f = Some (r, True))" by simp
qed

lemma client_events_only: "e \<in> set (client_events h ck net out) \<Longrightarrow> e = SessionExpired"
  by (auto simp: client_events_def split: option.splits bool.splits)

text \<open>C3: the effects of any page, carried out by the client against any network, bring up the re-login overlay in a ready workspace
  if one of its requests is answered with 401, and leave the shell as it was if none is: no other status, no network
  failure and no local error ends the session.\<close>

theorem unauthorized_ends_session:
  assumes "\<not> sh_loading p" "sh_session p = Some se" "se_state se = Ready"
  shows "let t = fst (run (shell_handle h se0) s (client_events h ck net out)) in
     if list_ex (refused h ck net) out then ''Sua sessao expirou.'' \<in> set (texts (shell_view p t)) else t = s"
proof -
  let ?es = "client_events h ck net out"
  have "?es = []" if "\<not> list_ex (refused h ck net) out"
    using that client_events_iff client_events_only by (metis list.set_intros(1) neq_Nil_conv)
  moreover have "sessionExpired (fst (run (shell_handle h se0) s ?es))" if "list_ex (refused h ck net) out"
    using that expired_run [of s ?es] by (simp add: client_events_iff)
  ultimately show ?thesis using assms by (simp add: shell_view_def workspace_def Let_def expired_overlay_def)
qed

theorem unauthorized_ends_session_witness:
  "''Sua sessao expirou.'' \<in> set (texts (shell_view (blank_props\<lparr>sh_session := Some (ready_session ''t1'')\<rparr>)
     (fst (run (shell_handle sample_host None) (shell_mount sample_host None)
        (client_events sample_host [] (\<lambda>_. Response 401 [] None None) [Request ''GET'' ''/api/v1/kb/articles'' None])))))"
proof -
  have "list_ex (refused sample_host [] (\<lambda>_. Response 401 [] None None)) [Request ''GET'' ''/api/v1/kb/articles'' None]"
    by (simp add: refused_def csrfToken_def csrf_match_def)
  then show ?thesis
    using unauthorized_ends_session [of "blank_props\<lparr>sh_session := Some (ready_session ''t1'')\<rparr>" "ready_session ''t1''" sample_host None
        "shell_mount sample_host None" "[]" "\<lambda>_. Response 401 [] None None" "[Request ''GET'' ''/api/v1/kb/articles'' None]"]
    by (simp add: blank_props_def ready_session_def Let_def)
qed

section \<open>The sidebar state: properties\<close>

text \<open>The shell as a component whose handlers read the session of the render they were made in.\<close>

definition shell_live :: "shell_props \<Rightarrow> shell \<Rightarrow> (session option \<times> shell_event) vnode" where
  "shell_live p s = embed (Pair (sh_session p)) (shell_view p s)"

definition shell_step :: "host \<Rightarrow> shell \<Rightarrow> session option \<times> shell_event \<Rightarrow> shell \<times> effect list" where
  "shell_step h s e = shell_handle h (fst e) s (snd e)"

definition shell_init :: "host \<Rightarrow> shell \<Rightarrow> bool" where
  "shell_init h s \<longleftrightarrow> s = shell_mount h (store s)"

definition shell_net :: "session option \<times> shell_event \<Rightarrow> bool" where
  "shell_net e \<longleftrightarrow> snd e = SessionExpired \<or> snd e = SelectTenantSuccess"

definition json_lists_ok :: "host \<Rightarrow> bool" where
  "json_lists_ok h \<longleftrightarrow> (\<forall>xs. json_parse h (json_text h (jstrs xs)) = Some (jstrs xs) \<and> json_text h (jstrs xs) \<noteq> [])"

definition sidebar_saved :: "host \<Rightarrow> shell \<Rightarrow> bool" where
  "sidebar_saved h s \<longleftrightarrow> distinct (collapsedGroups s)
     \<and> (json_lists_ok h \<longrightarrow> store s \<noteq> None \<longrightarrow> load_collapsed (store s) = collapsed s
          \<and> load_collapsedGroups h (store s) = collapsedGroups s)"

definition tenant_choice :: "effect \<Rightarrow> bool" where
  "tenant_choice f \<longleftrightarrow> (case f of Request m path b \<Rightarrow> \<exists>t. f = select_tenant_request t | _ \<Rightarrow> True)"

lemma set_of_jstrs: "set_of_json (jstrs xs) = Some (set_of xs)"
  by (simp add: set_of_json_def jstrs_def o_def)

lemma load_written:
  "json_lists_ok h \<Longrightarrow> st \<noteq> None \<Longrightarrow> distinct xs \<Longrightarrow>
   load_collapsedGroups h (ls_set ''jlm_collapsed_groups'' (json_text h (jstrs xs)) st) = xs"
  by (simp add: load_collapsedGroups_def json_lists_ok_def set_of_jstrs set_of_distinct)

interpretation shc: persisted "''jlm_sidebar_collapsed''" load_collapsed "\<lambda>b. if b then ''1'' else ''0''" "\<lambda>_. True"
  by unfold_locales (auto simp: load_collapsed_def)

interpretation shg: stored_setting "''jlm_collapsed_groups''" "load_collapsedGroups h" for h
  by unfold_locales (simp add: load_collapsedGroups_def)

interpretation shp: stored_setting "last_path_key (tenant_of se)" "restore_last_path se pathname" for se pathname
  by unfold_locales (cases se; simp add: restore_last_path_def tenant_of_def)

lemma set_of_json_distinct: "set_of_json j = Some xs \<Longrightarrow> distinct xs"
  by (cases j) (auto simp: set_of_json_def)

lemma distinct_load: "distinct (load_collapsedGroups h st)"
  by (auto simp: load_collapsedGroups_def nullish_def bind_eq_Some_conv dest: set_of_json_distinct split: option.splits)

lemma last_path_key_other: "last_path_key t \<noteq> ''jlm_collapsed_groups''" "last_path_key t \<noteq> ''jlm_sidebar_collapsed''"
  by (simp_all add: last_path_key_def)

lemma sidebar_saved_step: "sidebar_saved h s \<Longrightarrow> sidebar_saved h (fst (shell_handle h se s e))"
proof (cases e)
  case (GoTo v)
  then show "sidebar_saved h s \<Longrightarrow> ?thesis"
    by (simp add: sidebar_saved_def Let_def shg.load_other shc.load_other last_path_key_other)
next
  case ToggleCollapsed
  then show "sidebar_saved h s \<Longrightarrow> ?thesis"
    using shc.load_saved [where v = "\<not> collapsed s" and st = "store s"] by (simp add: sidebar_saved_def Let_def shg.load_other)
next
  case (ToggleGroup l)
  then show "sidebar_saved h s \<Longrightarrow> ?thesis"
    by (simp add: sidebar_saved_def Let_def shc.load_other load_written)
qed (simp_all add: sidebar_saved_def)

lemma solo_shell_view: "solo (shell_view p s)"
proof -
  have nav: "solo (nav_view s p gs)" for gs
    by (auto simp: nav_view_def nav_group_view_def nav_button_def Let_def)
  have parts: "solo (shell_logo s b)" "solo (kb_link s p)" "solo (user_box s se)" "solo (topbar p se gs)"
      "solo expired_overlay" "solo msp_banner" "solo (main_content v t)" for b se gs v t
    by (auto simp: shell_logo_def kb_link_def user_box_def topbar_def expired_overlay_def msp_banner_def main_content_def Let_def jif_def)
  have gate: "solo (signin_card se)" "solo (tenant_picker ms)" for se ms
    by (auto simp: signin_card_def tenant_picker_def)
  show ?thesis using nav parts gate
    by (auto simp: shell_view_def workspace_def Let_def split: option.splits session_state.splits)
qed

interpretation sh: component "shell_init h" shell_live "shell_step h" shell_net "\<lambda>s e. True" "sidebar_saved h" tenant_choice
  for h
proof unfold_locales
  show "shell_init h s \<Longrightarrow> sidebar_saved h s" for s
    unfolding shell_init_def sidebar_saved_def by (metis distinct_load shell.select_convs shell_mount_def)
  show "solo (shell_live p s)" for p s by (simp add: shell_live_def solo_shell_view)
  show "offers (\<lambda>e. True) (shell_live p s)" for p s by simp
  show "sidebar_saved h s \<Longrightarrow> sidebar_saved h (fst (shell_step h s e))" for s e
    unfolding shell_step_def by (rule sidebar_saved_step)
  show "list_all tenant_choice (snd (shell_step h s e))" for s e
    by (cases "snd e") (auto simp: shell_step_def tenant_choice_def select_tenant_request_def Let_def)
qed simp_all

text \<open>C14: whatever the user does and whenever the network answers, the sidebar a reload would show
  (from \<open>localStorage\<close>) is the one on the screen: collapsed or not, and the same groups collapsed;
  provided JSON lists of strings are read back as written and the storage is not disabled.\<close>

theorem sidebar_survives_reload:
  assumes "reach (shell_init h) shell_live (shell_step h) shell_net s log" and "json_lists_ok h" and "store s \<noteq> None"
  shows "collapsed (shell_mount h (store s)) = collapsed s \<and> collapsedGroups (shell_mount h (store s)) = collapsedGroups s"
  using sh.reachable_inv [OF assms(1)] assms(2,3) by (simp add: sidebar_saved_def shell_mount_def)

lemma sample_lists_ok: "json_lists_ok sample_host"
  unfolding json_lists_ok_def using sample_host_json by (simp add: sample_host_def jstrs_def)

definition sample_saved :: storage where
  "sample_saved = Some [''jlm_sidebar_collapsed'' \<mapsto> ''0'',
     ''jlm_collapsed_groups'' \<mapsto> json_text sample_host (jstrs [''ITSM'', ''MSP''])]"

theorem sidebar_survives_reload_witness:
  "let s = fst (shell_handle sample_host None (shell_mount sample_host sample_saved) SessionExpired)
   in reach (shell_init sample_host) shell_live (shell_step sample_host) shell_net s []
     \<and> collapsed (shell_mount sample_host (store s)) = collapsed s
     \<and> collapsedGroups (shell_mount sample_host (store s)) = collapsedGroups s"
proof -
  let ?m = "shell_mount sample_host sample_saved"
  let ?s = "?m\<lparr>sessionExpired := True\<rparr>"
  have "reach (shell_init sample_host) shell_live (shell_step sample_host) shell_net ?m []"
    by (rule reach.mount) (simp add: shell_init_def shell_mount_def)
  from reach.settle [OF this, of "(None, SessionExpired)" ?s "[]"]
  have "reach (shell_init sample_host) shell_live (shell_step sample_host) shell_net ?s []"
    by (simp add: shell_net_def shell_step_def)
  moreover from sidebar_survives_reload [OF this sample_lists_ok]
  have "collapsed (shell_mount sample_host (store ?s)) = collapsed ?s
     \<and> collapsedGroups (shell_mount sample_host (store ?s)) = collapsedGroups ?s"
    by (simp add: shell_mount_def sample_saved_def)
  ultimately show ?thesis by (simp add: Let_def)
qed

end
