(* ===== verification/Alerts.thy ===== *)
theory Alerts
  imports Shell
begin

text \<open>
  The alert list, \<open>pages/AlertsPage.tsx\<close>: filters, client-side pagination, the snooze control of
  each row, and the automatic opening of a highlighted alert. The snooze control is a component
  of its own (\<open>snooze_view\<close>, \<open>snooze_handle\<close>); the page receives which rows have it open as a prop.
\<close>

section \<open>Data\<close>

record evidence =
  ev_severity_class :: "string option"
  ev_problem_id :: "string option"
  ev_health_classes :: "string list option"

record raw_alert =
  ra_alert_id :: string
  ra_lifecycle_state :: string
  ra_source_kind :: string
  ra_monitoring_source_id :: string
  ra_monitoring_resource_id :: string
  ra_evidence :: "evidence option"
  ra_opened_at :: string
  ra_resolved_at :: "string option"
  ra_snoozed_until :: "string option"

definition SNOOZE_OPTIONS :: "(string \<times> nat) list" where
  "SNOOZE_OPTIONS =
    [(''30 min'', 30),
     (''1 hour'', 60),
     (''4 hours'', 240),
     (''8 hours'', 480),
     (''24 hours'', 1440)]"

definition SEVERITY_FILTERS :: "(string \<times> string) list" where
  "SEVERITY_FILTERS =
    [(''Todas'', ''all''),
     (''Critical'', ''critical''),
     (''High'', ''degraded''),
     (''Medium'', ''warning''),
     (''Low'', ''informational''),
     (''Info'', ''info'')]"

definition PAGE_SIZE :: nat where
  "PAGE_SIZE = 50"

definition sevVariant :: "string option \<Rightarrow> string" where
  "sevVariant cls =
     (if cls = Some ''critical'' then ''danger''
      else if cls = Some ''degraded'' \<or> cls = Some ''warning'' then ''warning''
      else if cls = Some ''informational'' then ''info''
      else ''muted'')"

definition lcVariant :: "string \<Rightarrow> string" where
  "lcVariant st = (if st = ''active'' then ''warning'' else if st = ''resolved'' then ''success'' else ''muted'')"

definition alert_severity :: "raw_alert \<Rightarrow> string option" where
  "alert_severity a = Option.bind (ra_evidence a) ev_severity_class"

definition alertTitle :: "raw_alert \<Rightarrow> string" where
  "alertTitle a =
     (let pid = Option.bind (ra_evidence a) ev_problem_id;
          hcs = nullish (Option.bind (ra_evidence a) ev_health_classes) []
      in if truthy pid then nullish pid []
         else if hcs \<noteq> [] then join '', '' hcs
         else str_or (ra_monitoring_resource_id a) (ra_source_kind a))"

definition fmtTs :: "host \<Rightarrow> string option \<Rightarrow> string" where
  "fmtTs h ts = (if truthy ts then locale_ts h (nullish ts []) else [])"

text \<open>The remaining snooze time; an unreadable date makes every comparison with \<open>NaN\<close> false.\<close>

definition fmtSnoozeExpiry :: "host \<Rightarrow> string \<Rightarrow> string" where
  "fmtSnoozeExpiry h ts =
     (case date_ms h ts of
        None \<Rightarrow> ''NaNd''
      | Some t \<Rightarrow>
          let diffMin = math_round_div (t - now_ms h) 60000
          in if diffMin < 60 then str_int diffMin @ ''m''
             else let diffHr = math_round_div diffMin 60
                  in if diffHr < 24 then str_int diffHr @ ''h''
                     else str_int (math_round_div diffHr 24) @ ''d'')"

section \<open>Snooze control\<close>

datatype snooze_event = SnCancel | SnPick nat | SnClose | SnOpen

datatype snooze_out = OnSnooze nat | OnUnsnooze

fun snooze_handle :: "bool \<Rightarrow> snooze_event \<Rightarrow> bool \<times> snooze_out list" where
  "snooze_handle opn SnCancel = (opn, [OnUnsnooze])"
| "snooze_handle opn (SnPick m) = (False, [OnSnooze m])"
| "snooze_handle opn SnClose = (False, [])"
| "snooze_handle opn SnOpen = (True, [])"

definition snooze_view :: "host \<Rightarrow> raw_alert \<Rightarrow> bool \<Rightarrow> bool \<Rightarrow> snooze_event vnode" where
  "snooze_view h a isBusy opn =
     (if truthy (ra_snoozed_until a) then
        el ''div''
          [Badge ''warning'' [Txt ''snoozed '', Txt (fmtSnoozeExpiry h (nullish (ra_snoozed_until a) []))],
           button [OnClickStop SnCancel, Bo ''disabled'' isBusy] [Txt ''cancel'']]
      else if opn then
        El ''div'' [StopClick]
          (map (\<lambda>(label, v). button [OnClick (SnPick v), Bo ''disabled'' isBusy] [Txt label]) SNOOZE_OPTIONS @
           [button [OnClick SnClose] [Txt ''x'']])
      else Button ''secondary'' ''sm'' [OnClickStop SnOpen, Bo ''disabled'' isBusy] [Txt ''Snooze''])"

section \<open>Page state\<close>

record alerts =
  al_filter :: string
  al_severityFilter :: string
  al_page :: nat
  al_selectedId :: "string option"
  al_autoOpenedFor :: "string option"
  al_store :: storage

record alerts_props =
  ap_host :: host
  ap_canOperate :: bool
  ap_highlight :: "string option"
  ap_q :: "raw_alert list query"
  ap_snoozeMut :: "(string \<times> nat) mutation"
  ap_unsnoozeMut :: "string mutation"
  ap_snoozeOpen :: "string \<Rightarrow> bool"

definition filter_key :: "string \<Rightarrow> string" where
  "filter_key tenantId = ''jlm_alerts_filter_'' @ tenantId"

definition loadAlertFilter :: "storage \<Rightarrow> string \<Rightarrow> string" where
  "loadAlertFilter st tenantId = (if ls_get st (filter_key tenantId) = Some ''all'' then ''all'' else ''active'')"

definition alerts_mount :: "storage \<Rightarrow> string \<Rightarrow> alerts" where
  "alerts_mount st tenantId = \<lparr>al_filter = loadAlertFilter st tenantId, al_severityFilter = ''all'', al_page = 0,
     al_selectedId = None, al_autoOpenedFor = None, al_store = st\<rparr>"

datatype alerts_event =
    SetFilter string | SetSeverity string | SelectAlert string | AlertsBack
  | RowSnooze string snooze_event | PrevPage | NextPage nat
  | AutoOpen string | SnoozeSuccess | UnsnoozeSuccess

definition alerts_path :: "string \<Rightarrow> string" where
  "alerts_path flt = ''/api/v1/alerting/alerts'' @ (if flt = ''active'' then ''?lifecycle_state=active'' else [])"

fun snooze_effect :: "string \<Rightarrow> snooze_out \<Rightarrow> effect" where
  "snooze_effect aid (OnSnooze m) = Request ''POST'' (''/api/v1/alerting/alerts/'' @ aid @ ''/snooze'')
     (Some (jobj [(''duration_minutes'', Some (JNum (JInt (int m))))]))"
| "snooze_effect aid OnUnsnooze = Request ''POST'' (''/api/v1/alerting/alerts/'' @ aid @ ''/unsnooze'') (Some (jobj []))"

fun alerts_handle :: "string \<Rightarrow> alerts \<Rightarrow> alerts_event \<Rightarrow> alerts \<times> effect list" where
  "alerts_handle tenantId s (SetFilter v) =
     (s\<lparr>al_filter := v, al_page := 0, al_store := ls_set (filter_key tenantId) v (al_store s)\<rparr>, [])"
| "alerts_handle tenantId s (SetSeverity v) = (s\<lparr>al_severityFilter := v, al_page := 0\<rparr>, [])"
| "alerts_handle tenantId s (SelectAlert i) = (s\<lparr>al_selectedId := Some i\<rparr>, [])"
| "alerts_handle tenantId s AlertsBack = (s\<lparr>al_selectedId := None\<rparr>, [])"
| "alerts_handle tenantId s (RowSnooze i e) = (s, map (snooze_effect i) (snd (snooze_handle False e)))"
| "alerts_handle tenantId s PrevPage = (s\<lparr>al_page := al_page s - 1\<rparr>, [])"
| "alerts_handle tenantId s (NextPage totalPages) = (s\<lparr>al_page := min (totalPages - 1) (al_page s + 1)\<rparr>, [])"
| "alerts_handle tenantId s (AutoOpen i) = (s\<lparr>al_autoOpenedFor := Some i, al_selectedId := Some i\<rparr>, [])"
| "alerts_handle tenantId s SnoozeSuccess = (s, [Invalidate [''alerts'']])"
| "alerts_handle tenantId s UnsnoozeSuccess = (s, [Invalidate [''alerts'']])"

text \<open>The auto-open effect: the events it causes after a render.\<close>

definition auto_open :: "string option \<Rightarrow> bool \<Rightarrow> string option \<Rightarrow> alerts_event list" where
  "auto_open highlight loading autoOpenedFor =
     (if \<not> truthy highlight then []
      else if autoOpenedFor = highlight then []
      else if loading then []
      else [AutoOpen (nullish highlight [])])"

section \<open>Derived data\<close>

definition filtered_alerts :: "string \<Rightarrow> raw_alert list \<Rightarrow> raw_alert list" where
  "filtered_alerts sev xs =
     (if sev = ''all'' then xs else filter (\<lambda>a. alert_severity a = Some sev) xs)"

definition total_pages :: "nat \<Rightarrow> nat" where
  "total_pages n = max 1 ((n + PAGE_SIZE - 1) div PAGE_SIZE)"

definition paged :: "nat \<Rightarrow> 'a list \<Rightarrow> 'a list" where
  "paged page xs = slice (page * PAGE_SIZE) ((page + 1) * PAGE_SIZE) xs"

definition row_busy :: "alerts_props \<Rightarrow> string \<Rightarrow> bool" where
  "row_busy p i \<longleftrightarrow>
     (isPending (ap_snoozeMut p) \<and> map_option fst (variables (ap_snoozeMut p)) = Some i)
     \<or> (isPending (ap_unsnoozeMut p) \<and> variables (ap_unsnoozeMut p) = Some i)"

section \<open>Rendering\<close>

definition alert_row :: "alerts_props \<Rightarrow> raw_alert \<Rightarrow> alerts_event vnode" where
  "alert_row p a =
     (let h = ap_host p; i = ra_alert_id a
      in El ''tr'' [At ''key'' i, OnClick (SelectAlert i), Bo ''highlighted'' (ap_highlight p = Some i)]
          [el ''td'' [Badge (sevVariant (alert_severity a)) [Txt (toUpperCase (nullish (alert_severity a) ''unknown''))]],
           el ''td'' [Txt (alertTitle a)],
           el ''td'' [Badge (lcVariant (ra_lifecycle_state a)) [Txt (ra_lifecycle_state a)]],
           el ''td'' [Txt (ra_monitoring_source_id a)],
           el ''td'' [Txt (fmtTs h (Some (ra_opened_at a)))],
           El ''td'' [StopClick]
             (jif (ap_canOperate p \<and> ra_lifecycle_state a = ''active'')
                (embed (RowSnooze i) (snooze_view h a (row_busy p i) (ap_snoozeOpen p i))))])"

definition alerts_filters :: "alerts \<Rightarrow> nat \<Rightarrow> nat \<Rightarrow> alerts_event vnode list" where
  "alerts_filters s nall nfiltered =
     [el ''div'' [el ''h2'' [Txt ''Alerts''],
        el ''div'' (map (\<lambda>f. button [At ''key'' f, OnClick (SetFilter f), Bo ''active'' (al_filter s = f)]
          [Txt (if f = ''active'' then ''Active'' else ''All'')]) [''active'', ''all''])],
      el ''div'' (map (\<lambda>(label, v). button [At ''key'' v, OnClick (SetSeverity v), Bo ''active'' (al_severityFilter s = v)]
          [Txt label]) SEVERITY_FILTERS @
        jif (nall > 0) (el ''span'' [Txt (str_nat nfiltered), Txt '' de '', Txt (str_nat nall), Txt '' alert'',
          Txt (if nall \<noteq> 1 then ''s'' else [])]))]"

definition alerts_table :: "alerts_props \<Rightarrow> raw_alert list \<Rightarrow> alerts_event vnode" where
  "alerts_table p rows = el ''table''
     [el ''thead'' [el ''tr'' (map (\<lambda>c. el ''th'' [Txt c])
        [''Severity'', ''Event / Resource'', ''State'', ''Source'', ''Opened'', ''Actions''])],
      el ''tbody'' (map (alert_row p) rows)]"

definition alerts_pager :: "alerts \<Rightarrow> nat \<Rightarrow> alerts_event vnode" where
  "alerts_pager s n =
     el ''div''
      [el ''span'' [Txt ''Pagina '', Txt (str_nat (al_page s + 1)), Txt '' de '', Txt (str_nat (total_pages n)),
         Txt '' . '', Txt (str_nat n), Txt '' alertas''],
       el ''div''
        [Button ''secondary'' ''sm'' [Bo ''disabled'' (al_page s = 0), OnClick PrevPage] [Txt ''<- Anterior''],
         Button ''secondary'' ''sm'' [Bo ''disabled'' (al_page s \<ge> total_pages n - 1), OnClick (NextPage (total_pages n))]
           [Txt ''Proxima ->'']]]"

definition alerts_view :: "alerts_props \<Rightarrow> alerts \<Rightarrow> alerts_event vnode" where
  "alerts_view p s =
     (let q = ap_q p;
          allAlerts = nullish (qdata q) [];
          flt = filtered_alerts (al_severityFilter s) allAlerts;
          rows = paged (al_page s) flt
      in if truthy (al_selectedId s)
         then El ''AlertDetail'' [At ''alertId'' (nullish (al_selectedId s) []), Prop ''onBack'' AlertsBack] []
         else el ''div''
          (alerts_filters s (length allAlerts) (length flt) @
           [Card
             [if isLoading q then el ''div'' [Spinner]
              else if isError q then el ''p'' [Txt ''Failed to load alerts.'']
              else if rows = [] then el ''p''
                [Txt (if flt = [] \<and> allAlerts \<noteq> [] then ''Nenhum alerta com a severidade selecionada.'' else ''No alerts.'')]
              else alerts_table p rows]] @
           jif (length flt > PAGE_SIZE) (alerts_pager s (length flt)) @
           jif (isFetching q \<and> \<not> isLoading q) (el ''div'' [Spinner, Txt '' Refreshing...''])))"

section \<open>Pagination: properties\<close>

lemma concat_slices: "concat (map (\<lambda>i. slice (i * k) ((i + 1) * k) xs) [0..<n]) = take (n * k) xs"
proof (induction n)
  case (Suc n)
  have "take (Suc n * k) xs = take (n * k) xs @ take k (drop (n * k) xs)" by (metis add.commute mult_Suc take_add)
  with Suc show ?case by (simp add: slice_def)
qed simp

lemma total_pages_enough: "n \<le> total_pages n * PAGE_SIZE"
  by (simp add: total_pages_def PAGE_SIZE_def)

text \<open>C32: the pages of the alert list partition it: put together in order they are exactly the filtered
  list, no alert lost or repeated, and none holds more than 50.\<close>

theorem alerts_pages_partition:
  "concat (map (\<lambda>i. paged i xs) [0..<total_pages (length xs)]) = xs
   \<and> list_all (\<lambda>i. length (paged i xs) \<le> PAGE_SIZE) [0..<total_pages (length xs)]"
  using total_pages_enough [of "length xs"] concat_slices [of PAGE_SIZE xs "total_pages (length xs)"]
  by (simp add: paged_def list_all_iff)

lemma paged_empty_iff: "paged i xs = [] \<longleftrightarrow> xs = [] \<or> total_pages (length xs) \<le> i"
proof -
  have "paged i xs = [] \<longleftrightarrow> length (paged i xs) = 0" by simp
  also have "\<dots> \<longleftrightarrow> length xs \<le> i * PAGE_SIZE" by (auto simp: paged_def PAGE_SIZE_def min_def)
  also have "\<dots> \<longleftrightarrow> xs = [] \<or> total_pages (length xs) \<le> i"
    by (cases xs) (auto simp: total_pages_def PAGE_SIZE_def)
  finally show ?thesis .
qed

text \<open>Values to evaluate the page on.\<close>

definition sample_alert :: raw_alert where
  "sample_alert = \<lparr>ra_alert_id = ''a1'', ra_lifecycle_state = ''active'', ra_source_kind = ''monitoring_problem'',
     ra_monitoring_source_id = ''src'', ra_monitoring_resource_id = ''db-1'', ra_evidence = None,
     ra_opened_at = ''0'', ra_resolved_at = None, ra_snoozed_until = None\<rparr>"

definition sample_alerts_props :: "raw_alert list \<Rightarrow> alerts_props" where
  "sample_alerts_props xs = \<lparr>ap_host = sample_host, ap_canOperate = True, ap_highlight = None, ap_q = loaded xs,
     ap_snoozeMut = idle, ap_unsnoozeMut = idle, ap_snoozeOpen = (\<lambda>_. True)\<rparr>"

text \<open>The page index is reset only by a change of filter. When a refetch shortens the list below
  the current page, the page says that there are no alerts although alerts match the filters.\<close>

lemma stale_page_hides_alerts:
  assumes "qdata (ap_q p) = Some xs" "\<not> isLoading (ap_q p)" "\<not> isError (ap_q p)" "al_selectedId s = None"
    and "filtered_alerts (al_severityFilter s) xs \<noteq> []"
    and "total_pages (length (filtered_alerts (al_severityFilter s) xs)) \<le> al_page s"
  shows "''No alerts.'' \<in> set (texts (alerts_view p s))"
proof -
  have "paged (al_page s) (filtered_alerts (al_severityFilter s) xs) = []" using assms(6) by (simp add: paged_empty_iff)
  then show ?thesis using assms by (simp add: alerts_view_def Let_def Card_def)
qed

theorem stale_page_hides_alerts_witness:
  "''No alerts.'' \<in> set (texts (alerts_view (sample_alerts_props [sample_alert])
     (fst (alerts_handle ''t1'' (alerts_mount None ''t1'') (NextPage 2)))))"
  by (rule stale_page_hides_alerts [where xs = "[sample_alert]"])
    (simp_all add: sample_alerts_props_def loaded_def alerts_mount_def filtered_alerts_def total_pages_def PAGE_SIZE_def)

section \<open>The snooze control: properties\<close>

lemma solo_snooze_view [simp]: "solo (snooze_view h a b opn)"
  by (auto simp: snooze_view_def Let_def)

lemma solo_alert_row: "solo (alert_row p a)"
  by (simp add: alert_row_def Let_def)

lemma solo_alerts_view: "solo (alerts_view p s)"
proof -
  have f: "\<forall>v \<in> set (alerts_filters s m n). solo v" for m n by (auto simp: alerts_filters_def)
  have t: "solo (alerts_table p rows)" for rows by (auto simp: alerts_table_def solo_alert_row)
  have g: "solo (alerts_pager s n)" for n by (simp add: alerts_pager_def)
  show ?thesis using f t g by (auto simp: alerts_view_def Let_def)
qed

text \<open>What a row of the table may offer, and the whole page.\<close>

definition snooze_ok :: "alerts_props \<Rightarrow> alerts_event \<Rightarrow> bool" where
  "snooze_ok p e \<longleftrightarrow> (case e of
      RowSnooze i e' \<Rightarrow> ap_canOperate p \<and> (e' = SnClose \<or> \<not> row_busy p i)
        \<and> (\<exists>a \<in> set (nullish (qdata (ap_q p)) []). ra_alert_id a = i \<and> ra_lifecycle_state a = ''active'')
        \<and> (case e' of SnPick m \<Rightarrow> m \<in> set (map snd SNOOZE_OPTIONS) | _ \<Rightarrow> True)
    | SetFilter v \<Rightarrow> v = ''active'' \<or> v = ''all''
    | _ \<Rightarrow> True)"

lemma snooze_ok_simps [simp]:
  "snooze_ok p (SelectAlert i)" "snooze_ok p AlertsBack" "snooze_ok p (SetSeverity v)" "snooze_ok p PrevPage"
  "snooze_ok p (NextPage n)" "snooze_ok p (SetFilter v) \<longleftrightarrow> v = ''active'' \<or> v = ''all''"
  by (simp_all add: snooze_ok_def)

lemma offers_snooze_view:
  "offers P (snooze_view h a busy opn) \<longleftrightarrow>
     (if truthy (ra_snoozed_until a) then busy \<or> P SnCancel
      else if opn then (busy \<or> list_all (\<lambda>m. P (SnPick m)) (map snd SNOOZE_OPTIONS)) \<and> P SnClose
      else busy \<or> P SnOpen)"
  by (auto simp: snooze_view_def SNOOZE_OPTIONS_def)

lemma offers_alert_row:
  "a \<in> set (nullish (qdata (ap_q p)) []) \<Longrightarrow> offers (snooze_ok p) (alert_row p a)"
  by (auto simp: alert_row_def Let_def offers_snooze_view snooze_ok_def SNOOZE_OPTIONS_def)

lemma set_paged: "set (paged i (filtered_alerts v xs)) \<subseteq> set xs"
  by (auto simp: paged_def slice_def filtered_alerts_def dest!: in_set_takeD in_set_dropD split: if_splits)

lemma offers_alerts_view: "offers (snooze_ok p) (alerts_view p s)"
proof -
  have f: "\<forall>v \<in> set (alerts_filters s m n). offers (snooze_ok p) v" for m n by (auto simp: alerts_filters_def)
  have g: "offers (snooze_ok p) (alerts_pager s n)" for n by (auto simp: alerts_pager_def)
  let ?rows = "paged (al_page s) (filtered_alerts (al_severityFilter s) (nullish (qdata (ap_q p)) []))"
  have t: "offers (snooze_ok p) (alerts_table p ?rows)"
    using set_paged offers_alert_row by (fastforce simp: alerts_table_def)
  show ?thesis using f g t by (auto simp: alerts_view_def Let_def)
qed

lemma sample_row_click: "fires (alerts_view (sample_alerts_props [sample_alert]) (alerts_mount None ''t1'')) [] [RowSnooze ''a1'' (SnPick 60)]"
  by code_simp

text \<open>C15: a user action that reaches the snooze control of a row does nothing else (in particular it does
  not open the alert, although the whole row is clickable); it is possible only with the permission to operate, on an
  active alert of the list. Any such action but closing the menu is refused while the newest snooze, or the newest
  cancellation of one, is in flight and is for that alert; an older one still in flight is not looked at.\<close>

theorem snooze_click_guarded:
  assumes "fires (alerts_view p s) x es" and "RowSnooze i e \<in> set es"
  shows "es = [RowSnooze i e] \<and> ap_canOperate p
    \<and> (e \<noteq> SnClose \<longrightarrow> \<not> (isPending (ap_snoozeMut p) \<and> map_option fst (variables (ap_snoozeMut p)) = Some i)
         \<and> \<not> (isPending (ap_unsnoozeMut p) \<and> variables (ap_unsnoozeMut p) = Some i))
    \<and> (\<exists>a \<in> set (nullish (qdata (ap_q p)) []). ra_alert_id a = i \<and> ra_lifecycle_state a = ''active'')"
proof -
  have "length es \<le> 1" using fires_solo [OF assms(1) solo_alerts_view] .
  then have "es = [RowSnooze i e]" using assms(2) by (cases es) auto
  moreover have "snooze_ok p (RowSnooze i e)"
    using fires_offers [OF assms(1) offers_alerts_view] assms(2) by (simp add: list_all_iff)
  ultimately show ?thesis by (auto simp: snooze_ok_def row_busy_def)
qed

theorem snooze_click_guarded_witness:
  "ap_canOperate (sample_alerts_props [sample_alert])
    \<and> \<not> (isPending (ap_snoozeMut (sample_alerts_props [sample_alert]))
         \<and> map_option fst (variables (ap_snoozeMut (sample_alerts_props [sample_alert]))) = Some ''a1'')"
  using snooze_click_guarded [OF sample_row_click, of "''a1''" "SnPick 60"] by simp

text \<open>A mutation tells of its newest call only: once another alert is snoozed, the row of the first is enabled again although its
  own request may still be in flight.\<close>

lemma earlier_snooze_unguarded:
  assumes "variables (ap_snoozeMut p) = Some (j, m)" "j \<noteq> i" "\<not> isPending (ap_unsnoozeMut p)"
  shows "\<not> row_busy p i"
  using assms by (simp add: row_busy_def)

section \<open>The page: properties\<close>

definition alerts_init :: "string \<Rightarrow> alerts \<Rightarrow> bool" where
  "alerts_init tid s \<longleftrightarrow> s = alerts_mount (al_store s) tid"

definition alerts_net :: "alerts_event \<Rightarrow> bool" where
  "alerts_net e \<longleftrightarrow> (case e of AutoOpen _ \<Rightarrow> True | SnoozeSuccess \<Rightarrow> True | UnsnoozeSuccess \<Rightarrow> True | _ \<Rightarrow> False)"

definition alerts_allowed :: "alerts_event \<Rightarrow> bool" where
  "alerts_allowed e \<longleftrightarrow> (case e of
      RowSnooze i (SnPick m) \<Rightarrow> m \<in> set (map snd SNOOZE_OPTIONS)
    | SetFilter v \<Rightarrow> v = ''active'' \<or> v = ''all''
    | _ \<Rightarrow> True)"

definition filter_saved :: "string \<Rightarrow> alerts \<Rightarrow> bool" where
  "filter_saved tid s \<longleftrightarrow> al_filter s \<in> {''active'', ''all''}
     \<and> (al_store s \<noteq> None \<longrightarrow> loadAlertFilter (al_store s) tid = al_filter s)"

definition snooze_request :: "effect \<Rightarrow> bool" where
  "snooze_request f \<longleftrightarrow> (\<not> is_request f \<or> (\<exists>i. f = snooze_effect i OnUnsnooze)
     \<or> (\<exists>i. \<exists>m \<in> set (map snd SNOOZE_OPTIONS). f = snooze_effect i (OnSnooze m)))"

interpretation alf: persisted "filter_key tid" "\<lambda>st. loadAlertFilter st tid" id "\<lambda>v. v \<in> {''active'', ''all''}" for tid
  by unfold_locales (auto simp: loadAlertFilter_def)

interpretation al: component "alerts_init tid" alerts_view "alerts_handle tid" alerts_net
  "\<lambda>s. alerts_allowed" "filter_saved tid" snooze_request for tid
proof unfold_locales
  show "alerts_init tid s \<Longrightarrow> filter_saved tid s" for s
    by (cases s) (auto simp: alerts_init_def alerts_mount_def filter_saved_def loadAlertFilter_def)
  show "solo (alerts_view p s)" for p s by (rule solo_alerts_view)
  show "offers alerts_allowed (alerts_view p s)" for p s
    by (rule offers_mono [OF offers_alerts_view])
      (auto simp: snooze_ok_def alerts_allowed_def split: alerts_event.splits snooze_event.splits)
  show "alerts_net e \<Longrightarrow> alerts_allowed e" for e
    by (cases e) (auto simp: alerts_net_def alerts_allowed_def)
  show "filter_saved tid s \<Longrightarrow> alerts_allowed e \<Longrightarrow> filter_saved tid (fst (alerts_handle tid s e))" for s e
    using alf.load_saved [of _ "al_store s" tid] by (cases e) (auto simp: filter_saved_def alerts_allowed_def)
  show "alerts_allowed e \<Longrightarrow> list_all snooze_request (snd (alerts_handle tid s e))" for s e
  proof (cases e)
    case (RowSnooze i e')
    then show "alerts_allowed e \<Longrightarrow> ?thesis" by (cases e') (auto simp: alerts_allowed_def snooze_request_def)
  qed (auto simp: snooze_request_def)
qed

lemma sample_filter_reach: "reach (alerts_init ''t1'') alerts_view (alerts_handle ''t1'') alerts_net
  (fst (alerts_handle ''t1'' (alerts_mount (Some [filter_key ''t1'' \<mapsto> ''all'']) ''t1'') (AutoOpen ''a1''))) []"
proof -
  let ?m = "alerts_mount (Some [filter_key ''t1'' \<mapsto> ''all'']) ''t1''"
  have "reach (alerts_init ''t1'') alerts_view (alerts_handle ''t1'') alerts_net ?m []"
    by (rule reach.mount) (simp add: alerts_init_def alerts_mount_def)
  from reach.settle [OF this, of "AutoOpen ''a1''"] show ?thesis by (simp add: alerts_net_def)
qed

text \<open>C16: in every reachable state of the page the filter on the screen is the one a reload would
  restore from \<open>localStorage\<close>, and every request the page has made is an unsnooze or a snooze for
  one of the five offered durations.\<close>

theorem alerts_session:
  assumes "reach (alerts_init tid) alerts_view (alerts_handle tid) alerts_net s log"
  shows "(al_store s \<noteq> None \<longrightarrow> al_filter (alerts_mount (al_store s) tid) = al_filter s) \<and> list_all snooze_request log"
  using al.reach_inv [OF assms] by (auto simp: filter_saved_def alerts_mount_def)

theorem alerts_session_witness:
  "al_filter (alerts_mount (Some [filter_key ''t1'' \<mapsto> ''all'']) ''t1'') = ''all''"
  using alerts_session [OF sample_filter_reach] by (simp add: alerts_mount_def loadAlertFilter_def ls_get_def)

interpretation al_viewer: read_only "alerts_init tid" "\<lambda>p. alerts_view (p\<lparr>ap_canOperate := False\<rparr>)" "alerts_handle tid" alerts_net
  "\<lambda>s e. \<forall>i e'. e \<noteq> RowSnooze i e'" "\<lambda>s. True" for tid
proof unfold_locales
  show "offers (\<lambda>e. \<forall>i e'. e \<noteq> RowSnooze i e') (alerts_view (p\<lparr>ap_canOperate := False\<rparr>) s)" for p s
    by (rule offers_mono [OF offers_alerts_view]) (auto simp: snooze_ok_def)
  show "\<forall>i e'. e \<noteq> RowSnooze i e' \<Longrightarrow> list_all (\<lambda>f. \<not> is_request f) (snd (alerts_handle tid s e))" for s e
    by (cases e) auto
qed (auto simp: solo_alerts_view alerts_net_def)

text \<open>The alert page of a user without the permission to operate never makes a request,
  whatever the user does.\<close>

lemma alerts_viewer_silent:
  "reach (alerts_init tid) (\<lambda>p. alerts_view (p\<lparr>ap_canOperate := False\<rparr>)) (alerts_handle tid) alerts_net s log
   \<Longrightarrow> \<not> list_ex is_request log"
  by (rule al_viewer.no_request)

theorem alerts_viewer_silent_witness:
  "reach (alerts_init ''t1'') (\<lambda>p. alerts_view (p\<lparr>ap_canOperate := False\<rparr>)) (alerts_handle ''t1'') alerts_net
     (alerts_mount None ''t1'') [] \<and> \<not> list_ex is_request ([] :: effect list)"
proof -
  have "reach (alerts_init ''t1'') (\<lambda>p. alerts_view (p\<lparr>ap_canOperate := False\<rparr>)) (alerts_handle ''t1'') alerts_net
     (alerts_mount None ''t1'') []" by (rule reach.mount) (simp add: alerts_init_def alerts_mount_def)
  then show ?thesis using alerts_viewer_silent by blast
qed

lemma run_keeps_opened:
  "list_all (\<lambda>e. \<forall>i. e \<noteq> AutoOpen i) es \<Longrightarrow> al_autoOpenedFor (fst (run (alerts_handle tid) s es)) = al_autoOpenedFor s"
proof (induction es arbitrary: s)
  case (Cons e es)
  then have "al_autoOpenedFor (fst (alerts_handle tid s e)) = al_autoOpenedFor s" by (cases e) auto
  with Cons show ?case by (simp add: split_def Let_def)
qed simp

text \<open>A highlighted alert is opened by itself once: the effect selects it, and whatever the user does
  next (going back to the list included) no later render opens it again.\<close>

lemma auto_open_once:
  assumes "auto_open hl False (al_autoOpenedFor s) = [e]" and "list_all (\<lambda>e. \<forall>i. e \<noteq> AutoOpen i) es"
  shows "al_selectedId (fst (alerts_handle tid s e)) = hl
    \<and> auto_open hl loading (al_autoOpenedFor (fst (run (alerts_handle tid) s (e # es)))) = []"
proof -
  have "truthy hl" "e = AutoOpen (nullish hl [])" using assms(1) by (auto simp: auto_open_def split: if_splits)
  then show ?thesis using run_keeps_opened [OF assms(2)] by (cases hl) (auto simp: auto_open_def split_def Let_def)
qed

theorem auto_open_once_witness:
  "auto_open (Some ''a1'') False (al_autoOpenedFor (fst (run (alerts_handle ''t1'') (alerts_mount None ''t1'')
     [AutoOpen ''a1'', AlertsBack]))) = []"
  using auto_open_once [of "Some ''a1''" "alerts_mount None ''t1''" "AutoOpen ''a1''" "[AlertsBack]" "''t1''" False]
  by (simp add: auto_open_def alerts_mount_def)

end
