(* ===== verification/AlertDetail.thy ===== *)
theory AlertDetail
  imports Alerts
begin

text \<open>
  The alert detail, \<open>pages/AlertDetail.tsx\<close>: acknowledgement, ticket and operator note requests,
  the transition list and the related knowledge-base articles; and the shape of the answer it
  reads, from \<open>get_alert\<close> of \<open>api/routers/alerting.py\<close>.
\<close>

section \<open>Data\<close>

record alert_full =
  af_alert_id :: string
  af_lifecycle_state :: string
  af_source_kind :: string
  af_monitoring_source_id :: string
  af_monitoring_resource_id :: string
  af_evidence :: json
  af_opened_at :: string
  af_resolved_at :: "string option"
  af_policy_id :: string
  af_policy_version :: nat
  af_acknowledged_at :: "string option"
  af_acknowledged_by :: "string option"
  af_name :: "string option"
  af_problem_name :: "string option"

record transition =
  tr_id :: string
  tr_from :: string
  tr_to :: string
  tr_source_revision :: nat
  tr_occurred_at :: string

record kb_article =
  ka_article_id :: string
  ka_title :: string
  ka_status :: string
  ka_category_id :: "string option"
  ka_category_name :: "string option"
  ka_tags :: "string list"

definition detail_sevVariant :: "string option \<Rightarrow> string" where
  "detail_sevVariant cls =
     (if cls = Some ''critical'' then ''danger''
      else if cls = Some ''degraded'' \<or> cls = Some ''warning'' then ''warning''
      else if cls = Some ''informational'' then ''info''
      else ''muted'')"

definition detail_fmtTs :: "host \<Rightarrow> string option \<Rightarrow> string" where
  "detail_fmtTs h ts = (if truthy ts then locale_ts h (nullish ts []) else ''--'')"

definition KV :: "string \<Rightarrow> string \<Rightarrow> 'e vnode" where
  "KV label v = el ''div'' [el ''dt'' [Txt label], el ''dd'' [Txt v]]"

section \<open>State, props, events\<close>

record detail =
  dt_noteText :: string
  dt_kbOpen :: bool

definition detail_mount :: detail where
  "detail_mount = \<lparr>dt_noteText = [], dt_kbOpen = False\<rparr>"

record detail_props =
  dp_host :: host
  dp_canOperate :: bool
  dp_q :: "(alert_full \<times> transition list) query"
  dp_kbQuery :: "kb_article list query"
  dp_ackPending :: bool
  dp_itsmPending :: bool
  dp_notePending :: bool

datatype detail_event =
    DetailBack | AckClick | AckSuccess | AckError
  | TicketClick string string | TicketSuccess | TicketError
  | NoteChange string | NoteClick string string | NoteSuccess | NoteError
  | ToggleKb | OpenArticle string

definition change_body :: "string \<Rightarrow> string \<Rightarrow> string \<Rightarrow> json" where
  "change_body title descr risk = jobj
     [(''title'', Some (JStr title)), (''description'', Some (JStr descr)),
      (''category'', Some (JStr ''normal'')), (''risk'', Some (JStr risk))]"

fun detail_handle :: "string \<Rightarrow> detail \<Rightarrow> detail_event \<Rightarrow> detail \<times> effect list" where
  "detail_handle alertId s DetailBack = (s, [Callback ''onBack'' []])"
| "detail_handle alertId s AckClick =
     (s, [Request ''POST'' (''/api/v1/alerting/alerts/'' @ alertId @ ''/acknowledge'') (Some (jobj []))])"
| "detail_handle alertId s AckSuccess =
     (s, [Toast ''Alerta reconhecido'' ''success'', Invalidate [''alert'', alertId], Invalidate [''alerts'']])"
| "detail_handle alertId s AckError = (s, [Toast ''Erro ao reconhecer alerta'' ''error''])"
| "detail_handle alertId s (TicketClick t d) =
     (s, [Request ''POST'' ''/api/v1/itsm/changes'' (Some (change_body t d ''medium''))])"
| "detail_handle alertId s TicketSuccess = (s, [Toast ''Ticket ITSM criado'' ''success'', Invalidate [''itsm-changes'']])"
| "detail_handle alertId s TicketError = (s, [Toast ''Erro ao criar ticket'' ''error''])"
| "detail_handle alertId s (NoteChange x) = (s\<lparr>dt_noteText := x\<rparr>, [])"
| "detail_handle alertId s (NoteClick t d) =
     (s, [Request ''POST'' ''/api/v1/itsm/changes'' (Some (change_body t d ''low''))])"
| "detail_handle alertId s NoteSuccess = (s\<lparr>dt_noteText := []\<rparr>, [Toast ''Nota registrada'' ''success''])"
| "detail_handle alertId s NoteError = (s, [Toast ''Erro ao salvar nota'' ''error''])"
| "detail_handle alertId s ToggleKb = (s\<lparr>dt_kbOpen := \<not> dt_kbOpen s\<rparr>, [])"
| "detail_handle alertId s (OpenArticle i) = (s, [Navigate (''/kb?article='' @ i)])"

definition detail_path :: "string \<Rightarrow> string" where
  "detail_path alertId = ''/api/v1/alerting/alerts/'' @ alertId"

text \<open>The three evidence fields the page reads are strings, as the code casts them to be; a value of
  another type is read as absent.\<close>

definition search_term :: "alert_full option \<Rightarrow> string" where
  "search_term a = (case a of None \<Rightarrow> []
     | Some x \<Rightarrow> nullish (ostr_or (jstr_field (af_evidence x) ''name'')
         (ostr_or (jstr_field (af_evidence x) ''problem_name'') (Some (af_monitoring_resource_id x)))) [])"

definition kb_search_path :: "string \<Rightarrow> string" where
  "kb_search_path term = ''/api/v1/kb/articles?q='' @ encodeURIComponent term @ ''&status=published''"

definition kb_search_enabled :: "detail_props \<Rightarrow> bool" where
  "kb_search_enabled p \<longleftrightarrow> \<not> isLoading (dp_q p) \<and> \<not> isError (dp_q p)
     \<and> search_term (map_option fst (qdata (dp_q p))) \<noteq> []"

definition isAcknowledged :: "alert_full \<Rightarrow> bool" where
  "isAcknowledged a \<longleftrightarrow> truthy (af_acknowledged_at a) \<or> truthy (af_acknowledged_by a)"

definition alertLabel :: "alert_full \<Rightarrow> string" where
  "alertLabel a = nullish (ostr_or (af_name a) (ostr_or (af_problem_name a) (Some (af_alert_id a)))) []"

section \<open>Rendering\<close>

definition detail_header :: "detail_props \<Rightarrow> alert_full \<Rightarrow> detail_event vnode" where
  "detail_header p a =
     (let sevClass = jstr_field (af_evidence a) ''severity_class''
      in el ''div''
       ([button [OnClick DetailBack] [Txt ''<- Alerts''],
         el ''h2'' [Txt (af_alert_id a)],
         Badge (detail_sevVariant sevClass) [Txt (toUpperCase (nullish sevClass ''unknown''))]] @
        jif (isAcknowledged a) (Badge ''info'' [Txt ''Reconhecido'']) @
        jif (dp_canOperate p) (el ''div''
          (jif (\<not> isAcknowledged a)
             (Button ''secondary'' ''sm'' [Bo ''disabled'' (dp_ackPending p), OnClick AckClick]
               (jif (dp_ackPending p) Spinner @ [Txt ''Reconhecer alerta''])) @
           [Button ''secondary'' ''sm''
              [Bo ''disabled'' (dp_itsmPending p),
               OnClick (TicketClick (''Alerta: '' @ alertLabel a)
                 (nullish (ostr_or (af_problem_name a) (ostr_or (af_name a) (Some []))) []))]
              (jif (dp_itsmPending p) Spinner @ [Txt ''Abrir ticket ITSM''])]))))"

definition detail_facts :: "detail_props \<Rightarrow> alert_full \<Rightarrow> detail_event vnode" where
  "detail_facts p a =
     (let h = dp_host p
      in el ''div''
       [Card [CardHeader [el ''span'' [Txt ''Details'']],
          el ''dl''
           ([KV ''State'' (af_lifecycle_state a),
             KV ''Source kind'' (af_source_kind a),
             KV ''Policy'' (af_policy_id a @ '' v'' @ str_nat (af_policy_version a)),
             KV ''Monitoring source'' (af_monitoring_source_id a),
             KV ''Resource'' (af_monitoring_resource_id a),
             KV ''Opened'' (detail_fmtTs h (Some (af_opened_at a))),
             KV ''Resolved'' (if truthy (af_resolved_at a) then detail_fmtTs h (af_resolved_at a) else ''--'')] @
            jif (truthy (af_acknowledged_at a)) (KV ''Reconhecido em'' (detail_fmtTs h (af_acknowledged_at a))) @
            jif (truthy (af_acknowledged_by a)) (KV ''Reconhecido por'' (nullish (af_acknowledged_by a) [])))],
        Card [CardHeader [el ''span'' [Txt ''Evidence summary'']],
          el ''pre'' [Txt (json_pretty h (af_evidence a))]]])"

definition detail_transitions :: "detail_props \<Rightarrow> transition list \<Rightarrow> detail_event vnode" where
  "detail_transitions p ts =
     Card [CardHeader [el ''span'' [Txt ''Lifecycle transitions'']],
       el ''ul'' (map (\<lambda>t. El ''li'' [At ''key'' (tr_id t)]
         [el ''span'' [Txt (str_or (tr_from t) ''--'')], Txt '' -> '', el ''span'' [Txt (tr_to t)],
          el ''span'' [Txt (detail_fmtTs (dp_host p) (Some (tr_occurred_at t)))]]) ts)]"

definition detail_notes :: "detail_props \<Rightarrow> detail \<Rightarrow> alert_full \<Rightarrow> detail_event vnode" where
  "detail_notes p s a =
     Card [CardHeader [el ''span'' [Txt ''Notas do operador'']],
       el ''div''
        [El ''textarea'' [At ''value'' (dt_noteText s), OnChange NoteChange,
           At ''placeholder'' ''Registre o que foi verificado, acoes tomadas, contexto relevante...''] [],
         el ''div''
          [Button ''secondary'' ''sm''
             [Bo ''disabled'' (trim (dt_noteText s) = [] \<or> dp_notePending p),
              OnClick (NoteClick (''Nota de alerta: '' @ af_alert_id a) (trim (dt_noteText s)))]
             (jif (dp_notePending p) Spinner @ [Txt ''Salvar nota''])]]]"

definition detail_kb :: "detail_props \<Rightarrow> detail \<Rightarrow> detail_event vnode" where
  "detail_kb p s =
     (let articles = slice 0 5 (nullish (qdata (dp_kbQuery p)) [])
      in Card
       ([CardHeader
          [button [OnClick ToggleKb]
            [el (if dt_kbOpen s then ''ChevronDown'' else ''ChevronRight'') [], el ''BookOpen'' [],
             el ''span'' (Txt ''Artigos relacionados na KB'' #
               jif (isSuccess (dp_kbQuery p)) (Txt ('' ('' @ str_nat (length articles) @ '')'')))]]] @
        jif (dt_kbOpen s)
          (if isLoading (dp_kbQuery p) then el ''div'' [Spinner]
           else if articles = [] then el ''p'' [Txt ''Nenhum artigo encontrado para este alerta.'']
           else el ''ul'' (map (\<lambda>ar. El ''li'' [At ''key'' (ka_article_id ar)]
             [El ''a'' [At ''href'' (''/kb?article='' @ ka_article_id ar), OnClick (OpenArticle (ka_article_id ar))]
               (el ''span'' [Txt (ka_title ar)] #
                jif (truthy (ka_category_name ar)) (Badge ''muted'' [Txt (nullish (ka_category_name ar) [])]))])
             articles))))"

definition detail_view :: "detail_props \<Rightarrow> detail \<Rightarrow> detail_event vnode" where
  "detail_view p s =
     (if isLoading (dp_q p) then el ''div'' [Spinner]
      else (case (isError (dp_q p), qdata (dp_q p)) of
         (False, Some (a, ts)) \<Rightarrow> el ''div''
            ([detail_header p a, detail_facts p a] @
             jif (ts \<noteq> []) (detail_transitions p ts) @
             [detail_notes p s a, detail_kb p s])
       | _ \<Rightarrow> el ''div'' [Button ''ghost'' ''sm'' [OnClick DetailBack] [Txt ''<- Back''],
                el ''p'' [Txt ''Failed to load alert.'']]))"

section \<open>The answer the page reads\<close>

text \<open>\<open>get_alert\<close>: the selected columns of the row, and three fields flattened from the evidence. The
  rows are given by the column values; the client reads its optional fields from the answer.\<close>

definition alert_columns :: "string list" where
  "alert_columns = [''alert_id'', ''policy_id'', ''policy_version'', ''source_kind'', ''source_subject_id'',
     ''monitoring_source_id'', ''monitoring_resource_id'', ''lifecycle_state'', ''source_occurrence_revision'',
     ''current_source_revision'', ''source_evidence_summary'', ''opened_at'', ''resolved_at'']"

definition get_alert_answer :: "(string \<Rightarrow> json) \<Rightarrow> json" where
  "get_alert_answer row =
     (let evd = row ''source_evidence_summary'';
          fld = (\<lambda>k. nullish (jfield evd k) JNull);
          ack_by = fld ''acknowledged_by''
      in JObj (map (\<lambda>c. (c, row c)) alert_columns @
        [(''description'', fld ''description''),
         (''problem_event_ids'', fld ''problem_event_ids''),
         (''ack_history'', if ack_by \<noteq> JNull \<and> ack_by \<noteq> JStr []
            then JArr [JObj [(''acknowledged_by'', ack_by), (''acknowledged_at'', fld ''acknowledged_at''),
                             (''reason'', fld ''acknowledge_reason'')]]
            else JArr [])]))"

definition alert_of_json :: "json \<Rightarrow> alert_full" where
  "alert_of_json j =
     (let str = (\<lambda>k. nullish (jstr_field j k) [])
      in \<lparr>af_alert_id = str ''alert_id'', af_lifecycle_state = str ''lifecycle_state'', af_source_kind = str ''source_kind'',
          af_monitoring_source_id = str ''monitoring_source_id'', af_monitoring_resource_id = str ''monitoring_resource_id'',
          af_evidence = nullish (jfield j ''source_evidence_summary'') JNull, af_opened_at = str ''opened_at'',
          af_resolved_at = jstr_field j ''resolved_at'', af_policy_id = str ''policy_id'',
          af_policy_version = (case jfield j ''policy_version'' of Some (JNum (JInt n)) \<Rightarrow> nat n | _ \<Rightarrow> 0),
          af_acknowledged_at = jstr_field j ''acknowledged_at'', af_acknowledged_by = jstr_field j ''acknowledged_by'',
          af_name = jstr_field j ''name'', af_problem_name = jstr_field j ''problem_name''\<rparr>)"

section \<open>Properties\<close>

text \<open>Values to evaluate the page on: a row of the database and the page showing the API's answer.\<close>

definition sample_row :: "string \<Rightarrow> json" where
  "sample_row c = (if c = ''source_evidence_summary'' then JObj [(''acknowledged_by'', JStr ''ana''), (''acknowledged_at'', JStr ''0'')]
     else JStr c)"

definition sample_detail_props :: "bool \<Rightarrow> detail_props" where
  "sample_detail_props operate = \<lparr>dp_host = sample_host, dp_canOperate = operate,
     dp_q = loaded (alert_of_json (get_alert_answer sample_row), []), dp_kbQuery = loaded [],
     dp_ackPending = False, dp_itsmPending = False, dp_notePending = False\<rparr>"

lemma unacknowledged: "\<not> isAcknowledged (alert_of_json (get_alert_answer row))"
proof -
  have "jfield (get_alert_answer row) ''acknowledged_at'' = None" "jfield (get_alert_answer row) ''acknowledged_by'' = None"
    by (simp_all add: get_alert_answer_def alert_columns_def Let_def)
  then show ?thesis by (simp add: isAcknowledged_def alert_of_json_def jstr_field_def Let_def)
qed

text \<open>The acknowledge button never goes away: for every database row, acknowledged or not, the page
  showing the API's answer offers an operator the acknowledgement, since the answer carries the
  acknowledgement only inside the evidence and the history, not in the fields the page reads.\<close>

lemma ack_button_never_leaves:
  assumes "qdata (dp_q p) = Some (alert_of_json (get_alert_answer row), ts)" "\<not> isLoading (dp_q p)" "\<not> isError (dp_q p)"
    and "dp_canOperate p" "\<not> dp_ackPending p"
  shows "fires (detail_view p s) x [AckClick]"
proof -
  let ?a = "alert_of_json (get_alert_answer row)"
  let ?b = "Button ''secondary'' ''sm'' [Bo ''disabled'' (dp_ackPending p), OnClick AckClick]
      (jif (dp_ackPending p) Spinner @ [Txt ''Reconhecer alerta''])"
  have b: "can_click ?b [AckClick]"
    using can_click_Button [of "[Bo ''disabled'' (dp_ackPending p), OnClick AckClick]"] assms(5) by simp
  have "can_click (detail_header p ?a) [AckClick]"
    using assms(4) unacknowledged b by (auto simp: detail_header_def Let_def can_click_El)
  then have "can_click (detail_view p s) [AckClick]"
    using assms by (auto simp: detail_view_def can_click_El)
  then show ?thesis by (rule can_click_fires)
qed

theorem ack_button_never_leaves_witness:
  "fires (detail_view (sample_detail_props True) detail_mount) [] [AckClick]"
  by (rule ack_button_never_leaves [where row = sample_row and ts = "[]"]) (simp_all add: sample_detail_props_def loaded_def)

text \<open>The note field is not guarded by the permission to operate: a viewer with a non-blank note can
  post it, which creates an ITSM change whose description is the trimmed note.\<close>

lemma viewer_can_post_note:
  assumes "qdata (dp_q p) = Some (a, ts)" "\<not> isLoading (dp_q p)" "\<not> isError (dp_q p)"
    and "\<not> dp_canOperate p" "\<not> dp_notePending p" "trim (dt_noteText s) \<noteq> []"
  shows "\<exists>e. fires (detail_view p s) x [e] \<and> snd (detail_handle aid s e) =
    [Request ''POST'' ''/api/v1/itsm/changes'' (Some (change_body (''Nota de alerta: '' @ af_alert_id a) (trim (dt_noteText s)) ''low''))]"
proof -
  let ?e = "NoteClick (''Nota de alerta: '' @ af_alert_id a) (trim (dt_noteText s))"
  have b: "can_click (Button ''secondary'' ''sm'' [Bo ''disabled'' (trim (dt_noteText s) = [] \<or> dp_notePending p), OnClick ?e]
     (jif (dp_notePending p) Spinner @ [Txt ''Salvar nota''])) [?e]"
    using can_click_Button [of "[Bo ''disabled'' (trim (dt_noteText s) = [] \<or> dp_notePending p), OnClick ?e]"] assms(5,6) by simp
  have "can_click (detail_notes p s a) [?e]"
    using b by (auto simp: detail_notes_def Card_def can_click_El)
  then have "can_click (detail_view p s) [?e]"
    using assms by (auto simp: detail_view_def can_click_El)
  then have "fires (detail_view p s) x [?e]" by (rule can_click_fires)
  then show ?thesis by (intro exI [of _ ?e]) simp
qed

theorem viewer_can_post_note_witness:
  "\<exists>e. fires (detail_view (sample_detail_props False) \<lparr>dt_noteText = '' ok '', dt_kbOpen = False\<rparr>) [] [e]
     \<and> snd (detail_handle ''a1'' \<lparr>dt_noteText = '' ok '', dt_kbOpen = False\<rparr> e) =
    [Request ''POST'' ''/api/v1/itsm/changes'' (Some (change_body (''Nota de alerta: '' @ ''alert_id'')
       (trim (dt_noteText \<lparr>dt_noteText = '' ok '', dt_kbOpen = False\<rparr>)) ''low''))]"
proof -
  have "af_alert_id (alert_of_json (get_alert_answer sample_row)) = ''alert_id''" by code_simp
  moreover have "trim '' ok '' \<noteq> []" by code_simp
  ultimately show ?thesis
    using viewer_can_post_note [of "sample_detail_props False" "alert_of_json (get_alert_answer sample_row)" "[]"
      "\<lparr>dt_noteText = '' ok '', dt_kbOpen = False\<rparr>" "[]" "''a1''"]
    by (simp add: sample_detail_props_def loaded_def)
qed

text \<open>What the detail page may do in a state.\<close>

definition detail_allowed :: "bool \<Rightarrow> detail \<Rightarrow> detail_event \<Rightarrow> bool" where
  "detail_allowed operate s e \<longleftrightarrow> (case e of
      NoteClick t d \<Rightarrow> d = trim (dt_noteText s) \<and> d \<noteq> []
    | AckClick \<Rightarrow> operate
    | TicketClick _ _ \<Rightarrow> operate
    | _ \<Rightarrow> True)"

definition detail_request :: "bool \<Rightarrow> string \<Rightarrow> effect \<Rightarrow> bool" where
  "detail_request operate aid f \<longleftrightarrow> \<not> is_request f
     \<or> operate \<and> f = Request ''POST'' (''/api/v1/alerting/alerts/'' @ aid @ ''/acknowledge'') (Some (jobj []))
     \<or> operate \<and> (\<exists>t d. f = Request ''POST'' ''/api/v1/itsm/changes'' (Some (change_body t d ''medium'')))
     \<or> (\<exists>t d. f = Request ''POST'' ''/api/v1/itsm/changes'' (Some (change_body t d ''low'')) \<and> trim d = d \<and> d \<noteq> [])"

definition detail_net :: "detail_event \<Rightarrow> bool" where
  "detail_net e \<longleftrightarrow> e \<in> set [AckSuccess, AckError, TicketSuccess, TicketError, NoteSuccess, NoteError]"

lemma detail_view_laws: "solo (detail_view p s)" "offers (detail_allowed (dp_canOperate p) s) (detail_view p s)"
proof -
  have parts: "solo (detail_header p a)" "solo (detail_facts p a)" "solo (detail_transitions p ts)"
    "solo (detail_notes p s a)" "solo (detail_kb p s)" for a ts
    by (auto simp: detail_header_def detail_facts_def detail_transitions_def detail_notes_def detail_kb_def KV_def Let_def)
  then show "solo (detail_view p s)" by (auto simp: detail_view_def split: option.splits bool.splits)
  let ?P = "detail_allowed (dp_canOperate p) s"
  have simps: "?P DetailBack" "?P (NoteChange y)" "?P ToggleKb" "?P (OpenArticle y)" for y
    by (simp_all add: detail_allowed_def)
  have "offers ?P (detail_header p a)" "offers ?P (detail_facts p a)" "offers ?P (detail_transitions p ts)"
    "offers ?P (detail_notes p s a)" "offers ?P (detail_kb p s)" for a ts
    using simps by (auto simp: detail_header_def detail_facts_def detail_transitions_def detail_notes_def detail_kb_def KV_def Let_def
        detail_allowed_def)
  then show "offers ?P (detail_view p s)" using simps by (auto simp: detail_view_def split: option.splits bool.splits)
qed

interpretation dt: component "\<lambda>s. s = detail_mount" "\<lambda>p. detail_view (p\<lparr>dp_canOperate := operate\<rparr>)" "detail_handle aid" detail_net
  "detail_allowed operate" "\<lambda>s. True" "detail_request operate aid" for operate aid
proof unfold_locales
  show "offers (detail_allowed operate s) (detail_view (p\<lparr>dp_canOperate := operate\<rparr>) s)" for p s
    using detail_view_laws(2) [of "p\<lparr>dp_canOperate := operate\<rparr>" s] by simp
  show "detail_net e \<Longrightarrow> detail_allowed operate s e" for s e
    by (auto simp: detail_net_def detail_allowed_def)
  show "detail_allowed operate s e \<Longrightarrow> list_all (detail_request operate aid) (snd (detail_handle aid s e))" for s e
    by (cases e) (auto simp: detail_allowed_def detail_request_def)
qed (simp_all add: detail_view_laws)

text \<open>C12: every request the detail page ever makes is the acknowledgement of its own alert or a ticket --
  both only with the permission to operate -- or a note, and a note is never blank and never has
  surrounding white space.\<close>

theorem detail_requests:
  "reach (\<lambda>s. s = detail_mount) (\<lambda>p. detail_view (p\<lparr>dp_canOperate := operate\<rparr>)) (detail_handle aid) detail_net s log \<Longrightarrow>
   list_all (detail_request operate aid) log"
  using dt.reach_inv by blast

theorem detail_requests_witness:
  "list_all (detail_request True ''a1'') (snd (detail_handle ''a1'' detail_mount AckClick))"
proof -
  have c: "can_click (detail_view (sample_detail_props True) detail_mount) [AckClick]" by code_simp
  have p: "(sample_detail_props True)\<lparr>dp_canOperate := True\<rparr> = sample_detail_props True" by (simp add: sample_detail_props_def)
  have "reach (\<lambda>s. s = detail_mount) (\<lambda>p. detail_view (p\<lparr>dp_canOperate := True\<rparr>)) (detail_handle ''a1'') detail_net detail_mount []"
    by (rule reach.mount) simp
  from reach.act [OF this, of "sample_detail_props True" "[]" "[AckClick]"] can_click_fires [OF c]
  have "reach (\<lambda>s. s = detail_mount) (\<lambda>p. detail_view (p\<lparr>dp_canOperate := True\<rparr>)) (detail_handle ''a1'') detail_net detail_mount
      (snd (detail_handle ''a1'' detail_mount AckClick))"
    by (simp add: p)
  then show ?thesis by (rule detail_requests)
qed

text \<open>The search of the knowledge base sends exactly the alert's search term: the query parameter,
  read up to the next separator and decoded, is the term, whatever characters it has.\<close>

lemma kb_query_roundtrip:
  "decodeURIComponent (takeWhile (\<lambda>c. c \<noteq> CHR ''&'') (drop (length ''/api/v1/kb/articles?q='') (kb_search_path q))) = Some q"
  using uri_param(2) [of q "''status=published''"] by (simp add: kb_search_path_def)

end
