(* ===== verification/Policies.thy ===== *)
theory Policies
  imports AlertDetail
begin

text \<open>
  The alert policies, \<open>pages/AlertPoliciesPage.tsx\<close>: the policy form, the grouping of the version
  list by policy, activation, deletion behind a confirmation, and the history toggle.
\<close>

section \<open>Data\<close>

record policy_version =
  pv_policy_id :: string
  pv_policy_version :: nat
  pv_source_kind :: string
  pv_problem_min_severity :: "string option"
  pv_health_classes :: "string list option"
  pv_monitoring_source_id :: "string option"
  pv_monitoring_resource_id :: "string option"
  pv_superseded :: bool
  pv_effective_enabled :: bool
  pv_is_effective :: bool
  pv_created_at :: string
  pv_escalation_policy_id :: "string option"

record mon_source =
  ms_source_id :: string
  ms_display_name :: string

definition SEVERITIES :: "string list" where
  "SEVERITIES = [''informational'', ''warning'', ''degraded'', ''critical'']"

definition HEALTH_CLASSES :: "string list" where
  "HEALTH_CLASSES = [''unknown'', ''healthy'', ''degraded'', ''unhealthy'']"

definition severityVariant :: "string \<Rightarrow> string" where
  "severityVariant s =
     (if s = ''critical'' then ''danger''
      else if s = ''degraded'' then ''warning''
      else if s = ''warning'' then ''warning''
      else ''muted'')"

definition group_push :: "(string \<times> policy_version list) list \<Rightarrow> policy_version \<Rightarrow> (string \<times> policy_version list) list" where
  "group_push m v =
     (let k = pv_policy_id v;
          m1 = (if map_of m k = None then AList.update k [] m else m)
      in AList.update k (nullish (map_of m1 k) [] @ [v]) m1)"

definition groupPolicies :: "policy_version list \<Rightarrow> (string \<times> policy_version list) list" where
  "groupPolicies versions = foldl group_push [] versions"

definition conditionLabel :: "policy_version \<Rightarrow> string" where
  "conditionLabel v =
     (if pv_source_kind v = ''monitoring_problem''
      then ''severity >= '' @ nullish (pv_problem_min_severity v) ''?''
      else ''health in ['' @ join '', '' (nullish (pv_health_classes v) []) @ '']'')"

section \<open>The policy form\<close>

text \<open>\<open>source_kind\<close> is optional at run time: the initial data of a new version spreads the kind of the
  effective version over the empty form, and that is \<open>undefined\<close> when there is none.\<close>

record policy_form =
  pf_policy_id :: string
  pf_source_kind :: "string option"
  pf_problem_min_severity :: string
  pf_health_classes :: "string list"
  pf_monitoring_source_id :: string

definition EMPTY_FORM :: policy_form where
  "EMPTY_FORM = \<lparr>pf_policy_id = [], pf_source_kind = Some ''monitoring_problem'', pf_problem_min_severity = ''warning'',
     pf_health_classes = [''degraded'', ''unhealthy''], pf_monitoring_source_id = []\<rparr>"

text \<open>The \<open>initial\<close> prop: absent, or a policy id with the effective kind.\<close>

type_synonym form_initial = "(string \<times> string option) option"

record form_state =
  fs_form :: policy_form
  fs_error :: "string option"

definition form_mount :: "form_initial \<Rightarrow> form_state" where
  "form_mount initial = \<lparr>fs_form = (case initial of None \<Rightarrow> EMPTY_FORM
      | Some (pid, kind) \<Rightarrow> EMPTY_FORM\<lparr>pf_policy_id := pid, pf_source_kind := kind\<rparr>), fs_error = None\<rparr>"

definition policy_body :: "policy_form \<Rightarrow> json" where
  "policy_body f = jobj
     ([(''policy_id'', Some (JStr (pf_policy_id f))),
       (''source_kind'', map_option JStr (pf_source_kind f)),
       (''make_effective'', Some (JBool True))] @
      (if pf_source_kind f = Some ''monitoring_problem''
       then [(''problem_min_severity'', Some (JStr (pf_problem_min_severity f)))]
       else [(''health_classes'', Some (jstrs (pf_health_classes f)))]) @
      (if pf_monitoring_source_id f \<noteq> [] then [(''monitoring_source_id'', Some (JStr (pf_monitoring_source_id f)))] else []))"

datatype form_event =
    PfId string | PfKind string | PfSeverity string | PfToggleHC string | PfSource string
  | PfSubmit | PfCancel | PfSuccess | PfError string

definition toggleHC :: "string \<Rightarrow> string list \<Rightarrow> string list" where
  "toggleHC hc cs = (if List.member cs hc then filter (\<lambda>c. c \<noteq> hc) cs else cs @ [hc])"

fun form_handle :: "form_state \<Rightarrow> form_event \<Rightarrow> form_state \<times> effect list" where
  "form_handle s (PfId x) = (s\<lparr>fs_form := (fs_form s)\<lparr>pf_policy_id := x\<rparr>\<rparr>, [])"
| "form_handle s (PfKind x) = (s\<lparr>fs_form := (fs_form s)\<lparr>pf_source_kind := Some x\<rparr>\<rparr>, [])"
| "form_handle s (PfSeverity x) = (s\<lparr>fs_form := (fs_form s)\<lparr>pf_problem_min_severity := x\<rparr>\<rparr>, [])"
| "form_handle s (PfToggleHC x) =
     (s\<lparr>fs_form := (fs_form s)\<lparr>pf_health_classes := toggleHC x (pf_health_classes (fs_form s))\<rparr>\<rparr>, [])"
| "form_handle s (PfSource x) = (s\<lparr>fs_form := (fs_form s)\<lparr>pf_monitoring_source_id := x\<rparr>\<rparr>, [])"
| "form_handle s PfSubmit = (s, [Request ''POST'' ''/api/v1/alerting/policies'' (Some (policy_body (fs_form s)))])"
| "form_handle s PfCancel = (s, [Callback ''onDone'' []])"
| "form_handle s PfSuccess =
     (s, [Toast ''Politica criada e ativada.'' ''success'', Invalidate [''alert-policies''], Callback ''onDone'' []])"
| "form_handle s (PfError m) =
     (s\<lparr>fs_error := Some m\<rparr>, [Toast (str_or m ''Erro ao criar politica.'') ''error''])"

record form_props =
  fp_initial :: form_initial
  fp_sources :: "mon_source list"
  fp_pending :: bool

definition form_condition_view :: "policy_form \<Rightarrow> form_event vnode" where
  "form_condition_view f =
     (if pf_source_kind f = Some ''monitoring_problem'' then
        el ''div'' [el ''label'' [Txt ''Min severity (inclusive)''],
          El ''select'' [At ''value'' (pf_problem_min_severity f), OnChange PfSeverity]
            (map (\<lambda>s. El ''option'' [At ''value'' s] [Txt s]) SEVERITIES)]
      else
        el ''div'' [el ''label'' [Txt ''Health classes (trigger on)''],
          el ''div'' (map (\<lambda>hc. el ''label''
            [El ''input'' [At ''type'' ''checkbox'', Bo ''checked'' (List.member (pf_health_classes f) hc), OnChange (\<lambda>_. PfToggleHC hc)] [],
             el ''span'' [Txt hc]]) HEALTH_CLASSES)])"

definition form_source_view :: "mon_source list \<Rightarrow> policy_form \<Rightarrow> form_event vnode" where
  "form_source_view sources f = el ''div''
     [el ''label'' [Txt ''Fonte de monitoramento (escopo opcional)''],
      if sources \<noteq> [] then
        El ''select'' [At ''value'' (pf_monitoring_source_id f), OnChange PfSource]
          (El ''option'' [At ''value'' []] [Txt ''Todas as fontes''] #
           map (\<lambda>s. El ''option'' [At ''value'' (ms_source_id s)]
             [Txt (ms_display_name s @ '' ('' @ ms_source_id s @ '')'')]) sources)
      else El ''input'' [At ''value'' (pf_monitoring_source_id f), OnChange PfSource] []]"

definition form_view :: "form_props \<Rightarrow> form_state \<Rightarrow> form_event vnode" where
  "form_view p s =
     (let f = fs_form s;
          fixed = (case fp_initial p of None \<Rightarrow> False | Some (pid, _) \<Rightarrow> pid \<noteq> [])
      in el ''div''
       ([el ''div''
          [el ''div'' [el ''label'' [Txt ''Policy ID''],
             El ''input'' [At ''value'' (pf_policy_id f), OnChange PfId, Bo ''readOnly'' fixed,
               At ''placeholder'' ''e.g. jl-prod-warn''] []],
           el ''div'' [el ''label'' [Txt ''Source kind''],
             El ''select'' ((case pf_source_kind f of None \<Rightarrow> [] | Some k \<Rightarrow> [At ''value'' k]) @ [OnChange PfKind])
               [El ''option'' [At ''value'' ''monitoring_problem''] [Txt ''monitoring_problem''],
                El ''option'' [At ''value'' ''monitoring_health_projection''] [Txt ''monitoring_health_projection'']]]],
         form_condition_view f,
         form_source_view (fp_sources p) f] @
        jif (truthy (fs_error s)) (el ''p'' [Txt (nullish (fs_error s) [])]) @
        [el ''div''
          [Button ''primary'' ''sm'' [OnClick PfSubmit, Bo ''disabled'' (pf_policy_id f = [] \<or> fp_pending p)]
             [if fp_pending p then Spinner else Txt ''Create & activate''],
           Button ''secondary'' ''sm'' [OnClick PfCancel] [Txt ''Cancel'']]]))"

section \<open>The page\<close>

record policies =
  ps_showForm :: bool
  ps_newVersionFor :: "string option"
  ps_expanded :: "string list"
  ps_deletingPolicyId :: "string option"

definition policies_mount :: policies where
  "policies_mount = \<lparr>ps_showForm = False, ps_newVersionFor = None, ps_expanded = [], ps_deletingPolicyId = None\<rparr>"

record policies_props =
  pp_canOperate :: bool
  pp_q :: "policy_version list query"
  pp_sourcesQ :: "mon_source list query"
  pp_togglePending :: bool
  pp_deletePending :: bool

datatype policies_event =
    NewPolicy | NewFormDone | NewVersion string | VersionFormDone | ToggleHistory string
  | ToggleEffective string nat bool | ToggleSuccess bool | ToggleError
  | AskDelete string | CancelDelete | ConfirmDelete string | DeleteSuccess | DeleteError

fun policies_handle :: "policies \<Rightarrow> policies_event \<Rightarrow> policies \<times> effect list" where
  "policies_handle s NewPolicy = (s\<lparr>ps_showForm := True, ps_newVersionFor := None\<rparr>, [])"
| "policies_handle s NewFormDone = (s\<lparr>ps_showForm := False\<rparr>, [])"
| "policies_handle s (NewVersion i) = (s\<lparr>ps_newVersionFor := Some i, ps_showForm := True\<rparr>, [])"
| "policies_handle s VersionFormDone = (s\<lparr>ps_showForm := False, ps_newVersionFor := None\<rparr>, [])"
| "policies_handle s (ToggleHistory i) = (s\<lparr>ps_expanded := set_toggle i (ps_expanded s)\<rparr>, [])"
| "policies_handle s (ToggleEffective i v en) =
     (s, [Request ''POST'' (''/api/v1/alerting/policies/'' @ i @ ''/effective'')
        (Some (jobj [(''policy_version'', Some (JNum (JInt (int v)))), (''enabled'', Some (JBool en))]))])"
| "policies_handle s (ToggleSuccess en) =
     (s, [Toast (if en then ''Politica ativada.'' else ''Politica desativada.'') ''success'', Invalidate [''alert-policies'']])"
| "policies_handle s ToggleError = (s, [Toast ''Erro ao alterar status da politica.'' ''error''])"
| "policies_handle s (AskDelete i) = (s\<lparr>ps_deletingPolicyId := Some i\<rparr>, [])"
| "policies_handle s CancelDelete = (s\<lparr>ps_deletingPolicyId := None\<rparr>, [])"
| "policies_handle s (ConfirmDelete i) = (s, [Request ''DELETE'' (''/api/v1/alerting/policies/'' @ i) None])"
| "policies_handle s DeleteSuccess =
     (s\<lparr>ps_deletingPolicyId := None\<rparr>, [Toast ''Politica excluida.'' ''success'', Invalidate [''alert-policies'']])"
| "policies_handle s DeleteError =
     (s\<lparr>ps_deletingPolicyId := None\<rparr>, [Toast ''Erro ao excluir politica.'' ''error''])"

definition effective_version :: "policy_version list \<Rightarrow> policy_version option" where
  "effective_version pvs = find pv_is_effective pvs"

definition historical_versions :: "policy_version list \<Rightarrow> policy_version list" where
  "historical_versions pvs = filter (\<lambda>v. \<not> pv_is_effective v) pvs"

definition policy_title :: "string \<Rightarrow> policy_version option \<Rightarrow> policies_event vnode" where
  "policy_title policyId effective = el ''div''
     (el ''span'' [Txt policyId] #
      (case effective of None \<Rightarrow> [] | Some e \<Rightarrow>
        [Badge ''muted'' [Txt (''v'' @ str_nat (pv_policy_version e))]] @
        jif (pv_source_kind e = ''monitoring_problem'')
          (Badge (severityVariant (nullish (pv_problem_min_severity e) [])) [Txt (conditionLabel e)]) @
        jif (pv_source_kind e = ''monitoring_health_projection'') (Badge ''warning'' [Txt (conditionLabel e)])))"

definition policy_actions :: "policies_props \<Rightarrow> policies \<Rightarrow> string \<Rightarrow> policy_version list \<Rightarrow> policies_event vnode" where
  "policy_actions p s policyId pvs =
     (let effective = effective_version pvs; historical = historical_versions pvs
      in el ''div''
       ((case effective of None \<Rightarrow> [] | Some e \<Rightarrow> jif (pp_canOperate p)
           (Button ''secondary'' ''sm''
             [OnClick (ToggleEffective policyId (pv_policy_version e) (\<not> pv_effective_enabled e)), Bo ''disabled'' (pp_togglePending p)]
             [Txt (if pv_effective_enabled e then ''Disable'' else ''Enable'')])) @
        jif (pp_canOperate p) (Button ''secondary'' ''sm'' [OnClick (NewVersion policyId)] [Txt ''New version'']) @
        jif (historical \<noteq> []) (button [OnClick (ToggleHistory policyId)]
          [Txt (if set_has (ps_expanded s) policyId then ''Hide'' else ''History ('' @ str_nat (length historical) @ '')'')]) @
        jif (pp_canOperate p) (button [OnClick (AskDelete policyId)] [Txt ''Excluir''])))"

definition policy_card :: "policies_props \<Rightarrow> policies \<Rightarrow> string \<times> policy_version list \<Rightarrow> policies_event vnode" where
  "policy_card p s entry =
     (let policyId = fst entry; pvs = snd entry;
          effective = effective_version pvs; historical = historical_versions pvs;
          scope = Option.bind effective pv_monitoring_source_id
      in Card
       ([el ''div'' [policy_title policyId effective, policy_actions p s policyId pvs]] @
        jif (truthy scope) (el ''p'' [Txt ''Scope: '', el ''span'' [Txt (nullish scope [])]]) @
        jif (pp_canOperate p \<and> ps_newVersionFor s = Some policyId \<and> ps_showForm s)
          (el ''div'' [el ''p'' [Txt (''New version for '' @ policyId)],
             El ''PolicyForm''
               ([At ''policy_id'' policyId] @
                (case effective of None \<Rightarrow> [] | Some e \<Rightarrow> [At ''source_kind'' (pv_source_kind e)]) @
                [Prop ''onDone'' VersionFormDone]) []]) @
        jif (set_has (ps_expanded s) policyId \<and> historical \<noteq> [])
          (el ''div'' (map (\<lambda>v. El ''div'' [At ''key'' (str_nat (pv_policy_version v))]
             ([el ''span'' [Txt (''v'' @ str_nat (pv_policy_version v))], el ''span'' [Txt (conditionLabel v)]] @
              jif (pv_superseded v) (Badge ''muted'' [Txt ''superseded'']))) historical))))"

definition policies_view :: "policies_props \<Rightarrow> policies \<Rightarrow> policies_event vnode" where
  "policies_view p s =
     (let q = pp_q p; grouped = groupPolicies (nullish (qdata q) [])
      in el ''div''
       ((case ps_deletingPolicyId s of None \<Rightarrow> [] | Some i \<Rightarrow> jif (i \<noteq> [])
           (ConfirmModal \<lparr>cm_title = ''Excluir politica de alertas'',
              cm_description = ''Excluir a politica '' @ quoted i @ '' e todas as suas versoes? Esta acao nao pode ser desfeita.'',
              cm_confirmLabel = Some ''Excluir'', cm_cancelLabel = None, cm_destructive = True,
              cm_isPending = pp_deletePending p, cm_onConfirm = ConfirmDelete i, cm_onCancel = CancelDelete\<rparr>)) @
        [el ''div'' [el ''div'' [el ''h2'' [Txt ''Alert policies''], el ''p'' [Txt ''Immutable . append-only . version-controlled'']],
           el ''div'' (jif (isFetching q) Spinner @
             jif (pp_canOperate p) (Button ''primary'' ''sm'' [OnClick NewPolicy] [Txt ''New policy'']))]] @
        jif (pp_canOperate p \<and> ps_showForm s \<and> \<not> truthy (ps_newVersionFor s))
          (Card [CardHeader [el ''span'' [Txt ''Create policy'']], El ''PolicyForm'' [Prop ''onDone'' NewFormDone] []]) @
        [if isLoading q then Spinner
         else if isError q then el ''p'' [Txt ''Could not load policies.'']
         else if grouped = [] then el ''p'' [Txt ''No alert policies defined.'']
         else el ''div'' (map (policy_card p s) grouped)]))"

section \<open>Grouping: properties\<close>

lemma groupPolicies_snoc: "groupPolicies (vs @ [v]) = group_push (groupPolicies vs) v"
  by (simp add: groupPolicies_def)

lemma group_push_lookup:
  "map_of (group_push m v) = (map_of m)(pv_policy_id v \<mapsto> nullish (map_of m (pv_policy_id v)) [] @ [v])"
  by (auto simp: group_push_def Let_def update_conv' fun_eq_iff)

lemma group_push_keys: "map fst (group_push m v) = set_add (pv_policy_id v) (map fst m)"
proof -
  have "k \<in> set (map fst m) \<longleftrightarrow> map_of m k \<noteq> None" for k by (metis map_of_eq_None_iff list.set_map)
  then show ?thesis by (auto simp: group_push_def Let_def update_keys set_add_def dom_update)
qed

lemma groupPolicies_lookup:
  "map_of (groupPolicies vs) k = (if k \<in> pv_policy_id ` set vs then Some (filter (\<lambda>v. pv_policy_id v = k) vs) else None)
   \<and> map fst (groupPolicies vs) = set_of (map pv_policy_id vs)"
proof (induction vs arbitrary: k rule: rev_induct)
  case Nil
  then show ?case by (simp add: groupPolicies_def set_of_def)
next
  case (snoc v vs)
  have "filter (\<lambda>w. pv_policy_id w = pv_policy_id v) vs = []" if "pv_policy_id v \<notin> pv_policy_id ` set vs"
    by (rule filter_False) (metis imageI that)
  then show ?case using snoc
    by (auto simp: groupPolicies_snoc group_push_lookup group_push_keys set_of_def)
qed

text \<open>C18: grouping the version list loses and invents nothing: the group of a policy is exactly its
  versions in list order, and the policies appear once each, in the order of their first version.\<close>

theorem groupPolicies_spec:
  "map_of (groupPolicies vs) k = (if k \<in> pv_policy_id ` set vs then Some (filter (\<lambda>v. pv_policy_id v = k) vs) else None)
   \<and> map fst (groupPolicies vs) = set_of (map pv_policy_id vs)"
  by (rule groupPolicies_lookup)

section \<open>The form: properties\<close>

text \<open>What the form keeps true of its data, what it offers, and what it requests. \<open>initial\<close> is the prop
  of a form opened for a new version of a policy.\<close>

definition form_valid :: "form_initial \<Rightarrow> policy_form \<Rightarrow> bool" where
  "form_valid initial f \<longleftrightarrow>
     (pf_source_kind f \<in> {Some ''monitoring_problem'', Some ''monitoring_health_projection''}
        \<or> (\<exists>pid. initial = Some (pid, pf_source_kind f)))
     \<and> pf_problem_min_severity f \<in> set SEVERITIES
     \<and> set (pf_health_classes f) \<subseteq> set HEALTH_CLASSES \<and> distinct (pf_health_classes f)
     \<and> (case initial of None \<Rightarrow> True | Some (pid, _) \<Rightarrow> pid = [] \<or> pf_policy_id f = pid)"

definition form_allowed :: "form_initial \<Rightarrow> form_state \<Rightarrow> form_event \<Rightarrow> bool" where
  "form_allowed initial s e \<longleftrightarrow> (case e of
      PfId x \<Rightarrow> (case initial of None \<Rightarrow> True | Some (pid, _) \<Rightarrow> pid = [])
    | PfKind k \<Rightarrow> k = ''monitoring_problem'' \<or> k = ''monitoring_health_projection''
    | PfSeverity x \<Rightarrow> x \<in> set SEVERITIES
    | PfToggleHC x \<Rightarrow> x \<in> set HEALTH_CLASSES
    | PfSubmit \<Rightarrow> pf_policy_id (fs_form s) \<noteq> []
    | _ \<Rightarrow> True)"

definition form_net :: "form_event \<Rightarrow> bool" where
  "form_net e \<longleftrightarrow> (case e of PfSuccess \<Rightarrow> True | PfError m \<Rightarrow> True | _ \<Rightarrow> False)"

definition policy_request :: "form_initial \<Rightarrow> effect \<Rightarrow> bool" where
  "policy_request initial f \<longleftrightarrow> \<not> is_request f \<or> (\<exists>frm. form_valid initial frm \<and> pf_policy_id frm \<noteq> []
     \<and> f = Request ''POST'' ''/api/v1/alerting/policies'' (Some (policy_body frm)))"

lemma toggleHC_set: "set (toggleHC x cs) \<subseteq> insert x (set cs)" "distinct cs \<Longrightarrow> distinct (toggleHC x cs)"
  by (auto simp: toggleHC_def)

lemma form_valid_mount: "form_valid initial (fs_form (form_mount initial))"
  by (auto simp: form_valid_def form_mount_def EMPTY_FORM_def SEVERITIES_def HEALTH_CLASSES_def split: option.splits)

lemma form_valid_step:
  "form_valid initial (fs_form s) \<Longrightarrow> form_allowed initial s e \<Longrightarrow> form_valid initial (fs_form (fst (form_handle s e)))"
proof (cases e)
  case (PfToggleHC x)
  then show "form_valid initial (fs_form s) \<Longrightarrow> form_allowed initial s e \<Longrightarrow> ?thesis"
    using toggleHC_set [where x = x and cs = "pf_health_classes (fs_form s)"] by (auto simp: form_valid_def form_allowed_def split: option.splits)
qed (auto simp: form_valid_def form_allowed_def split: option.splits)

lemma form_view_laws:
  "solo (form_view p s)" "offers (form_allowed (fp_initial p) s) (form_view p s)"
proof -
  show "solo (form_view p s)"
    by (auto simp: form_view_def form_condition_view_def form_source_view_def Let_def split: option.splits)
  have simps: "form_allowed i s (PfSource x)" "form_allowed i s PfCancel" for i x
    by (simp_all add: form_allowed_def)
  show "offers (form_allowed (fp_initial p) s) (form_view p s)"
    unfolding form_view_def Let_def form_condition_view_def form_source_view_def using simps
    by (auto simp: enterable_def form_allowed_def split: option.splits)
qed

interpretation pf: component "\<lambda>s. s = form_mount initial" "\<lambda>p. form_view (p\<lparr>fp_initial := initial\<rparr>)" form_handle form_net
  "form_allowed initial" "\<lambda>s. form_valid initial (fs_form s)" "policy_request initial" for initial
proof unfold_locales
  show "offers (form_allowed initial s) (form_view (p\<lparr>fp_initial := initial\<rparr>) s)" for p s
    using form_view_laws(2) [of "p\<lparr>fp_initial := initial\<rparr>" s] by simp
  show "form_net e \<Longrightarrow> form_allowed initial s e" for s e
    by (cases e) (auto simp: form_net_def form_allowed_def)
  show "form_valid initial (fs_form s) \<Longrightarrow> form_allowed initial s e \<Longrightarrow> list_all (policy_request initial) (snd (form_handle s e))" for s e
    by (cases e) (auto simp: form_allowed_def policy_request_def)
qed (simp_all add: form_view_laws form_valid_mount form_valid_step)

lemma policy_body_fields:
  "jfield (policy_body f) ''policy_id'' = Some (JStr (pf_policy_id f))"
  "jfield (policy_body f) ''source_kind'' = map_option JStr (pf_source_kind f)"
  "jfield (policy_body f) ''problem_min_severity'' =
     (if pf_source_kind f = Some ''monitoring_problem'' then Some (JStr (pf_problem_min_severity f)) else None)"
  "jfield (policy_body f) ''health_classes'' =
     (if pf_source_kind f = Some ''monitoring_problem'' then None else Some (jstrs (pf_health_classes f)))"
  by (cases "pf_source_kind f"; simp add: policy_body_def jfield_jobj)+

text \<open>C13: every policy that a form posts has a non-empty id, the given one if the form was opened for a new version; its source
  kind is one of the two offered, or the kind of the version it was opened for, which may be none: only then the kind can be
  missing, and never in the first version of a policy; and it carries, by its kind, an offered severity or distinct offered
  health classes.\<close>

theorem policy_form_requests:
  assumes "reach (\<lambda>s. s = form_mount initial) (\<lambda>p. form_view (p\<lparr>fp_initial := initial\<rparr>)) form_handle form_net s log"
    and "f \<in> set log" "is_request f"
  shows "\<exists>j pid kind. f = Request ''POST'' ''/api/v1/alerting/policies'' (Some j)
    \<and> jfield j ''policy_id'' = Some (JStr pid) \<and> pid \<noteq> []
    \<and> (\<forall>q k. initial = Some (q, k) \<and> q \<noteq> [] \<longrightarrow> pid = q)
    \<and> jfield j ''source_kind'' = map_option JStr kind
    \<and> (kind \<in> {Some ''monitoring_problem'', Some ''monitoring_health_projection''} \<or> (\<exists>q. initial = Some (q, kind)))
    \<and> (if kind = Some ''monitoring_problem''
       then \<exists>sev \<in> set SEVERITIES. jfield j ''problem_min_severity'' = Some (JStr sev)
       else \<exists>hs. jfield j ''health_classes'' = Some (jstrs hs) \<and> distinct hs \<and> set hs \<subseteq> set HEALTH_CLASSES)"
proof -
  have "policy_request initial f" using pf.reach_inv [OF assms(1)] assms(2) by (simp add: list_all_iff)
  then obtain frm where frm: "form_valid initial frm" "pf_policy_id frm \<noteq> []"
    and f: "f = Request ''POST'' ''/api/v1/alerting/policies'' (Some (policy_body frm))"
    using assms(3) by (auto simp: policy_request_def)
  show ?thesis using frm unfolding f form_valid_def
    by (intro exI [of _ "policy_body frm"] exI [of _ "pf_policy_id frm"] exI [of _ "pf_source_kind frm"])
      (auto simp: policy_body_fields split: option.splits)
qed

theorem policy_form_requests_witness:
  "\<exists>j. snd (form_handle (form_mount (Some (''p1'', Some ''monitoring_problem''))) PfSubmit) =
      [Request ''POST'' ''/api/v1/alerting/policies'' (Some j)] \<and> jfield j ''policy_id'' = Some (JStr ''p1'')"
proof -
  let ?i = "Some (''p1'', Some ''monitoring_problem'')"
  let ?p = "\<lparr>fp_initial = ?i, fp_sources = [], fp_pending = False\<rparr>"
  let ?f = "Request ''POST'' ''/api/v1/alerting/policies'' (Some (policy_body (fs_form (form_mount ?i))))"
  have c: "can_click (form_view (?p\<lparr>fp_initial := ?i\<rparr>) (form_mount ?i)) [PfSubmit]" by code_simp
  have "reach (\<lambda>s. s = form_mount ?i) (\<lambda>p. form_view (p\<lparr>fp_initial := ?i\<rparr>)) form_handle form_net (form_mount ?i) []"
    by (rule reach.mount) simp
  then have "reach (\<lambda>s. s = form_mount ?i) (\<lambda>p. form_view (p\<lparr>fp_initial := ?i\<rparr>)) form_handle form_net (form_mount ?i) ([] @ [?f])"
    by (rule reach.act [where p = ?p and x = "[]" and es = "[PfSubmit]"]) (use can_click_fires [OF c] in \<open>simp_all only: run.simps form_handle.simps prod.case Let_def append.simps\<close>)
  then have "reach (\<lambda>s. s = form_mount ?i) (\<lambda>p. form_view (p\<lparr>fp_initial := ?i\<rparr>)) form_handle form_net (form_mount ?i) [?f]"
    by (simp only: append.simps)
  note req = policy_form_requests [OF this, of ?f]
  have "?f \<in> set [?f]" "is_request ?f" by simp_all
  from req [OF this] obtain j pid kind where j: "?f = Request ''POST'' ''/api/v1/alerting/policies'' (Some j)"
    "jfield j ''policy_id'' = Some (JStr pid)" and pid: "\<forall>q k. ?i = Some (q, k) \<and> q \<noteq> [] \<longrightarrow> pid = q"
    by (elim exE conjE)
  from pid have "pid = ''p1''" by simp
  with j show ?thesis by (intro exI [of _ j]) simp
qed

lemma kind_kept: "list_all (\<lambda>e. \<forall>k. e \<noteq> PfKind k) es \<Longrightarrow>
    pf_source_kind (fs_form (fst (run form_handle s es))) = pf_source_kind (fs_form s)"
proof (induction es arbitrary: s)
  case (Cons e es)
  then have "pf_source_kind (fs_form (fst (form_handle s e))) = pf_source_kind (fs_form s)" by (cases e) auto
  with Cons show ?case by (simp add: split_def Let_def)
qed simp

text \<open>A new version of a policy that has no effective version is posted without a source kind,
  unless the user changes the kind by hand: the initial data overwrites the default with
  \<open>undefined\<close>, which \<open>JSON.stringify\<close> leaves out, although the API requires the field.\<close>

lemma version_without_kind:
  assumes "list_all (\<lambda>e. \<forall>k. e \<noteq> PfKind k) es"
  shows "\<exists>j. snd (form_handle (fst (run form_handle (form_mount (Some (pid, None))) es)) PfSubmit)
      = [Request ''POST'' ''/api/v1/alerting/policies'' (Some j)]
    \<and> jfield j ''source_kind'' = None \<and> jfield j ''policy_id'' \<noteq> None"
  using kind_kept [OF assms, of "form_mount (Some (pid, None))"]
  by (simp add: form_mount_def policy_body_def jfield_jobj)

theorem version_without_kind_witness:
  "\<exists>j. snd (form_handle (fst (run form_handle (form_mount (Some (''p1'', None))) [PfSource ''src'', PfSeverity ''critical''])) PfSubmit)
      = [Request ''POST'' ''/api/v1/alerting/policies'' (Some j)]
    \<and> jfield j ''source_kind'' = None \<and> jfield j ''policy_id'' \<noteq> None"
  by (rule version_without_kind) simp

section \<open>The page: properties\<close>

definition policies_allowed :: "policies_props \<Rightarrow> policies \<Rightarrow> policies_event \<Rightarrow> bool" where
  "policies_allowed p s e \<longleftrightarrow> (case e of
      ConfirmDelete i \<Rightarrow> ps_deletingPolicyId s = Some i \<and> i \<noteq> [] \<and> \<not> pp_deletePending p
    | ToggleEffective i v en \<Rightarrow> pp_canOperate p
        \<and> (\<exists>e. effective_version (filter (\<lambda>v. pv_policy_id v = i) (nullish (qdata (pp_q p)) [])) = Some e
             \<and> v = pv_policy_version e \<and> en = (\<not> pv_effective_enabled e))
    | AskDelete i \<Rightarrow> pp_canOperate p
    | _ \<Rightarrow> True)"

lemma solo_policies_view: "solo (policies_view p s)"
proof -
  have title: "solo (policy_title i e)" for i e by (auto simp: policy_title_def split: option.splits)
  have act: "solo (policy_actions p s i pvs)" for i pvs by (auto simp: policy_actions_def Let_def split: option.splits)
  have card: "solo (policy_card p s entry)" for entry
    using title act by (auto simp: policy_card_def Let_def split: option.splits)
  show ?thesis using card by (auto simp: policies_view_def Let_def split: option.splits)
qed

lemma offers_policy_card:
  assumes "entry \<in> set (groupPolicies (nullish (qdata (pp_q p)) []))"
  shows "offers (policies_allowed p s) (policy_card p s entry)"
proof -
  let ?P = "policies_allowed p s"
  obtain i pvs where entry: "entry = (i, pvs)" by fastforce
  let ?vs = "nullish (qdata (pp_q p)) []"
  have "distinct (map fst (groupPolicies ?vs))" using groupPolicies_lookup [of ?vs] by simp
  then have "map_of (groupPolicies ?vs) i = Some pvs" using assms entry by simp
  then have pvs: "pvs = filter (\<lambda>v. pv_policy_id v = i) ?vs"
    using groupPolicies_lookup [of ?vs i] by (simp split: if_splits)
  have simps: "?P (NewVersion j)" "?P (ToggleHistory j)" "?P VersionFormDone" for j
    by (simp_all add: policies_allowed_def)
  have "offers ?P (policy_actions p s i pvs)"
    unfolding pvs policy_actions_def Let_def
    by (cases "effective_version (filter (\<lambda>v. pv_policy_id v = i) ?vs)")
      (simp_all add: simps ball_Un, simp_all add: policies_allowed_def)
  moreover have "offers ?P (policy_title i e)" for e by (auto simp: policy_title_def split: option.splits)
  ultimately show ?thesis unfolding entry
    by (auto simp: policy_card_def Let_def simps split: option.splits)
qed

lemma offers_policies_view: "offers (policies_allowed p s) (policies_view p s)"
proof -
  have simps: "policies_allowed p s NewPolicy" "policies_allowed p s NewFormDone" "policies_allowed p s CancelDelete"
    by (simp_all add: policies_allowed_def)
  show ?thesis unfolding policies_view_def Let_def using offers_policy_card
    by (auto simp: simps policies_allowed_def split: option.splits)
qed

text \<open>Values to evaluate the page on.\<close>

definition sample_version :: policy_version where
  "sample_version = \<lparr>pv_policy_id = ''p1'', pv_policy_version = 3, pv_source_kind = ''monitoring_problem'',
     pv_problem_min_severity = Some ''warning'', pv_health_classes = None, pv_monitoring_source_id = None,
     pv_monitoring_resource_id = None, pv_superseded = False, pv_effective_enabled = True, pv_is_effective = True,
     pv_created_at = ''0'', pv_escalation_policy_id = None\<rparr>"

definition sample_policies_props :: policies_props where
  "sample_policies_props = \<lparr>pp_canOperate = True, pp_q = loaded [sample_version], pp_sourcesQ = loaded [],
     pp_togglePending = False, pp_deletePending = False\<rparr>"

text \<open>C17: a user action deletes a policy only by confirming the open dialog, and deletes exactly the
  policy the dialog was opened for, not while an earlier deletion is in flight.\<close>

theorem policies_delete_confirmed:
  assumes "fires (policies_view p s) x es" and "Request ''DELETE'' path b \<in> set (snd (run policies_handle s es))"
  shows "\<exists>i. ps_deletingPolicyId s = Some i \<and> es = [ConfirmDelete i] \<and> path = ''/api/v1/alerting/policies/'' @ i
     \<and> i \<noteq> [] \<and> \<not> pp_deletePending p"
proof -
  obtain e where es: "es = [e]"
    using fires_solo [OF assms(1) solo_policies_view] assms(2) by (cases es) auto
  then have "policies_allowed p s e" using fires_offers [OF assms(1) offers_policies_view] by simp
  then show ?thesis using assms(2) es by (cases e) (auto simp: policies_allowed_def)
qed

theorem policies_delete_confirmed_witness:
  "\<exists>i. ps_deletingPolicyId (policies_mount\<lparr>ps_deletingPolicyId := Some ''p1''\<rparr>) = Some i \<and> [ConfirmDelete ''p1''] = [ConfirmDelete i]
     \<and> ''/api/v1/alerting/policies/p1'' = ''/api/v1/alerting/policies/'' @ i \<and> i \<noteq> [] \<and> \<not> pp_deletePending sample_policies_props"
proof (rule policies_delete_confirmed)
  have "can_click (policies_view sample_policies_props (policies_mount\<lparr>ps_deletingPolicyId := Some ''p1''\<rparr>)) [ConfirmDelete ''p1'']"
    by code_simp
  then show "fires (policies_view sample_policies_props (policies_mount\<lparr>ps_deletingPolicyId := Some ''p1''\<rparr>)) [] [ConfirmDelete ''p1'']"
    by (rule can_click_fires)
qed simp

definition policies_net :: "policies_event \<Rightarrow> bool" where
  "policies_net e \<longleftrightarrow> (case e of ToggleSuccess _ \<Rightarrow> True | ToggleError \<Rightarrow> True | DeleteSuccess \<Rightarrow> True | DeleteError \<Rightarrow> True | _ \<Rightarrow> False)"

definition policies_reading :: "policies_event \<Rightarrow> bool" where
  "policies_reading e \<longleftrightarrow> (case e of ConfirmDelete _ \<Rightarrow> False | ToggleEffective _ _ _ \<Rightarrow> False | AskDelete _ \<Rightarrow> False | _ \<Rightarrow> True)"

interpretation ps_viewer: read_only "\<lambda>s. s = policies_mount" "\<lambda>p. policies_view (p\<lparr>pp_canOperate := False\<rparr>)" policies_handle
  policies_net "\<lambda>s. policies_reading" "\<lambda>s. ps_deletingPolicyId s = None"
proof unfold_locales
  show "ps_deletingPolicyId s = None \<Longrightarrow> offers policies_reading (policies_view (p\<lparr>pp_canOperate := False\<rparr>) s)" for p s
    by (rule offers_mono [OF offers_policies_view])
      (auto simp: policies_allowed_def policies_reading_def split: policies_event.splits)
  show "ps_deletingPolicyId s = None \<Longrightarrow> policies_reading e \<Longrightarrow> ps_deletingPolicyId (fst (policies_handle s e)) = None" for s e
    by (cases e) (auto simp: policies_reading_def)
  show "policies_reading e \<Longrightarrow> list_all (\<lambda>f. \<not> is_request f) (snd (policies_handle s e))" for s e
    by (cases e) (auto simp: policies_reading_def)
  show "policies_net e \<Longrightarrow> policies_reading e" for e
    by (cases e) (auto simp: policies_net_def policies_reading_def)
qed (simp_all add: solo_policies_view policies_mount_def)

text \<open>The policy page of a user without the permission to operate never makes a request.\<close>

lemma policies_viewer_silent:
  "reach (\<lambda>s. s = policies_mount) (\<lambda>p. policies_view (p\<lparr>pp_canOperate := False\<rparr>)) policies_handle policies_net s log
   \<Longrightarrow> \<not> list_ex is_request log"
  by (rule ps_viewer.no_request)

theorem policies_viewer_silent_witness:
  "\<not> list_ex is_request [Toast ''Erro ao alterar status da politica.'' ''error'']"
proof -
  have "reach (\<lambda>s. s = policies_mount) (\<lambda>p. policies_view (p\<lparr>pp_canOperate := False\<rparr>)) policies_handle policies_net policies_mount []"
    by (rule reach.mount) simp
  from reach.settle [OF this, of ToggleError policies_mount "[Toast ''Erro ao alterar status da politica.'' ''error'']"]
  have "reach (\<lambda>s. s = policies_mount) (\<lambda>p. policies_view (p\<lparr>pp_canOperate := False\<rparr>)) policies_handle policies_net policies_mount
      [Toast ''Erro ao alterar status da politica.'' ''error'']"
    by (simp add: policies_net_def)
  then show ?thesis by (rule policies_viewer_silent)
qed

text \<open>The enable/disable button of a policy acts only for operators, and always asks for the
  effective version of that policy to be switched to the state it is not in.\<close>

lemma toggle_flips_effective:
  assumes "fires (policies_view p s) x es" and "ToggleEffective i v en \<in> set es"
  shows "pp_canOperate p \<and> (\<exists>w \<in> set (nullish (qdata (pp_q p)) []).
     pv_policy_id w = i \<and> pv_is_effective w \<and> v = pv_policy_version w \<and> en \<noteq> pv_effective_enabled w)"
proof -
  have "policies_allowed p s (ToggleEffective i v en)"
    using fires_offers [OF assms(1) offers_policies_view] assms(2) by (simp add: list_all_iff)
  then show ?thesis by (auto simp: policies_allowed_def effective_version_def find_Some_iff in_set_conv_nth
      dest!: nth_mem)
qed

theorem toggle_flips_effective_witness:
  "pp_canOperate sample_policies_props \<and> (\<exists>w \<in> set (nullish (qdata (pp_q sample_policies_props)) []).
     pv_policy_id w = ''p1'' \<and> pv_is_effective w \<and> 3 = pv_policy_version w \<and> False \<noteq> pv_effective_enabled w)"
proof (rule toggle_flips_effective)
  have "can_click (policies_view sample_policies_props policies_mount) [ToggleEffective ''p1'' 3 False]" by code_simp
  then show "fires (policies_view sample_policies_props policies_mount) [] [ToggleEffective ''p1'' 3 False]"
    by (rule can_click_fires)
qed simp

end
