(* ===== verification/Escalation.thy ===== *)
theory Escalation
  imports Policies
begin

text \<open>
  The escalation policies, \<open>pages/EscalationPage.tsx\<close>: the list and its creation form, the policy
  detail with its steps, the step form, and the link to an alert policy.
\<close>

section \<open>Data\<close>

record esc_policy =
  ep_policy_id :: string
  ep_name :: string
  ep_description :: "string option"
  ep_created_at :: string
  ep_linked_alert_policy_id :: "string option"

record esc_step =
  es_step_number :: int
  es_delay_minutes :: int
  es_channel_class :: string
  es_destination_ref :: string
  es_payload_ref :: string

record alert_policy_version =
  av_policy_id :: string
  av_policy_version :: nat
  av_is_effective :: bool
  av_escalation_policy_id :: "string option"

definition CHANNEL_LABELS :: "(string \<times> string) list" where
  "CHANNEL_LABELS =
    [(''whatsapp_business@1'', ''WhatsApp''),
     (''email_smtp@1'', ''Email''),
     (''slack@1'', ''Slack'')]"

definition CHANNEL_OPTIONS :: "(string \<times> string) list" where
  "CHANNEL_OPTIONS =
    [(''email_smtp@1'', ''Email''),
     (''whatsapp_business@1'', ''WhatsApp''),
     (''slack@1'', ''Slack'')]"

text \<open>\<open>%\<close> keeps the sign of the dividend, which is not negative past the first guard.\<close>

definition fmtDelay :: "int \<Rightarrow> string" where
  "fmtDelay minutes =
     (if minutes < 60 then str_int minutes @ ''m''
      else let h = minutes div 60; m = minutes mod 60
           in if m > 0 then str_int h @ ''h '' @ str_int m @ ''m'' else str_int h @ ''h'')"

section \<open>Step form\<close>

record step_form =
  sf_stepNumber :: jsnumber
  sf_delayMinutes :: jsnumber
  sf_channel :: string
  sf_destRef :: string
  sf_payloadRef :: string
  sf_err :: "string option"

definition step_form_mount :: "int \<Rightarrow> step_form" where
  "step_form_mount nextStep = \<lparr>sf_stepNumber = JInt nextStep, sf_delayMinutes = JInt 15,
     sf_channel = ''email_smtp@1'', sf_destRef = [], sf_payloadRef = [], sf_err = None\<rparr>"

datatype step_event =
    SfStep string | SfDelay string | SfChannel string | SfDest string | SfPayload string
  | SfSave | SfCancel | SfSuccess | SfError mut_error

definition step_body :: "step_form \<Rightarrow> json" where
  "step_body s = jobj
     ([(''step_number'', Some (JNum (sf_stepNumber s))),
       (''delay_minutes'', Some (JNum (sf_delayMinutes s))),
       (''channel_class'', Some (JStr (sf_channel s))),
       (''destination_ref'', Some (JStr (trim (sf_destRef s))))] @
      (if trim (sf_payloadRef s) \<noteq> [] then [(''payload_ref'', Some (JStr (trim (sf_payloadRef s))))] else []))"

definition esc_policy_path :: "string \<Rightarrow> string" where
  "esc_policy_path policyId = ''/api/v1/alerting/escalation-policies/'' @ policyId"

fun step_handle :: "host \<Rightarrow> string \<Rightarrow> step_form \<Rightarrow> step_event \<Rightarrow> step_form \<times> effect list" where
  "step_handle h pid s (SfStep x) = (s\<lparr>sf_stepNumber := js_Number (other_number h) x\<rparr>, [])"
| "step_handle h pid s (SfDelay x) = (s\<lparr>sf_delayMinutes := js_Number (other_number h) x\<rparr>, [])"
| "step_handle h pid s (SfChannel x) = (s\<lparr>sf_channel := x\<rparr>, [])"
| "step_handle h pid s (SfDest x) = (s\<lparr>sf_destRef := x\<rparr>, [])"
| "step_handle h pid s (SfPayload x) = (s\<lparr>sf_payloadRef := x\<rparr>, [])"
| "step_handle h pid s SfSave =
     (s\<lparr>sf_err := None\<rparr>, [Request ''POST'' (esc_policy_path pid @ ''/steps'') (Some (step_body s))])"
| "step_handle h pid s SfCancel = (s, [Callback ''onDone'' []])"
| "step_handle h pid s SfSuccess =
     (s, [Toast ''Step adicionado com sucesso.'' ''success'', Invalidate [''esc-policy'', pid], Callback ''onDone'' []])"
| "step_handle h pid s (SfError e) =
     (let msg = detail_or e ''Falha ao adicionar step.''
      in (s\<lparr>sf_err := Some msg\<rparr>, [Toast msg ''error'']))"

definition step_view :: "bool \<Rightarrow> step_form \<Rightarrow> step_event vnode" where
  "step_view pending s = el ''div''
     ([el ''p'' [Txt ''Add step''],
       el ''div''
        [el ''div'' [el ''label'' [Txt ''Step #''],
           El ''input'' [At ''type'' ''number'', At ''min'' ''1'', At ''value'' (num_text (sf_stepNumber s)), OnChange SfStep] []],
         el ''div'' [el ''label'' [Txt ''Delay (minutes)''],
           El ''input'' [At ''type'' ''number'', At ''min'' ''1'', At ''value'' (num_text (sf_delayMinutes s)), OnChange SfDelay] []]],
       el ''div''
        [el ''div'' [el ''label'' [Txt ''Channel''],
           El ''select'' [At ''value'' (sf_channel s), OnChange SfChannel]
             (map (\<lambda>(v, l). El ''option'' [At ''value'' v] [Txt l]) CHANNEL_OPTIONS)],
         el ''div'' [el ''label'' [Txt (if sf_channel s = ''email_smtp@1'' then ''Email address'' else ''Destination ref'')],
           El ''input'' [At ''type'' ''text'', At ''value'' (sf_destRef s), OnChange SfDest,
             At ''placeholder'' (if sf_channel s = ''email_smtp@1'' then ''ops@example.com'' else ''+5511...'')] []]],
       el ''div'' [el ''label'' [Txt ''Payload ref (opcional)''],
         El ''input'' [At ''type'' ''text'', At ''value'' (sf_payloadRef s), OnChange SfPayload,
           At ''placeholder'' ''e.g. tpl:critical-alert''] []]] @
      jif (truthy (sf_err s)) (el ''p'' [Txt (nullish (sf_err s) [])]) @
      [el ''div''
        [Button ''primary'' ''sm'' [OnClick SfSave, Bo ''disabled'' (pending \<or> trim (sf_destRef s) = [])]
           (jif pending Spinner @ [Txt ''Save'']),
         Button ''secondary'' ''sm'' [OnClick SfCancel] [Txt ''Cancel'']]])"

section \<open>Link to an alert policy\<close>

datatype link_event = LkSelect string | LkLink | LkClose | LkSuccess | LkError mut_error

fun link_handle :: "string \<Rightarrow> string \<Rightarrow> string \<Rightarrow> link_event \<Rightarrow> string \<times> effect list" where
  "link_handle tid eid sel (LkSelect x) = (x, [])"
| "link_handle tid eid sel LkLink =
     (sel, [Request ''PATCH'' (esc_policy_path eid) (Some (jobj [(''linked_alert_policy_id'', Some (JStr sel))]))])"
| "link_handle tid eid sel LkClose = (sel, [Callback ''onClose'' []])"
| "link_handle tid eid sel LkSuccess =
     (sel, [Toast ''Politica de alerta vinculada.'' ''success'', Invalidate [''esc-policies'', tid], Callback ''onClose'' []])"
| "link_handle tid eid sel (LkError e) = (sel, [Toast (detail_or e ''Erro ao vincular politica.'') ''error''])"

definition uniquePolicies :: "alert_policy_version list \<Rightarrow> alert_policy_version list" where
  "uniquePolicies ps = map snd (map_of_entries (map (\<lambda>p. (av_policy_id p, p)) ps))"

definition link_view :: "alert_policy_version list query \<Rightarrow> bool \<Rightarrow> string \<Rightarrow> link_event vnode" where
  "link_view q pending sel =
     (let uniq = uniquePolicies (nullish (qdata q) [])
      in El ''div'' [OnSelf LkClose]
       [el ''div''
         [el ''h3'' [Txt ''Vincular a politica de alerta''],
          if isLoading q then el ''div'' [Spinner]
          else if uniq = [] then el ''p'' [Txt ''Nenhuma politica de alerta encontrada.'']
          else el ''div'' [el ''label'' [Txt ''Politica de alerta''],
            El ''select'' [At ''value'' sel, OnChange LkSelect]
              (El ''option'' [At ''value'' []] [Txt ''Selecione...''] #
               map (\<lambda>p. El ''option'' [At ''key'' (av_policy_id p), At ''value'' (av_policy_id p)] [Txt (av_policy_id p)]) uniq)],
          el ''div''
           [Button ''primary'' ''sm'' [OnClick LkLink, Bo ''disabled'' (sel = [] \<or> pending)]
              (jif pending Spinner @ [Txt ''Vincular'']),
            Button ''secondary'' ''sm'' [OnClick LkClose] [Txt ''Cancelar'']]]])"

section \<open>Policy detail\<close>

record esc_detail =
  ed_addingStep :: bool
  ed_deletingStepNo :: "int option"

definition esc_detail_mount :: esc_detail where
  "esc_detail_mount = \<lparr>ed_addingStep = False, ed_deletingStepNo = None\<rparr>"

record esc_detail_props =
  xd_canOperate :: bool
  xd_q :: "(esc_policy \<times> esc_step list) query"
  xd_deletePending :: bool

datatype esc_detail_event =
    EdBack | EdAddStep | EdStepDone | EdAskDelete int | EdConfirmDelete int | EdCancelDelete
  | EdDeleteSuccess | EdDeleteError

fun esc_detail_handle :: "string \<Rightarrow> esc_detail \<Rightarrow> esc_detail_event \<Rightarrow> esc_detail \<times> effect list" where
  "esc_detail_handle pid s EdBack = (s, [Callback ''onBack'' []])"
| "esc_detail_handle pid s EdAddStep = (s\<lparr>ed_addingStep := True\<rparr>, [])"
| "esc_detail_handle pid s EdStepDone = (s\<lparr>ed_addingStep := False\<rparr>, [])"
| "esc_detail_handle pid s (EdAskDelete n) = (s\<lparr>ed_deletingStepNo := Some n\<rparr>, [])"
| "esc_detail_handle pid s (EdConfirmDelete n) =
     (s, [Request ''DELETE'' (esc_policy_path pid @ ''/steps/'' @ str_int n) None])"
| "esc_detail_handle pid s EdCancelDelete = (s\<lparr>ed_deletingStepNo := None\<rparr>, [])"
| "esc_detail_handle pid s EdDeleteSuccess =
     (s\<lparr>ed_deletingStepNo := None\<rparr>, [Toast ''Step removido.'' ''success'', Invalidate [''esc-policy'', pid]])"
| "esc_detail_handle pid s EdDeleteError = (s\<lparr>ed_deletingStepNo := None\<rparr>, [Toast ''Erro ao remover step.'' ''error''])"

text \<open>\<open>Math.max(...ns) + 1\<close>, or 1 for no steps.\<close>

definition nextStep :: "esc_step list \<Rightarrow> int" where
  "nextStep steps = (case map es_step_number steps of [] \<Rightarrow> 1 | n # ns \<Rightarrow> foldl max n ns + 1)"

definition step_row :: "bool \<Rightarrow> nat \<Rightarrow> esc_step \<Rightarrow> esc_detail_event vnode" where
  "step_row canOperate i s = El ''div'' [At ''key'' (str_int (es_step_number s))]
     ([el ''div'' [el ''span'' [Txt (str_int (es_step_number s))]]] @
      jif (i > 0) (el ''div'' [Txt ''+'', Txt (fmtDelay (es_delay_minutes s))]) @
      jif (i = 0) (el ''div'' [Txt ''after '', Txt (fmtDelay (es_delay_minutes s))]) @
      [Badge ''info'' [Txt (nullish (map_of CHANNEL_LABELS (es_channel_class s)) (es_channel_class s))],
       el ''span'' [Txt (es_destination_ref s)]] @
      jif (es_payload_ref s \<noteq> []) (el ''span'' [Txt (es_payload_ref s)]) @
      jif canOperate (button [OnClick (EdAskDelete (es_step_number s))] [Txt ''remove'']))"

definition esc_detail_body :: "esc_detail_props \<Rightarrow> esc_detail \<Rightarrow> string \<Rightarrow> esc_policy \<Rightarrow> esc_step list \<Rightarrow> esc_detail_event vnode" where
  "esc_detail_body p s policyId policy steps =
     el ''div''
      ((case ed_deletingStepNo s of None \<Rightarrow> [] | Some n \<Rightarrow>
         [ConfirmModal \<lparr>cm_title = ''Remover step'', cm_description = ''Remover o step #'' @ str_int n @ '' desta politica?'',
            cm_confirmLabel = Some ''Remover'', cm_cancelLabel = None, cm_destructive = True,
            cm_isPending = xd_deletePending p, cm_onConfirm = EdConfirmDelete n, cm_onCancel = EdCancelDelete\<rparr>]) @
       [el ''div'' [button [OnClick EdBack] [Txt ''<- Policies''], el ''span'' [Txt ''/''], el ''span'' [Txt (ep_name policy)]]] @
       jif (truthy (ep_description policy)) (el ''p'' [Txt (nullish (ep_description policy) [])]) @
       [Card
         ([el ''div'' (el ''h3'' [Txt ''Escalation steps''] #
             jif (xd_canOperate p \<and> \<not> ed_addingStep s) (Button ''primary'' ''sm'' [OnClick EdAddStep] [Txt ''Add step'']))] @
          jif (steps = [] \<and> \<not> ed_addingStep s) (el ''p'' [Txt ''No steps defined. Add a step to enable escalation.'']) @
          jif (steps \<noteq> []) (el ''div'' (map (\<lambda>(i, st). step_row (xd_canOperate p) i st) (enumerate 0 steps))) @
          jif (xd_canOperate p \<and> ed_addingStep s)
            (El ''AddStepForm'' [At ''policyId'' policyId, At ''nextStep'' (str_int (nextStep steps)), Prop ''onDone'' EdStepDone] []))])"

text \<open>\<open>q.data!\<close> is destructured once the first load is over and there is no error: without data that
  throws.\<close>

definition esc_detail_view :: "string \<Rightarrow> esc_detail_props \<Rightarrow> esc_detail \<Rightarrow> js_error + esc_detail_event vnode" where
  "esc_detail_view policyId p s =
     (if isLoading (xd_q p) then Inr (el ''div'' [Spinner])
      else if isError (xd_q p) then Inr (el ''p'' [Txt ''Failed to load policy.''])
      else (case qdata (xd_q p) of
          None \<Rightarrow> Inl TypeError
        | Some (policy, steps) \<Rightarrow> Inr (esc_detail_body p s policyId policy steps)))"

section \<open>The page\<close>

record esc_page =
  eg_selectedPolicyId :: "string option"
  eg_creating :: bool
  eg_newName :: string
  eg_newDesc :: string
  eg_createErr :: "string option"
  eg_deletingId :: "string option"
  eg_linkingId :: "string option"

definition esc_mount :: esc_page where
  "esc_mount = \<lparr>eg_selectedPolicyId = None, eg_creating = False, eg_newName = [], eg_newDesc = [],
     eg_createErr = None, eg_deletingId = None, eg_linkingId = None\<rparr>"

record esc_props =
  xp_host :: host
  xp_canOperate :: bool
  xp_q :: "esc_policy list query"
  xp_createPending :: bool
  xp_deletePending :: bool

datatype esc_event =
    EgSelect string | EgBack | EgNew | EgName string | EgDesc string | EgCreate | EgCancelCreate
  | EgCreateSuccess string | EgCreateError mut_error
  | EgAskDelete string | EgConfirmDelete string | EgCancelDelete | EgDeleteSuccess | EgDeleteError
  | EgLink string | EgLinkClose

definition create_body :: "esc_page \<Rightarrow> json" where
  "create_body s = jobj
     [(''name'', Some (JStr (trim (eg_newName s)))),
      (''description'', if trim (eg_newDesc s) \<noteq> [] then Some (JStr (trim (eg_newDesc s))) else None)]"

fun esc_handle :: "string \<Rightarrow> esc_page \<Rightarrow> esc_event \<Rightarrow> esc_page \<times> effect list" where
  "esc_handle tid s (EgSelect i) = (s\<lparr>eg_selectedPolicyId := Some i\<rparr>, [])"
| "esc_handle tid s EgBack = (s\<lparr>eg_selectedPolicyId := None\<rparr>, [])"
| "esc_handle tid s EgNew = (s\<lparr>eg_creating := True\<rparr>, [])"
| "esc_handle tid s (EgName x) = (s\<lparr>eg_newName := x\<rparr>, [])"
| "esc_handle tid s (EgDesc x) = (s\<lparr>eg_newDesc := x\<rparr>, [])"
| "esc_handle tid s EgCreate =
     (s\<lparr>eg_createErr := None\<rparr>, [Request ''POST'' ''/api/v1/alerting/escalation-policies'' (Some (create_body s))])"
| "esc_handle tid s EgCancelCreate = (s\<lparr>eg_creating := False, eg_newName := []\<rparr>, [])"
| "esc_handle tid s (EgCreateSuccess i) =
     (s\<lparr>eg_creating := False, eg_newName := [], eg_newDesc := [], eg_selectedPolicyId := Some i\<rparr>,
      [Toast ''Politica criada com sucesso.'' ''success'', Invalidate [''esc-policies'', tid]])"
| "esc_handle tid s (EgCreateError e) =
     (let msg = detail_or e ''Falha ao criar politica.''
      in (s\<lparr>eg_createErr := Some msg\<rparr>, [Toast msg ''error'']))"
| "esc_handle tid s (EgAskDelete i) = (s\<lparr>eg_deletingId := Some i\<rparr>, [])"
| "esc_handle tid s (EgConfirmDelete i) = (s, [Request ''DELETE'' (esc_policy_path i) None])"
| "esc_handle tid s EgCancelDelete = (s\<lparr>eg_deletingId := None\<rparr>, [])"
| "esc_handle tid s EgDeleteSuccess =
     (s\<lparr>eg_deletingId := None\<rparr>, [Toast ''Politica excluida.'' ''success'', Invalidate [''esc-policies'', tid]])"
| "esc_handle tid s EgDeleteError = (s\<lparr>eg_deletingId := None\<rparr>, [Toast ''Erro ao excluir politica.'' ''error''])"
| "esc_handle tid s (EgLink i) = (s\<lparr>eg_linkingId := Some i\<rparr>, [])"
| "esc_handle tid s EgLinkClose = (s\<lparr>eg_linkingId := None\<rparr>, [])"

definition esc_create_form :: "esc_props \<Rightarrow> esc_page \<Rightarrow> esc_event vnode" where
  "esc_create_form p s = Card
     ([el ''h3'' [Txt ''New escalation policy''],
       el ''div'' [el ''label'' [Txt ''Name''],
         El ''input'' [At ''type'' ''text'', At ''value'' (eg_newName s), OnChange EgName,
           At ''placeholder'' ''e.g. NOC on-call escalation''] []],
       el ''div'' [el ''label'' [Txt ''Description (optional)''],
         El ''input'' [At ''type'' ''text'', At ''value'' (eg_newDesc s), OnChange EgDesc,
           At ''placeholder'' ''Who this escalates to and why''] []]] @
      jif (truthy (eg_createErr s)) (el ''p'' [Txt (nullish (eg_createErr s) [])]) @
      [el ''div''
        [Button ''primary'' ''sm'' [OnClick EgCreate, Bo ''disabled'' (xp_createPending p \<or> trim (eg_newName s) = [])]
           (jif (xp_createPending p) Spinner @ [Txt ''Create'']),
         Button ''secondary'' ''sm'' [OnClick EgCancelCreate] [Txt ''Cancel'']]])"

definition esc_row :: "esc_props \<Rightarrow> esc_policy \<Rightarrow> esc_event vnode" where
  "esc_row p x = El ''tr'' [At ''key'' (ep_policy_id x), OnClick (EgSelect (ep_policy_id x))]
     [el ''td'' [Txt (ep_name x)],
      el ''td'' [Txt (nullish (ep_description x) ''--'')],
      el ''td'' [Txt (if truthy (ep_linked_alert_policy_id x)
         then slice 0 20 (nullish (ep_linked_alert_policy_id x) []) @ ''...'' else ''--'')],
      el ''td'' [Txt (locale_date (xp_host p) (ep_created_at x))],
      El ''td'' [StopClick] [el ''div''
        (jif (xp_canOperate p) (button [OnClick (EgLink (ep_policy_id x))] [Txt ''vincular'']) @
         jif (xp_canOperate p) (button [OnClick (EgAskDelete (ep_policy_id x))] [Txt ''delete'']))]]"

definition esc_modals :: "esc_props \<Rightarrow> esc_page \<Rightarrow> esc_policy list \<Rightarrow> esc_event vnode list" where
  "esc_modals p s policies =
     (case eg_deletingId s of None \<Rightarrow> [] | Some i \<Rightarrow>
        (case find (\<lambda>x. ep_policy_id x = i) policies of None \<Rightarrow> [] | Some x \<Rightarrow> jif (i \<noteq> [])
           (ConfirmModal \<lparr>cm_title = ''Excluir politica de escalacao'',
              cm_description = ''Excluir '' @ quoted (ep_name x) @ ''? Esta acao nao pode ser desfeita.'',
              cm_confirmLabel = Some ''Excluir'', cm_cancelLabel = None, cm_destructive = True,
              cm_isPending = xp_deletePending p, cm_onConfirm = EgConfirmDelete i, cm_onCancel = EgCancelDelete\<rparr>))) @
     jif (xp_canOperate p \<and> truthy (eg_linkingId s))
       (El ''LinkAlertPolicyModal'' [At ''escPolicyId'' (nullish (eg_linkingId s) []), Prop ''onClose'' EgLinkClose] [])"

definition esc_table :: "esc_props \<Rightarrow> esc_policy list \<Rightarrow> esc_event vnode" where
  "esc_table p policies = el ''table''
     [el ''thead'' [el ''tr'' (map (\<lambda>c. el ''th'' [Txt c]) [''Policy'', ''Description'', ''Vinculado a'', ''Created'', []])],
      el ''tbody'' (map (esc_row p) policies)]"

definition esc_view :: "esc_props \<Rightarrow> esc_page \<Rightarrow> esc_event vnode" where
  "esc_view p s =
     (if truthy (eg_selectedPolicyId s)
      then El ''PolicyDetailView'' [At ''policyId'' (nullish (eg_selectedPolicyId s) []), Prop ''onBack'' EgBack] []
      else let q = xp_q p; policies = nullish (qdata q) []
      in el ''div''
       (esc_modals p s policies @
        [el ''div'' ([el ''div'' [el ''h2'' [Txt ''Escalation Policies''],
             el ''p'' [Txt ''Define time-based escalation chains for unacknowledged alerts.'']]] @
           jif (xp_canOperate p \<and> \<not> eg_creating s) (Button ''primary'' ''sm'' [OnClick EgNew] [Txt ''New policy'']))] @
        jif (xp_canOperate p \<and> eg_creating s) (esc_create_form p s) @
        [Card
          [if isLoading q then el ''div'' [Spinner]
           else if isError q then el ''p'' [Txt ''Failed to load policies.'']
           else if policies = [] then el ''p'' [Txt ''No escalation policies. Create one to enable time-based alert escalation.'']
           else esc_table p policies]]))"

section \<open>Steps and links: properties\<close>

lemma foldl_max: "foldl max (n::int) ns = Max (insert n (set ns))"
proof (induction ns arbitrary: n)
  case (Cons m ns)
  then show ?case by (simp add: insert_commute max.commute flip: Max_insert)
     (cases "ns = []"; simp add: max.assoc max.left_commute max.commute)
qed simp

text \<open>The step number proposed for a new step is one more than the greatest in use, and 1 for a policy
  without steps: it never collides with an existing step.\<close>

lemma nextStep_spec:
  "nextStep steps = (if steps = [] then 1 else Max (es_step_number ` set steps) + 1)"
  by (cases steps) (simp_all add: nextStep_def foldl_max)

text \<open>The selection of alert policies to link lists each policy once, by its last version in the list
  of versions, and leaves none out.\<close>

lemma uniquePolicies_spec:
  "distinct (map av_policy_id (uniquePolicies ps))
   \<and> (p \<in> set (uniquePolicies ps) \<longleftrightarrow> find (\<lambda>q. av_policy_id q = av_policy_id p) (rev ps) = Some p)"
proof -
  let ?m = "map_of_entries (map (\<lambda>p. (av_policy_id p, p)) ps)"
  have look: "map_of ?m k = find (\<lambda>q. av_policy_id q = k) (rev ps)" for k
  proof -
    have "map_of (map (\<lambda>p. (av_policy_id p, p)) qs) k = find (\<lambda>q. av_policy_id q = k) qs" for qs
      by (induction qs) auto
    then show ?thesis by (simp add: map_of_entries_last rev_map)
  qed
  have id: "av_policy_id (snd e) = fst e" if "e \<in> set ?m" for e
  proof -
    have "map_of ?m (fst e) = Some (snd e)" using that by (simp add: map_of_is_SomeI)
    then show ?thesis unfolding look by (auto simp: find_Some_iff)
  qed
  then have keys: "map av_policy_id (uniquePolicies ps) = map fst ?m" by (simp add: uniquePolicies_def)
  have "p \<in> set (uniquePolicies ps) \<longleftrightarrow> (av_policy_id p, p) \<in> set ?m"
  proof
    assume "p \<in> set (uniquePolicies ps)"
    then obtain e where e: "e \<in> set ?m" "p = snd e" by (auto simp: uniquePolicies_def)
    then have "(av_policy_id p, p) = e" using id [OF e(1)] by (simp add: prod_eq_iff)
    then show "(av_policy_id p, p) \<in> set ?m" using e(1) by (simp only:)
  next
    assume "(av_policy_id p, p) \<in> set ?m"
    from imageI [OF this, of snd] show "p \<in> set (uniquePolicies ps)" by (simp add: uniquePolicies_def)
  qed
  also have "\<dots> \<longleftrightarrow> map_of ?m (av_policy_id p) = Some p" by (simp add: map_of_eq_Some_iff)
  finally show ?thesis unfolding keys look by simp
qed

section \<open>The step form: properties\<close>

definition step_valid :: "step_form \<Rightarrow> bool" where
  "step_valid s \<longleftrightarrow> sf_channel s \<in> set (map fst CHANNEL_OPTIONS)"

definition step_allowed :: "step_form \<Rightarrow> step_event \<Rightarrow> bool" where
  "step_allowed s e \<longleftrightarrow> (case e of
      SfSave \<Rightarrow> trim (sf_destRef s) \<noteq> []
    | SfChannel x \<Rightarrow> x \<in> set (map fst CHANNEL_OPTIONS)
    | _ \<Rightarrow> True)"

definition step_net :: "step_event \<Rightarrow> bool" where
  "step_net e \<longleftrightarrow> (case e of SfSuccess \<Rightarrow> True | SfError _ \<Rightarrow> True | _ \<Rightarrow> False)"

definition step_request :: "string \<Rightarrow> effect \<Rightarrow> bool" where
  "step_request pid f \<longleftrightarrow> \<not> is_request f \<or> (\<exists>j d c. f = Request ''POST'' (esc_policy_path pid @ ''/steps'') (Some j)
     \<and> jfield j ''destination_ref'' = Some (JStr d) \<and> d \<noteq> [] \<and> trim d = d
     \<and> jfield j ''channel_class'' = Some (JStr c) \<and> c \<in> set (map fst CHANNEL_OPTIONS))"

lemma step_view_laws: "solo (step_view b s)" "offers (step_allowed s) (step_view b s)"
proof -
  show "solo (step_view b s)" by (auto simp: step_view_def)
  have simps: "step_allowed s (SfStep x)" "step_allowed s (SfDelay x)" "step_allowed s (SfDest x)"
    "step_allowed s (SfPayload x)" "step_allowed s SfCancel" for x
    by (simp_all add: step_allowed_def)
  show "offers (step_allowed s) (step_view b s)"
    by (auto simp: step_view_def simps CHANNEL_OPTIONS_def enterable_def) (auto simp: step_allowed_def CHANNEL_OPTIONS_def)
qed

interpretation sf: component "\<lambda>s. s = step_form_mount n" step_view "step_handle h pid" step_net step_allowed step_valid
  "step_request pid" for n h pid
proof unfold_locales
  show "step_net e \<Longrightarrow> step_allowed s e" for s e
    by (cases e) (auto simp: step_net_def step_allowed_def)
  show "step_valid s \<Longrightarrow> step_allowed s e \<Longrightarrow> step_valid (fst (step_handle h pid s e))" for s e
    by (cases e) (auto simp: step_valid_def step_allowed_def Let_def)
  show "step_valid s \<Longrightarrow> step_allowed s e \<Longrightarrow> list_all (step_request pid) (snd (step_handle h pid s e))" for s e
    by (cases e) (auto simp: step_valid_def step_allowed_def step_request_def step_body_def jfield_jobj Let_def)
qed (simp_all add: step_view_laws step_valid_def step_form_mount_def CHANNEL_OPTIONS_def)

text \<open>Every step the form ever posts goes to its own policy, names one of the three offered channels,
  and has a destination that is not blank and has no surrounding white space.\<close>

lemma step_requests:
  "reach (\<lambda>s. s = step_form_mount n) step_view (step_handle h pid) step_net s log \<Longrightarrow> list_all (step_request pid) log"
  using sf.reach_inv by blast

theorem step_requests_witness:
  "list_all (step_request ''e1'')
     (snd (step_handle sample_host ''e1'' ((step_form_mount 1)\<lparr>sf_destRef := '' ops@x ''\<rparr>) SfSave))"
proof -
  let ?m = "step_form_mount 1" and ?s = "(step_form_mount 1)\<lparr>sf_destRef := '' ops@x ''\<rparr>"
  let ?reach = "reach (\<lambda>s. s = step_form_mount 1) step_view (step_handle sample_host ''e1'') step_net"
  have d: "SfDest '' ops@x '' \<in> set (changes '' ops@x '' (step_view False ?m))" by code_simp
  then have f: "fires (step_view False ?m) '' ops@x '' [SfDest '' ops@x '']" by (simp add: fires_def)
  have c: "can_click (step_view False ?s) [SfSave]" by code_simp
  have "?reach ?m []" by (rule reach.mount) simp
  from reach.act [OF this f] have "?reach ?s []" by simp
  from reach.act [OF this, of False "[]" "[SfSave]"] can_click_fires [OF c]
  have "?reach (fst (step_handle sample_host ''e1'' ?s SfSave)) (snd (step_handle sample_host ''e1'' ?s SfSave))" by simp
  then show ?thesis by (rule step_requests)
qed

text \<open>The reason the server gives for refusing a step never reaches the form: it reads \<open>detail\<close>, which
  no error of the client has, so that every failure shows the same fallback text.\<close>

lemma step_error_lost:
  "step_handle h pid s (SfError (error_of e)) =
     (s\<lparr>sf_err := Some ''Falha ao adicionar step.''\<rparr>, [Toast ''Falha ao adicionar step.'' ''error''])"
  by (simp add: detail_or_def error_of_def Let_def)

section \<open>The page: properties\<close>

definition esc_allowed :: "bool \<Rightarrow> esc_page \<Rightarrow> esc_event \<Rightarrow> bool" where
  "esc_allowed operate s e \<longleftrightarrow> (case e of
      EgCreate \<Rightarrow> operate \<and> trim (eg_newName s) \<noteq> []
    | EgAskDelete i \<Rightarrow> operate
    | EgConfirmDelete i \<Rightarrow> eg_deletingId s = Some i \<and> i \<noteq> []
    | _ \<Rightarrow> True)"

definition esc_net :: "esc_event \<Rightarrow> bool" where
  "esc_net e \<longleftrightarrow> (case e of EgCreateSuccess _ \<Rightarrow> True | EgCreateError _ \<Rightarrow> True | EgDeleteSuccess \<Rightarrow> True | EgDeleteError \<Rightarrow> True
     | _ \<Rightarrow> False)"

definition esc_request :: "bool \<Rightarrow> effect \<Rightarrow> bool" where
  "esc_request operate f \<longleftrightarrow> \<not> is_request f
     \<or> operate \<and> (\<exists>i. i \<noteq> [] \<and> f = Request ''DELETE'' (esc_policy_path i) None)
     \<or> operate \<and> (\<exists>j n. f = Request ''POST'' ''/api/v1/alerting/escalation-policies'' (Some j)
          \<and> jfield j ''name'' = Some (JStr n) \<and> n \<noteq> [] \<and> trim n = n \<and> jfield j ''description'' \<noteq> Some (JStr []))"

lemma esc_view_laws: "solo (esc_view p s)" "offers (esc_allowed (xp_canOperate p) s) (esc_view p s)"
proof -
  let ?P = "esc_allowed (xp_canOperate p) s"
  have modals: "\<forall>v \<in> set (esc_modals p s ps). solo v \<and> offers ?P v" for ps
    by (auto simp: esc_modals_def esc_allowed_def split: option.splits)
  have row: "solo (esc_row p x) \<and> offers ?P (esc_row p x)" for x
    by (auto simp: esc_row_def esc_allowed_def)
  have table: "solo (esc_table p ps) \<and> offers ?P (esc_table p ps)" for ps
    using row by (auto simp: esc_table_def)
  have form: "solo (esc_create_form p s)" "xp_canOperate p \<Longrightarrow> offers ?P (esc_create_form p s)"
    by (auto simp: esc_create_form_def esc_allowed_def)
  show "solo (esc_view p s)" using modals table form by (auto simp: esc_view_def Let_def)
  have simps: "?P EgBack" "?P EgNew" by (simp_all add: esc_allowed_def)
  show "offers ?P (esc_view p s)" using modals table form simps by (auto simp: esc_view_def Let_def)
qed

interpretation eg: component "\<lambda>s. s = esc_mount" "\<lambda>p. esc_view (p\<lparr>xp_canOperate := operate\<rparr>)" "esc_handle tid" esc_net
  "esc_allowed operate" "\<lambda>s. operate \<or> eg_deletingId s = None" "esc_request operate" for operate tid
proof unfold_locales
  show "offers (esc_allowed operate s) (esc_view (p\<lparr>xp_canOperate := operate\<rparr>) s)" for p s
    using esc_view_laws(2) [of "p\<lparr>xp_canOperate := operate\<rparr>" s] by simp
  show "esc_net e \<Longrightarrow> esc_allowed operate s e" for s e
    by (cases e) (auto simp: esc_net_def esc_allowed_def)
  show "operate \<or> eg_deletingId s = None \<Longrightarrow> esc_allowed operate s e \<Longrightarrow>
      operate \<or> eg_deletingId (fst (esc_handle tid s e)) = None" for s e
    by (cases e) (auto simp: esc_allowed_def Let_def)
  show "operate \<or> eg_deletingId s = None \<Longrightarrow> esc_allowed operate s e \<Longrightarrow>
      list_all (esc_request operate) (snd (esc_handle tid s e))" for s e
    by (cases e) (auto simp: esc_allowed_def esc_request_def create_body_def jfield_jobj Let_def)
qed (simp_all add: esc_view_laws esc_mount_def)

text \<open>Every request of the escalation page is the creation of a policy with a trimmed, non-blank name
  (a blank description is left out) or a deletion; a user without the permission to operate never
  causes any.\<close>

lemma esc_requests:
  "reach (\<lambda>s. s = esc_mount) (\<lambda>p. esc_view (p\<lparr>xp_canOperate := operate\<rparr>)) (esc_handle tid) esc_net s log \<Longrightarrow>
   list_all (esc_request operate) log"
  using eg.reach_inv by blast

theorem esc_requests_witness:
  "list_all (esc_request True) (snd (esc_handle ''t1'' (esc_mount\<lparr>eg_deletingId := Some ''e1''\<rparr>) (EgConfirmDelete ''e1'')))"
proof -
  let ?x = "\<lparr>ep_policy_id = ''e1'', ep_name = ''NOC'', ep_description = None, ep_created_at = ''0'', ep_linked_alert_policy_id = None\<rparr>"
  let ?p = "\<lparr>xp_host = sample_host, xp_canOperate = True, xp_q = loaded [?x], xp_createPending = False, xp_deletePending = False\<rparr>"
  let ?s = "esc_mount\<lparr>eg_deletingId := Some ''e1''\<rparr>"
  let ?reach = "reach (\<lambda>s. s = esc_mount) (\<lambda>p. esc_view (p\<lparr>xp_canOperate := True\<rparr>)) (esc_handle ''t1'') esc_net"
  have a: "can_click (esc_view (?p\<lparr>xp_canOperate := True\<rparr>) esc_mount) [EgAskDelete ''e1'']" by code_simp
  have c: "can_click (esc_view (?p\<lparr>xp_canOperate := True\<rparr>) ?s) [EgConfirmDelete ''e1'']" by code_simp
  have "?reach esc_mount []" by (rule reach.mount) simp
  from reach.act [OF this, of ?p "[]" "[EgAskDelete ''e1'']"] can_click_fires [OF a] have "?reach ?s []" by simp
  from reach.act [OF this, of ?p "[]" "[EgConfirmDelete ''e1'']"] can_click_fires [OF c]
  have "?reach ?s (snd (esc_handle ''t1'' ?s (EgConfirmDelete ''e1'')))" by simp
  then show ?thesis by (rule esc_requests)
qed

end
