(* ===== verification/Inventory.thy ===== *)
theory Inventory
  imports Escalation
begin

text \<open>
  The resource inventory, \<open>pages/InventoryPage.tsx\<close>: source selection, search, and cursor-based
  pagination with a stack of the earlier cursors. The abstract specification of the pagination is
  a path of visited pages (\<open>pages_abs\<close>): next extends it, previous drops its last page.
\<close>

section \<open>Data\<close>

record inv_source =
  is_source_id :: string
  is_display_name :: string
  is_evidence_state :: string

record resource =
  rs_id :: string
  rs_display_name :: "string option"
  rs_kind :: "string option"
  rs_scope :: "string option"
  rs_presence_evidence :: "string option"
  rs_presence :: "string option"
  rs_last_observed :: "string option"

definition healthVariant :: "resource \<Rightarrow> string" where
  "healthVariant r =
     (if rs_presence r = Some ''removed'' then ''muted''
      else if rs_scope r = Some ''current'' \<and> rs_presence_evidence r = Some ''current'' then ''success''
      else if truthy (rs_scope r) \<or> truthy (rs_presence_evidence r) then ''warning''
      else ''muted'')"

definition healthLabel :: "resource \<Rightarrow> string" where
  "healthLabel r =
     (if rs_presence r = Some ''removed'' then ''removed''
      else if rs_scope r = Some ''current'' \<and> rs_presence_evidence r = Some ''current'' then ''healthy''
      else nullish (rs_scope r) (nullish (rs_presence_evidence r) ''unknown''))"

definition inv_fmtTs :: "host \<Rightarrow> string option \<Rightarrow> string" where
  "inv_fmtTs h ts = (if truthy ts then locale_ts h (nullish ts []) else ''--'')"

definition PAGE_LIMIT :: nat where
  "PAGE_LIMIT = 50"

section \<open>State, props, events\<close>

record inventory =
  iv_search :: string
  iv_selectedSource :: "string option"
  iv_selectedResource :: "(string \<times> string) option"
  iv_cursor :: "string option"
  iv_cursorStack :: "string option list"

definition inv_mount :: inventory where
  "inv_mount = \<lparr>iv_search = [], iv_selectedSource = None, iv_selectedResource = None,
     iv_cursor = None, iv_cursorStack = []\<rparr>"

record resource_page =
  rp_items :: "resource list"
  rp_next_cursor :: "string option"

record inv_props =
  ip_host :: host
  ip_sourcesQ :: "inv_source list query"
  ip_resourcesQ :: "resource_page query"

datatype inv_event =
    SelectSource string | InvSearch string | OpenResource string string | CloseResource
  | InvPrev "string option" | InvNext "string option" "string option"

text \<open>\<open>sources[0]?.monitoring_source_id\<close>: the first source is shown until one is selected.\<close>

definition activeSource :: "inventory \<Rightarrow> inv_source list \<Rightarrow> string option" where
  "activeSource s sources = (case iv_selectedSource s of Some i \<Rightarrow> Some i
     | None \<Rightarrow> (case sources of [] \<Rightarrow> None | x # _ \<Rightarrow> Some (is_source_id x)))"

definition cursorParam :: "string option \<Rightarrow> string" where
  "cursorParam c = (if truthy c then ''&cursor='' @ encodeURIComponent (nullish c []) else [])"

definition resources_path :: "string option \<Rightarrow> string option \<Rightarrow> string" where
  "resources_path src c = ''/api/v1/monitoring/sources/'' @ nullish src ''null'' @ ''/resources?limit='' @ str_nat PAGE_LIMIT @ cursorParam c"

definition pageNumber :: "inventory \<Rightarrow> nat" where
  "pageNumber s = length (iv_cursorStack s) + 1"

text \<open>The closures of the two buttons: previous pops the cursor on top of the stack, next pushes the
  current cursor, both read from the render that was clicked.\<close>

definition prev_of :: "inventory \<Rightarrow> string option" where
  "prev_of s = (if iv_cursorStack s = [] then None else last (iv_cursorStack s))"

fun inv_handle :: "inventory \<Rightarrow> inv_event \<Rightarrow> inventory \<times> effect list" where
  "inv_handle s (SelectSource i) = (s\<lparr>iv_selectedSource := Some i, iv_cursor := None, iv_cursorStack := []\<rparr>, [])"
| "inv_handle s (InvSearch x) = (s\<lparr>iv_search := x\<rparr>, [])"
| "inv_handle s (OpenResource src r) = (s\<lparr>iv_selectedResource := Some (src, r)\<rparr>, [])"
| "inv_handle s CloseResource = (s\<lparr>iv_selectedResource := None\<rparr>, [])"
| "inv_handle s (InvPrev prev) = (s\<lparr>iv_cursorStack := butlast (iv_cursorStack s), iv_cursor := prev\<rparr>, [])"
| "inv_handle s (InvNext cur nxt) =
     (if truthy nxt then (s\<lparr>iv_cursorStack := iv_cursorStack s @ [cur], iv_cursor := nxt\<rparr>, []) else (s, []))"

definition matches :: "string \<Rightarrow> resource \<Rightarrow> bool" where
  "matches search r \<longleftrightarrow> search = []
     \<or> str_includes (toLowerCase (nullish (rs_display_name r) [])) (toLowerCase search)
     \<or> str_includes (toLowerCase (nullish (rs_kind r) [])) (toLowerCase search)"

definition visible_resources :: "inventory \<Rightarrow> resource_page option \<Rightarrow> resource list" where
  "visible_resources s d = filter (matches (iv_search s)) (case d of None \<Rightarrow> [] | Some pg \<Rightarrow> rp_items pg)"

definition count_variant :: "string \<Rightarrow> resource list \<Rightarrow> nat" where
  "count_variant v rs = length (filter (\<lambda>r. healthVariant r = v) rs)"

section \<open>Rendering\<close>

definition inv_header :: "inv_props \<Rightarrow> inventory \<Rightarrow> resource list \<Rightarrow> inv_event vnode" where
  "inv_header p s rs = el ''div''
     [el ''div'' [el ''h2'' [Txt ''Resource Inventory''],
        el ''p'' [Txt (str_nat (length rs)), Txt '' dispositivos . pagina '', Txt (str_nat (pageNumber s))]],
      el ''div''
       (el ''div''
          [el ''span'' [Txt (str_nat (count_variant ''success'' rs)), Txt '' healthy''],
           el ''span'' [Txt (str_nat (count_variant ''warning'' rs)), Txt '' degraded''],
           el ''span'' [Txt (str_nat (count_variant ''danger'' rs)), Txt '' unhealthy'']] #
        jif (isFetching (ip_resourcesQ p)) Spinner)]"

definition inv_toolbar :: "inv_props \<Rightarrow> inventory \<Rightarrow> string option \<Rightarrow> inv_source list \<Rightarrow> inv_event vnode" where
  "inv_toolbar p s act sources = el ''div''
     ((if isLoading (ip_sourcesQ p) then [Spinner]
       else map (\<lambda>x. button [At ''key'' (is_source_id x), OnClick (SelectSource (is_source_id x)),
           Bo ''active'' (act = Some (is_source_id x))] [Txt (is_display_name x)]) sources) @
      [El ''input'' [At ''type'' ''search'', At ''placeholder'' ''Filter by name or kind...'', At ''value'' (iv_search s),
         OnChange InvSearch] []])"

definition resource_row :: "host \<Rightarrow> string option \<Rightarrow> resource \<Rightarrow> inv_event vnode" where
  "resource_row h act r = El ''tr''
     (At ''key'' (rs_id r) # jif (truthy act) (OnClick (OpenResource (nullish act []) (rs_id r))))
     [el ''td'' [Txt (nullish (rs_display_name r) (rs_id r))],
      el ''td'' [Txt (nullish (rs_kind r) ''--'')],
      el ''td'' [Badge (healthVariant r) [Txt (healthLabel r)]],
      el ''td'' [Txt (inv_fmtTs h (rs_last_observed r))]]"

definition inv_pager :: "inventory \<Rightarrow> string option \<Rightarrow> bool \<Rightarrow> inv_event vnode" where
  "inv_pager s nextCursor fetching = el ''div''
     [Button ''secondary'' ''sm'' [OnClick (InvPrev (prev_of s)), Bo ''disabled'' (iv_cursorStack s = [] \<or> fetching)]
        [Txt ''<- Anterior''],
      el ''span'' [Txt ''Pagina '', Txt (str_nat (pageNumber s))],
      Button ''secondary'' ''sm'' [OnClick (InvNext (iv_cursor s) nextCursor), Bo ''disabled'' (\<not> truthy nextCursor \<or> fetching)]
        [Txt ''Proxima ->'']]"

definition inv_table :: "host \<Rightarrow> string option \<Rightarrow> resource list \<Rightarrow> inv_event vnode" where
  "inv_table h act rs = Card [el ''table''
     [el ''thead'' [el ''tr'' (map (\<lambda>c. el ''th'' [Txt c]) [''Name'', ''Kind'', ''Health'', ''Last seen''])],
      el ''tbody'' (map (resource_row h act) rs)]]"

definition inv_view :: "inv_props \<Rightarrow> inventory \<Rightarrow> inv_event vnode" where
  "inv_view p s =
     (let sources = nullish (qdata (ip_sourcesQ p)) [];
          act = activeSource s sources;
          rq = ip_resourcesQ p;
          rs = visible_resources s (qdata rq);
          nextCursor = Option.bind (qdata rq) rp_next_cursor
      in case iv_selectedResource s of
           Some (src, r) \<Rightarrow> El ''DeviceDetail'' [At ''sourceId'' src, At ''resourceId'' r, Prop ''onBack'' CloseResource] []
         | None \<Rightarrow> el ''div''
            ([inv_header p s rs, inv_toolbar p s act sources] @
             (if \<not> truthy act then [Card [el ''p'' [Txt ''No monitoring sources configured.'']]]
              else if isLoading rq then [el ''div'' [Spinner]]
              else if isError rq then [el ''p'' [Txt ''Failed to load inventory.'']]
              else if rs = [] then [Card [el ''p'' [Txt (if iv_search s \<noteq> [] then ''No resources match your filter.'' else ''No resources found.'')]]]
              else [inv_table (ip_host p) act rs, inv_pager s nextCursor (isFetching rq)])))"

text \<open>The requests the page's queries make for a state and a list of sources.\<close>

definition inv_queries :: "inventory \<Rightarrow> inv_source list option \<Rightarrow> string list" where
  "inv_queries s srcs = ''/api/v1/monitoring/sources'' #
     jif (activeSource s (nullish srcs []) \<noteq> None) (resources_path (activeSource s (nullish srcs [])) (iv_cursor s))"

section \<open>Pagination: the abstract specification\<close>

text \<open>Abstractly the page walks a path of cursors, the current one last: forward appends the cursor
  that the server gave, backward drops the last one, and selecting a source starts again.\<close>

definition pages_abs :: "inventory \<Rightarrow> string option list" where
  "pages_abs s = iv_cursorStack s @ [iv_cursor s]"

datatype page_move = Forward string | Backward | Restart | Stay

fun pages_move :: "string option list \<Rightarrow> page_move \<Rightarrow> string option list" where
  "pages_move path (Forward c) = path @ [Some c]"
| "pages_move path Backward = butlast path"
| "pages_move path Restart = [None]"
| "pages_move path Stay = path"

fun move_of :: "inv_event \<Rightarrow> page_move" where
  "move_of (InvNext cur nxt) = (case nxt of None \<Rightarrow> Stay | Some c \<Rightarrow> if c = [] then Stay else Forward c)"
| "move_of (InvPrev prev) = Backward"
| "move_of (SelectSource i) = Restart"
| "move_of _ = Stay"

definition inv_allowed :: "inventory \<Rightarrow> inv_event \<Rightarrow> bool" where
  "inv_allowed s e \<longleftrightarrow> (case e of
      InvPrev prev \<Rightarrow> iv_cursorStack s \<noteq> [] \<and> prev = last (iv_cursorStack s)
    | InvNext cur nxt \<Rightarrow> cur = iv_cursor s \<and> truthy nxt
    | _ \<Rightarrow> True)"

lemma inv_view_laws: "solo (inv_view p s)" "offers (inv_allowed s) (inv_view p s)"
proof -
  have row: "solo (resource_row h a r)" "offers (inv_allowed s) (resource_row h a r)" for h a r
    by (auto simp: resource_row_def jif_def inv_allowed_def)
  have parts: "solo (inv_header p s rs)" "solo (inv_toolbar p s a src)" "solo (inv_pager s c b)"
    "offers (inv_allowed s) (inv_header p s rs)" "offers (inv_allowed s) (inv_toolbar p s a src)"
    "offers (inv_allowed s) (inv_pager s c b)" for rs a src c b
    by (auto simp: inv_header_def inv_toolbar_def inv_pager_def inv_allowed_def prev_of_def)
  have table: "solo (inv_table h a rs)" "offers (inv_allowed s) (inv_table h a rs)" for h a rs
    using row by (auto simp: inv_table_def)
  show "solo (inv_view p s)" using parts table by (auto simp: inv_view_def Let_def split: option.splits)
  have "inv_allowed s CloseResource" by (simp add: inv_allowed_def)
  then show "offers (inv_allowed s) (inv_view p s)"
    using parts table by (auto simp: inv_view_def Let_def split: option.splits)
qed

text \<open>The pager is on the screen, and its buttons react, while a page of resources is shown and none is fetched.\<close>

definition pager_shown :: "inv_props \<Rightarrow> inventory \<Rightarrow> bool" where
  "pager_shown p s \<longleftrightarrow> iv_selectedResource s = None \<and> truthy (activeSource s (nullish (qdata (ip_sourcesQ p)) []))
     \<and> \<not> isLoading (ip_resourcesQ p) \<and> \<not> isError (ip_resourcesQ p) \<and> \<not> isFetching (ip_resourcesQ p)
     \<and> visible_resources s (qdata (ip_resourcesQ p)) \<noteq> []"

lemma pager_clicks:
  assumes "pager_shown p s"
  shows "iv_cursorStack s \<noteq> [] \<Longrightarrow> can_click (inv_view p s) [InvPrev (prev_of s)]"
    and "Option.bind (qdata (ip_resourcesQ p)) rp_next_cursor = Some c \<Longrightarrow> c \<noteq> [] \<Longrightarrow> can_click (inv_view p s) [InvNext (iv_cursor s) (Some c)]"
proof -
  let ?n = "Option.bind (qdata (ip_resourcesQ p)) rp_next_cursor"
  let ?k = "inv_pager s ?n False"
  have view: "can_click ?k es \<Longrightarrow> can_click (inv_view p s) es" for es
    using assms by (simp add: inv_view_def pager_shown_def Let_def can_click_El)
  show "can_click (inv_view p s) [InvPrev (prev_of s)]" if "iv_cursorStack s \<noteq> []"
    using that by (intro view) (simp add: inv_pager_def can_click_El)
  show "can_click (inv_view p s) [InvNext (iv_cursor s) (Some c)]" if "?n = Some c" "c \<noteq> []"
    using that by (intro view) (simp add: inv_pager_def can_click_El)
qed

lemma inv_step_refines:
  "inv_allowed s e \<Longrightarrow> pages_abs (fst (inv_handle s e)) = pages_move (pages_abs s) (move_of e)"
  by (cases e) (auto simp: inv_allowed_def pages_abs_def truthy_def butlast_append split: option.splits)

text \<open>C10: the cursor stack refines the path: whatever the user does, the stack with the current cursor on
  top is the path after the corresponding moves -- in particular going back returns to exactly the
  cursor of the page before, and typing into the search does not move.\<close>

theorem inventory_refines_path:
  assumes "fires (inv_view p s) x es"
  shows "pages_abs (fst (run inv_handle s es)) = foldl pages_move (pages_abs s) (map move_of es)"
proof -
  have "length es \<le> 1" using fires_solo [OF assms inv_view_laws(1)] .
  moreover have "list_all (inv_allowed s) es" using fires_offers [OF assms inv_view_laws(2)] .
  ultimately show ?thesis using inv_step_refines by (cases es) (auto simp: split_def Let_def)
qed

theorem inventory_refines_path_witness:
  "let s = inv_mount\<lparr>iv_cursor := Some ''c2'', iv_cursorStack := [None]\<rparr>
   in pages_abs (fst (run inv_handle s [InvPrev None])) = foldl pages_move (pages_abs s) (map move_of [InvPrev None])"
proof -
  let ?s = "inv_mount\<lparr>iv_cursor := Some ''c2'', iv_cursorStack := [None]\<rparr>"
  let ?r = "\<lparr>rs_id = ''r1'', rs_display_name = None, rs_kind = None, rs_scope = None, rs_presence_evidence = None,
     rs_presence = None, rs_last_observed = None\<rparr>"
  let ?p = "\<lparr>ip_host = sample_host,
     ip_sourcesQ = loaded [\<lparr>is_source_id = ''src'', is_display_name = ''Zabbix'', is_evidence_state = ''current''\<rparr>],
     ip_resourcesQ = loaded \<lparr>rp_items = [?r], rp_next_cursor = None\<rparr>\<rparr>"
  have "pager_shown ?p ?s"
    by (simp add: pager_shown_def activeSource_def visible_resources_def matches_def loaded_def inv_mount_def)
  then have "can_click (inv_view ?p ?s) [InvPrev None]" using pager_clicks(1) [of ?p ?s] by (simp add: prev_of_def)
  from inventory_refines_path [OF can_click_fires [OF this]] show ?thesis by (simp only: Let_def)
qed

definition path_ok :: "inventory \<Rightarrow> bool" where
  "path_ok s \<longleftrightarrow> hd (pages_abs s) = None \<and> list_all truthy (tl (pages_abs s))"

lemma path_ok_move: "path \<noteq> [] \<Longrightarrow> hd path = None \<Longrightarrow> list_all truthy (tl path) \<Longrightarrow> (m = Backward \<Longrightarrow> length path > 1) \<Longrightarrow>
   (\<And>c. m = Forward c \<Longrightarrow> c \<noteq> []) \<Longrightarrow>
   hd (pages_move path m) = None \<and> list_all truthy (tl (pages_move path m))"
proof (cases m)
  case Backward
  assume "path \<noteq> []" "hd path = None" "list_all truthy (tl path)" "m = Backward \<Longrightarrow> length path > 1"
  with Backward obtain a b r where "path = a # b # r" by (cases path; cases "tl path") auto
  then show ?thesis using \<open>hd path = None\<close> \<open>list_all truthy (tl path)\<close> Backward
    by (auto simp: list_all_iff dest: in_set_butlastD split: if_splits)
next
  case (Forward c)
  assume "path \<noteq> []" "hd path = None" "list_all truthy (tl path)" "\<And>c. m = Forward c \<Longrightarrow> c \<noteq> []"
  with Forward show ?thesis by (cases path) auto
qed auto

lemma path_ok_step: "path_ok s \<Longrightarrow> inv_allowed s e \<Longrightarrow> path_ok (fst (inv_handle s e))"
proof -
  assume s: "path_ok s" and e: "inv_allowed s e"
  have "pages_abs s \<noteq> []" by (simp add: pages_abs_def)
  moreover have "move_of e = Backward \<Longrightarrow> length (pages_abs s) > 1"
    using e by (cases e) (auto simp: inv_allowed_def pages_abs_def split: option.splits if_splits)
  moreover have "move_of e = Forward c \<Longrightarrow> c \<noteq> []" for c
    by (cases e) (auto split: option.splits if_splits)
  ultimately show ?thesis using s path_ok_move [of "pages_abs s" "move_of e"]
    by (simp add: path_ok_def inv_step_refines [OF e])
qed

interpretation iv: component "\<lambda>s. s = inv_mount" inv_view inv_handle "\<lambda>e. False" inv_allowed path_ok "\<lambda>f. False"
proof unfold_locales
  show "list_all (\<lambda>f. False) (snd (inv_handle s e))" for s e by (cases e) auto
  show "s = inv_mount \<Longrightarrow> path_ok s" for s by (simp add: path_ok_def inv_mount_def pages_abs_def)
qed (simp_all add: inv_view_laws path_ok_step)

text \<open>In every reachable state a cursor is sent exactly when the page number shown is not 1, going back
  far enough reaches the request without a cursor, and the page itself never writes.\<close>

lemma inventory_first_page:
  "reach (\<lambda>s. s = inv_mount) inv_view inv_handle (\<lambda>e. False) s log \<Longrightarrow>
   (truthy (iv_cursor s) \<longleftrightarrow> pageNumber s \<noteq> 1) \<and> (iv_cursorStack s \<noteq> [] \<longrightarrow> hd (iv_cursorStack s) = None) \<and> log = []"
proof -
  assume r: "reach (\<lambda>s. s = inv_mount) inv_view inv_handle (\<lambda>e. False) s log"
  then have "path_ok s" by (rule iv.reachable_inv)
  moreover have "log = []" using iv.reach_inv [OF r] by (cases log) auto
  ultimately show ?thesis
    by (cases "iv_cursorStack s") (auto simp: path_ok_def pages_abs_def pageNumber_def)
qed

theorem inventory_first_page_witness:
  "truthy (iv_cursor (inv_mount\<lparr>iv_search := ''db''\<rparr>)) \<longleftrightarrow> pageNumber (inv_mount\<lparr>iv_search := ''db''\<rparr>) \<noteq> 1"
proof -
  let ?p = "\<lparr>ip_host = sample_host, ip_sourcesQ = loaded [], ip_resourcesQ = loaded \<lparr>rp_items = [], rp_next_cursor = None\<rparr>\<rparr>"
  have "InvSearch ''db'' \<in> set (changes ''db'' (inv_view ?p inv_mount))"
    by (simp add: inv_view_def inv_toolbar_def inv_mount_def enterable_def Let_def)
  then have f: "fires (inv_view ?p inv_mount) ''db'' [InvSearch ''db'']" by (simp add: fires_def)
  have "reach (\<lambda>s. s = inv_mount) inv_view inv_handle (\<lambda>e. False) inv_mount []" by (rule reach.mount) simp
  from reach.act [OF this f]
  have "reach (\<lambda>s. s = inv_mount) inv_view inv_handle (\<lambda>e. False) (inv_mount\<lparr>iv_search := ''db''\<rparr>) []" by simp
  then show ?thesis using inventory_first_page by blast
qed

section \<open>Going back ends\<close>









text \<open>Without the pager there is no way back: on a later page of which no resource is left, or none matches, the button is gone.\<close>

lemma empty_page_no_way_back:
  assumes "visible_resources s (qdata (ip_resourcesQ p)) = []"
  shows "\<not> fires (inv_view p s) x [InvPrev c]"
proof
  assume "fires (inv_view p s) x [InvPrev c]"
  moreover have "offers (\<lambda>e. \<forall>c. e \<noteq> InvPrev c) (inv_view p s)"
    using assms by (auto simp: inv_view_def inv_header_def inv_toolbar_def Let_def split: option.splits)
  ultimately show False using fires_offers by fastforce
qed

end
