(* ===== verification/Maintenance.thy ===== *)
theory Maintenance
  imports Inventory
begin

text \<open>
  The maintenance windows, \<open>pages/MaintenancePage.tsx\<close>: the creation form with its validation and
  the conversion of local times, cancellation, and the window cards.
\<close>

section \<open>Data and times\<close>

record mwindow =
  mw_window_id :: string
  mw_label :: string
  mw_source_ids :: "string list option"
  mw_starts_at :: string
  mw_ends_at :: string
  mw_created_by :: string
  mw_created_at :: string
  mw_active :: bool

definition fmtDT :: "host \<Rightarrow> string \<Rightarrow> string" where
  "fmtDT h ts = locale_short h ts"

definition pad2 :: "nat \<Rightarrow> string" where
  "pad2 n = (let t = str_nat n in if length t < 2 then CHR ''0'' # t else t)"

definition toLocalInput :: "host \<Rightarrow> string \<Rightarrow> string" where
  "toLocalInput h ts = (case date_ms h ts of
      None \<Rightarrow> ''NaN-NaN-NaNTNaN:NaN''
    | Some t \<Rightarrow> (case local_fields h t of (y, mo, d, hh, mi) \<Rightarrow>
        str_int y @ ''-'' @ pad2 (mo + 1) @ ''-'' @ pad2 d @ ''T'' @ pad2 hh @ '':'' @ pad2 mi))"

definition nowPlusMinutes :: "host \<Rightarrow> int \<Rightarrow> string" where
  "nowPlusMinutes h mins = toLocalInput h (iso_of_ms h (now_ms h + mins * 60000))"

definition statusVariant :: "mwindow \<Rightarrow> string" where
  "statusVariant w = (if mw_active w then ''success'' else ''muted'')"

section \<open>State, props, events\<close>

record maintenance =
  mt_showForm :: bool
  mt_label :: string
  mt_sourceIdsRaw :: string
  mt_startsAt :: string
  mt_endsAt :: string
  mt_formErr :: "string option"

definition resetForm :: "host \<Rightarrow> maintenance \<Rightarrow> maintenance" where
  "resetForm h s = s\<lparr>mt_label := [], mt_sourceIdsRaw := [], mt_startsAt := nowPlusMinutes h 0,
     mt_endsAt := nowPlusMinutes h 60, mt_formErr := None\<rparr>"

definition maint_mount :: "host \<Rightarrow> maintenance" where
  "maint_mount h = \<lparr>mt_showForm = False, mt_label = [], mt_sourceIdsRaw = [], mt_startsAt = nowPlusMinutes h 0,
     mt_endsAt = nowPlusMinutes h 60, mt_formErr = None\<rparr>"

record maint_props =
  mp_host :: host
  mp_canOperate :: bool
  mp_windows :: "mwindow list option"
  mp_isLoading :: bool
  mp_isError :: bool
  mp_createPending :: bool
  mp_cancelPending :: bool

datatype maint_event =
    OpenForm | CloseForm | MtLabel string | MtSources string | MtStarts string | MtEnds string
  | SubmitWindow | CreateWindowSuccess | CreateWindowError mut_error
  | CancelWindow string | CancelWindowSuccess | CancelWindowError mut_error

definition is_source_sep :: "char \<Rightarrow> bool" where
  "is_source_sep c \<longleftrightarrow> c = CHR 0x0A \<or> c = CHR '',''"

definition parse_source_ids :: "string \<Rightarrow> string list option" where
  "parse_source_ids raw =
     (if trim raw = [] then None
      else Some (filter (\<lambda>t. t \<noteq> []) (map trim (split_runs is_source_sep raw))))"

definition window_body :: "string \<Rightarrow> string \<Rightarrow> string list option \<Rightarrow> string \<Rightarrow> string \<Rightarrow> json" where
  "window_body tid label ids starts ends = jobj
     [(''tenant_id'', Some (JStr tid)),
      (''label'', Some (JStr label)),
      (''source_ids'', Some (case ids of None \<Rightarrow> JNull | Some xs \<Rightarrow> jstrs xs)),
      (''starts_at'', Some (JStr starts)),
      (''ends_at'', Some (JStr ends))]"

text \<open>\<open>handleCreate\<close>: \<open>toISOString\<close> throws on an unreadable date, after the error was cleared; a window
  that does not end after its start is refused.\<close>

definition handleCreate :: "host \<Rightarrow> string \<Rightarrow> maintenance \<Rightarrow> maintenance \<times> (js_error + effect list)" where
  "handleCreate h tid s =
     (let s1 = s\<lparr>mt_formErr := None\<rparr>;
          ids = parse_source_ids (mt_sourceIdsRaw s)
      in case (date_ms h (mt_startsAt s), date_ms h (mt_endsAt s)) of
           (Some a, Some b) \<Rightarrow>
             (let starts = iso_of_ms h a; ends = iso_of_ms h b;
                  le = (case (date_ms h ends, date_ms h starts) of (Some e, Some st) \<Rightarrow> e \<le> st | _ \<Rightarrow> False)
              in if le then (s1\<lparr>mt_formErr := Some ''End time must be after start time''\<rparr>, Inr [])
                 else (s1, Inr [Request ''POST'' ''/api/v1/maintenance/windows''
                                 (Some (window_body tid (mt_label s) ids starts ends))]))
         | _ \<Rightarrow> (s1, Inl RangeError))"

fun maint_handle :: "host \<Rightarrow> string \<Rightarrow> maintenance \<Rightarrow> maint_event \<Rightarrow> maintenance \<times> effect list" where
  "maint_handle h tid s OpenForm = (resetForm h (s\<lparr>mt_showForm := True\<rparr>), [])"
| "maint_handle h tid s CloseForm = (s\<lparr>mt_showForm := False\<rparr>, [])"
| "maint_handle h tid s (MtLabel x) = (s\<lparr>mt_label := x\<rparr>, [])"
| "maint_handle h tid s (MtSources x) = (s\<lparr>mt_sourceIdsRaw := x\<rparr>, [])"
| "maint_handle h tid s (MtStarts x) = (s\<lparr>mt_startsAt := x\<rparr>, [])"
| "maint_handle h tid s (MtEnds x) = (s\<lparr>mt_endsAt := x\<rparr>, [])"
| "maint_handle h tid s SubmitWindow =
     (case handleCreate h tid s of (s', Inr fs) \<Rightarrow> (s', fs) | (s', Inl _) \<Rightarrow> (s', []))"
| "maint_handle h tid s CreateWindowSuccess =
     (resetForm h (s\<lparr>mt_showForm := False\<rparr>),
      [Invalidate [''maintenance-windows''], Toast ''Janela de manutencao criada'' ''success''])"
| "maint_handle h tid s (CreateWindowError e) =
     (s\<lparr>mt_formErr := Some (nullish (me_message e) ''Failed to create window'')\<rparr>,
      [Toast (nullish (me_message e) ''Erro ao criar janela'') ''error''])"
| "maint_handle h tid s (CancelWindow i) =
     (s, [Request ''DELETE'' (''/api/v1/maintenance/windows/'' @ i @ ''?tenant_id='' @ tid) None])"
| "maint_handle h tid s CancelWindowSuccess =
     (s, [Invalidate [''maintenance-windows''], Toast ''Janela de manutencao cancelada'' ''success''])"
| "maint_handle h tid s (CancelWindowError e) =
     (s, [Toast (nullish (me_message e) ''Erro ao cancelar janela'') ''error''])"

section \<open>Rendering\<close>

definition WindowCard :: "maint_props \<Rightarrow> mwindow \<Rightarrow> maint_event vnode" where
  "WindowCard p w =
     (let h = mp_host p
      in Card [el ''div''
       (el ''div''
         [el ''div'' [el ''span'' [Txt (mw_label w)],
            Badge (statusVariant w) [Txt (if mw_active w then ''active'' else ''upcoming'')]],
          el ''p'' [Txt (fmtDT h (mw_starts_at w)), Txt '' -> '', Txt (fmtDT h (mw_ends_at w))],
          (case mw_source_ids w of
             Some ids \<Rightarrow> el ''p'' [Txt ''Sources: '', Txt (join '', '' ids)]
           | None \<Rightarrow> el ''p'' [Txt ''All sources'']),
          el ''p'' [Txt ''Created by '', Txt (mw_created_by w), Txt '' . '', Txt (fmtDT h (mw_created_at w))]] #
        jif (mp_canOperate p)
          (Button ''secondary'' ''sm'' [OnClick (CancelWindow (mw_window_id w)), Bo ''disabled'' (mp_cancelPending p)]
            [if mp_cancelPending p then Spinner
             else Txt (if mw_active w then ''Encerrar agora'' else ''Cancelar janela'')]))])"

definition window_form :: "maint_props \<Rightarrow> maintenance \<Rightarrow> maint_event vnode" where
  "window_form p s = Card [El ''form'' [OnSubmit SubmitWindow]
     ([el ''h2'' [Txt ''New Maintenance Window''],
       el ''div'' [el ''label'' [Txt ''Label *''],
         El ''input'' [At ''placeholder'' ''e.g. Planned DB upgrade'', At ''value'' (mt_label s), OnChange MtLabel, Bo ''required'' True] []],
       el ''div'' [el ''label'' [Txt ''Source IDs '', el ''span'' [Txt ''(comma-separated, blank = all sources)'']],
         El ''textarea'' [At ''placeholder'' ''mon-src-abc, mon-src-def'', At ''value'' (mt_sourceIdsRaw s), OnChange MtSources] []],
       el ''div''
        [el ''div'' [el ''label'' [Txt ''Starts at *''],
           El ''input'' [At ''type'' ''datetime-local'', At ''value'' (mt_startsAt s), OnChange MtStarts, Bo ''required'' True] []],
         el ''div'' [el ''label'' [Txt ''Ends at *''],
           El ''input'' [At ''type'' ''datetime-local'', At ''value'' (mt_endsAt s), OnChange MtEnds, Bo ''required'' True] []]]] @
      jif (truthy (mt_formErr s)) (el ''p'' [Txt (nullish (mt_formErr s) [])]) @
      [el ''div''
        [Button ''primary'' ''md'' [At ''type'' ''submit'', Bo ''disabled'' (mp_createPending p \<or> mt_label s = [])]
           [Txt (if mp_createPending p then ''Creating...'' else ''Create'')],
         Button ''secondary'' ''md'' [At ''type'' ''button'', OnClick CloseForm] [Txt ''Cancel'']]])]"

definition window_section :: "maint_props \<Rightarrow> string \<Rightarrow> mwindow list \<Rightarrow> maint_event vnode" where
  "window_section p title ws = el ''section'' (el ''h2'' [Txt title] # map (WindowCard p) ws)"

definition maint_view :: "maint_props \<Rightarrow> maintenance \<Rightarrow> maint_event vnode" where
  "maint_view p s =
     (let windows = nullish (mp_windows p) [];
          active = filter mw_active windows;
          upcoming = filter (\<lambda>w. \<not> mw_active w) windows
      in el ''div''
       ([el ''div''
          (el ''div'' [el ''h1'' [Txt ''Maintenance Windows''],
             el ''p'' [Txt ''Alert notifications are suppressed for sources during active windows. Alerts still fire -- only delivery is muted.'']] #
           jif (mp_canOperate p \<and> \<not> mt_showForm s) (Button ''primary'' ''md'' [OnClick OpenForm] [Txt ''+ New Window'']))] @
        jif (mp_canOperate p \<and> mt_showForm s) (window_form p s) @
        jif (mp_isLoading p) Spinner @
        jif (mp_isError p) (el ''p'' [Txt ''Failed to load maintenance windows.'']) @
        jif (active \<noteq> []) (window_section p ''Active'' active) @
        jif (upcoming \<noteq> []) (window_section p ''Upcoming'' upcoming) @
        jif (\<not> mp_isLoading p \<and> windows = [])
          (el ''p'' [Txt ''No maintenance windows. Active and upcoming windows appear here.''])))"

section \<open>Source ids: properties\<close>

definition source_id_ok :: "string \<Rightarrow> bool" where
  "source_id_ok t \<longleftrightarrow> t \<noteq> [] \<and> trim t = t \<and> list_all (\<lambda>c. \<not> is_source_sep c) t"

lemma pre_no_sep: "source_id_ok x \<Longrightarrow> \<forall>c \<in> set pre. c = CHR '' '' \<Longrightarrow> \<forall>c \<in> set (pre @ x). \<not> is_source_sep c"
proof -
  assume x: "source_id_ok x" and pre: "\<forall>c \<in> set pre. c = CHR '' ''"
  show ?thesis
  proof
    fix c assume "c \<in> set (pre @ x)"
    then consider "c \<in> set pre" | "c \<in> set x" unfolding set_append by blast
    then show "\<not> is_source_sep c"
    proof cases
      case 1
      then have "c = CHR '' ''" by (rule bspec [OF pre])
      then show ?thesis by (simp add: is_source_sep_def)
    next
      case 2
      then show ?thesis using x by (simp add: source_id_ok_def list_all_iff)
    qed
  qed
qed



lemma trim_space: "trim t = t \<Longrightarrow> trim (CHR '' '' # t) = t"
  by (simp add: trim_def is_space_def)

lemma split_join_ids:
  "list_all source_id_ok ids \<Longrightarrow> ids \<noteq> [] \<Longrightarrow> \<forall>c \<in> set pre. c = CHR '' '' \<Longrightarrow>
   split_runs is_source_sep (pre @ join '', '' ids) = (pre @ hd ids) # map (\<lambda>t. CHR '' '' # t) (tl ids)"
proof (induction "'', ''" ids arbitrary: pre rule: join.induct)
  case (2 x)
  then have "\<forall>c \<in> set (pre @ x). \<not> is_source_sep c" by (intro pre_no_sep) simp_all
  then show ?case using no_sep_split by simp
next
  case (3 x y ys)
  then have "\<forall>c \<in> set (pre @ x). \<not> is_source_sep c" by (intro pre_no_sep) simp_all
  then have "split_runs is_source_sep ((pre @ x) @ CHR '','' # '' '' @ join '', '' (y # ys))
     = (pre @ x) # split_runs is_source_sep ('' '' @ join '', '' (y # ys))"
    by (rule sep_split) (simp_all add: is_source_sep_def)
  also have "split_runs is_source_sep ('' '' @ join '', '' (y # ys)) = ('' '' @ y) # map (\<lambda>t. CHR '' '' # t) ys"
    using 3 by (subst "3.hyps") auto
  finally show ?case by simp
qed simp

text \<open>Source ids typed as the field asks, separated by commas, are read back exactly: every list of
  non-empty ids without separators or surrounding white space survives.\<close>

lemma parse_source_ids_roundtrip:
  assumes "list_all source_id_ok ids" and "ids \<noteq> []"
  shows "parse_source_ids (join '', '' ids) = Some ids"
proof -
  obtain x xs where ids: "ids = x # xs" using assms(2) by (cases ids) auto
  have "split_runs is_source_sep (join '', '' ids) = x # map (\<lambda>t. CHR '' '' # t) xs"
    using split_join_ids [OF assms, of "[]"] ids by simp
  moreover have "trim (CHR '' '' # t) = t" "trim t = t" "t \<noteq> []" if "t \<in> set ids" for t
    using assms(1) that trim_space by (auto simp: source_id_ok_def list_all_iff)
  then have "map trim (x # map (\<lambda>t. CHR '' '' # t) xs) = ids" "\<forall>t \<in> set ids. t \<noteq> []"
    unfolding ids by (auto intro!: map_idI)
  moreover have "trim (join '', '' ids) \<noteq> []"
  proof
    assume none: "trim (join '', '' ids) = []"
    have "x \<noteq> []" "trim x = x" using assms(1) ids by (simp_all add: source_id_ok_def)
    then have "\<not> is_space (hd x)" using hd_trim [of x] by simp
    moreover have "hd x \<in> set (join '', '' ids)" using \<open>x \<noteq> []\<close> ids by (cases xs) simp_all
    ultimately show False using trim_eq_Nil [OF none] by blast
  qed
  ultimately show ?thesis by (simp add: parse_source_ids_def filter_id_conv)
qed

theorem parse_source_ids_roundtrip_witness:
  "parse_source_ids (join '', '' [''mon-src-abc'', ''mon src'']) = Some [''mon-src-abc'', ''mon src'']"
proof (rule parse_source_ids_roundtrip)
  show "list_all source_id_ok [''mon-src-abc'', ''mon src'']" by code_simp
qed simp

lemma parse_source_ids_sound: "parse_source_ids raw = Some ids \<Longrightarrow> list_all source_id_ok ids"
proof -
  assume "parse_source_ids raw = Some ids"
  then have ids: "ids = filter (\<lambda>t. t \<noteq> []) (map trim (split_runs is_source_sep raw))"
    by (auto simp: parse_source_ids_def split: if_splits)
  have "source_id_ok t" if "t \<in> set ids" for t
  proof -
    from that obtain u where u: "u \<in> set (split_runs is_source_sep raw)" "t = trim u" "t \<noteq> []" by (auto simp: ids)
    have "set (trim u) \<subseteq> set u" by (auto simp: trim_def dest!: set_dropWhileD)
    then have "\<forall>c \<in> set t. \<not> is_source_sep c" using split_runs_no_sep [OF u(1)] u(2) by blast
    then show ?thesis using u by (simp add: source_id_ok_def list_all_iff)
  qed
  then show ?thesis by (simp add: list_all_iff)
qed

lemma separators_only: "parse_source_ids '','' = Some []"
  by code_simp

section \<open>The page: properties\<close>

text \<open>A readable time is read back as written; what a request of the page may be.\<close>

definition times_ok :: "host \<Rightarrow> bool" where
  "times_ok h \<longleftrightarrow> (\<forall>s t. date_ms h s = Some t \<longrightarrow> date_ms h (iso_of_ms h t) = Some t)"

definition maint_allowed :: "bool \<Rightarrow> maintenance \<Rightarrow> maint_event \<Rightarrow> bool" where
  "maint_allowed operate s e \<longleftrightarrow> (case e of
      SubmitWindow \<Rightarrow> operate \<and> mt_label s \<noteq> []
    | CancelWindow i \<Rightarrow> operate
    | _ \<Rightarrow> True)"

definition maint_net :: "maint_event \<Rightarrow> bool" where
  "maint_net e \<longleftrightarrow> (case e of CreateWindowSuccess \<Rightarrow> True | CreateWindowError _ \<Rightarrow> True
     | CancelWindowSuccess \<Rightarrow> True | CancelWindowError _ \<Rightarrow> True | _ \<Rightarrow> False)"

definition window_request :: "host \<Rightarrow> string \<Rightarrow> effect \<Rightarrow> bool" where
  "window_request h tid f \<longleftrightarrow> (\<exists>label ids a b. f = Request ''POST'' ''/api/v1/maintenance/windows'' (Some (window_body tid label ids a b))
     \<and> label \<noteq> [] \<and> list_all source_id_ok (nullish ids [])
     \<and> (times_ok h \<longrightarrow> (\<exists>t u. date_ms h a = Some t \<and> date_ms h b = Some u \<and> t < u)))"

definition maint_request :: "bool \<Rightarrow> host \<Rightarrow> string \<Rightarrow> effect \<Rightarrow> bool" where
  "maint_request operate h tid f \<longleftrightarrow> \<not> is_request f
     \<or> operate \<and> window_request h tid f
     \<or> operate \<and> (\<exists>i. f = Request ''DELETE'' (''/api/v1/maintenance/windows/'' @ i @ ''?tenant_id='' @ tid) None)"

lemma handleCreate_requests:
  "mt_label s \<noteq> [] \<Longrightarrow> handleCreate h tid s = (s', Inr fs) \<Longrightarrow> list_all (window_request h tid) fs"
proof -
  assume l: "mt_label s \<noteq> []" and hc: "handleCreate h tid s = (s', Inr fs)"
  obtain a b where ab: "date_ms h (mt_startsAt s) = Some a" "date_ms h (mt_endsAt s) = Some b"
    using hc by (auto simp: handleCreate_def Let_def split: option.splits)
  let ?ids = "parse_source_ids (mt_sourceIdsRaw s)"
  have ids: "list_all source_id_ok (nullish ?ids [])" using parse_source_ids_sound by (cases ?ids) auto
  have "fs = [] \<or> fs = [Request ''POST'' ''/api/v1/maintenance/windows'' (Some (window_body tid (mt_label s) ?ids (iso_of_ms h a) (iso_of_ms h b)))]
    \<and> (times_ok h \<longrightarrow> a < b)"
  proof (cases "times_ok h")
    case True
    then have "date_ms h (iso_of_ms h a) = Some a" "date_ms h (iso_of_ms h b) = Some b"
      using ab by (auto simp: times_ok_def)
    then show ?thesis using hc ab by (auto simp: handleCreate_def Let_def split: if_splits)
  next
    case False
    then show ?thesis using hc ab by (auto simp: handleCreate_def Let_def split: if_splits)
  qed
  then show ?thesis
  proof
    assume fs: "fs = [Request ''POST'' ''/api/v1/maintenance/windows'' (Some (window_body tid (mt_label s) ?ids (iso_of_ms h a) (iso_of_ms h b)))]
      \<and> (times_ok h \<longrightarrow> a < b)"
    have "times_ok h \<longrightarrow> (\<exists>t u. date_ms h (iso_of_ms h a) = Some t \<and> date_ms h (iso_of_ms h b) = Some u \<and> t < u)"
      using fs ab by (auto simp: times_ok_def)
    then have "window_request h tid (Request ''POST'' ''/api/v1/maintenance/windows''
        (Some (window_body tid (mt_label s) ?ids (iso_of_ms h a) (iso_of_ms h b))))"
      unfolding window_request_def using l ids by blast
    then show ?thesis using fs by simp
  qed simp
qed

lemma maint_view_laws: "solo (maint_view p s)" "offers (maint_allowed (mp_canOperate p) s) (maint_view p s)"
proof -
  let ?P = "maint_allowed (mp_canOperate p) s"
  have card: "solo (WindowCard p w)" "offers ?P (WindowCard p w)" for w
    by (auto simp: WindowCard_def Let_def maint_allowed_def split: option.splits)
  have sec: "solo (window_section p t ws)" "offers ?P (window_section p t ws)" for t ws
    using card by (auto simp: window_section_def)
  have simps: "?P OpenForm" "?P CloseForm" "?P (MtLabel x)" "?P (MtSources x)" "?P (MtStarts x)" "?P (MtEnds x)" for x
    by (simp_all add: maint_allowed_def)
  have form: "solo (window_form p s)" "mp_canOperate p \<Longrightarrow> offers ?P (window_form p s)"
    unfolding window_form_def by (auto simp: simps submittable_def maint_allowed_def)
  show "solo (maint_view p s)" using sec form by (auto simp: maint_view_def Let_def)
  show "offers ?P (maint_view p s)" using sec form simps by (auto simp: maint_view_def Let_def)
qed

interpretation mt: component "\<lambda>s. s = maint_mount h" "\<lambda>p. maint_view (p\<lparr>mp_canOperate := operate\<rparr>)" "maint_handle h tid" maint_net
  "maint_allowed operate" "\<lambda>s. True" "maint_request operate h tid" for operate h tid
proof unfold_locales
  show "offers (maint_allowed operate s) (maint_view (p\<lparr>mp_canOperate := operate\<rparr>) s)" for p s
    using maint_view_laws(2) [of "p\<lparr>mp_canOperate := operate\<rparr>" s] by simp
  show "maint_net e \<Longrightarrow> maint_allowed operate s e" for s e
    by (cases e) (auto simp: maint_net_def maint_allowed_def)
  show "maint_allowed operate s e \<Longrightarrow> list_all (maint_request operate h tid) (snd (maint_handle h tid s e))" for s e
  proof (cases e)
    case SubmitWindow
    assume "maint_allowed operate s e"
    then have op: "operate" "mt_label s \<noteq> []" using SubmitWindow by (simp_all add: maint_allowed_def)
    obtain s' r where hc: "handleCreate h tid s = (s', r)" by fastforce
    show ?thesis
    proof (cases r)
      case (Inr fs)
      then have "list_all (window_request h tid) fs" using handleCreate_requests [OF op(2)] hc by simp
      then show ?thesis using SubmitWindow hc Inr op by (auto simp: maint_request_def list_all_iff)
    qed (simp add: SubmitWindow hc)
  qed (auto simp: maint_allowed_def maint_request_def)
qed (simp_all add: maint_view_laws)

text \<open>C11: every maintenance window ever posted has a label, well-formed source ids and an end strictly after
  its start (for a host that reads back the instants it writes); without the permission to operate
  the page neither creates nor cancels one.\<close>

theorem maintenance_requests:
  "reach (\<lambda>s. s = maint_mount h) (\<lambda>p. maint_view (p\<lparr>mp_canOperate := operate\<rparr>)) (maint_handle h tid) maint_net s log \<Longrightarrow>
   list_all (maint_request operate h tid) log"
  using mt.reach_inv by blast

lemma sample_times: "times_ok sample_host"
  unfolding times_ok_def
proof (intro allI impI)
  fix s t assume "date_ms sample_host s = Some t"
  then have "0 \<le> t" by (auto simp: sample_host_def split: if_splits)
  then show "date_ms sample_host (iso_of_ms sample_host t) = Some t"
    using str_nat_digits [of "nat t"] by (simp add: sample_host_def numeral_def list_all_iff)
qed

theorem maintenance_requests_witness:
  "list_all (maint_request True sample_host ''t1'') (snd (maint_handle sample_host ''t1'' (maint_mount sample_host) (CancelWindow ''w1'')))"
proof -
  let ?w = "\<lparr>mw_window_id = ''w1'', mw_label = ''DB'', mw_source_ids = None, mw_starts_at = ''0'', mw_ends_at = ''9'',
     mw_created_by = ''ana'', mw_created_at = ''0'', mw_active = True\<rparr>"
  let ?p = "\<lparr>mp_host = sample_host, mp_canOperate = True, mp_windows = Some [?w], mp_isLoading = False, mp_isError = False,
     mp_createPending = False, mp_cancelPending = False\<rparr>"
  let ?m = "maint_mount sample_host"
  let ?reach = "reach (\<lambda>s. s = maint_mount sample_host) (\<lambda>p. maint_view (p\<lparr>mp_canOperate := True\<rparr>)) (maint_handle sample_host ''t1'') maint_net"
  have b: "can_click (Button ''secondary'' ''sm'' [OnClick (CancelWindow ''w1''), Bo ''disabled'' False] [Txt ''Encerrar agora'']) [CancelWindow ''w1'']"
    using can_click_Button [of "[OnClick (CancelWindow ''w1''), Bo ''disabled'' False]"] by simp
  have c: "can_click (maint_view (?p\<lparr>mp_canOperate := True\<rparr>) ?m) [CancelWindow ''w1'']"
    by (simp add: maint_view_def window_section_def WindowCard_def Card_def can_click_El b Let_def)
  have "?reach ?m []" by (rule reach.mount) simp
  from reach.act [OF this, of ?p "[]" "[CancelWindow ''w1'']"] can_click_fires [OF c]
  have "?reach ?m (snd (maint_handle sample_host ''t1'' ?m (CancelWindow ''w1'')))" by simp
  then show ?thesis by (rule maintenance_requests)
qed

end
