(* ===== verification/Itsm.thy ===== *)
theory Itsm
  imports UiKit
begin

text \<open>
  Change management, \<open>pages/ITSMPage.tsx\<close>: the creation form of a change request (RFC), the detail
  with its workflow (submission, tasks, approvals), and the list.
\<close>

section \<open>Data\<close>

record rfc_task =
  tk_task_id :: string
  tk_title :: string
  tk_state :: string
  tk_assignee_ref :: "string option"

record approval =
  ap_approval_id :: string
  ap_approver_ref :: string
  ap_decision :: string
  ap_notes :: "string option"

record rfc =
  rf_rfc_id :: string
  rf_title :: string
  rf_description :: string
  rf_category :: string
  rf_risk :: string
  rf_state :: string
  rf_planned_start :: "string option"
  rf_planned_end :: "string option"
  rf_incident_id :: "string option"
  rf_created_by :: string
  rf_created_at :: string
  rf_tasks :: "rfc_task list option"
  rf_approvals :: "approval list option"

definition STATE_COLORS :: "(string \<times> string) list" where
  "STATE_COLORS =
    [(''draft'', ''muted''),
     (''review'', ''warning''),
     (''approved'', ''info''),
     (''scheduled'', ''info''),
     (''implementing'', ''warning''),
     (''complete'', ''success''),
     (''cancelled'', ''muted'')]"

definition RISK_COLORS :: "(string \<times> string) list" where
  "RISK_COLORS =
    [(''low'', ''muted''),
     (''medium'', ''info''),
     (''high'', ''warning''),
     (''critical'', ''danger'')]"

definition itsm_fmtTs :: "host \<Rightarrow> string option \<Rightarrow> string" where
  "itsm_fmtTs h ts = (if truthy ts then locale_date h (nullish ts []) else ''--'')"

section \<open>Creation form\<close>

record rfc_form =
  rc_title :: string
  rc_desc :: string
  rc_category :: string
  rc_risk :: string
  rc_err :: "string option"

definition rfc_form_mount :: rfc_form where
  "rfc_form_mount = \<lparr>rc_title = [], rc_desc = [], rc_category = ''normal'', rc_risk = ''medium'', rc_err = None\<rparr>"

definition CATEGORIES :: "(string \<times> string) list" where
  "CATEGORIES = [(''standard'', ''Standard''), (''normal'', ''Normal''), (''emergency'', ''Emergency'')]"

definition RISKS :: "(string \<times> string) list" where
  "RISKS = [(''low'', ''Low''), (''medium'', ''Medium''), (''high'', ''High''), (''critical'', ''Critical'')]"

datatype rfc_form_event =
    RcTitle string | RcDesc string | RcCategory string | RcRisk string
  | RcCreate | RcCancel | RcSuccess | RcError mut_error

definition rfc_body :: "rfc_form \<Rightarrow> json" where
  "rfc_body s = jobj
     [(''title'', Some (JStr (rc_title s))), (''description'', Some (JStr (rc_desc s))),
      (''category'', Some (JStr (rc_category s))), (''risk'', Some (JStr (rc_risk s)))]"

fun rfc_form_handle :: "string \<Rightarrow> rfc_form \<Rightarrow> rfc_form_event \<Rightarrow> rfc_form \<times> effect list" where
  "rfc_form_handle tid s (RcTitle x) = (s\<lparr>rc_title := x\<rparr>, [])"
| "rfc_form_handle tid s (RcDesc x) = (s\<lparr>rc_desc := x\<rparr>, [])"
| "rfc_form_handle tid s (RcCategory x) = (s\<lparr>rc_category := x\<rparr>, [])"
| "rfc_form_handle tid s (RcRisk x) = (s\<lparr>rc_risk := x\<rparr>, [])"
| "rfc_form_handle tid s RcCreate = (s\<lparr>rc_err := None\<rparr>, [Request ''POST'' ''/api/v1/itsm/changes'' (Some (rfc_body s))])"
| "rfc_form_handle tid s RcCancel = (s, [Callback ''onDone'' []])"
| "rfc_form_handle tid s RcSuccess = (s, [Invalidate [''itsm-changes'', tid], Callback ''onDone'' []])"
| "rfc_form_handle tid s (RcError e) = (s\<lparr>rc_err := Some (detail_or e ''Failed.'')\<rparr>, [])"

definition rfc_form_view :: "bool \<Rightarrow> rfc_form \<Rightarrow> rfc_form_event vnode" where
  "rfc_form_view pending s = Card
     ([el ''h3'' [Txt ''New change request''],
       el ''div'' [el ''label'' [Txt ''Title''],
         El ''input'' [At ''value'' (rc_title s), OnChange RcTitle, At ''placeholder'' ''Brief description of the change''] []],
       el ''div'' [el ''label'' [Txt ''Description''],
         El ''textarea'' [At ''value'' (rc_desc s), OnChange RcDesc, At ''placeholder'' ''Impact, rollback plan, testing steps...''] []],
       el ''div''
        [el ''div'' [el ''label'' [Txt ''Category''], select_view (rc_category s) RcCategory CATEGORIES],
         el ''div'' [el ''label'' [Txt ''Risk''], select_view (rc_risk s) RcRisk RISKS]]] @
      jif (truthy (rc_err s)) (el ''p'' [Txt (nullish (rc_err s) [])]) @
      [el ''div''
        [Button ''primary'' ''sm'' [OnClick RcCreate, Bo ''disabled'' (pending \<or> trim (rc_title s) = [])]
           (jif pending Spinner @ [Txt ''Create'']),
         Button ''secondary'' ''sm'' [OnClick RcCancel] [Txt ''Cancel'']]])"

section \<open>Detail: the workflow of a change\<close>

record rfc_detail =
  rd_taskTitle :: string
  rd_approver :: string
  rd_decision :: string

definition rfc_detail_mount :: rfc_detail where
  "rfc_detail_mount = \<lparr>rd_taskTitle = [], rd_approver = [], rd_decision = ''approved''\<rparr>"

record rfc_props =
  rp_host :: host
  rp_rfc :: rfc
  rp_detail :: "rfc option"
  rp_submitPending :: bool
  rp_taskPending :: bool
  rp_approvalPending :: bool

definition TASK_STATES :: "(string \<times> string) list" where
  "TASK_STATES = [(''open'', ''Open''), (''in_progress'', ''In progress''), (''done'', ''Done''), (''skipped'', ''Skipped'')]"

definition DECISIONS :: "(string \<times> string) list" where
  "DECISIONS = [(''approved'', ''Approve''), (''rejected'', ''Reject'')]"

datatype rfc_event =
    RdBack | RdSubmit | RdSubmitSuccess | RdTaskTitle string | RdAddTask | RdAddTaskSuccess
  | RdTaskState string string | RdTaskStateSuccess | RdApprover string | RdDecision string
  | RdApprove | RdApproveSuccess

definition rfc_path :: "string \<Rightarrow> string" where
  "rfc_path i = ''/api/v1/itsm/changes/'' @ i"

definition task_path :: "string \<Rightarrow> string \<Rightarrow> string" where
  "task_path i t = rfc_path i @ ''/tasks/'' @ t"

fun rfc_handle :: "string \<Rightarrow> string \<Rightarrow> rfc_detail \<Rightarrow> rfc_event \<Rightarrow> rfc_detail \<times> effect list" where
  "rfc_handle tid i s RdBack = (s, [Callback ''onBack'' []])"
| "rfc_handle tid i s RdSubmit =
     (s, [Request ''PUT'' (rfc_path i) (Some (jobj [(''state'', Some (JStr ''review''))]))])"
| "rfc_handle tid i s RdSubmitSuccess = (s, [Invalidate [''itsm-rfc'', i]])"
| "rfc_handle tid i s (RdTaskTitle x) = (s\<lparr>rd_taskTitle := x\<rparr>, [])"
| "rfc_handle tid i s RdAddTask =
     (s, [Request ''POST'' (rfc_path i @ ''/tasks'') (Some (jobj [(''title'', Some (JStr (rd_taskTitle s)))]))])"
| "rfc_handle tid i s RdAddTaskSuccess = (s\<lparr>rd_taskTitle := []\<rparr>, [Invalidate [''itsm-rfc'', i]])"
| "rfc_handle tid i s (RdTaskState t st) =
     (s, [Request ''PUT'' (task_path i t) (Some (jobj [(''state'', Some (JStr st))]))])"
| "rfc_handle tid i s RdTaskStateSuccess = (s, [Invalidate [''itsm-rfc'', i]])"
| "rfc_handle tid i s (RdApprover x) = (s\<lparr>rd_approver := x\<rparr>, [])"
| "rfc_handle tid i s (RdDecision x) = (s\<lparr>rd_decision := x\<rparr>, [])"
| "rfc_handle tid i s RdApprove =
     (s, [Request ''POST'' (rfc_path i @ ''/approvals'')
        (Some (jobj [(''approver_ref'', Some (JStr (rd_approver s))), (''decision'', Some (JStr (rd_decision s)))]))])"
| "rfc_handle tid i s RdApproveSuccess =
     (s\<lparr>rd_approver := []\<rparr>, [Invalidate [''itsm-rfc'', i], Invalidate [''itsm-changes'', tid]])"

text \<open>The RFC on the screen: the loaded one, or the one of the list until it is loaded.\<close>

definition shown_rfc :: "rfc_props \<Rightarrow> rfc" where
  "shown_rfc p = nullish (rp_detail p) (rp_rfc p)"

definition rfc_summary :: "rfc_props \<Rightarrow> rfc_event vnode" where
  "rfc_summary p =
     (let d = shown_rfc p; h = rp_host p
      in Card
       ([el ''h2'' [Txt (rf_title d)]] @
        jif (rf_description d \<noteq> []) (el ''p'' [Txt (rf_description d)]) @
        [el ''div''
          ([el ''span'' [Txt ''Created by '', Txt (rf_created_by d)]] @
           jif (truthy (rf_planned_start d)) (el ''span'' [Txt ''Start: '', Txt (itsm_fmtTs h (rf_planned_start d))]) @
           jif (truthy (rf_planned_end d)) (el ''span'' [Txt ''End: '', Txt (itsm_fmtTs h (rf_planned_end d))]) @
           jif (truthy (rf_incident_id d)) (el ''span'' [Txt ''Incident: '', Txt (nullish (rf_incident_id d) [])]))] @
        jif (rf_state d = ''draft'') (el ''div''
          [Button ''primary'' ''sm'' [OnClick RdSubmit, Bo ''disabled'' (rp_submitPending p)]
             (jif (rp_submitPending p) Spinner @ [Txt ''Submit for review''])])))"

definition rfc_tasks_view :: "rfc_props \<Rightarrow> rfc_detail \<Rightarrow> rfc_event vnode" where
  "rfc_tasks_view p s =
     (let tasks = nullish (rf_tasks (shown_rfc p)) []
      in el ''div''
       ([el ''h3'' [Txt ''Tasks'']] @
        jif (tasks = []) (el ''p'' [Txt ''No tasks yet.'']) @
        map (\<lambda>t. Card
          [el ''div'' (el ''span'' [Txt (tk_title t)] #
             jif (truthy (tk_assignee_ref t)) (el ''span'' [Txt (nullish (tk_assignee_ref t) [])])),
           select_view (tk_state t) (RdTaskState (tk_task_id t)) TASK_STATES]) tasks @
        [el ''div''
          [El ''input'' [At ''value'' (rd_taskTitle s), OnChange RdTaskTitle, At ''placeholder'' ''Add task...''] [],
           Button ''primary'' ''sm'' [OnClick RdAddTask, Bo ''disabled'' (rp_taskPending p \<or> trim (rd_taskTitle s) = [])]
             [Txt ''Add'']]]))"

definition rfc_approvals_view :: "rfc_props \<Rightarrow> rfc_detail \<Rightarrow> rfc_event vnode" where
  "rfc_approvals_view p s =
     (let d = shown_rfc p; approvals = nullish (rf_approvals d) []
      in el ''div''
       ([el ''h3'' [Txt ''Approvals'']] @
        map (\<lambda>a. Card
          [el ''div'' (el ''span'' [Txt (ap_approver_ref a)] #
             jif (truthy (ap_notes a)) (el ''span'' [Txt (nullish (ap_notes a) [])])),
           Badge (if ap_decision a = ''approved'' then ''success'' else if ap_decision a = ''rejected'' then ''danger'' else ''muted'')
             [Txt (ap_decision a)]]) approvals @
        jif (rf_state d = ''review'') (el ''div''
          [El ''input'' [At ''value'' (rd_approver s), OnChange RdApprover, At ''placeholder'' ''Approver name or ID''] [],
           select_view (rd_decision s) RdDecision DECISIONS,
           Button ''primary'' ''sm'' [OnClick RdApprove, Bo ''disabled'' (rp_approvalPending p \<or> trim (rd_approver s) = [])]
             (jif (rp_approvalPending p) Spinner @ [Txt ''Record''])])))"

definition rfc_view :: "rfc_props \<Rightarrow> rfc_detail \<Rightarrow> rfc_event vnode" where
  "rfc_view p s =
     (let d = shown_rfc p; approvals = nullish (rf_approvals d) []
      in el ''div''
       ([el ''div''
          [button [OnClick RdBack] [Txt ''<- Changes''],
           Badge (nullish (map_of STATE_COLORS (rf_state d)) ''muted'') [Txt (rf_state d)],
           Badge (nullish (map_of RISK_COLORS (rf_risk d)) ''muted'') [Txt ''risk: '', Txt (rf_risk d)],
           el ''span'' [Txt (rf_category d)]],
         rfc_summary p,
         rfc_tasks_view p s] @
        jif (rf_state d = ''review'' \<or> approvals \<noteq> []) (rfc_approvals_view p s)))"

section \<open>The page\<close>

record itsm =
  im_creating :: bool
  im_selected :: "rfc option"

definition itsm_mount :: itsm where
  "itsm_mount = \<lparr>im_creating = False, im_selected = None\<rparr>"

datatype itsm_event = ImBack | ImNew | ImFormDone | ImSelect rfc

fun itsm_handle :: "string \<Rightarrow> itsm \<Rightarrow> itsm_event \<Rightarrow> itsm \<times> effect list" where
  "itsm_handle tid s ImBack = (s\<lparr>im_selected := None\<rparr>, [Invalidate [''itsm-changes'', tid]])"
| "itsm_handle tid s ImNew = (s\<lparr>im_creating := True\<rparr>, [])"
| "itsm_handle tid s ImFormDone = (s\<lparr>im_creating := False\<rparr>, [])"
| "itsm_handle tid s (ImSelect r) = (s\<lparr>im_selected := Some r\<rparr>, [])"

definition rfc_row :: "host \<Rightarrow> rfc \<Rightarrow> itsm_event vnode" where
  "rfc_row h r = El ''tr'' [At ''key'' (rf_rfc_id r), OnClick (ImSelect r)]
     [el ''td'' [Badge (nullish (map_of STATE_COLORS (rf_state r)) ''muted'') [Txt (rf_state r)]],
      el ''td'' [Txt (rf_title r)],
      el ''td'' [Txt (rf_category r)],
      el ''td'' [Badge (nullish (map_of RISK_COLORS (rf_risk r)) ''muted'') [Txt (rf_risk r)]],
      el ''td'' [Txt (itsm_fmtTs h (rf_planned_start r))],
      el ''td'' [Txt (itsm_fmtTs h (Some (rf_created_at r)))]]"

definition itsm_view :: "host \<times> rfc list query \<Rightarrow> itsm \<Rightarrow> itsm_event vnode" where
  "itsm_view p s =
     (case im_selected s of
        Some r \<Rightarrow> El ''RFCDetail'' [At ''rfc'' (rf_rfc_id r), Prop ''onBack'' ImBack] []
      | None \<Rightarrow>
          (let q = snd p; rfcs = nullish (qdata q) []
           in el ''div''
            ([el ''div''
               (el ''div'' [el ''h2'' [Txt ''Change Management''], el ''p'' [Txt ''RFCs, approvals, and change tasks.'']] #
                jif (\<not> im_creating s) (Button ''primary'' ''sm'' [OnClick ImNew] [Txt ''New RFC'']))] @
             jif (im_creating s) (El ''CreateRFCForm'' [Prop ''onDone'' ImFormDone] []) @
             [Card
               [if isLoading q then el ''div'' [Spinner]
                else if isError q then el ''p'' [Txt ''Failed to load changes.'']
                else if rfcs = [] then el ''p'' [Txt ''No change requests yet. Create an RFC to begin.'']
                else el ''table''
                  [el ''thead'' [el ''tr'' (map (\<lambda>c. el ''th'' [Txt c])
                     [''State'', ''Title'', ''Category'', ''Risk'', ''Planned'', ''Created''])],
                   el ''tbody'' (map (rfc_row (fst p)) rfcs)]]])))"

section \<open>Creation form: properties\<close>

definition rfc_form_ok :: "rfc_form \<Rightarrow> bool" where
  "rfc_form_ok s \<longleftrightarrow> rc_category s \<in> set (map fst CATEGORIES) \<and> rc_risk s \<in> set (map fst RISKS)"

definition rfc_form_allowed :: "rfc_form \<Rightarrow> rfc_form_event \<Rightarrow> bool" where
  "rfc_form_allowed s e \<longleftrightarrow> (case e of
      RcCategory x \<Rightarrow> x \<in> set (map fst CATEGORIES)
    | RcRisk x \<Rightarrow> x \<in> set (map fst RISKS)
    | RcCreate \<Rightarrow> trim (rc_title s) \<noteq> []
    | _ \<Rightarrow> True)"

definition rfc_form_net :: "rfc_form_event \<Rightarrow> bool" where
  "rfc_form_net e \<longleftrightarrow> (case e of RcSuccess \<Rightarrow> True | RcError _ \<Rightarrow> True | _ \<Rightarrow> False)"

definition rfc_request :: "effect \<Rightarrow> bool" where
  "rfc_request f \<longleftrightarrow> \<not> is_request f \<or> (\<exists>s. f = Request ''POST'' ''/api/v1/itsm/changes'' (Some (rfc_body s))
     \<and> trim (rc_title s) \<noteq> [] \<and> rfc_form_ok s)"

interpretation rc: component "\<lambda>s. s = rfc_form_mount" rfc_form_view "rfc_form_handle tid" rfc_form_net
  rfc_form_allowed rfc_form_ok rfc_request for tid
proof unfold_locales
  show "s = rfc_form_mount \<Longrightarrow> rfc_form_ok s" for s
    by (simp add: rfc_form_mount_def rfc_form_ok_def CATEGORIES_def RISKS_def)
  show "solo (rfc_form_view p s)" for p s
    by (simp add: rfc_form_view_def)
  show "offers (rfc_form_allowed s) (rfc_form_view p s)" for p s
    by (simp add: rfc_form_view_def dead_def rfc_form_allowed_def)
  show "rfc_form_net e \<Longrightarrow> rfc_form_allowed s e" for s e
    by (cases e) (simp_all add: rfc_form_net_def rfc_form_allowed_def)
  show "rfc_form_ok s \<Longrightarrow> rfc_form_allowed s e \<Longrightarrow> rfc_form_ok (fst (rfc_form_handle tid s e))" for s e
    by (cases e) (simp_all add: rfc_form_ok_def rfc_form_allowed_def)
  show "rfc_form_ok s \<Longrightarrow> rfc_form_allowed s e \<Longrightarrow> list_all rfc_request (snd (rfc_form_handle tid s e))" for s e
    by (cases e) (auto simp: rfc_request_def rfc_form_allowed_def)
qed

text \<open>C38: every change the form ever posts has the shape the API declares: a non-blank title, an offered category
  and an offered risk.\<close>

theorem rfc_form_requests:
  assumes "reach (\<lambda>s. s = rfc_form_mount) rfc_form_view (rfc_form_handle tid) rfc_form_net s log"
    and "Request m path body \<in> set log"
  shows "m = ''POST'' \<and> path = ''/api/v1/itsm/changes''
    \<and> (\<exists>title desc category risk. body = Some (jobj
         [(''title'', Some (JStr title)), (''description'', Some (JStr desc)),
          (''category'', Some (JStr category)), (''risk'', Some (JStr risk))])
        \<and> trim title \<noteq> [] \<and> category \<in> {''standard'', ''normal'', ''emergency''}
        \<and> risk \<in> {''low'', ''medium'', ''high'', ''critical''})"
proof -
  have "rfc_request (Request m path body)" using rc.emitted_safe [OF assms] .
  then show ?thesis
    unfolding rfc_request_def rfc_form_ok_def rfc_body_def CATEGORIES_def RISKS_def by auto
qed

section \<open>Detail: properties\<close>

definition rfc_ok :: "rfc_detail \<Rightarrow> bool" where
  "rfc_ok s \<longleftrightarrow> rd_decision s \<in> set (map fst DECISIONS)"

definition rfc_allowed :: "rfc_props \<Rightarrow> rfc_detail \<Rightarrow> rfc_event \<Rightarrow> bool" where
  "rfc_allowed p s e \<longleftrightarrow> (case e of
      RdSubmit \<Rightarrow> rf_state (shown_rfc p) = ''draft'' \<and> \<not> rp_submitPending p
    | RdAddTask \<Rightarrow> trim (rd_taskTitle s) \<noteq> [] \<and> \<not> rp_taskPending p
    | RdTaskState t st \<Rightarrow> t \<in> tk_task_id ` set (nullish (rf_tasks (shown_rfc p)) []) \<and> st \<in> set (map fst TASK_STATES)
    | RdDecision x \<Rightarrow> x \<in> set (map fst DECISIONS)
    | RdApprove \<Rightarrow> rf_state (shown_rfc p) = ''review'' \<and> trim (rd_approver s) \<noteq> [] \<and> \<not> rp_approvalPending p
    | _ \<Rightarrow> True)"

lemma rfc_view_solo: "solo (rfc_view p s)"
  by (auto simp: rfc_view_def rfc_summary_def rfc_tasks_view_def rfc_approvals_view_def 
      Let_def)

lemma rfc_view_offers: "offers (rfc_allowed p s) (rfc_view p s)"
proof -
  have "offers (rfc_allowed p s) (rfc_summary p)"
    by (auto simp: rfc_summary_def rfc_allowed_def dead_def Let_def)
  moreover have "offers (rfc_allowed p s) (rfc_tasks_view p s)"
    by (auto simp: rfc_tasks_view_def rfc_allowed_def dead_def Let_def)
  moreover have "offers (rfc_allowed p s) (rfc_approvals_view p s)"
    by (auto simp: rfc_approvals_view_def rfc_allowed_def dead_def Let_def)
  ultimately show ?thesis by (auto simp: rfc_view_def rfc_allowed_def Let_def)
qed

definition rfc_net :: "rfc_event \<Rightarrow> bool" where
  "rfc_net e \<longleftrightarrow> e \<in> {RdSubmitSuccess, RdAddTaskSuccess, RdTaskStateSuccess, RdApproveSuccess}"

definition rfc_detail_request :: "string \<Rightarrow> effect \<Rightarrow> bool" where
  "rfc_detail_request i f \<longleftrightarrow> \<not> is_request f
     \<or> f = Request ''PUT'' (rfc_path i) (Some (jobj [(''state'', Some (JStr ''review''))]))
     \<or> (\<exists>title. trim title \<noteq> [] \<and> f = Request ''POST'' (rfc_path i @ ''/tasks'') (Some (jobj [(''title'', Some (JStr title))])))
     \<or> (\<exists>t st. st \<in> set (map fst TASK_STATES)
          \<and> f = Request ''PUT'' (task_path i t) (Some (jobj [(''state'', Some (JStr st))])))
     \<or> (\<exists>a d. trim a \<noteq> [] \<and> d \<in> set (map fst DECISIONS)
          \<and> f = Request ''POST'' (rfc_path i @ ''/approvals'')
                  (Some (jobj [(''approver_ref'', Some (JStr a)), (''decision'', Some (JStr d))])))"

lemma rfc_detail_requestI:
  "\<not> is_request f \<Longrightarrow> rfc_detail_request i f"
  "rfc_detail_request i (Request ''PUT'' (rfc_path i) (Some (jobj [(''state'', Some (JStr ''review''))])))"
  "trim title \<noteq> [] \<Longrightarrow>
   rfc_detail_request i (Request ''POST'' (rfc_path i @ ''/tasks'') (Some (jobj [(''title'', Some (JStr title))])))"
  "st \<in> set (map fst TASK_STATES) \<Longrightarrow>
   rfc_detail_request i (Request ''PUT'' (task_path i t) (Some (jobj [(''state'', Some (JStr st))])))"
  "trim a \<noteq> [] \<Longrightarrow> d \<in> set (map fst DECISIONS) \<Longrightarrow>
   rfc_detail_request i (Request ''POST'' (rfc_path i @ ''/approvals'')
     (Some (jobj [(''approver_ref'', Some (JStr a)), (''decision'', Some (JStr d))])))"
  unfolding rfc_detail_request_def by blast+

interpretation rd: component "\<lambda>s. s = rfc_detail_mount" rfc_view "rfc_handle tid i" rfc_net
  "\<lambda>s e. \<exists>p. rfc_allowed p s e" rfc_ok "rfc_detail_request i" for tid i
proof unfold_locales
  show "s = rfc_detail_mount \<Longrightarrow> rfc_ok s" for s
    by (simp add: rfc_detail_mount_def rfc_ok_def DECISIONS_def)
  show "offers (\<lambda>e. \<exists>p. rfc_allowed p s e) (rfc_view p s)" for p s
    using rfc_view_offers by (rule offers_mono) blast
  show "rfc_net e \<Longrightarrow> \<exists>p. rfc_allowed p s e" for s e
    by (auto simp: rfc_net_def rfc_allowed_def)
  show "rfc_ok s \<Longrightarrow> \<exists>p. rfc_allowed p s e \<Longrightarrow> rfc_ok (fst (rfc_handle tid i s e))" for s e
    by (cases e) (simp_all add: rfc_ok_def rfc_allowed_def)
  show "rfc_ok s \<Longrightarrow> \<exists>p. rfc_allowed p s e \<Longrightarrow> list_all (rfc_detail_request i) (snd (rfc_handle tid i s e))" for s e
    by (cases e) (auto simp: rfc_allowed_def rfc_ok_def simp del: set_map intro: rfc_detail_requestI)
qed (rule rfc_view_solo)

theorem rfc_detail_requests:
  "reach (\<lambda>s. s = rfc_detail_mount) rfc_view (rfc_handle tid i) rfc_net s log \<Longrightarrow>
   rfc_ok s \<and> list_all (rfc_detail_request i) log"
  by (rule rd.reach_inv)

lemma can_submit_rfc:
  assumes "rf_state (shown_rfc p) = ''draft''" "\<not> rp_submitPending p"
  shows "can_click (rfc_view p s) [RdSubmit]"
proof -
  have "can_click (rfc_summary p) [RdSubmit]"
    using assms by (simp add: rfc_summary_def Card_def can_click_El Let_def)
  then show ?thesis by (simp add: rfc_view_def can_click_El Let_def)
qed

lemma can_add_task:
  assumes "trim (rd_taskTitle s) \<noteq> []" "\<not> rp_taskPending p"
  shows "can_click (rfc_view p s) [RdAddTask]"
proof -
  have "can_click (rfc_tasks_view p s) [RdAddTask]"
    using assms by (simp add: rfc_tasks_view_def can_click_El Let_def)
  then show ?thesis by (simp add: rfc_view_def can_click_El Let_def)
qed

lemma can_approve:
  assumes "rf_state (shown_rfc p) = ''review''" "trim (rd_approver s) \<noteq> []" "\<not> rp_approvalPending p"
  shows "can_click (rfc_view p s) [RdApprove]"
proof -
  have "can_click (rfc_approvals_view p s) [RdApprove]"
    using assms by (simp add: rfc_approvals_view_def can_click_El Let_def)
  then show ?thesis using assms by (simp add: rfc_view_def can_click_El Let_def)
qed

text \<open>C33: the buttons of a change follow its workflow: it can be submitted exactly as a draft, approved exactly in
  review by a named approver, and a task with a title can be added in every state; none while its own request is pending.\<close>

theorem rfc_workflow:
  "(fires (rfc_view p s) x [RdSubmit] \<longleftrightarrow> rf_state (shown_rfc p) = ''draft'' \<and> \<not> rp_submitPending p)
   \<and> (fires (rfc_view p s) x [RdAddTask] \<longleftrightarrow> trim (rd_taskTitle s) \<noteq> [] \<and> \<not> rp_taskPending p)
   \<and> (fires (rfc_view p s) x [RdApprove] \<longleftrightarrow>
        rf_state (shown_rfc p) = ''review'' \<and> trim (rd_approver s) \<noteq> [] \<and> \<not> rp_approvalPending p)"
proof -
  have up: "rfc_allowed p s e" if "fires (rfc_view p s) x [e]" for e
    using fires_offers [OF that rfc_view_offers] by simp
  show ?thesis
  proof (intro conjI iffI)
    assume "fires (rfc_view p s) x [RdSubmit]"
    from up [OF this] show "rf_state (shown_rfc p) = ''draft''" "\<not> rp_submitPending p"
      by (simp_all add: rfc_allowed_def)
  next
    assume "fires (rfc_view p s) x [RdAddTask]"
    from up [OF this] show "trim (rd_taskTitle s) \<noteq> []" "\<not> rp_taskPending p" by (simp_all add: rfc_allowed_def)
  next
    assume "fires (rfc_view p s) x [RdApprove]"
    from up [OF this] show "rf_state (shown_rfc p) = ''review''" "trim (rd_approver s) \<noteq> []" "\<not> rp_approvalPending p"
      by (simp_all add: rfc_allowed_def)
  qed (auto intro: can_click_fires can_submit_rfc can_add_task can_approve)
qed

theorem rfc_detail_requests_witness:
  "rfc_ok (rfc_detail_mount\<lparr>rd_taskTitle := ''x''\<rparr>) \<and>
   list_all (rfc_detail_request ''c1'') (snd (rfc_handle ''t1'' ''c1'' (rfc_detail_mount\<lparr>rd_taskTitle := ''x''\<rparr>) RdAddTask))"
proof -
  let ?r = "\<lparr>rf_rfc_id = ''c1'', rf_title = ''T'', rf_description = [], rf_category = ''normal'', rf_risk = ''low'',
    rf_state = ''draft'', rf_planned_start = None, rf_planned_end = None, rf_incident_id = None, rf_created_by = ''ana'',
    rf_created_at = ''0'', rf_tasks = None, rf_approvals = None\<rparr>"
  let ?p = "\<lparr>rp_host = sample_host, rp_rfc = ?r, rp_detail = None, rp_submitPending = False, rp_taskPending = False,
    rp_approvalPending = False\<rparr>"
  let ?m = "rfc_detail_mount"
  let ?s = "rfc_detail_mount\<lparr>rd_taskTitle := ''x''\<rparr>"
  let ?reach = "reach (\<lambda>s. s = rfc_detail_mount) rfc_view (rfc_handle ''t1'' ''c1'') rfc_net"
  have "?reach ?m []" by (rule reach.mount) simp
  moreover have "fires (rfc_view ?p ?m) ''x'' [RdTaskTitle ''x'']"
    by (simp add: fires_def rfc_view_def rfc_tasks_view_def enterable_def Let_def shown_rfc_def)
  ultimately have "?reach ?s ([] @ [])" by (rule reach.act) simp
  then have "?reach ?s []" by simp
  moreover have "can_click (rfc_view ?p ?s) [RdAddTask]"
    by (rule can_add_task) (simp_all add: trim_def is_space_def)
  then have "fires (rfc_view ?p ?s) [] [RdAddTask]" by (rule can_click_fires)
  ultimately have "?reach ?s ([] @ snd (rfc_handle ''t1'' ''c1'' ?s RdAddTask))"
    by (rule reach.act) simp
  then have "?reach ?s (snd (rfc_handle ''t1'' ''c1'' ?s RdAddTask))" by simp
  then show ?thesis by (rule rfc_detail_requests)
qed

theorem rfc_form_requests_witness:
  "Request ''POST'' ''/api/v1/itsm/changes'' (Some (rfc_body (rfc_form_mount\<lparr>rc_title := ''x''\<rparr>)))
     \<in> set (snd (rfc_form_handle ''t1'' (rfc_form_mount\<lparr>rc_title := ''x''\<rparr>) RcCreate)) \<and>
   (\<exists>title desc category risk. rfc_body (rfc_form_mount\<lparr>rc_title := ''x''\<rparr>) = jobj
         [(''title'', Some (JStr title)), (''description'', Some (JStr desc)),
          (''category'', Some (JStr category)), (''risk'', Some (JStr risk))]
        \<and> trim title \<noteq> [] \<and> category \<in> {''standard'', ''normal'', ''emergency''}
        \<and> risk \<in> {''low'', ''medium'', ''high'', ''critical''})"
proof -
  let ?m = "rfc_form_mount"
  let ?s = "rfc_form_mount\<lparr>rc_title := ''x''\<rparr>"
  let ?reach = "reach (\<lambda>s. s = rfc_form_mount) rfc_form_view (rfc_form_handle ''t1'') rfc_form_net"
  have "?reach ?m []" by (rule reach.mount) simp
  moreover have "fires (rfc_form_view False ?m) ''x'' [RcTitle ''x'']"
    by (simp add: fires_def rfc_form_view_def Card_def enterable_def)
  ultimately have "?reach ?s ([] @ [])" by (rule reach.act) simp
  then have "?reach ?s []" by simp
  moreover have "can_click (rfc_form_view False ?s) [RcCreate]"
    by (simp add: rfc_form_view_def Card_def can_click_El trim_def is_space_def)
  then have "fires (rfc_form_view False ?s) [] [RcCreate]" by (rule can_click_fires)
  ultimately have "?reach (fst (rfc_form_handle ''t1'' ?s RcCreate)) ([] @ snd (rfc_form_handle ''t1'' ?s RcCreate))"
    by (rule reach.act) simp
  then have "?reach (fst (rfc_form_handle ''t1'' ?s RcCreate)) (snd (rfc_form_handle ''t1'' ?s RcCreate))" by simp
  from rfc_form_requests [OF this, of "''POST''" "''/api/v1/itsm/changes''" "Some (rfc_body ?s)"]
  show ?thesis by simp
qed

end
