(* ===== verification/ApiKeys.thy ===== *)
theory ApiKeys
  imports UiKit
begin

text \<open>
  The API keys, \<open>pages/ApiKeysPage.tsx\<close>: the creation form, the one-time display of the new key, and
  the list with revocation.
\<close>

section \<open>Data\<close>

definition AVAILABLE_SCOPES :: "string list" where
  "AVAILABLE_SCOPES = [''read'', ''write'', ''admin'']"

record api_key =
  ak_key_id :: string
  ak_label :: string
  ak_scopes :: "string list"
  ak_state :: string
  ak_created_at :: string
  ak_expires_at :: "string option"
  ak_last_used_at :: "string option"

definition keys_fmtTs :: "host \<Rightarrow> string option \<Rightarrow> string" where
  "keys_fmtTs h ts = (if truthy ts then locale_ts h (nullish ts []) else ''never'')"

definition keys_fmtDate :: "host \<Rightarrow> string option \<Rightarrow> string" where
  "keys_fmtDate h ts = (if truthy ts then locale_date h (nullish ts []) else ''--'')"

section \<open>The new key\<close>

datatype new_key_event = NkCopy | NkCopied | NkTimer | NkClose

text \<open>\<open>copied\<close> is set when the clipboard has the key, and cleared by a timer of two seconds.\<close>

fun new_key_handle :: "string \<Rightarrow> bool \<Rightarrow> new_key_event \<Rightarrow> bool \<times> effect list" where
  "new_key_handle raw copied NkCopy = (copied, [Callback ''clipboard.writeText'' [raw]])"
| "new_key_handle raw copied NkCopied = (True, [])"
| "new_key_handle raw copied NkTimer = (False, [])"
| "new_key_handle raw copied NkClose = (copied, [Callback ''onClose'' []])"

definition new_key_view :: "string \<Rightarrow> bool \<Rightarrow> new_key_event vnode" where
  "new_key_view raw copied = el ''div'' [el ''div''
     [el ''h3'' [Txt ''API key created''],
      el ''p'' [Txt ''Copy this key now -- it will not be shown again.''],
      el ''div''
        [el ''code'' [Txt raw],
         button [OnClick NkCopy] [Txt (if copied then ''Copied!'' else ''Copy'')]],
      el ''p'' [Txt ''Store it in a secrets manager. This is the only time it will be displayed.''],
      Button ''primary'' ''md'' [OnClick NkClose] [Txt ''Done'']]]"

section \<open>Creation form\<close>

record key_form =
  kf_label :: string
  kf_scopes :: "string list"
  kf_expiresAt :: string
  kf_err :: "string option"

definition key_form_mount :: key_form where
  "key_form_mount = \<lparr>kf_label = [], kf_scopes = [''read''], kf_expiresAt = [], kf_err = None\<rparr>"

datatype key_form_event =
    KfLabel string | KfExpires string | KfScope string | KfCreate | KfEnter
  | KfSuccess string | KfError mut_error

definition toggleScope :: "string \<Rightarrow> string list \<Rightarrow> string list" where
  "toggleScope x xs = arr_toggle x xs"

text \<open>The request of the mutation: \<open>toISOString\<close> throws on an unreadable date, so that the mutation
  fails without a request.\<close>

definition key_request :: "host \<Rightarrow> key_form \<Rightarrow> effect list" where
  "key_request h s =
     (let post = (\<lambda>expires. [Request ''POST'' ''/api/v1/api-keys''
            (Some (jobj [(''label'', Some (JStr (kf_label s))), (''scopes'', Some (jstrs (kf_scopes s))),
                         (''expires_at'', map_option JStr expires)]))])
      in if kf_expiresAt s = [] then post None
         else (case date_ms h (kf_expiresAt s) of None \<Rightarrow> [] | Some t \<Rightarrow> post (Some (iso_of_ms h t))))"

fun key_form_handle :: "host \<Rightarrow> key_form \<Rightarrow> key_form_event \<Rightarrow> key_form \<times> effect list" where
  "key_form_handle h s (KfLabel x) = (s\<lparr>kf_label := x\<rparr>, [])"
| "key_form_handle h s (KfExpires x) = (s\<lparr>kf_expiresAt := x\<rparr>, [])"
| "key_form_handle h s (KfScope x) = (s\<lparr>kf_scopes := toggleScope x (kf_scopes s)\<rparr>, [])"
| "key_form_handle h s KfCreate = (s\<lparr>kf_err := None\<rparr>, key_request h s)"
| "key_form_handle h s KfEnter = (s, key_request h s)"
| "key_form_handle h s (KfSuccess raw) =
     (s\<lparr>kf_label := [], kf_scopes := [''read''], kf_expiresAt := []\<rparr>,
      [Invalidate [''api-keys''], Toast ''Chave criada'' ''success'', Callback ''onCreated'' [raw]])"
| "key_form_handle h s (KfError e) =
     (let msg = nullish (me_message e) ''Failed to create key.''
      in (s\<lparr>kf_err := Some msg\<rparr>, [Toast msg ''error'']))"

definition key_form_view :: "bool \<Rightarrow> key_form \<Rightarrow> key_form_event vnode" where
  "key_form_view pending s = el ''div''
     ([el ''div''
        [el ''div'' [el ''label'' [Txt ''Label''],
           El ''input'' ([At ''type'' ''text'', At ''value'' (kf_label s), OnChange KfLabel] @
             jif (trim (kf_label s) \<noteq> [] \<and> kf_scopes s \<noteq> []) (OnEnter KfEnter) @
             [At ''placeholder'' ''CI pipeline'', At ''maxLength'' ''80'']) []],
         el ''div'' [el ''label'' [Txt ''Expira em (opcional)''],
           El ''input'' [At ''type'' ''date'', At ''value'' (kf_expiresAt s), OnChange KfExpires] []],
         Button ''primary'' ''sm'' [OnClick KfCreate, Bo ''disabled'' (trim (kf_label s) = [] \<or> kf_scopes s = [] \<or> pending)]
           (jif pending Spinner @ [Txt ''Create''])],
       el ''div''
        (el ''span'' [Txt ''Scopes:''] # map (\<lambda>x. el ''label''
           [El ''input'' [At ''type'' ''checkbox'', Bo ''checked'' (List.member (kf_scopes s) x), OnChange (\<lambda>_. KfScope x)] [],
            Txt x]) AVAILABLE_SCOPES)] @
      jif (truthy (kf_err s)) (el ''p'' [Txt (nullish (kf_err s) [])]))"

section \<open>The page\<close>

record api_keys =
  kp_pendingRawKey :: "string option"
  kp_locallyRemoved :: "string list"

definition keys_mount :: api_keys where
  "keys_mount = \<lparr>kp_pendingRawKey = None, kp_locallyRemoved = []\<rparr>"

record keys_props =
  kq_host :: host
  kq_q :: "api_key list query"
  kq_revokePending :: bool

datatype keys_event =
    KeyCreated string | KeyModalClose | Revoke string | RevokeSuccess | RevokeError mut_error | HideKey string

fun keys_handle :: "api_keys \<Rightarrow> keys_event \<Rightarrow> api_keys \<times> effect list" where
  "keys_handle s (KeyCreated raw) = (s\<lparr>kp_pendingRawKey := Some raw\<rparr>, [])"
| "keys_handle s KeyModalClose = (s\<lparr>kp_pendingRawKey := None\<rparr>, [])"
| "keys_handle s (Revoke i) = (s, [Request ''DELETE'' (''/api/v1/api-keys/'' @ i) None])"
| "keys_handle s RevokeSuccess = (s, [Invalidate [''api-keys''], Toast ''Chave revogada'' ''success''])"
| "keys_handle s (RevokeError e) = (s, [Toast (nullish (me_message e) ''Erro ao revogar chave.'') ''error''])"
| "keys_handle s (HideKey i) = (s\<lparr>kp_locallyRemoved := set_of (kp_locallyRemoved s @ [i])\<rparr>, [])"

definition visible_keys :: "api_keys \<Rightarrow> api_key list \<Rightarrow> api_key list" where
  "visible_keys s ks = filter (\<lambda>k. \<not> set_has (kp_locallyRemoved s) (ak_key_id k)) ks"

definition key_row :: "keys_props \<Rightarrow> api_key \<Rightarrow> keys_event vnode" where
  "key_row p k = El ''tr'' [At ''key'' (ak_key_id k)]
     [el ''td'' [Txt (ak_label k)],
      el ''td'' [el ''div'' (map (\<lambda>x. el ''span'' [Txt x]) (ak_scopes k))],
      el ''td'' [Txt (keys_fmtTs (kq_host p) (ak_last_used_at k))],
      el ''td'' [Txt (keys_fmtDate (kq_host p) (Some (ak_created_at k)))],
      el ''td'' [Badge (if ak_state k = ''active'' then ''success'' else ''muted'') [Txt (ak_state k)]],
      el ''td''
        [if ak_state k = ''active''
         then Button ''secondary'' ''sm'' [OnClick (Revoke (ak_key_id k)), Bo ''disabled'' (kq_revokePending p)] [Txt ''Revoke'']
         else Button ''secondary'' ''sm'' [OnClick (HideKey (ak_key_id k))] [Txt ''Remover da lista'']]]"

definition keys_view :: "keys_props \<Rightarrow> api_keys \<Rightarrow> keys_event vnode" where
  "keys_view p s =
     (let q = kq_q p;
          ks = visible_keys s (nullish (qdata q) []);
          active = filter (\<lambda>k. ak_state k = ''active'') ks;
          revoked = filter (\<lambda>k. ak_state k = ''revoked'') ks
      in el ''div''
       (jif (truthy (kp_pendingRawKey s))
          (El ''NewKeyModal'' [At ''rawKey'' (nullish (kp_pendingRawKey s) []), Prop ''onClose'' KeyModalClose] []) @
        [el ''div''
          (el ''div'' [el ''h2'' [Txt ''API Keys''],
             el ''p'' [Txt ''Bearer tokens for programmatic read access . 60 req/min per key'']] #
           jif (isFetching q) Spinner),
         Card
          [CardHeader [el ''span'' [Txt ''Create API key'']],
           El ''CreateKeyForm'' [PropF ''onCreated'' KeyCreated] [],
           el ''p'' [Txt ''Use with: '', el ''code'' [Txt ''Authorization: Bearer jlm_...'']]],
         if isLoading q then el ''div'' [Spinner]
         else if isError q then el ''p'' [Txt ''Failed to load keys.'']
         else if active = [] \<and> revoked = [] then el ''p'' [Txt ''No API keys yet.'']
         else Card [el ''table''
           [el ''thead'' [el ''tr'' (map (\<lambda>c. el ''th'' [Txt c]) [''Label'', ''Scopes'', ''Last used'', ''Created'', ''State'', []])],
            el ''tbody'' (map (key_row p) ks)]]]))"

section \<open>Creation form: properties\<close>

definition key_form_ok :: "key_form \<Rightarrow> bool" where
  "key_form_ok s \<longleftrightarrow> distinct (kf_scopes s) \<and> set (kf_scopes s) \<subseteq> set AVAILABLE_SCOPES"

definition key_ready :: "key_form \<Rightarrow> bool" where
  "key_ready s \<longleftrightarrow> trim (kf_label s) \<noteq> [] \<and> kf_scopes s \<noteq> []"

definition key_form_allowed :: "bool \<Rightarrow> key_form \<Rightarrow> key_form_event \<Rightarrow> bool" where
  "key_form_allowed pending s e \<longleftrightarrow> (case e of
      KfScope x \<Rightarrow> x \<in> set AVAILABLE_SCOPES
    | KfCreate \<Rightarrow> key_ready s \<and> \<not> pending
    | KfEnter \<Rightarrow> key_ready s
    | _ \<Rightarrow> True)"

definition key_form_net :: "key_form_event \<Rightarrow> bool" where
  "key_form_net e \<longleftrightarrow> (case e of KfSuccess _ \<Rightarrow> True | KfError _ \<Rightarrow> True | _ \<Rightarrow> False)"

definition key_post :: "host \<Rightarrow> effect \<Rightarrow> bool" where
  "key_post h f \<longleftrightarrow> \<not> is_request f \<or> (\<exists>label scopes expires. f = Request ''POST'' ''/api/v1/api-keys''
       (Some (jobj [(''label'', Some (JStr label)), (''scopes'', Some (jstrs scopes)), (''expires_at'', map_option JStr expires)]))
     \<and> trim label \<noteq> [] \<and> scopes \<noteq> [] \<and> distinct scopes \<and> set scopes \<subseteq> set AVAILABLE_SCOPES
     \<and> (expires = None \<or> (\<exists>d t. date_ms h d = Some t \<and> expires = Some (iso_of_ms h t))))"

lemma key_request_post: "key_form_ok s \<Longrightarrow> key_ready s \<Longrightarrow> list_all (key_post h) (key_request h s)"
proof -
  assume s: "key_form_ok s" "key_ready s"
  have "key_post h (Request ''POST'' ''/api/v1/api-keys'' (Some (jobj
      [(''label'', Some (JStr (kf_label s))), (''scopes'', Some (jstrs (kf_scopes s))), (''expires_at'', map_option JStr expires)])))"
    if "expires = None \<or> (\<exists>d t. date_ms h d = Some t \<and> expires = Some (iso_of_ms h t))" for expires
    unfolding key_post_def using s that unfolding key_form_ok_def key_ready_def by blast
  from this [of None] this [of "Some (iso_of_ms h t)" for t] show ?thesis
    by (auto simp: key_request_def Let_def split: option.splits)
qed

lemma key_form_offers: "offers (key_form_allowed pending s) (key_form_view pending s)"
  by (auto simp: key_form_view_def key_form_allowed_def key_ready_def Let_def)

interpretation kf: component "\<lambda>s. s = key_form_mount" key_form_view "key_form_handle h" key_form_net
  "key_form_allowed False" key_form_ok "key_post h" for h
proof unfold_locales
  show "s = key_form_mount \<Longrightarrow> key_form_ok s" for s
    by (simp add: key_form_mount_def key_form_ok_def AVAILABLE_SCOPES_def)
  show "solo (key_form_view p s)" for p s
    by (auto simp: key_form_view_def)
  show "offers (key_form_allowed False s) (key_form_view p s)" for p s
    using key_form_offers [of p s] by (rule offers_mono) (auto simp: key_form_allowed_def split: key_form_event.splits)
  show "key_form_net e \<Longrightarrow> key_form_allowed False s e" for s e
    by (cases e) (simp_all add: key_form_net_def key_form_allowed_def)
  show "key_form_ok s \<Longrightarrow> key_form_allowed False s e \<Longrightarrow> key_form_ok (fst (key_form_handle h s e))" for s e
    by (cases e) (simp_all add: key_form_ok_def key_form_allowed_def toggleScope_def arr_toggle_subset Let_def AVAILABLE_SCOPES_def)
  show "key_form_ok s \<Longrightarrow> key_form_allowed False s e \<Longrightarrow> list_all (key_post h) (snd (key_form_handle h s e))" for s e
    using key_request_post by (cases e) (auto simp: key_form_allowed_def key_post_def Let_def)
qed

text \<open>Every key ever requested has a non-blank label and at least one scope, all of them offered and
  none twice, and an expiry only if one was typed.\<close>

lemma api_key_requests:
  "reach (\<lambda>s. s = key_form_mount) key_form_view (key_form_handle h) key_form_net s log \<Longrightarrow> list_all (key_post h) log"
  using kf.reach_inv by blast

lemma can_create_key:
  assumes "key_ready s"
  shows "can_click (key_form_view False s) [KfCreate]"
proof -
  show ?thesis using assms by (simp add: key_form_view_def key_ready_def can_click_El)
qed

text \<open>The button that creates a key is disabled while a creation is pending, the Enter key is not: pressing it
  again posts a second key.\<close>

lemma enter_creates_while_pending:
  "(fires (key_form_view pending s) x [KfCreate] \<longleftrightarrow> key_ready s \<and> \<not> pending) \<and>
   (fires (key_form_view pending s) x [KfEnter] \<longleftrightarrow> key_ready s) \<and>
   snd (key_form_handle h s KfEnter) = snd (key_form_handle h s KfCreate)"
proof (intro conjI iffI)
  assume "fires (key_form_view pending s) x [KfCreate]"
  from fires_offers [OF this key_form_offers] show "key_ready s" "\<not> pending" by (simp_all add: key_form_allowed_def)
next
  assume "key_ready s \<and> \<not> pending"
  then show "fires (key_form_view pending s) x [KfCreate]" using can_create_key can_click_fires by auto
next
  assume "fires (key_form_view pending s) x [KfEnter]"
  from fires_offers [OF this key_form_offers] show "key_ready s" by (simp add: key_form_allowed_def)
next
  assume "key_ready s"
  then have "KfEnter \<in> set (enters (key_form_view pending s))" by (simp add: key_form_view_def key_ready_def)
  then show "fires (key_form_view pending s) x [KfEnter]" by (auto simp: fires_def)
qed simp

theorem api_key_requests_witness:
  "list_all (key_post sample_host)
     (snd (key_form_handle sample_host (key_form_mount\<lparr>kf_label := ''ci''\<rparr>) KfEnter))"
proof -
  let ?m = "key_form_mount"
  let ?s = "key_form_mount\<lparr>kf_label := ''ci''\<rparr>"
  let ?reach = "reach (\<lambda>s. s = key_form_mount) key_form_view (key_form_handle sample_host) key_form_net"
  have "?reach ?m []" by (rule reach.mount) simp
  moreover have "fires (key_form_view False ?m) ''ci'' [KfLabel ''ci'']"
    by (simp add: fires_def key_form_view_def enterable_def)
  ultimately have "?reach ?s []"
    using reach.act [of "\<lambda>s. s = key_form_mount" key_form_view "key_form_handle sample_host" key_form_net ?m "[]" False "''ci''" "[KfLabel ''ci'']" ?s "[]"]
    by simp
  moreover have "KfEnter \<in> set (enters (key_form_view False ?s))"
    by (simp add: key_form_view_def key_form_mount_def trim_def is_space_def)
  then have "fires (key_form_view False ?s) [] [KfEnter]" by (auto simp: fires_def)
  ultimately have "?reach ?s (snd (key_form_handle sample_host ?s KfEnter))"
    using reach.act [of "\<lambda>s. s = key_form_mount" key_form_view "key_form_handle sample_host" key_form_net ?s "[]" False "[]" "[KfEnter]"]
    by simp
  then show ?thesis by (rule api_key_requests)
qed

end
