(* ===== verification/Onboarding.thy ===== *)
theory Onboarding
  imports UiKit
begin

text \<open>
  The creation of a workspace by a user without one, \<open>pages/OnboardingPage.tsx\<close>: a machine of five steps
  in which registering the tenant and binding the session to it are two requests in sequence.
\<close>

section \<open>State\<close>

datatype onboarding_step = Welcome | NameStep | Creating | Binding | DoneStep

record onboarding =
  ob_step :: onboarding_step
  ob_tenantName :: string
  ob_err :: "string option"

definition FEATURES :: "(string \<times> string \<times> string) list" where
  "FEATURES =
    [(''Activity'', ''Monitoramento unificado'',
      ''Zabbix integrado nativamente -- alertas, inventario e metricas em tempo real.''),
     (''Bell'', ''Alertas inteligentes'',
      ''Politicas de alerta com supressao, escalonamento e resposta automatica.''),
     (''Zap'', ''Automacao e ITSM'',
      ''Tickets, SLA, mudancas e automacoes integrados ao fluxo de operacao.'')]"

definition onboarding_mount :: onboarding where
  "onboarding_mount = \<lparr>ob_step = Welcome, ob_tenantName = [], ob_err = None\<rparr>"

section \<open>Handlers\<close>

text \<open>\<open>ObRegistered\<close> and \<open>ObRegisterError\<close> settle the registration, \<open>ObBound\<close> and \<open>ObBindError\<close> the request
  that \<open>onSuccess\<close> awaits, \<open>ObTimer\<close> is the timeout started then.\<close>

datatype onboarding_event =
    ObStart | ObLogout | ObBack | ObName string | ObSubmit
  | ObRegistered string | ObRegisterError mut_error | ObBound | ObBindError | ObTimer

fun onboarding_handle :: "onboarding \<Rightarrow> onboarding_event \<Rightarrow> onboarding \<times> effect list" where
  "onboarding_handle s ObStart = (s\<lparr>ob_step := NameStep\<rparr>, [])"
| "onboarding_handle s ObLogout = (s, [Logout])"
| "onboarding_handle s ObBack = (s\<lparr>ob_step := Welcome\<rparr>, [])"
| "onboarding_handle s (ObName x) = (s\<lparr>ob_tenantName := x\<rparr>, [])"
| "onboarding_handle s ObSubmit =
     (let name = trim (ob_tenantName s)
      in if name = [] then (s, [])
         else (s\<lparr>ob_err := None, ob_step := Creating\<rparr>,
               [Request ''POST'' ''/api/v1/onboarding/register'' (Some (jobj [(''tenant_name'', Some (JStr name))]))]))"
| "onboarding_handle s (ObRegistered tid) =
     (s\<lparr>ob_step := Binding\<rparr>,
      [Request ''POST'' ''/api/tenant/select'' (Some (jobj [(''tenant_id'', Some (JStr tid))]))])"
| "onboarding_handle s (ObRegisterError e) =
     (s\<lparr>ob_err := Some (nullish (me_message e) ''Falha no registro.''), ob_step := NameStep\<rparr>, [])"
| "onboarding_handle s ObBound = (s\<lparr>ob_step := DoneStep\<rparr>, [])"
| "onboarding_handle s ObBindError =
     (s\<lparr>ob_err := Some ''Workspace criado, mas nao foi possivel iniciar a sessao. Recarregue a pagina.''\<rparr>, [])"
| "onboarding_handle s ObTimer = (s, [Invalidate [''session'']])"

section \<open>Views\<close>

definition onboarding_busy :: "onboarding_step \<Rightarrow> onboarding_event vnode" where
  "onboarding_busy st = el ''div'' [el ''div''
     [Spinner, el ''p'' [Txt (if st = Creating then ''Criando workspace...'' else ''Configurando sessao...'')]]]"

definition onboarding_done :: "onboarding_event vnode" where
  "onboarding_done = el ''div'' [el ''div''
     [el ''CheckCircle'' [], el ''p'' [Txt ''Workspace pronto!''], el ''p'' [Txt ''Carregando...'']]]"

definition onboarding_welcome :: "onboarding_event vnode" where
  "onboarding_welcome = el ''div'' [el ''div''
     [el ''div''
        [el ''div'' [el ''span'' [Txt ''JL''], Txt ''Mirror''],
         el ''p'' [Txt ''Plataforma de operacoes para MSPs e equipes de TI'']],
      el ''div'' (map (\<lambda>(icon, title, desc). El ''div'' [At ''key'' title]
         [el ''div'' [el icon []], el ''div'' [el ''div'' [Txt title], el ''div'' [Txt desc]]]) FEATURES),
      Button ''primary'' ''md'' [OnClick ObStart] [Txt ''Criar meu workspace''],
      button [At ''type'' ''button'', OnClick ObLogout] [Txt ''Sair'']]]"

definition onboarding_name :: "bool \<Rightarrow> onboarding \<Rightarrow> onboarding_event vnode" where
  "onboarding_name pending s = el ''div'' [el ''div''
     [button [OnClick ObBack] [Txt ''<- Voltar''],
      el ''h2'' [Txt ''Nomeie seu workspace''],
      el ''p'' [Txt ''Use o nome da sua empresa ou equipe. Pode ser alterado depois.''],
      el ''div''
       ([el ''div'' [el ''label'' [Txt ''Nome do workspace''],
          El ''input'' [At ''type'' ''text'', At ''value'' (ob_tenantName s), OnChange ObName, OnEnter ObSubmit,
            At ''placeholder'' ''Ex: Acme Corp Operacoes'', At ''maxLength'' ''120'', Bo ''autoFocus'' True] []]] @
        jif (truthy (ob_err s)) (el ''p'' [Txt (nullish (ob_err s) [])]) @
        [Button ''primary'' ''md'' [OnClick ObSubmit, Bo ''disabled'' (trim (ob_tenantName s) = [] \<or> pending)]
          (jif pending Spinner @ [Txt ''Criar workspace''])])]]"

definition onboarding_view :: "bool \<Rightarrow> onboarding \<Rightarrow> onboarding_event vnode" where
  "onboarding_view pending s = (case ob_step s of
      Creating \<Rightarrow> onboarding_busy Creating
    | Binding \<Rightarrow> onboarding_busy Binding
    | DoneStep \<Rightarrow> onboarding_done
    | Welcome \<Rightarrow> onboarding_welcome
    | NameStep \<Rightarrow> onboarding_name pending s)"

section \<open>Properties\<close>

definition onboarding_ok :: "onboarding \<Rightarrow> bool" where
  "onboarding_ok s \<longleftrightarrow> (ob_step s = Creating \<longrightarrow> trim (ob_tenantName s) \<noteq> [])"

definition onboarding_allowed :: "onboarding \<Rightarrow> onboarding_event \<Rightarrow> bool" where
  "onboarding_allowed s e \<longleftrightarrow> (case e of
      ObStart \<Rightarrow> ob_step s = Welcome | ObLogout \<Rightarrow> ob_step s = Welcome
    | ObBack \<Rightarrow> ob_step s = NameStep | ObName _ \<Rightarrow> ob_step s = NameStep | ObSubmit \<Rightarrow> ob_step s = NameStep
    | _ \<Rightarrow> True)"

definition onboarding_net :: "onboarding_event \<Rightarrow> bool" where
  "onboarding_net e \<longleftrightarrow> (case e of ObRegistered _ \<Rightarrow> True | ObRegisterError _ \<Rightarrow> True | ObBound \<Rightarrow> True
     | ObBindError \<Rightarrow> True | ObTimer \<Rightarrow> True | _ \<Rightarrow> False)"

definition onboarding_request :: "effect \<Rightarrow> bool" where
  "onboarding_request f \<longleftrightarrow> \<not> is_request f
     \<or> (\<exists>name. name \<noteq> [] \<and> trim name = name
          \<and> f = Request ''POST'' ''/api/v1/onboarding/register'' (Some (jobj [(''tenant_name'', Some (JStr name))])))
     \<or> (\<exists>tid. f = Request ''POST'' ''/api/tenant/select'' (Some (jobj [(''tenant_id'', Some (JStr tid))])))"

lemma onboarding_requestI:
  "\<not> is_request f \<Longrightarrow> onboarding_request f"
  "name \<noteq> [] \<Longrightarrow> trim name = name \<Longrightarrow>
   onboarding_request (Request ''POST'' ''/api/v1/onboarding/register'' (Some (jobj [(''tenant_name'', Some (JStr name))])))"
  "onboarding_request (Request ''POST'' ''/api/tenant/select'' (Some (jobj [(''tenant_id'', Some (JStr tid))])))"
  unfolding onboarding_request_def by blast+

lemma onboarding_offers: "offers (onboarding_allowed s) (onboarding_view pending s)"
  by (auto simp: onboarding_view_def onboarding_busy_def onboarding_done_def onboarding_welcome_def onboarding_name_def
      onboarding_allowed_def FEATURES_def dead_def split: onboarding_step.split)

interpretation ob: component "\<lambda>s. s = onboarding_mount" onboarding_view onboarding_handle onboarding_net
  onboarding_allowed onboarding_ok onboarding_request
proof unfold_locales
  show "s = onboarding_mount \<Longrightarrow> onboarding_ok s" for s by (simp add: onboarding_mount_def onboarding_ok_def)
  show "solo (onboarding_view p s)" for p s
    by (auto simp: onboarding_view_def onboarding_busy_def onboarding_done_def onboarding_welcome_def onboarding_name_def
        FEATURES_def split: onboarding_step.split)
  show "onboarding_net e \<Longrightarrow> onboarding_allowed s e" for s e
    by (cases e) (simp_all add: onboarding_net_def onboarding_allowed_def)
  show "onboarding_ok s \<Longrightarrow> onboarding_allowed s e \<Longrightarrow> onboarding_ok (fst (onboarding_handle s e))" for s e
    by (cases e) (auto simp: onboarding_ok_def onboarding_allowed_def Let_def)
  show "onboarding_allowed s e \<Longrightarrow> list_all onboarding_request (snd (onboarding_handle s e))" for s e
    by (cases e) (auto simp: Let_def intro: onboarding_requestI)
qed (rule onboarding_offers)

theorem onboarding_requests:
  "reach (\<lambda>s. s = onboarding_mount) onboarding_view onboarding_handle onboarding_net s log \<Longrightarrow>
   onboarding_ok s \<and> list_all onboarding_request log"
  by (rule ob.reach_inv)

theorem onboarding_requests_witness:
  "onboarding_ok (onboarding_mount\<lparr>ob_step := Binding\<rparr>) \<and>
   list_all onboarding_request (snd (onboarding_handle onboarding_mount (ObRegistered ''t1'')))"
proof -
  let ?reach = "reach (\<lambda>s. s = onboarding_mount) onboarding_view onboarding_handle onboarding_net"
  have "?reach onboarding_mount []" by (rule reach.mount) simp
  moreover have "onboarding_net (ObRegistered ''t1'')" by (simp add: onboarding_net_def)
  ultimately have "?reach (onboarding_mount\<lparr>ob_step := Binding\<rparr>) ([] @ snd (onboarding_handle onboarding_mount (ObRegistered ''t1'')))"
    by (rule reach.settle) simp
  then show ?thesis using onboarding_requests by fastforce
qed

text \<open>When the workspace is created but cannot be bound to the session, the message that tells the user to reload
  is set in the step that shows only a spinner: the screen does not change and offers no way out.\<close>

lemma binding_error_never_shown:
  "(fires (onboarding_view pending (s\<lparr>ob_step := Binding\<rparr>)) x es \<longleftrightarrow> es = []) \<and>
   ob_step (fst (onboarding_handle (s\<lparr>ob_step := Binding\<rparr>) ObBindError)) = Binding \<and>
   onboarding_view pending (fst (onboarding_handle (s\<lparr>ob_step := Binding\<rparr>) ObBindError)) =
     onboarding_view pending (s\<lparr>ob_step := Binding\<rparr>)"
  by (auto simp: onboarding_view_def onboarding_busy_def fires_def Spinner_def)

end
