(* ===== verification/Channels.thy ===== *)
theory Channels
  imports UiKit
begin

text \<open>
  The destinations of notifications, \<open>pages/NotificationChannelsPage.tsx\<close>: the form that adds one and the
  list with its confirmed removal.
\<close>

section \<open>Data\<close>

record destination =
  de_destination_config_id :: string
  de_channel_class :: string
  de_destination_ref :: string
  de_label :: string
  de_created_at :: string

definition NC_LABELS :: "(string \<times> string) list" where
  "NC_LABELS = [(''whatsapp_business@1'', ''WhatsApp''), (''email_smtp@1'', ''Email''), (''slack@1'', ''Slack'')]"

definition NC_OPTIONS :: "(string \<times> string) list" where
  "NC_OPTIONS =
    [(''email_smtp@1'', ''Email (SMTP)''),
     (''whatsapp_business@1'', ''WhatsApp Business''),
     (''slack@1'', ''Slack Webhook'')]"

definition channelVariant :: "string \<Rightarrow> string" where
  "channelVariant cls =
     (if cls = ''whatsapp_business@1'' then ''success'' else if cls = ''email_smtp@1'' then ''info'' else ''muted'')"

definition channel_fmtTs :: "host \<Rightarrow> string \<Rightarrow> string" where
  "channel_fmtTs h ts = locale_ts h ts"

section \<open>The form\<close>

record dest_form =
  df_channel :: string
  df_destRef :: string
  df_label :: string
  df_err :: "string option"

definition dest_form_mount :: dest_form where
  "dest_form_mount = \<lparr>df_channel = ''email_smtp@1'', df_destRef = [], df_label = [], df_err = None\<rparr>"

datatype dest_event =
    DfChannel string | DfDest string | DfLabel string | DfAdd | DfCancel | DfSuccess | DfError mut_error

definition dest_body :: "dest_form \<Rightarrow> json" where
  "dest_body s = jobj
     [(''channel_class'', Some (JStr (df_channel s))),
      (''destination_ref'', Some (JStr (trim (df_destRef s)))),
      (''label'', Some (JStr (trim (df_label s))))]"

fun dest_handle :: "string \<Rightarrow> dest_form \<Rightarrow> dest_event \<Rightarrow> dest_form \<times> effect list" where
  "dest_handle tid s (DfChannel x) = (s\<lparr>df_channel := x\<rparr>, [])"
| "dest_handle tid s (DfDest x) = (s\<lparr>df_destRef := x\<rparr>, [])"
| "dest_handle tid s (DfLabel x) = (s\<lparr>df_label := x\<rparr>, [])"
| "dest_handle tid s DfAdd =
     (s\<lparr>df_err := None\<rparr>, [Request ''POST'' ''/api/v1/alerting/notification-channels'' (Some (dest_body s))])"
| "dest_handle tid s DfCancel = (s, [Callback ''onDone'' []])"
| "dest_handle tid s DfSuccess =
     (s, [Invalidate [''notification-channels'', tid], Toast ''Canal criado com sucesso'' ''success'', Callback ''onDone'' []])"
| "dest_handle tid s (DfError e) =
     (let d = detail_msg_or e ''Falha ao adicionar canal.''
      in (s\<lparr>df_err := Some d\<rparr>, [Toast (''Erro: '' @ d) ''error'']))"

definition dest_view :: "bool \<Rightarrow> dest_form \<Rightarrow> dest_event vnode" where
  "dest_view pending s = Card
     ([el ''h3'' [Txt ''Add notification destination''],
       el ''div'' [el ''label'' [Txt ''Channel''], select_view (df_channel s) DfChannel NC_OPTIONS],
       el ''div''
        [el ''label'' [Txt (if df_channel s = ''email_smtp@1'' then ''Email address''
           else if df_channel s = ''slack@1'' then ''Webhook URL'' else ''Phone / destination ref'')],
         El ''input'' [At ''type'' ''text'', At ''value'' (df_destRef s), OnChange DfDest,
           At ''placeholder'' (if df_channel s = ''email_smtp@1'' then ''ops@example.com''
             else if df_channel s = ''slack@1'' then ''https://hooks.slack.com/...'' else ''+55119...'')] []],
       el ''div''
        [el ''label'' [Txt ''Label''],
         El ''input'' [At ''type'' ''text'', At ''value'' (df_label s), OnChange DfLabel,
           At ''placeholder'' ''e.g. NOC on-call email''] []]] @
      jif (truthy (df_err s)) (el ''p'' [Txt (nullish (df_err s) [])]) @
      [el ''div''
        [Button ''primary'' ''sm'' [OnClick DfAdd, Bo ''disabled'' (pending \<or> trim (df_destRef s) = [] \<or> trim (df_label s) = [])]
           (jif pending Spinner @ [Txt ''Add'']),
         Button ''secondary'' ''sm'' [OnClick DfCancel] [Txt ''Cancel'']]])"

section \<open>The page\<close>

record channels =
  nc_adding :: bool
  nc_deletingId :: "string option"

definition channels_mount :: channels where
  "channels_mount = \<lparr>nc_adding = False, nc_deletingId = None\<rparr>"

record channels_props =
  cp_host :: host
  cp_canOperate :: bool
  cp_q :: "destination list query"
  cp_deleteMut :: "string mutation"

datatype channels_event =
    NcAdd | NcFormDone | NcAsk string | NcConfirm string | NcCancel | NcDeleted | NcDeleteError mut_error

fun channels_handle :: "string \<Rightarrow> channels \<Rightarrow> channels_event \<Rightarrow> channels \<times> effect list" where
  "channels_handle tid s NcAdd = (s\<lparr>nc_adding := True\<rparr>, [])"
| "channels_handle tid s NcFormDone = (s\<lparr>nc_adding := False\<rparr>, [])"
| "channels_handle tid s (NcAsk i) = (s\<lparr>nc_deletingId := Some i\<rparr>, [])"
| "channels_handle tid s (NcConfirm i) = (s, [Request ''DELETE'' (''/api/v1/alerting/notification-channels/'' @ i) None])"
| "channels_handle tid s NcCancel = (s\<lparr>nc_deletingId := None\<rparr>, [])"
| "channels_handle tid s NcDeleted =
     (s\<lparr>nc_deletingId := None\<rparr>, [Invalidate [''notification-channels'', tid], Toast ''Canal removido'' ''success''])"
| "channels_handle tid s (NcDeleteError e) =
     (s, [Toast (''Erro: '' @ nullish (me_message e) ''Falha ao remover canal.'') ''error''])"

definition channel_row :: "channels_props \<Rightarrow> destination \<Rightarrow> channels_event vnode" where
  "channel_row p d =
     (let removing = isPending (cp_deleteMut p) \<and> variables (cp_deleteMut p) = Some (de_destination_config_id d)
      in El ''tr'' [At ''key'' (de_destination_config_id d)]
       [el ''td'' [Badge (channelVariant (de_channel_class d))
          [Txt (nullish (map_of NC_LABELS (de_channel_class d)) (de_channel_class d))]],
        el ''td'' [Txt (de_label d)],
        el ''td'' [Txt (de_destination_ref d)],
        el ''td'' [Txt (channel_fmtTs (cp_host p) (de_created_at d))],
        el ''td'' (jif (cp_canOperate p)
          (button [OnClick (NcAsk (de_destination_config_id d)), Bo ''disabled'' removing]
            [Txt (if removing then ''removing...'' else ''remove'')]))])"

definition channels_table :: "channels_props \<Rightarrow> channels_event vnode" where
  "channels_table p =
     (let q = cp_q p; ds = nullish (qdata q) []
      in Card
       [if isLoading q then el ''div'' [Spinner]
        else if isError q then el ''p'' [Txt ''Failed to load channels.'']
        else if ds = [] then el ''p'' [Txt ''No destinations configured. Add one to enable email or WhatsApp notifications.'']
        else el ''table''
          [el ''thead'' [el ''tr'' (map (\<lambda>c. el ''th'' [Txt c]) [''Channel'', ''Label'', ''Destination'', ''Added'', []])],
           el ''tbody'' (map (channel_row p) ds)]])"

definition channels_modal :: "channels_props \<Rightarrow> string \<Rightarrow> channels_event confirm_props" where
  "channels_modal p i =
     (let d = find (\<lambda>d. de_destination_config_id d = i) (nullish (qdata (cp_q p)) [])
      in \<lparr>cm_title = ''Remover canal'',
          cm_description = ''Tem certeza que deseja remover '' @ quoted (nullish (map_option de_label d) i) @
            ''? Esta acao nao pode ser desfeita.'',
          cm_confirmLabel = Some ''Remover'', cm_cancelLabel = None, cm_destructive = True,
          cm_isPending = isPending (cp_deleteMut p), cm_onConfirm = NcConfirm i, cm_onCancel = NcCancel\<rparr>)"

definition channels_view :: "channels_props \<Rightarrow> channels \<Rightarrow> channels_event vnode" where
  "channels_view p s = el ''div''
     ([el ''div''
        (el ''div'' [el ''h2'' [Txt ''Canais de Notificacao''],
           el ''p'' [Txt ''Destinos configurados para alertas e notificacoes de incidentes.'']] #
         jif (cp_canOperate p \<and> \<not> nc_adding s) (Button ''primary'' ''sm'' [OnClick NcAdd] [Txt ''Add destination'']))] @
      jif (cp_canOperate p \<and> nc_adding s) (El ''AddDestinationForm'' [Prop ''onDone'' NcFormDone] []) @
      [channels_table p] @
      jif (truthy (nc_deletingId s)) (ConfirmModal (channels_modal p (nullish (nc_deletingId s) []))))"

section \<open>Properties\<close>

definition dest_ok :: "dest_form \<Rightarrow> bool" where
  "dest_ok s \<longleftrightarrow> df_channel s \<in> set (map fst NC_OPTIONS)"

definition dest_allowed :: "dest_form \<Rightarrow> dest_event \<Rightarrow> bool" where
  "dest_allowed s e \<longleftrightarrow> (case e of DfChannel x \<Rightarrow> x \<in> set (map fst NC_OPTIONS)
     | DfAdd \<Rightarrow> trim (df_destRef s) \<noteq> [] \<and> trim (df_label s) \<noteq> [] | _ \<Rightarrow> True)"

definition dest_net :: "dest_event \<Rightarrow> bool" where
  "dest_net e \<longleftrightarrow> (case e of DfSuccess \<Rightarrow> True | DfError _ \<Rightarrow> True | _ \<Rightarrow> False)"

definition dest_request :: "effect \<Rightarrow> bool" where
  "dest_request f \<longleftrightarrow> \<not> is_request f \<or> (\<exists>c r l. f = Request ''POST'' ''/api/v1/alerting/notification-channels''
       (Some (jobj [(''channel_class'', Some (JStr c)), (''destination_ref'', Some (JStr r)), (''label'', Some (JStr l))]))
     \<and> c \<in> set (map fst NC_OPTIONS) \<and> trim r = r \<and> r \<noteq> [] \<and> trim l = l \<and> l \<noteq> [])"

interpretation df: component "\<lambda>s. s = dest_form_mount" dest_view "dest_handle tid" dest_net dest_allowed dest_ok dest_request
  for tid
proof unfold_locales
  show "s = dest_form_mount \<Longrightarrow> dest_ok s" for s by (simp add: dest_form_mount_def dest_ok_def NC_OPTIONS_def)
  show "solo (dest_view p s)" for p s by (simp add: dest_view_def)
  show "offers (dest_allowed s) (dest_view p s)" for p s by (auto simp: dest_view_def dest_allowed_def)
  show "dest_net e \<Longrightarrow> dest_allowed s e" for s e by (cases e) (simp_all add: dest_net_def dest_allowed_def)
  show "dest_ok s \<Longrightarrow> dest_allowed s e \<Longrightarrow> dest_ok (fst (dest_handle tid s e))" for s e
    by (cases e) (simp_all add: dest_ok_def dest_allowed_def Let_def)
  have "dest_request (Request ''POST'' ''/api/v1/alerting/notification-channels'' (Some (dest_body s)))"
    if "dest_ok s" "trim (df_destRef s) \<noteq> []" "trim (df_label s) \<noteq> []" for s
    unfolding dest_request_def dest_body_def using that unfolding dest_ok_def by (metis trim_trim)
  then show "dest_ok s \<Longrightarrow> dest_allowed s e \<Longrightarrow> list_all dest_request (snd (dest_handle tid s e))" for s e
    by (cases e) (auto simp: dest_allowed_def dest_request_def Let_def)
qed

lemma destination_requests:
  "reach (\<lambda>s. s = dest_form_mount) dest_view (dest_handle tid) dest_net s log \<Longrightarrow> list_all dest_request log"
  using df.reach_inv by blast

definition channels_allowed :: "bool \<Rightarrow> channels \<Rightarrow> channels_event \<Rightarrow> bool" where
  "channels_allowed operate s e \<longleftrightarrow> (case e of NcAdd \<Rightarrow> operate | NcAsk i \<Rightarrow> operate
     | NcConfirm i \<Rightarrow> nc_deletingId s = Some i | _ \<Rightarrow> True)"

definition channels_net :: "channels_event \<Rightarrow> bool" where
  "channels_net e \<longleftrightarrow> (case e of NcDeleted \<Rightarrow> True | NcDeleteError _ \<Rightarrow> True | _ \<Rightarrow> False)"

definition channels_ok :: "bool \<Rightarrow> channels \<Rightarrow> bool" where
  "channels_ok operate s \<longleftrightarrow> (nc_deletingId s \<noteq> None \<longrightarrow> operate)"

definition channels_request :: "bool \<Rightarrow> effect \<Rightarrow> bool" where
  "channels_request operate f \<longleftrightarrow> \<not> is_request f
     \<or> operate \<and> (\<exists>i. f = Request ''DELETE'' (''/api/v1/alerting/notification-channels/'' @ i) None)"

lemma channels_view_laws:
  "solo (channels_view p s)" "offers (channels_allowed (cp_canOperate p) s) (channels_view p s)"
proof -
  have row: "solo (channel_row p d)" "offers (channels_allowed (cp_canOperate p) s) (channel_row p d)" for d
    by (auto simp: channel_row_def Let_def channels_allowed_def)
  then have tab: "solo (channels_table p)" "offers (channels_allowed (cp_canOperate p) s) (channels_table p)"
    by (auto simp: channels_table_def Let_def)
  then show "solo (channels_view p s)" by (auto simp: channels_view_def)
  show "offers (channels_allowed (cp_canOperate p) s) (channels_view p s)"
    using tab by (cases "nc_deletingId s") (auto simp: channels_view_def channels_allowed_def channels_modal_def Let_def)
qed

interpretation nc: component "\<lambda>s. s = channels_mount" "\<lambda>p. channels_view (p\<lparr>cp_canOperate := operate\<rparr>)" "channels_handle tid"
  channels_net "channels_allowed operate" "channels_ok operate" "channels_request operate" for operate tid
proof unfold_locales
  show "s = channels_mount \<Longrightarrow> channels_ok operate s" for s by (simp add: channels_mount_def channels_ok_def)
  show "offers (channels_allowed operate s) (channels_view (p\<lparr>cp_canOperate := operate\<rparr>) s)" for p s
    using channels_view_laws(2) [of "p\<lparr>cp_canOperate := operate\<rparr>" s] by simp
  show "channels_net e \<Longrightarrow> channels_allowed operate s e" for s e
    by (cases e) (simp_all add: channels_net_def channels_allowed_def)
  show "channels_ok operate s \<Longrightarrow> channels_allowed operate s e \<Longrightarrow> channels_ok operate (fst (channels_handle tid s e))" for s e
    by (cases e) (auto simp: channels_ok_def channels_allowed_def)
  show "channels_ok operate s \<Longrightarrow> channels_allowed operate s e \<Longrightarrow>
    list_all (channels_request operate) (snd (channels_handle tid s e))" for s e
    by (cases e) (auto simp: channels_request_def channels_allowed_def channels_ok_def)
qed (rule channels_view_laws)

theorem channels_writes:
  "reach (\<lambda>s. s = channels_mount) (\<lambda>p. channels_view (p\<lparr>cp_canOperate := operate\<rparr>)) (channels_handle tid) channels_net s log \<Longrightarrow>
   (nc_deletingId s \<noteq> None \<longrightarrow> operate) \<and> list_all (channels_request operate) log"
  using nc.reach_inv unfolding channels_ok_def by blast

end
