(* ===== verification/Automation.thy ===== *)
theory Automation
  imports UiKit
begin

text \<open>
  Automation scripts, their schedules and runs, \<open>pages/AutomationPage.tsx\<close>: the two creation forms and the
  page with its three tabs, the manual trigger and the confirmed deletions.
\<close>

section \<open>Data\<close>

record script =
  sc_script_id :: string
  sc_name :: string
  sc_description :: string
  sc_script_type :: string
  sc_enabled :: bool
  sc_created_at :: string

record schedule =
  sd_schedule_id :: string
  sd_script_id :: string
  sd_script_name :: string
  sd_interval_secs :: int
  sd_last_run_at :: "string option"
  sd_next_run_at :: string
  sd_enabled :: bool

record script_run =
  rn_run_id :: string
  rn_script_id :: string
  rn_trigger_type :: string
  rn_outcome :: string
  rn_http_status :: "int option"
  rn_error_detail :: "string option"
  rn_output :: "string option"
  rn_log :: "string option"
  rn_started_at :: string
  rn_finished_at :: "string option"

definition OUTCOME_VARIANTS :: "(string \<times> string) list" where
  "OUTCOME_VARIANTS =
    [(''pending'', ''warning''), (''success'', ''success''), (''failed'', ''danger''), (''skipped'', ''muted'')]"

definition auto_fmtTs :: "host \<Rightarrow> string option \<Rightarrow> string" where
  "auto_fmtTs h ts = (if truthy ts then locale_ts h (nullish ts []) else ''--'')"

definition fmtSecs :: "int \<Rightarrow> string" where
  "fmtSecs s =
     (if s < 3600 then ''every '' @ str_int (math_round_div s 60) @ ''m''
      else if s < 86400 then ''every '' @ str_int (math_round_div s 3600) @ ''h''
      else ''every '' @ str_int (math_round_div s 86400) @ ''d'')"

definition run_json :: "script_run \<Rightarrow> json" where
  "run_json r = jobj
     [(''run_id'', Some (JStr (rn_run_id r))), (''script_id'', Some (JStr (rn_script_id r))),
      (''trigger_type'', Some (JStr (rn_trigger_type r))), (''outcome'', Some (JStr (rn_outcome r))),
      (''http_status'', map_option (\<lambda>n. JNum (JInt n)) (rn_http_status r)),
      (''error_detail'', map_option JStr (rn_error_detail r)), (''output'', map_option JStr (rn_output r)),
      (''log'', map_option JStr (rn_log r)), (''started_at'', Some (JStr (rn_started_at r))),
      (''finished_at'', map_option JStr (rn_finished_at r))]"

section \<open>New script\<close>

record script_form =
  sn_name :: string
  sn_desc :: string
  sn_type :: string
  sn_url :: string
  sn_err :: "string option"

definition script_form_mount :: script_form where
  "script_form_mount = \<lparr>sn_name = [], sn_desc = [], sn_type = ''noop'', sn_url = [], sn_err = None\<rparr>"

definition SCRIPT_TYPES :: "(string \<times> string) list" where
  "SCRIPT_TYPES = [(''noop'', ''No-op (test)''), (''webhook'', ''Webhook (HTTP POST)'')]"

datatype script_form_event =
    SnName string | SnDesc string | SnType string | SnUrl string | SnCreate | SnDone | SnSuccess | SnError mut_error

definition script_config :: "script_form \<Rightarrow> json" where
  "script_config s = (if sn_type s = ''webhook''
     then jobj [(''url'', Some (JStr (sn_url s))), (''method'', Some (JStr ''POST''))] else jobj [])"

definition script_body :: "script_form \<Rightarrow> json" where
  "script_body s = jobj
     [(''name'', Some (JStr (sn_name s))), (''description'', Some (JStr (sn_desc s))),
      (''script_type'', Some (JStr (sn_type s))), (''config'', Some (script_config s))]"

fun script_form_handle :: "string \<Rightarrow> script_form \<Rightarrow> script_form_event \<Rightarrow> script_form \<times> effect list" where
  "script_form_handle tid s (SnName x) = (s\<lparr>sn_name := x\<rparr>, [])"
| "script_form_handle tid s (SnDesc x) = (s\<lparr>sn_desc := x\<rparr>, [])"
| "script_form_handle tid s (SnType x) = (s\<lparr>sn_type := x\<rparr>, [])"
| "script_form_handle tid s (SnUrl x) = (s\<lparr>sn_url := x\<rparr>, [])"
| "script_form_handle tid s SnCreate =
     (s\<lparr>sn_err := None\<rparr>, [Request ''POST'' ''/api/v1/automation/scripts'' (Some (script_body s))])"
| "script_form_handle tid s SnDone = (s, [Callback ''onDone'' []])"
| "script_form_handle tid s SnSuccess = (s, [Invalidate [''automation-scripts'', tid], Callback ''onDone'' []])"
| "script_form_handle tid s (SnError e) = (s\<lparr>sn_err := Some (detail_or e ''Failed.'')\<rparr>, [])"

definition script_form_view :: "bool \<Rightarrow> script_form \<Rightarrow> script_form_event vnode" where
  "script_form_view pending s = Card
     ([el ''h3'' [Txt ''New automation script''],
       el ''div'' [el ''label'' [Txt ''Name''],
         El ''input'' [At ''value'' (sn_name s), OnChange SnName, At ''placeholder'' ''e.g. Alert webhook''] []],
       el ''div'' [el ''label'' [Txt ''Type''], select_view (sn_type s) SnType SCRIPT_TYPES]] @
      jif (sn_type s = ''webhook'') (el ''div'' [el ''label'' [Txt ''Webhook URL (https://)''],
         El ''input'' [At ''value'' (sn_url s), OnChange SnUrl, At ''placeholder'' ''https://hooks.example.com/...''] []]) @
      [el ''div'' [el ''label'' [Txt ''Description''],
         El ''input'' [At ''value'' (sn_desc s), OnChange SnDesc, At ''placeholder'' ''Optional description''] []]] @
      jif (truthy (sn_err s)) (el ''p'' [Txt (nullish (sn_err s) [])]) @
      [el ''div''
        [Button ''primary'' ''sm'' [OnClick SnCreate,
             Bo ''disabled'' (pending \<or> trim (sn_name s) = [] \<or> sn_type s = ''webhook'' \<and> trim (sn_url s) = [])]
           (jif pending Spinner @ [Txt ''Create'']),
         Button ''secondary'' ''sm'' [OnClick SnDone] [Txt ''Cancel'']]])"

section \<open>New schedule\<close>

record schedule_form =
  dn_scriptId :: string
  dn_intervalMins :: string
  dn_err :: "string option"

text \<open>The script chosen at first is the first one of the list, enabled or not.\<close>

definition schedule_form_mount :: "script list \<Rightarrow> schedule_form" where
  "schedule_form_mount scripts = \<lparr>dn_scriptId = (case scripts of [] \<Rightarrow> [] | s # _ \<Rightarrow> sc_script_id s),
     dn_intervalMins = ''60'', dn_err = None\<rparr>"

datatype schedule_form_event =
    DnScript string | DnInterval string | DnSchedule | DnDone | DnSuccess | DnError mut_error

text \<open>\<open>parseInt(m) * 60\<close>, which JSON writes as \<open>null\<close> when it is \<open>NaN\<close>.\<close>

definition interval_json :: "string \<Rightarrow> json" where
  "interval_json m = JNum (case parseInt m of None \<Rightarrow> JNaN | Some n \<Rightarrow> JInt (n * 60))"

definition schedule_body :: "schedule_form \<Rightarrow> json" where
  "schedule_body s = jobj
     [(''script_id'', Some (JStr (dn_scriptId s))), (''interval_secs'', Some (interval_json (dn_intervalMins s)))]"

fun schedule_form_handle :: "string \<Rightarrow> schedule_form \<Rightarrow> schedule_form_event \<Rightarrow> schedule_form \<times> effect list" where
  "schedule_form_handle tid s (DnScript x) = (s\<lparr>dn_scriptId := x\<rparr>, [])"
| "schedule_form_handle tid s (DnInterval x) = (s\<lparr>dn_intervalMins := x\<rparr>, [])"
| "schedule_form_handle tid s DnSchedule =
     (s\<lparr>dn_err := None\<rparr>, [Request ''POST'' ''/api/v1/automation/schedules'' (Some (schedule_body s))])"
| "schedule_form_handle tid s DnDone = (s, [Callback ''onDone'' []])"
| "schedule_form_handle tid s DnSuccess = (s, [Invalidate [''automation-schedules'', tid], Callback ''onDone'' []])"
| "schedule_form_handle tid s (DnError e) = (s\<lparr>dn_err := Some (detail_or e ''Failed.'')\<rparr>, [])"

definition schedule_options :: "script list \<Rightarrow> (string \<times> string) list" where
  "schedule_options scripts = map (\<lambda>s. (sc_script_id s, sc_name s)) (filter sc_enabled scripts)"

definition schedule_form_view :: "script list \<Rightarrow> bool \<Rightarrow> schedule_form \<Rightarrow> schedule_form_event vnode" where
  "schedule_form_view scripts pending s = Card
     ([el ''h3'' [Txt ''New schedule''],
       el ''div'' [el ''label'' [Txt ''Script''], select_view (dn_scriptId s) DnScript (schedule_options scripts)],
       el ''div'' [el ''label'' [Txt ''Interval (minutes, min 1)''],
         El ''input'' [At ''type'' ''number'', At ''min'' ''1'', At ''value'' (dn_intervalMins s), OnChange DnInterval] []]] @
      jif (truthy (dn_err s)) (el ''p'' [Txt (nullish (dn_err s) [])]) @
      [el ''div''
        [Button ''primary'' ''sm'' [OnClick DnSchedule, Bo ''disabled'' (pending \<or> dn_scriptId s = [])]
           (jif pending Spinner @ [Txt ''Schedule'']),
         Button ''secondary'' ''sm'' [OnClick DnDone] [Txt ''Cancel'']]])"

section \<open>The page\<close>

record automation =
  am_tab :: string
  am_creatingScript :: bool
  am_creatingSchedule :: bool
  am_confirmDeleteScriptId :: "string option"
  am_confirmDeleteScheduleId :: "string option"
  am_expandedRunId :: "string option"

definition automation_mount :: automation where
  "automation_mount = \<lparr>am_tab = ''scripts'', am_creatingScript = False, am_creatingSchedule = False,
     am_confirmDeleteScriptId = None, am_confirmDeleteScheduleId = None, am_expandedRunId = None\<rparr>"

record automation_props =
  ap_host :: host
  ap_canOperate :: bool
  ap_scripts :: "script list query"
  ap_schedules :: "schedule list query"
  ap_runs :: "script_run list query"
  ap_triggerPending :: bool
  ap_deleteScriptPending :: bool
  ap_deleteSchedulePending :: bool

datatype automation_event =
    AmTab string | AmNewScript | AmNewSchedule | AmScriptDone | AmScheduleDone
  | AmTrigger string | AmTriggered | AmTriggerError
  | AmAskScript string | AmDeleteScript string | AmKeepScript | AmScriptDeleted | AmScriptDeleteError
  | AmAskSchedule string | AmDeleteSchedule string | AmKeepSchedule | AmScheduleDeleted | AmScheduleDeleteError
  | AmExpand string

definition script_path :: "string \<Rightarrow> string" where
  "script_path i = ''/api/v1/automation/scripts/'' @ i"

definition schedule_path :: "string \<Rightarrow> string" where
  "schedule_path i = ''/api/v1/automation/schedules/'' @ i"

definition trigger_path :: "string \<Rightarrow> string" where
  "trigger_path i = script_path i @ ''/trigger''"

fun automation_handle :: "string \<Rightarrow> automation \<Rightarrow> automation_event \<Rightarrow> automation \<times> effect list" where
  "automation_handle tid s (AmTab t) = (s\<lparr>am_tab := t\<rparr>, [])"
| "automation_handle tid s AmNewScript = (s\<lparr>am_creatingScript := True\<rparr>, [])"
| "automation_handle tid s AmNewSchedule = (s\<lparr>am_creatingSchedule := True\<rparr>, [])"
| "automation_handle tid s AmScriptDone = (s\<lparr>am_creatingScript := False\<rparr>, [])"
| "automation_handle tid s AmScheduleDone = (s\<lparr>am_creatingSchedule := False\<rparr>, [])"
| "automation_handle tid s (AmTrigger i) = (s, [Request ''POST'' (trigger_path i) (Some (jobj []))])"
| "automation_handle tid s AmTriggered =
     (s, [Invalidate [''automation-runs'', tid], Toast ''Execucao iniciada.'' ''success''])"
| "automation_handle tid s AmTriggerError = (s, [Toast ''Erro ao iniciar execucao.'' ''error''])"
| "automation_handle tid s (AmAskScript i) = (s\<lparr>am_confirmDeleteScriptId := Some i\<rparr>, [])"
| "automation_handle tid s (AmDeleteScript i) = (s, [Request ''DELETE'' (script_path i) None])"
| "automation_handle tid s AmKeepScript = (s\<lparr>am_confirmDeleteScriptId := None\<rparr>, [])"
| "automation_handle tid s AmScriptDeleted =
     (s\<lparr>am_confirmDeleteScriptId := None\<rparr>,
      [Invalidate [''automation-scripts'', tid], Toast ''Script excluido.'' ''success''])"
| "automation_handle tid s AmScriptDeleteError =
     (s\<lparr>am_confirmDeleteScriptId := None\<rparr>, [Toast ''Erro ao excluir script.'' ''error''])"
| "automation_handle tid s (AmAskSchedule i) = (s\<lparr>am_confirmDeleteScheduleId := Some i\<rparr>, [])"
| "automation_handle tid s (AmDeleteSchedule i) = (s, [Request ''DELETE'' (schedule_path i) None])"
| "automation_handle tid s AmKeepSchedule = (s\<lparr>am_confirmDeleteScheduleId := None\<rparr>, [])"
| "automation_handle tid s AmScheduleDeleted =
     (s\<lparr>am_confirmDeleteScheduleId := None\<rparr>,
      [Invalidate [''automation-schedules'', tid], Toast ''Agendamento excluido.'' ''success''])"
| "automation_handle tid s AmScheduleDeleteError =
     (s\<lparr>am_confirmDeleteScheduleId := None\<rparr>, [Toast ''Erro ao excluir agendamento.'' ''error''])"
| "automation_handle tid s (AmExpand i) =
     (s\<lparr>am_expandedRunId := (if am_expandedRunId s = Some i then None else Some i)\<rparr>, [])"

definition automation_tabs :: "(string \<times> string) list" where
  "automation_tabs = [(''scripts'', ''Scripts''), (''schedules'', ''Schedules''), (''runs'', ''Run history'')]"

definition script_row :: "automation_props \<Rightarrow> script \<Rightarrow> automation_event vnode" where
  "script_row p s = El ''tr'' [At ''key'' (sc_script_id s)]
     [el ''td'' (Txt (sc_name s) # jif (sc_description s \<noteq> []) (el ''span'' [Txt (sc_description s)])),
      el ''td'' [Badge ''muted'' [Txt (sc_script_type s)]],
      el ''td'' [Badge (if sc_enabled s then ''success'' else ''muted'') [Txt (if sc_enabled s then ''enabled'' else ''disabled'')]],
      el ''td'' [el ''div''
        (jif (ap_canOperate p \<and> sc_enabled s)
           (Button ''secondary'' ''sm'' [OnClick (AmTrigger (sc_script_id s)), Bo ''disabled'' (ap_triggerPending p)] [Txt ''Run now'']) @
         jif (ap_canOperate p) (button [OnClick (AmAskScript (sc_script_id s))] [Txt ''Excluir'']))]]"

definition scripts_tab :: "automation_props \<Rightarrow> automation_event vnode" where
  "scripts_tab p =
     (let xs = nullish (qdata (ap_scripts p)) []
      in Card
       [if isLoading (ap_scripts p) then el ''div'' [Spinner]
        else if xs = [] then el ''p'' [Txt ''No automation scripts.'']
        else el ''table''
          [el ''thead'' [el ''tr'' (map (\<lambda>c. el ''th'' [Txt c]) [''Name'', ''Type'', ''Status'', []])],
           el ''tbody'' (map (script_row p) xs)]])"

definition schedule_row :: "automation_props \<Rightarrow> schedule \<Rightarrow> automation_event vnode" where
  "schedule_row p s = El ''tr'' [At ''key'' (sd_schedule_id s)]
     [el ''td'' [Txt (sd_script_name s)],
      el ''td'' [Txt (fmtSecs (sd_interval_secs s))],
      el ''td'' [Txt (auto_fmtTs (ap_host p) (Some (sd_next_run_at s)))],
      el ''td'' [Txt (auto_fmtTs (ap_host p) (sd_last_run_at s))],
      el ''td'' (jif (ap_canOperate p) (button [OnClick (AmAskSchedule (sd_schedule_id s))] [Txt ''Excluir'']))]"

definition schedules_tab :: "automation_props \<Rightarrow> automation_event vnode" where
  "schedules_tab p =
     (let xs = nullish (qdata (ap_schedules p)) []
      in Card
       [if isLoading (ap_schedules p) then el ''div'' [Spinner]
        else if xs = [] then el ''p'' [Txt ''No schedules configured.'']
        else el ''table''
          [el ''thead'' [el ''tr'' (map (\<lambda>c. el ''th'' [Txt c]) [''Script'', ''Interval'', ''Next run'', ''Last run'', []])],
           el ''tbody'' (map (schedule_row p) xs)]])"

definition run_row :: "automation_props \<Rightarrow> automation \<Rightarrow> script_run \<Rightarrow> automation_event vnode list" where
  "run_row p s r =
     (let open' = am_expandedRunId s = Some (rn_run_id r)
      in el ''tr''
        [el ''td'' [Badge (nullish (map_of OUTCOME_VARIANTS (rn_outcome r)) ''muted'') [Txt (rn_outcome r)]],
         el ''td'' [Txt (rn_trigger_type r)],
         el ''td'' [Txt (nullish (map_option str_int (rn_http_status r)) ''--'')],
         el ''td'' [Txt (auto_fmtTs (ap_host p) (Some (rn_started_at r)))],
         el ''td''
          (jif (truthy (rn_error_detail r)) (el ''span'' [Txt (nullish (rn_error_detail r) [])]) @
           [button [OnClick (AmExpand (rn_run_id r))] [Txt (if open' then ''Ocultar log'' else ''Ver log'')]])]
        # jif open' (el ''tr'' [El ''td'' [At ''colSpan'' ''5'']
            [el ''pre'' [Txt (nullish (rn_output r) (nullish (rn_log r) (json_pretty (ap_host p) (run_json r))))]]]))"

definition runs_tab :: "automation_props \<Rightarrow> automation \<Rightarrow> automation_event vnode" where
  "runs_tab p s =
     (let xs = nullish (qdata (ap_runs p)) []
      in Card
       [if isLoading (ap_runs p) then el ''div'' [Spinner]
        else if xs = [] then el ''p'' [Txt ''No runs recorded.'']
        else el ''table''
          [el ''thead'' [el ''tr'' (map (\<lambda>c. el ''th'' [Txt c]) [''Outcome'', ''Trigger'', ''HTTP'', ''Started'', ''Error / Log''])],
           el ''tbody'' (concat (map (run_row p s) xs))]])"

definition scriptToDelete :: "automation_props \<Rightarrow> automation \<Rightarrow> script option" where
  "scriptToDelete p s = find (\<lambda>x. Some (sc_script_id x) = am_confirmDeleteScriptId s) (nullish (qdata (ap_scripts p)) [])"

definition scheduleToDelete :: "automation_props \<Rightarrow> automation \<Rightarrow> schedule option" where
  "scheduleToDelete p s = find (\<lambda>x. Some (sd_schedule_id x) = am_confirmDeleteScheduleId s) (nullish (qdata (ap_schedules p)) [])"

definition automation_modals :: "automation_props \<Rightarrow> automation \<Rightarrow> automation_event vnode list" where
  "automation_modals p s =
     (case (am_confirmDeleteScriptId s, scriptToDelete p s) of
        (Some i, Some x) \<Rightarrow> jif (i \<noteq> []) (ConfirmModal
          \<lparr>cm_title = ''Excluir script'',
           cm_description = ''Excluir permanentemente o script '' @ quoted (sc_name x) @ ''? Esta acao nao pode ser desfeita.'',
           cm_confirmLabel = Some ''Excluir'', cm_cancelLabel = Some ''Cancelar'', cm_destructive = True,
           cm_isPending = ap_deleteScriptPending p, cm_onConfirm = AmDeleteScript i, cm_onCancel = AmKeepScript\<rparr>)
      | _ \<Rightarrow> []) @
     (case (am_confirmDeleteScheduleId s, scheduleToDelete p s) of
        (Some i, Some x) \<Rightarrow> jif (i \<noteq> []) (ConfirmModal
          \<lparr>cm_title = ''Excluir agendamento'',
           cm_description = ''Excluir permanentemente o agendamento do script '' @ quoted (sd_script_name x) @
             ''? Esta acao nao pode ser desfeita.'',
           cm_confirmLabel = Some ''Excluir'', cm_cancelLabel = Some ''Cancelar'', cm_destructive = True,
           cm_isPending = ap_deleteSchedulePending p, cm_onConfirm = AmDeleteSchedule i, cm_onCancel = AmKeepSchedule\<rparr>)
      | _ \<Rightarrow> [])"

definition automation_view :: "automation_props \<Rightarrow> automation \<Rightarrow> automation_event vnode" where
  "automation_view p s =
     (let op = ap_canOperate p; tab = am_tab s
      in el ''div''
       ([el ''div''
          ([el ''div'' [el ''h2'' [Txt ''Automation''], el ''p'' [Txt ''Webhook and scheduled automation scripts.'']]] @
           jif (op \<and> tab = ''scripts'' \<and> \<not> am_creatingScript s) (Button ''primary'' ''sm'' [OnClick AmNewScript] [Txt ''New script'']) @
           jif (op \<and> tab = ''schedules'' \<and> \<not> am_creatingSchedule s)
             (Button ''primary'' ''sm'' [OnClick AmNewSchedule] [Txt ''Add schedule'']))] @
        jif (op \<and> am_creatingScript s \<and> tab = ''scripts'') (El ''CreateScriptForm'' [Prop ''onDone'' AmScriptDone] []) @
        jif (op \<and> am_creatingSchedule s \<and> tab = ''schedules'') (El ''AddScheduleForm'' [Prop ''onDone'' AmScheduleDone] []) @
        [el ''div'' (map (\<lambda>(i, l). El ''button'' [At ''key'' i, OnClick (AmTab i)] [Txt l]) automation_tabs)] @
        jif (tab = ''scripts'') (scripts_tab p) @
        jif (tab = ''schedules'') (schedules_tab p) @
        jif (tab = ''runs'') (runs_tab p s) @
        automation_modals p s))"

section \<open>Forms: properties\<close>

text \<open>The schedule form starts on the first script of the list even when it is disabled, so that it is not
  among the scripts offered: without touching the select, the schedule of the disabled script is posted.\<close>

lemma schedule_of_disabled_script:
  assumes "\<not> sc_enabled sc" "sc_script_id sc \<noteq> []" "\<forall>s \<in> set scripts. sc_script_id s \<noteq> sc_script_id sc"
  shows "fires (schedule_form_view (sc # scripts) False (schedule_form_mount (sc # scripts))) x [DnSchedule]
    \<and> sc_script_id sc \<notin> set (map fst (schedule_options (sc # scripts)))
    \<and> snd (schedule_form_handle tid (schedule_form_mount (sc # scripts)) DnSchedule) =
        [Request ''POST'' ''/api/v1/automation/schedules''
           (Some (jobj [(''script_id'', Some (JStr (sc_script_id sc))), (''interval_secs'', Some (JNum (JInt 3600)))]))]"
proof -
  let ?m = "schedule_form_mount (sc # scripts)"
  have "can_click (schedule_form_view (sc # scripts) False ?m) [DnSchedule]"
    using assms(2) by (simp add: schedule_form_view_def Card_def can_click_El schedule_form_mount_def)
  moreover have "interval_json ''60'' = JNum (JInt 3600)" by code_simp
  ultimately show ?thesis using assms
    by (auto simp: schedule_form_mount_def schedule_body_def schedule_options_def intro: can_click_fires)
qed

theorem schedule_of_disabled_script_witness:
  "snd (schedule_form_handle ''t1'' (schedule_form_mount
      [\<lparr>sc_script_id = ''s1'', sc_name = ''A'', sc_description = [], sc_script_type = ''noop'', sc_enabled = False, sc_created_at = ''0''\<rparr>]) DnSchedule) =
    [Request ''POST'' ''/api/v1/automation/schedules''
       (Some (jobj [(''script_id'', Some (JStr ''s1'')), (''interval_secs'', Some (JNum (JInt 3600)))]))]"
  using schedule_of_disabled_script [of "\<lparr>sc_script_id = ''s1'', sc_name = ''A'', sc_description = [], sc_script_type = ''noop'',
      sc_enabled = False, sc_created_at = ''0''\<rparr>" "[]" "[]" "''t1''"] by simp

lemma interval_minutes: "interval_json (str_int n) = JNum (JInt (n * 60))"
  by (simp add: interval_json_def)

definition script_form_ok :: "script_form \<Rightarrow> bool" where
  "script_form_ok s \<longleftrightarrow> sn_type s \<in> set (map fst SCRIPT_TYPES)"

definition script_ready :: "script_form \<Rightarrow> bool" where
  "script_ready s \<longleftrightarrow> trim (sn_name s) \<noteq> [] \<and> (sn_type s = ''webhook'' \<longrightarrow> trim (sn_url s) \<noteq> [])"

definition script_form_allowed :: "script_form \<Rightarrow> script_form_event \<Rightarrow> bool" where
  "script_form_allowed s e \<longleftrightarrow> (case e of SnType x \<Rightarrow> x \<in> set (map fst SCRIPT_TYPES) | SnCreate \<Rightarrow> script_ready s | _ \<Rightarrow> True)"

definition script_form_net :: "script_form_event \<Rightarrow> bool" where
  "script_form_net e \<longleftrightarrow> (case e of SnSuccess \<Rightarrow> True | SnError _ \<Rightarrow> True | _ \<Rightarrow> False)"

definition script_request :: "effect \<Rightarrow> bool" where
  "script_request f \<longleftrightarrow> \<not> is_request f
     \<or> (\<exists>s. f = Request ''POST'' ''/api/v1/automation/scripts'' (Some (script_body s)) \<and> script_ready s \<and> script_form_ok s)"

interpretation sn: component "\<lambda>s. s = script_form_mount" script_form_view "script_form_handle tid" script_form_net
  script_form_allowed script_form_ok script_request for tid
proof unfold_locales
  show "s = script_form_mount \<Longrightarrow> script_form_ok s" for s
    by (simp add: script_form_mount_def script_form_ok_def SCRIPT_TYPES_def)
  show "solo (script_form_view p s)" for p s by (auto simp: script_form_view_def)
  show "offers (script_form_allowed s) (script_form_view p s)" for p s
    by (auto simp: script_form_view_def script_form_allowed_def script_ready_def)
  show "script_form_net e \<Longrightarrow> script_form_allowed s e" for s e
    by (cases e) (simp_all add: script_form_net_def script_form_allowed_def)
  show "script_form_ok s \<Longrightarrow> script_form_allowed s e \<Longrightarrow> script_form_ok (fst (script_form_handle tid s e))" for s e
    by (cases e) (simp_all add: script_form_ok_def script_form_allowed_def)
  show "script_form_ok s \<Longrightarrow> script_form_allowed s e \<Longrightarrow> list_all script_request (snd (script_form_handle tid s e))" for s e
    by (cases e) (auto simp: script_request_def script_form_allowed_def)
qed

text \<open>Every script posted has a name, and a webhook a URL.\<close>

lemma script_requests:
  "reach (\<lambda>s. s = script_form_mount) script_form_view (script_form_handle tid) script_form_net s log \<Longrightarrow>
   list_all script_request log"
  using sn.reach_inv by blast

section \<open>The page: properties\<close>

definition automation_ok :: "bool \<Rightarrow> automation \<Rightarrow> bool" where
  "automation_ok operate s \<longleftrightarrow> am_tab s \<in> set (map fst automation_tabs)
     \<and> (am_confirmDeleteScriptId s \<noteq> None \<or> am_confirmDeleteScheduleId s \<noteq> None
        \<or> am_creatingScript s \<or> am_creatingSchedule s \<longrightarrow> operate)"

definition automation_allowed :: "automation_props \<Rightarrow> automation \<Rightarrow> automation_event \<Rightarrow> bool" where
  "automation_allowed p s e \<longleftrightarrow> (case e of
      AmTab t \<Rightarrow> t \<in> set (map fst automation_tabs)
    | AmNewScript \<Rightarrow> ap_canOperate p | AmNewSchedule \<Rightarrow> ap_canOperate p
    | AmTrigger i \<Rightarrow> ap_canOperate p \<and> \<not> ap_triggerPending p \<and> am_tab s = ''scripts''
        \<and> (\<exists>x \<in> set (nullish (qdata (ap_scripts p)) []). sc_script_id x = i \<and> sc_enabled x)
    | AmAskScript i \<Rightarrow> ap_canOperate p | AmAskSchedule i \<Rightarrow> ap_canOperate p
    | AmDeleteScript i \<Rightarrow> am_confirmDeleteScriptId s = Some i \<and> \<not> ap_deleteScriptPending p
        \<and> i \<in> sc_script_id ` set (nullish (qdata (ap_scripts p)) [])
    | AmDeleteSchedule i \<Rightarrow> am_confirmDeleteScheduleId s = Some i \<and> \<not> ap_deleteSchedulePending p
        \<and> i \<in> sd_schedule_id ` set (nullish (qdata (ap_schedules p)) [])
    | _ \<Rightarrow> True)"

definition automation_net :: "automation_event \<Rightarrow> bool" where
  "automation_net e \<longleftrightarrow> e \<in> {AmTriggered, AmTriggerError, AmScriptDeleted, AmScriptDeleteError, AmScheduleDeleted, AmScheduleDeleteError}"

definition automation_request :: "bool \<Rightarrow> effect \<Rightarrow> bool" where
  "automation_request operate f \<longleftrightarrow> \<not> is_request f \<or> operate \<and> (\<exists>i.
     f = Request ''POST'' (trigger_path i) (Some (jobj [])) \<or> f = Request ''DELETE'' (script_path i) None
     \<or> f = Request ''DELETE'' (schedule_path i) None)"

lemma automation_modals_laws:
  "list_all solo (automation_modals p s)" "list_all (offers (automation_allowed p s)) (automation_modals p s)"
  by (auto simp: automation_modals_def scriptToDelete_def scheduleToDelete_def automation_allowed_def list_all_iff
      dest!: find_SomeD split: option.splits) (metis imageI option.inject)+

lemma automation_view_laws: "solo (automation_view p s)" "offers (automation_allowed p s) (automation_view p s)"
proof -
  have scripts: "solo (scripts_tab p)" "am_tab s = ''scripts'' \<Longrightarrow> offers (automation_allowed p s) (scripts_tab p)"
    by (auto simp: scripts_tab_def script_row_def automation_allowed_def Let_def)
  have schedules: "solo (schedules_tab p)" "offers (automation_allowed p s) (schedules_tab p)"
    by (auto simp: schedules_tab_def schedule_row_def automation_allowed_def Let_def)
  have runs: "solo (runs_tab p s)" "offers (automation_allowed p s) (runs_tab p s)"
    by (auto simp: runs_tab_def run_row_def automation_allowed_def Let_def)
  show "solo (automation_view p s)" using scripts schedules runs automation_modals_laws [of p s]
    by (auto simp: automation_view_def Let_def list_all_iff automation_tabs_def)
  show "offers (automation_allowed p s) (automation_view p s)" using scripts schedules runs automation_modals_laws [of p s]
    by (auto simp: automation_view_def Let_def list_all_iff automation_tabs_def automation_allowed_def)
qed

interpretation am: component "\<lambda>s. s = automation_mount" "\<lambda>p. automation_view (p\<lparr>ap_canOperate := operate\<rparr>)"
  "automation_handle tid" automation_net "\<lambda>s e. \<exists>p. automation_allowed (p\<lparr>ap_canOperate := operate\<rparr>) s e"
  "automation_ok operate" "automation_request operate" for operate tid
proof unfold_locales
  show "s = automation_mount \<Longrightarrow> automation_ok operate s" for s
    by (simp add: automation_mount_def automation_ok_def automation_tabs_def)
  show "offers (\<lambda>e. \<exists>p. automation_allowed (p\<lparr>ap_canOperate := operate\<rparr>) s e) (automation_view (p\<lparr>ap_canOperate := operate\<rparr>) s)"
    for p s using automation_view_laws(2) by (rule offers_mono) blast
  show "automation_net e \<Longrightarrow> \<exists>p. automation_allowed (p\<lparr>ap_canOperate := operate\<rparr>) s e" for s e
    by (auto simp: automation_net_def automation_allowed_def)
  show "automation_ok operate s \<Longrightarrow> \<exists>p. automation_allowed (p\<lparr>ap_canOperate := operate\<rparr>) s e \<Longrightarrow>
      automation_ok operate (fst (automation_handle tid s e))" for s e
    by (cases e) (auto simp: automation_ok_def automation_allowed_def)
  show "automation_ok operate s \<Longrightarrow> \<exists>p. automation_allowed (p\<lparr>ap_canOperate := operate\<rparr>) s e \<Longrightarrow>
      list_all (automation_request operate) (snd (automation_handle tid s e))" for s e
    by (cases e) (auto simp: automation_ok_def automation_allowed_def automation_request_def)
qed (rule automation_view_laws)

theorem automation_writes:
  "reach (\<lambda>s. s = automation_mount) (\<lambda>p. automation_view (p\<lparr>ap_canOperate := operate\<rparr>)) (automation_handle tid) automation_net s log \<Longrightarrow>
   am_tab s \<in> {''scripts'', ''schedules'', ''runs''} \<and> list_all (automation_request operate) log"
  using am.reach_inv unfolding automation_ok_def automation_tabs_def by fastforce

text \<open>Whatever the user does on the automation page does one thing only, writes need the permission to operate,
  and scripts and schedules are triggered or deleted only as listed and while no such request is pending.\<close>

lemma automation_click_guarded:
  assumes "fires (automation_view p s) x es" "e \<in> set es"
  shows "es = [e] \<and> automation_allowed p s e"
  using fires_one [OF assms(1) automation_view_laws assms(2)] .

theorem automation_click_guarded_witness:
  "automation_allowed \<lparr>ap_host = sample_host, ap_canOperate = True, ap_scripts = loaded [], ap_schedules = loaded [], ap_runs = loaded [],
      ap_triggerPending = False, ap_deleteScriptPending = False, ap_deleteSchedulePending = False\<rparr> automation_mount AmNewScript"
proof -
  let ?p = "\<lparr>ap_host = sample_host, ap_canOperate = True, ap_scripts = loaded [], ap_schedules = loaded [], ap_runs = loaded [],
      ap_triggerPending = False, ap_deleteScriptPending = False, ap_deleteSchedulePending = False\<rparr>"
  have "can_click (automation_view ?p automation_mount) [AmNewScript]"
    by (simp add: automation_view_def automation_mount_def can_click_El Let_def)
  then have "fires (automation_view ?p automation_mount) [] [AmNewScript]" by (rule can_click_fires)
  from automation_click_guarded [OF this, of AmNewScript] show ?thesis by simp
qed

end
