(* ===== verification/Team.thy ===== *)
theory Team
  imports UiKit
begin

text \<open>
  The members and custom roles of a tenant, \<open>pages/TeamPage.tsx\<close>: creation of users with a password shown
  once, change of role, revocation, and the roles composed of permissions.
\<close>

section \<open>Data\<close>

record member =
  mb_membership_id :: string
  mb_principal_id :: string
  mb_role :: string
  mb_state :: string
  mb_created_at :: string

record tenant_role =
  tr_role_name :: string
  tr_permissions :: "string list"
  tr_state :: string
  tr_created_by :: "string option"
  tr_created_at :: string

record provision_result =
  pr_principal_id :: string
  pr_email :: string
  pr_tenant_id :: string
  pr_role :: string
  pr_membership_id :: string
  pr_temp_password :: string
  pr_must_change_password :: bool

definition BUILTIN_ROLES :: "string list" where
  "BUILTIN_ROLES = [''admin'', ''operator'', ''viewer'', ''auditor'']"

definition ALL_PERMISSIONS :: "string list" where
  "ALL_PERMISSIONS =
    [''tenant:read'', ''tenant:admin'', ''monitoring:read'', ''monitoring:operate'', ''alerting:read'',
     ''alerting:operate'', ''observability:read'', ''audit:read'']"

definition team_fmt :: "host \<Rightarrow> string \<Rightarrow> string" where
  "team_fmt h ts = locale_fmt h ''undefined, dateStyle: short'' ts"

definition roleVariant :: "string \<Rightarrow> string" where
  "roleVariant r = (if r = ''admin'' \<or> r = ''tenant_admin'' then ''warning'' else if r = ''operator'' then ''success'' else ''muted'')"

definition plural :: "nat \<Rightarrow> string" where
  "plural n = (if n \<noteq> 1 then ''s'' else [])"

section \<open>Credentials of a new user\<close>

datatype credential_event = CcCopy | CcTimer | CcClose

definition credential_text :: "string \<Rightarrow> provision_result \<Rightarrow> string" where
  "credential_text origin r = ''Email: '' @ pr_email r @ [CHR 0x0A] @ ''Senha temporaria: '' @ pr_temp_password r
     @ [CHR 0x0A] @ ''URL: '' @ origin"

fun credential_handle :: "string \<Rightarrow> provision_result \<Rightarrow> bool \<Rightarrow> credential_event \<Rightarrow> bool \<times> effect list" where
  "credential_handle origin r copied CcCopy = (True, [Callback ''clipboard.writeText'' [credential_text origin r]])"
| "credential_handle origin r copied CcTimer = (False, [])"
| "credential_handle origin r copied CcClose = (copied, [Callback ''onClose'' []])"

definition credential_view :: "string \<Rightarrow> provision_result \<Rightarrow> bool \<Rightarrow> credential_event vnode" where
  "credential_view origin r copied = el ''div''
     [el ''div'' [el ''span'' [Txt ''Usuario criado com sucesso''], button [OnClick CcClose] [Txt ''X Fechar'']],
      el ''p'' [Txt ''Anote as credenciais abaixo -- a senha temporaria '', el ''strong'' [Txt ''nao sera exibida novamente''],
        Txt ''. O usuario deve troca-la no primeiro acesso.''],
      el ''div''
       [el ''div'' [el ''span'' [Txt ''Email''], el ''span'' [Txt (pr_email r)]],
        el ''div'' [el ''span'' [Txt ''Senha temporaria''], el ''span'' [Txt (pr_temp_password r)]],
        el ''div'' [el ''span'' [Txt ''Funcao''], Badge (roleVariant (pr_role r)) [Txt (pr_role r)]],
        el ''div'' [el ''span'' [Txt ''URL''], el ''span'' [Txt origin]]],
      Button ''primary'' ''sm'' [OnClick CcCopy] [Txt (if copied then ''Copiado!'' else ''Copiar credenciais'')]]"

section \<open>New user\<close>

record user_form =
  uf_email :: string
  uf_firstName :: string
  uf_lastName :: string
  uf_role :: string
  uf_error :: "string option"
  uf_result :: "provision_result option"

definition user_form_mount :: user_form where
  "user_form_mount = \<lparr>uf_email = [], uf_firstName = [], uf_lastName = [], uf_role = ''viewer'', uf_error = None, uf_result = None\<rparr>"

definition USER_ROLES :: "(string \<times> string) list" where
  "USER_ROLES =
    [(''viewer'', ''viewer -- somente leitura (TV, monitor, stakeholder)''),
     (''operator'', ''operator -- operacoes (ack, assign, notas)''),
     (''admin'', ''admin -- administrador do tenant''),
     (''auditor'', ''auditor -- leitura + trilha de auditoria'')]"

datatype user_form_event =
    UfFirst string | UfLast string | UfEmail string | UfRole string | UfCreate | UfClose
  | UfResultClose | UfSuccess provision_result | UfError mut_error

definition user_body :: "string \<Rightarrow> user_form \<Rightarrow> json" where
  "user_body tid s = jobj
     [(''email'', Some (JStr (trim (uf_email s)))), (''first_name'', Some (JStr (trim (uf_firstName s)))),
      (''last_name'', Some (JStr (trim (uf_lastName s)))), (''tenant_id'', Some (JStr tid)),
      (''role'', Some (JStr (uf_role s)))]"

fun user_form_handle :: "string \<Rightarrow> user_form \<Rightarrow> user_form_event \<Rightarrow> user_form \<times> effect list" where
  "user_form_handle tid s (UfFirst x) = (s\<lparr>uf_firstName := x\<rparr>, [])"
| "user_form_handle tid s (UfLast x) = (s\<lparr>uf_lastName := x\<rparr>, [])"
| "user_form_handle tid s (UfEmail x) = (s\<lparr>uf_email := x\<rparr>, [])"
| "user_form_handle tid s (UfRole x) = (s\<lparr>uf_role := x\<rparr>, [])"
| "user_form_handle tid s UfCreate = (s, [Request ''POST'' ''/api/v1/platform/users'' (Some (user_body tid s))])"
| "user_form_handle tid s UfClose = (s, [Callback ''onClose'' []])"
| "user_form_handle tid s UfResultClose = (s\<lparr>uf_result := None\<rparr>, [Callback ''onClose'' []])"
| "user_form_handle tid s (UfSuccess r) = (s\<lparr>uf_result := Some r, uf_error := None\<rparr>, [Invalidate [''team-members'']])"
| "user_form_handle tid s (UfError e) = (s\<lparr>uf_error := me_message e\<rparr>, [])"

definition user_form_view :: "bool \<Rightarrow> user_form \<Rightarrow> user_form_event vnode" where
  "user_form_view pending s =
     (if uf_result s \<noteq> None then el ''div'' [El ''CredentialCard'' [Prop ''onClose'' UfResultClose] []]
      else el ''div''
       ([el ''div'' [el ''span'' [Txt ''Criar novo usuario''], button [OnClick UfClose] [Txt ''X'']],
         el ''div''
          [el ''div'' [el ''label'' [Txt ''Nome''],
             El ''input'' [At ''value'' (uf_firstName s), OnChange UfFirst, At ''placeholder'' ''Joao''] []],
           el ''div'' [el ''label'' [Txt ''Sobrenome''],
             El ''input'' [At ''value'' (uf_lastName s), OnChange UfLast, At ''placeholder'' ''Silva''] []]],
         el ''div'' [el ''label'' [Txt ''E-mail (sera o login)''],
           El ''input'' [At ''type'' ''email'', At ''value'' (uf_email s), OnChange UfEmail, At ''placeholder'' ''joao@empresa.com''] []],
         el ''div'' [el ''label'' [Txt ''Funcao''], select_view (uf_role s) UfRole USER_ROLES]] @
        jif (truthy (uf_error s)) (el ''p'' [Txt (nullish (uf_error s) [])]) @
        [el ''div''
          [Button ''primary'' ''sm''
             [OnClick UfCreate, Bo ''disabled'' (trim (uf_email s) = [] \<or> trim (uf_firstName s) = [] \<or> trim (uf_lastName s) = [] \<or> pending)]
             [if pending then Spinner else Txt ''Criar usuario''],
           Button ''ghost'' ''sm'' [OnClick UfClose] [Txt ''Cancelar'']]]))"

section \<open>Members\<close>

record members =
  ms_showCreate :: bool
  ms_editingRoleId :: "string option"
  ms_editingRoleValue :: string

definition members_mount :: members where
  "members_mount = \<lparr>ms_showCreate = False, ms_editingRoleId = None, ms_editingRoleValue = []\<rparr>"

record members_props =
  mq_host :: host
  mq_q :: "member list query"
  mq_revokePending :: bool
  mq_changePending :: bool

datatype members_event =
    MsToggleCreate | MsCreateDone | MsEdit string string | MsRole string | MsSave string | MsCancelEdit
  | MsRevoke string | MsRevoked | MsRevokeError | MsRoleChanged | MsRoleError

fun members_handle :: "members \<Rightarrow> members_event \<Rightarrow> members \<times> effect list" where
  "members_handle s MsToggleCreate = (s\<lparr>ms_showCreate := \<not> ms_showCreate s\<rparr>, [])"
| "members_handle s MsCreateDone = (s\<lparr>ms_showCreate := False\<rparr>, [])"
| "members_handle s (MsEdit i r) = (s\<lparr>ms_editingRoleId := Some i, ms_editingRoleValue := r\<rparr>, [])"
| "members_handle s (MsRole r) = (s\<lparr>ms_editingRoleValue := r\<rparr>, [])"
| "members_handle s (MsSave i) =
     (s, [Request ''PATCH'' (''/api/v1/tenant/members/'' @ i) (Some (jobj [(''role'', Some (JStr (ms_editingRoleValue s)))]))])"
| "members_handle s MsCancelEdit = (s\<lparr>ms_editingRoleId := None\<rparr>, [])"
| "members_handle s (MsRevoke i) = (s, [Request ''POST'' (''/api/v1/tenant/members/'' @ i @ ''/revoke'') (Some (jobj []))])"
| "members_handle s MsRevoked = (s, [Invalidate [''team-members''], Toast ''Acesso revogado'' ''success''])"
| "members_handle s MsRevokeError = (s, [Toast ''Erro ao revogar acesso'' ''error''])"
| "members_handle s MsRoleChanged =
     (s\<lparr>ms_editingRoleId := None\<rparr>, [Invalidate [''team-members''], Toast ''Funcao atualizada'' ''success''])"
| "members_handle s MsRoleError = (s, [Toast ''Erro ao atualizar funcao'' ''error''])"

definition role_cell :: "members_props \<Rightarrow> members \<Rightarrow> member \<Rightarrow> members_event vnode" where
  "role_cell p s m =
     (if ms_editingRoleId s = Some (mb_membership_id m) then el ''div''
        [select_view (ms_editingRoleValue s) MsRole (map (\<lambda>r. (r, r)) BUILTIN_ROLES),
         button [OnClick (MsSave (mb_membership_id m)), Bo ''disabled'' (mq_changePending p \<or> ms_editingRoleValue s = mb_role m)]
           [if mq_changePending p then Spinner else Txt ''Salvar''],
         button [OnClick MsCancelEdit] [Txt ''X'']]
      else el ''div''
        [Badge (roleVariant (mb_role m)) [Txt (mb_role m)],
         button [OnClick (MsEdit (mb_membership_id m) (mb_role m))] [Txt ''Alterar'']])"

definition member_row :: "members_props \<Rightarrow> members \<Rightarrow> member \<Rightarrow> members_event vnode" where
  "member_row p s m = El ''tr'' [At ''key'' (mb_membership_id m)]
     [el ''td'' [Txt (mb_principal_id m)],
      el ''td'' [role_cell p s m],
      el ''td'' [Txt (team_fmt (mq_host p) (mb_created_at m))],
      el ''td'' [button [OnClick (MsRevoke (mb_membership_id m)), Bo ''disabled'' (mq_revokePending p)] [Txt ''Revogar'']]]"

definition members_view :: "members_props \<Rightarrow> members \<Rightarrow> members_event vnode" where
  "members_view p s =
     (let q = mq_q p; ms = nullish (qdata q) [];
          active = filter (\<lambda>m. mb_state m \<noteq> ''revoked'') ms;
          revoked = filter (\<lambda>m. mb_state m = ''revoked'') ms
      in Card
       ([el ''div''
          [CardHeader [el ''span'' [Txt ''Membros''],
             el ''span'' [Txt (str_nat (length active)), Txt '' ativo'', Txt (plural (length active))]],
           el ''div''
            (jif (isFetching q) Spinner @
             [Button ''primary'' ''sm'' [OnClick MsToggleCreate] [Txt (if ms_showCreate s then ''Cancelar'' else ''Criar usuario'')]])]] @
        jif (ms_showCreate s) (El ''CreateUserModal'' [Prop ''onClose'' MsCreateDone] []) @
        [if isLoading q then Spinner
         else if isError q then el ''p'' [Txt ''Nao foi possivel carregar membros.'']
         else if active = [] then el ''p'' [Txt ''Nenhum membro ativo.'']
         else el ''div'' [el ''table''
           [el ''thead'' [el ''tr'' (map (\<lambda>c. el ''th'' [Txt c]) [''Usuario'', ''Funcao'', ''Desde'', []])],
            el ''tbody'' (map (member_row p s) active)]]] @
        jif (revoked \<noteq> []) (el ''details''
          [el ''summary'' [Txt (str_nat (length revoked)), Txt '' revogado'', Txt (plural (length revoked))],
           el ''div'' (map (\<lambda>m. El ''p'' [At ''key'' (mb_membership_id m)]
             [Txt (mb_principal_id m), Txt '' '', el ''span'' [Txt ''.''], Txt '' '', Txt (mb_role m)]) revoked)])))"

section \<open>Custom roles\<close>

record roles =
  ro_showCreate :: bool
  ro_roleName :: string
  ro_selectedPerms :: "string list"
  ro_createError :: "string option"

definition roles_mount :: roles where
  "roles_mount = \<lparr>ro_showCreate = False, ro_roleName = [], ro_selectedPerms = [], ro_createError = None\<rparr>"

record roles_props =
  rq_q :: "tenant_role list query"
  rq_createPending :: bool
  rq_retirePending :: bool

datatype roles_event =
    RoToggleCreate | RoName string | RoPerm string | RoCreate | RoCreated | RoError mut_error
  | RoRetire string | RoRetired

definition togglePerm :: "string \<Rightarrow> string list \<Rightarrow> string list" where
  "togglePerm x ps = arr_toggle x ps"

definition role_body :: "roles \<Rightarrow> json" where
  "role_body s = jobj [(''name'', Some (JStr (trim (ro_roleName s)))), (''permissions'', Some (jstrs (ro_selectedPerms s)))]"

fun roles_handle :: "roles \<Rightarrow> roles_event \<Rightarrow> roles \<times> effect list" where
  "roles_handle s RoToggleCreate = (s\<lparr>ro_showCreate := \<not> ro_showCreate s\<rparr>, [])"
| "roles_handle s (RoName x) = (s\<lparr>ro_roleName := x\<rparr>, [])"
| "roles_handle s (RoPerm x) = (s\<lparr>ro_selectedPerms := togglePerm x (ro_selectedPerms s)\<rparr>, [])"
| "roles_handle s RoCreate = (s, [Request ''POST'' ''/api/v1/tenant/roles'' (Some (role_body s))])"
| "roles_handle s RoCreated =
     (s\<lparr>ro_roleName := [], ro_selectedPerms := [], ro_showCreate := False, ro_createError := None\<rparr>, [Invalidate [''tenant-roles'']])"
| "roles_handle s (RoError e) = (s\<lparr>ro_createError := me_message e\<rparr>, [])"
| "roles_handle s (RoRetire r) = (s, [Request ''POST'' (''/api/v1/tenant/roles/'' @ r @ ''/retire'') (Some (jobj []))])"
| "roles_handle s RoRetired = (s, [Invalidate [''tenant-roles'']])"

definition role_form :: "roles_props \<Rightarrow> roles \<Rightarrow> roles_event vnode" where
  "role_form p s = el ''div''
     ([el ''div'' [el ''label'' [Txt ''Nome da funcao (slug)''],
         El ''input'' [At ''value'' (ro_roleName s), OnChange RoName, At ''placeholder'' ''ex: readonly-ops''] []],
       el ''div'' [el ''label'' [Txt ''Permissoes''],
         el ''div'' (map (\<lambda>x. El ''label'' [At ''key'' x]
           [El ''input'' [At ''type'' ''checkbox'', Bo ''checked'' (List.member (ro_selectedPerms s) x), OnChange (\<lambda>_. RoPerm x)] [],
            el ''span'' [Txt x]]) ALL_PERMISSIONS)]] @
      jif (truthy (ro_createError s)) (el ''p'' [Txt (nullish (ro_createError s) [])]) @
      [Button ''primary'' ''sm''
         [OnClick RoCreate, Bo ''disabled'' (trim (ro_roleName s) = [] \<or> ro_selectedPerms s = [] \<or> rq_createPending p)]
         [if rq_createPending p then Spinner else Txt ''Criar'']])"

definition role_card :: "roles_props \<Rightarrow> tenant_role \<Rightarrow> roles_event vnode" where
  "role_card p r = El ''div'' [At ''key'' (tr_role_name r)]
     [el ''div''
       [el ''span'' [Txt ''custom:'', Txt (tr_role_name r)],
        el ''div'' (map (\<lambda>x. Badge ''muted'' [Txt x]) (tr_permissions r))],
      button [OnClick (RoRetire (tr_role_name r)), Bo ''disabled'' (rq_retirePending p)] [Txt ''Aposentar'']]"

definition roles_view :: "roles_props \<Rightarrow> roles \<Rightarrow> roles_event vnode" where
  "roles_view p s =
     (let q = rq_q p; rs = nullish (qdata q) [];
          custom = filter (\<lambda>r. tr_state r \<noteq> ''retired'') rs;
          retired = filter (\<lambda>r. tr_state r = ''retired'') rs
      in Card
       ([el ''div''
          [CardHeader [el ''span'' [Txt ''Funcoes personalizadas''],
             el ''span'' [Txt (str_nat (length custom)), Txt '' ativa'', Txt (plural (length custom))]],
           el ''div''
            (jif (isFetching q) Spinner @
             [Button ''primary'' ''sm'' [OnClick RoToggleCreate] [Txt (if ro_showCreate s then ''Cancelar'' else ''Criar funcao'')]])]] @
        jif (ro_showCreate s) (role_form p s) @
        [el ''div''
          ([el ''p'' [Txt ''Funcoes padrao''],
            el ''div'' (map (\<lambda>r. Badge (roleVariant r) [Txt r]) BUILTIN_ROLES)] @
           (if isLoading q then [Spinner]
            else if custom \<noteq> [] then [el ''p'' [Txt ''Personalizadas''], el ''div'' (map (role_card p) custom)]
            else [el ''p'' [Txt ''Nenhuma funcao personalizada definida.'']]) @
           jif (retired \<noteq> []) (el ''details''
             [el ''summary'' [Txt (str_nat (length retired)), Txt '' aposentada'', Txt (plural (length retired))],
              el ''div'' (map (\<lambda>r. El ''p'' [At ''key'' (tr_role_name r)] [Txt ''custom:'', Txt (tr_role_name r)]) retired)]))]))"

definition team_view :: "'e vnode" where
  "team_view = el ''div''
     [el ''div'' [el ''h2'' [Txt ''Equipe''], el ''p'' [Txt ''Escopo do tenant . requer tenant:admin'']],
      el ''MembersSection'' [], el ''RolesSection'' []]"

section \<open>New user: properties\<close>

definition user_form_ok :: "user_form \<Rightarrow> bool" where
  "user_form_ok s \<longleftrightarrow> uf_role s \<in> set (map fst USER_ROLES)"

definition user_form_allowed :: "user_form \<Rightarrow> user_form_event \<Rightarrow> bool" where
  "user_form_allowed s e \<longleftrightarrow> (case e of
      UfRole x \<Rightarrow> x \<in> set (map fst USER_ROLES)
    | UfCreate \<Rightarrow> trim (uf_email s) \<noteq> [] \<and> trim (uf_firstName s) \<noteq> [] \<and> trim (uf_lastName s) \<noteq> []
    | _ \<Rightarrow> True)"

definition user_form_net :: "user_form_event \<Rightarrow> bool" where
  "user_form_net e \<longleftrightarrow> (case e of UfSuccess _ \<Rightarrow> True | UfError _ \<Rightarrow> True | _ \<Rightarrow> False)"

definition user_request :: "string \<Rightarrow> effect \<Rightarrow> bool" where
  "user_request tid f \<longleftrightarrow> \<not> is_request f \<or> (\<exists>email first last role. f = Request ''POST'' ''/api/v1/platform/users''
     (Some (jobj [(''email'', Some (JStr email)), (''first_name'', Some (JStr first)), (''last_name'', Some (JStr last)),
        (''tenant_id'', Some (JStr tid)), (''role'', Some (JStr role))]))
     \<and> email \<noteq> [] \<and> trim email = email \<and> first \<noteq> [] \<and> trim first = first \<and> last \<noteq> [] \<and> trim last = last
     \<and> role \<in> set BUILTIN_ROLES)"

lemma user_roles_builtin: "set (map fst USER_ROLES) = set BUILTIN_ROLES"
  by (auto simp: USER_ROLES_def BUILTIN_ROLES_def)

interpretation uf: component "\<lambda>s. s = user_form_mount" user_form_view "user_form_handle tid" user_form_net
  user_form_allowed user_form_ok "user_request tid" for tid
proof unfold_locales
  show "s = user_form_mount \<Longrightarrow> user_form_ok s" for s by (simp add: user_form_mount_def user_form_ok_def USER_ROLES_def)
  show "solo (user_form_view p s)" for p s by (auto simp: user_form_view_def)
  show "offers (user_form_allowed s) (user_form_view p s)" for p s
    by (auto simp: user_form_view_def user_form_allowed_def)
  show "user_form_net e \<Longrightarrow> user_form_allowed s e" for s e
    by (cases e) (simp_all add: user_form_net_def user_form_allowed_def)
  show "user_form_ok s \<Longrightarrow> user_form_allowed s e \<Longrightarrow> user_form_ok (fst (user_form_handle tid s e))" for s e
    by (cases e) (simp_all add: user_form_ok_def user_form_allowed_def)
  have "user_request tid (Request ''POST'' ''/api/v1/platform/users'' (Some (user_body tid s)))"
    if "user_form_ok s" "user_form_allowed s UfCreate" for s
    using that unfolding user_request_def user_body_def user_form_ok_def user_roles_builtin user_form_allowed_def
    by (simp only: user_form_event.case) (metis trim_trim)
  then show "user_form_ok s \<Longrightarrow> user_form_allowed s e \<Longrightarrow> list_all (user_request tid) (snd (user_form_handle tid s e))" for s e
    by (cases e) (auto simp: user_request_def)
qed

text \<open>Every user ever provisioned has trimmed, non-blank mail and names and a built-in role.\<close>

lemma user_requests:
  "reach (\<lambda>s. s = user_form_mount) user_form_view (user_form_handle tid) user_form_net s log \<Longrightarrow> list_all (user_request tid) log"
  using uf.reach_inv by blast

section \<open>Members: properties\<close>

definition members_allowed :: "members_props \<Rightarrow> members \<Rightarrow> members_event \<Rightarrow> bool" where
  "members_allowed p s e \<longleftrightarrow> (let active = filter (\<lambda>m. mb_state m \<noteq> ''revoked'') (nullish (qdata (mq_q p)) []) in
    case e of
      MsEdit i r \<Rightarrow> (\<exists>m \<in> set active. mb_membership_id m = i \<and> mb_role m = r)
    | MsRole r \<Rightarrow> r \<in> set BUILTIN_ROLES
    | MsSave i \<Rightarrow> ms_editingRoleId s = Some i \<and> \<not> mq_changePending p
        \<and> (\<exists>m \<in> set active. mb_membership_id m = i \<and> mb_role m \<noteq> ms_editingRoleValue s)
    | MsRevoke i \<Rightarrow> \<not> mq_revokePending p \<and> i \<in> mb_membership_id ` set active
    | _ \<Rightarrow> e \<in> {MsToggleCreate, MsCreateDone, MsCancelEdit})"

lemma members_view_laws: "solo (members_view p s)" "offers (members_allowed p s) (members_view p s)"
proof -
  have row: "solo (member_row p s m)" "mb_state m \<noteq> ''revoked'' \<Longrightarrow> m \<in> set (nullish (qdata (mq_q p)) []) \<Longrightarrow>
      offers (members_allowed p s) (member_row p s m)" for m
    by (auto simp: member_row_def role_cell_def members_allowed_def Let_def)
  show "solo (members_view p s)" using row by (auto simp: members_view_def Let_def)
  show "offers (members_allowed p s) (members_view p s)" using row
    by (auto simp: members_view_def Let_def) (auto simp: members_allowed_def Let_def)
qed

text \<open>Whatever the user does in the list of members does one thing only; a role is saved only for an active
  member, to an offered and different role, and a member is revoked only while active; neither while pending.\<close>

lemma members_click_guarded:
  assumes "fires (members_view p s) x es" "e \<in> set es"
  shows "es = [e] \<and> members_allowed p s e"
  using fires_one [OF assms(1) members_view_laws assms(2)] .

section \<open>Custom roles: properties\<close>

definition roles_ok :: "roles \<Rightarrow> bool" where
  "roles_ok s \<longleftrightarrow> distinct (ro_selectedPerms s) \<and> set (ro_selectedPerms s) \<subseteq> set ALL_PERMISSIONS"

definition roles_allowed :: "roles \<Rightarrow> roles_event \<Rightarrow> bool" where
  "roles_allowed s e \<longleftrightarrow> (case e of
      RoPerm x \<Rightarrow> x \<in> set ALL_PERMISSIONS
    | RoCreate \<Rightarrow> trim (ro_roleName s) \<noteq> [] \<and> ro_selectedPerms s \<noteq> []
    | _ \<Rightarrow> True)"

definition roles_net :: "roles_event \<Rightarrow> bool" where
  "roles_net e \<longleftrightarrow> (case e of RoCreated \<Rightarrow> True | RoError _ \<Rightarrow> True | RoRetired \<Rightarrow> True | _ \<Rightarrow> False)"

definition role_request :: "effect \<Rightarrow> bool" where
  "role_request f \<longleftrightarrow> \<not> is_request f
     \<or> (\<exists>r. f = Request ''POST'' (''/api/v1/tenant/roles/'' @ r @ ''/retire'') (Some (jobj [])))
     \<or> (\<exists>name perms. f = Request ''POST'' ''/api/v1/tenant/roles''
          (Some (jobj [(''name'', Some (JStr name)), (''permissions'', Some (jstrs perms))]))
        \<and> name \<noteq> [] \<and> trim name = name \<and> perms \<noteq> [] \<and> distinct perms \<and> set perms \<subseteq> set ALL_PERMISSIONS)"

interpretation ro: component "\<lambda>s. s = roles_mount" roles_view roles_handle roles_net roles_allowed roles_ok role_request
proof unfold_locales
  show "s = roles_mount \<Longrightarrow> roles_ok s" for s by (simp add: roles_mount_def roles_ok_def)
  show "solo (roles_view p s)" for p s by (auto simp: roles_view_def role_form_def role_card_def Let_def)
  show "offers (roles_allowed s) (roles_view p s)" for p s
    by (auto simp: roles_view_def role_form_def role_card_def Let_def roles_allowed_def)
  show "roles_net e \<Longrightarrow> roles_allowed s e" for s e by (cases e) (simp_all add: roles_net_def roles_allowed_def)
  show "roles_ok s \<Longrightarrow> roles_allowed s e \<Longrightarrow> roles_ok (fst (roles_handle s e))" for s e
    by (cases e) (simp_all add: roles_ok_def roles_allowed_def togglePerm_def arr_toggle_subset)
  have "role_request (Request ''POST'' ''/api/v1/tenant/roles'' (Some (role_body s)))"
    if "roles_ok s" "trim (ro_roleName s) \<noteq> []" "ro_selectedPerms s \<noteq> []" for s
    using that unfolding role_request_def role_body_def roles_ok_def by (metis trim_trim)
  then show "roles_ok s \<Longrightarrow> roles_allowed s e \<Longrightarrow> list_all role_request (snd (roles_handle s e))" for s e
    by (cases e) (auto simp: role_request_def roles_allowed_def)
qed

theorem role_requests:
  "reach (\<lambda>s. s = roles_mount) roles_view roles_handle roles_net s log \<Longrightarrow> roles_ok s \<and> list_all role_request log"
  by (rule ro.reach_inv)

theorem user_requests_witness:
  "list_all (user_request ''t1'') (snd (user_form_handle ''t1'' user_form_mount (UfError \<lparr>me_detail = None, me_message = Some ''HTTP 409''\<rparr>)))"
proof -
  let ?e = "UfError \<lparr>me_detail = None, me_message = Some ''HTTP 409''\<rparr>"
  have "reach (\<lambda>s. s = user_form_mount) user_form_view (user_form_handle ''t1'') user_form_net
      (fst (user_form_handle ''t1'' user_form_mount ?e)) (snd (user_form_handle ''t1'' user_form_mount ?e))"
    by (rule reach_settle1 [where e = ?e]) (simp_all add: user_form_net_def)
  from user_requests [OF this] show ?thesis .
qed

theorem members_click_guarded_witness:
  "members_allowed \<lparr>mq_host = sample_host, mq_q = loaded [\<lparr>mb_membership_id = ''m1'', mb_principal_id = ''ana'', mb_role = ''viewer'',
      mb_state = ''active'', mb_created_at = ''0''\<rparr>], mq_revokePending = False, mq_changePending = False\<rparr> members_mount (MsRevoke ''m1'')"
proof -
  let ?m = "\<lparr>mb_membership_id = ''m1'', mb_principal_id = ''ana'', mb_role = ''viewer'', mb_state = ''active'', mb_created_at = ''0''\<rparr>"
  let ?p = "\<lparr>mq_host = sample_host, mq_q = loaded [?m], mq_revokePending = False, mq_changePending = False\<rparr>"
  have "can_click (members_view ?p members_mount) [MsRevoke ''m1'']"
    by (simp add: members_view_def member_row_def can_click_El Card_def loaded_def Let_def)
  then have "fires (members_view ?p members_mount) [] [MsRevoke ''m1'']" by (rule can_click_fires)
  from members_click_guarded [OF this, of "MsRevoke ''m1''"] show ?thesis by simp
qed

end
