(* ===== verification/Incident.thy ===== *)
theory Incident
  imports UiKit
begin

text \<open>
  Incident response, \<open>pages/IncidentResponsePage.tsx\<close>: the error events of applications with the actions on
  one of them, and the response policy, which is edited as a draft over the loaded value.
\<close>

section \<open>Data\<close>

record error_event =
  ee_event_id :: string
  ee_application_id :: string
  ee_error_code :: string
  ee_error_message :: string
  ee_occurred_at :: string
  ee_received_at :: string
  ee_severity_hint :: "string option"
  ee_status :: string
  ee_source_principal_id :: string
  ee_operation :: "string option"

record ir_policy =
  ip_severity_threshold :: string
  ip_auto_open_ticket :: bool
  ip_manual_override_only :: bool
  ip_notify_channels :: "string list option"
  ip_automation_triggers :: "string list option"
  ip_updated_by :: "string option"
  ip_updated_at :: "string option"

record ir_destination =
  id_destination_config_id :: string
  id_channel_class :: string
  id_destination_ref :: string
  id_label :: string

record ir_script =
  is_script_id :: string
  is_name :: string
  is_script_type :: string
  is_enabled :: bool

definition IR_SEVERITIES :: "string list" where
  "IR_SEVERITIES = [''LOW'', ''MEDIUM'', ''HIGH'', ''CRITICAL'']"

definition IR_CHANNEL_LABELS :: "(string \<times> string) list" where
  "IR_CHANNEL_LABELS = [(''whatsapp_business@1'', ''WhatsApp''), (''email_smtp@1'', ''Email''), (''slack@1'', ''Slack'')]"

definition ir_sevVariant :: "string option \<Rightarrow> string" where
  "ir_sevVariant s = (if s = Some ''CRITICAL'' then ''danger'' else if s = Some ''HIGH'' then ''warning''
     else if s = Some ''MEDIUM'' then ''info'' else ''muted'')"

definition ir_statusVariant :: "string \<Rightarrow> string" where
  "ir_statusVariant s = (if s = ''processed'' then ''success'' else if s = ''processing'' then ''warning''
     else if s = ''failed'' then ''danger'' else ''muted'')"

definition ir_fmtTs :: "host \<Rightarrow> string option \<Rightarrow> string" where
  "ir_fmtTs h ts = (if truthy ts then locale_ts h (nullish ts []) else [])"

section \<open>An error event\<close>

record event_detail =
  vd_assignTo :: string
  vd_showAssignForm :: bool

definition event_detail_mount :: event_detail where
  "event_detail_mount = \<lparr>vd_assignTo = [], vd_showAssignForm = False\<rparr>"

record mut_flags =
  mf_isPending :: bool
  mf_isError :: bool
  mf_isSuccess :: bool

record event_props =
  vp_host :: host
  vp_event :: error_event
  vp_ticket :: mut_flags
  vp_processed :: mut_flags
  vp_assign :: mut_flags

datatype event_detail_event =
    VdBack | VdTicket | VdTicketOk | VdTicketError | VdProcessed | VdProcessedOk | VdProcessedError
  | VdShowAssign | VdAssignTo string | VdAssign | VdCancelAssign | VdAssignOk | VdAssignError

definition ticket_title :: "error_event \<Rightarrow> string" where
  "ticket_title e = str_or (ee_error_code e) ''Erro de aplicacao''"

definition ticket_body :: "error_event \<Rightarrow> json" where
  "ticket_body e = jobj
     [(''title'', Some (JStr (ticket_title e))), (''description'', Some (JStr (ee_error_message e))),
      (''category'', Some (JStr (if ee_severity_hint e = Some ''CRITICAL'' \<or> ee_severity_hint e = Some ''HIGH''
         then ''emergency'' else ''normal''))),
      (''risk'', Some (JStr (if ee_severity_hint e = Some ''CRITICAL'' then ''critical''
         else if ee_severity_hint e = Some ''HIGH'' then ''high'' else ''medium'')))]"

definition assign_body :: "error_event \<Rightarrow> string \<Rightarrow> json" where
  "assign_body e who = jobj
     [(''title'', Some (JStr (ticket_title e))),
      (''description'', Some (JStr (ee_error_message e @ [CHR 0x0A, CHR 0x0A] @ ''Atribuido a: '' @ who))),
      (''category'', Some (JStr ''emergency'')), (''risk'', Some (JStr ''high''))]"

definition event_path :: "string \<Rightarrow> string \<Rightarrow> string" where
  "event_path tid i = ''/api/v1/alerting/tenants/'' @ tid @ ''/application-error-events/'' @ i"

fun event_detail_handle :: "string \<Rightarrow> error_event \<Rightarrow> event_detail \<Rightarrow> event_detail_event \<Rightarrow> event_detail \<times> effect list" where
  "event_detail_handle tid e s VdBack = (s, [Callback ''onBack'' []])"
| "event_detail_handle tid e s VdTicket = (s, [Request ''POST'' ''/api/v1/itsm/changes'' (Some (ticket_body e))])"
| "event_detail_handle tid e s VdTicketOk =
     (s, [Invalidate [''itsm-changes''], Toast ''Ticket ITSM criado com sucesso.'' ''success''])"
| "event_detail_handle tid e s VdTicketError = (s, [Toast ''Erro ao criar ticket ITSM.'' ''error''])"
| "event_detail_handle tid e s VdProcessed =
     (s, [Request ''PATCH'' (event_path tid (ee_event_id e)) (Some (jobj [(''status'', Some (JStr ''processed''))]))])"
| "event_detail_handle tid e s VdProcessedOk =
     (s, [Invalidate [''ir-events'', tid], Toast ''Evento marcado como processado.'' ''success'', Callback ''onBack'' []])"
| "event_detail_handle tid e s VdProcessedError = (s, [Toast ''Erro ao marcar evento como processado.'' ''error''])"
| "event_detail_handle tid e s VdShowAssign = (s\<lparr>vd_showAssignForm := True\<rparr>, [])"
| "event_detail_handle tid e s (VdAssignTo x) = (s\<lparr>vd_assignTo := x\<rparr>, [])"
| "event_detail_handle tid e s VdAssign =
     (s, [Request ''POST'' ''/api/v1/itsm/changes'' (Some (assign_body e (vd_assignTo s)))])"
| "event_detail_handle tid e s VdCancelAssign = (s\<lparr>vd_showAssignForm := False, vd_assignTo := []\<rparr>, [])"
| "event_detail_handle tid e s VdAssignOk =
     (s\<lparr>vd_assignTo := [], vd_showAssignForm := False\<rparr>,
      [Invalidate [''itsm-changes''], Toast (''Evento atribuido a '' @ quoted (vd_assignTo s) @ '' via ticket ITSM.'') ''success''])"
| "event_detail_handle tid e s VdAssignError = (s, [Toast ''Erro ao atribuir evento.'' ''error''])"

definition ir_row :: "string \<Rightarrow> string \<Rightarrow> 'e vnode" where
  "ir_row label v = el ''div'' [el ''span'' [Txt label], el ''span'' [Txt v]]"

definition event_facts :: "host \<Rightarrow> error_event \<Rightarrow> 'e vnode" where
  "event_facts h e = Card
     [CardHeader
       [el ''span'' [Txt ''Evento de Erro -- Detalhes''],
        Badge (ir_sevVariant (ee_severity_hint e)) [Txt (nullish (ee_severity_hint e) ''N/A'')],
        Badge (ir_statusVariant (ee_status e)) [Txt (ee_status e)]],
      el ''div''
       [ir_row ''Event ID'' (ee_event_id e), ir_row ''Aplicacao'' (ee_application_id e),
        ir_row ''Codigo do erro'' (ee_error_code e), ir_row ''Mensagem'' (ee_error_message e),
        ir_row ''Ocorreu em'' (ir_fmtTs h (Some (ee_occurred_at e))), ir_row ''Recebido em'' (ir_fmtTs h (Some (ee_received_at e))),
        ir_row ''Operacao'' (nullish (ee_operation e) ''--''), ir_row ''Principal'' (ee_source_principal_id e)]]"

definition assign_view :: "event_props \<Rightarrow> event_detail \<Rightarrow> event_detail_event vnode" where
  "assign_view p s = el ''div''
     [if \<not> vd_showAssignForm s then Button ''secondary'' ''md'' [OnClick VdShowAssign] [Txt ''Atribuir a...'']
      else el ''div''
       ([El ''input'' [At ''type'' ''text'', At ''value'' (vd_assignTo s), OnChange VdAssignTo,
           At ''placeholder'' ''Nome ou e-mail do responsavel''] [],
         Button ''primary'' ''md'' [OnClick VdAssign, Bo ''disabled'' (trim (vd_assignTo s) = [] \<or> mf_isPending (vp_assign p))]
           [if mf_isPending (vp_assign p) then Spinner else Txt ''Atribuir''],
         Button ''secondary'' ''md'' [OnClick VdCancelAssign] [Txt ''Cancelar'']] @
        jif (mf_isError (vp_assign p)) (el ''span'' [Txt ''Falha ao atribuir.'']))]"

definition event_view :: "event_props \<Rightarrow> event_detail \<Rightarrow> event_detail_event vnode" where
  "event_view p s =
     (let e = vp_event p
      in el ''div''
       [button [OnClick VdBack] [Txt ''<- Voltar''],
        event_facts (vp_host p) e,
        Card
         [CardHeader [el ''span'' [Txt ''Acoes'']],
          el ''div''
           (jif (ee_status e \<noteq> ''processed'') (el ''div''
              ([Button ''primary'' ''md'' [OnClick VdTicket, Bo ''disabled'' (mf_isPending (vp_ticket p))]
                 [if mf_isPending (vp_ticket p) then Spinner else Txt ''Abrir ticket ITSM'']] @
               jif (mf_isError (vp_ticket p)) (el ''span'' [Txt ''Falha ao criar ticket.'']) @
               jif (mf_isSuccess (vp_ticket p)) (el ''span'' [Txt ''Ticket criado.'']))) @
            jif (ee_status e = ''received'' \<or> ee_status e = ''processing'') (el ''div''
              ([Button ''secondary'' ''md'' [OnClick VdProcessed, Bo ''disabled'' (mf_isPending (vp_processed p))]
                 [if mf_isPending (vp_processed p) then Spinner else Txt ''Marcar como processado'']] @
               jif (mf_isError (vp_processed p)) (el ''span'' [Txt ''Falha ao atualizar status.'']))) @
            [assign_view p s])]])"

section \<open>The list of events\<close>

text \<open>The query function rejects an answer that does not hold an array of events.\<close>

definition events_of_answer :: "json \<Rightarrow> json list option" where
  "events_of_answer r = (case jfield r ''events'' of Some (JArr es) \<Rightarrow> Some es | _ \<Rightarrow> None)"

datatype events_event = EvSelect error_event | EvBack

fun events_handle :: "error_event option \<Rightarrow> events_event \<Rightarrow> error_event option \<times> effect list" where
  "events_handle s (EvSelect e) = (Some e, [])"
| "events_handle s EvBack = (None, [])"

definition event_row :: "host \<Rightarrow> error_event \<Rightarrow> events_event vnode" where
  "event_row h e = El ''tr'' [At ''key'' (ee_event_id e), OnClick (EvSelect e)]
     [el ''td'' [Badge (ir_sevVariant (ee_severity_hint e)) [Txt (nullish (ee_severity_hint e) ''N/A'')]],
      el ''td'' [Txt (ee_application_id e)],
      el ''td'' [Txt (ee_error_code e)],
      el ''td'' [Txt (ee_error_message e)],
      el ''td'' [Badge (ir_statusVariant (ee_status e)) [Txt (ee_status e)]],
      el ''td'' [Txt (ir_fmtTs h (Some (ee_occurred_at e)))]]"

definition events_view :: "host \<times> error_event list query \<Rightarrow> error_event option \<Rightarrow> events_event vnode" where
  "events_view p s =
     (case s of
        Some e \<Rightarrow> El ''EventDetail'' [At ''event'' (ee_event_id e), Prop ''onBack'' EvBack] []
      | None \<Rightarrow>
          (let q = snd p; es = nullish (qdata q) []
           in el ''div''
            [el ''div''
              (el ''p'' [Txt ''Eventos de erro de aplicacoes integradas via webhook G11.''] #
               jif (isFetching q \<and> \<not> isLoading q) Spinner),
             Card
              [if isLoading q then el ''div'' [Spinner]
               else if isError q then el ''p'' [Txt ''Falha ao carregar eventos.'']
               else if es = [] then el ''p'' [Txt ''Nenhum evento de erro registrado.'']
               else el ''table''
                 [el ''thead'' [el ''tr'' (map (\<lambda>c. el ''th'' [Txt c])
                    [''Severidade'', ''Aplicacao'', ''Codigo'', ''Mensagem'', ''Status'', ''Ocorreu em''])],
                  el ''tbody'' (map (event_row (fst p)) es)]]]))"

section \<open>Pickers\<close>

text \<open>The pickers are stateless: an event is the new selection, handed to \<open>onChange\<close>, or a navigation.\<close>

datatype picker_event = PickIds "string list" | PickNav string

definition ChannelPicker :: "ir_destination list query \<Rightarrow> string list \<Rightarrow> picker_event vnode" where
  "ChannelPicker q selected =
     (let ds = nullish (qdata q) []
      in if isLoading q then el ''div'' [Txt ''Carregando canais...'']
         else if ds = [] then el ''p'' [Txt ''Nenhum canal configurado. '',
           El ''a'' [At ''href'' ''/channels'', OnClick (PickNav ''/channels'')] [Txt ''Adicione em Canais de Notificacao.'']]
         else el ''div'' (map (\<lambda>d. El ''button''
           [At ''key'' (id_destination_config_id d), At ''type'' ''button'',
            OnClick (PickIds (arr_toggle (id_destination_config_id d) selected))]
           [el ''span'' [Txt (nullish (map_of IR_CHANNEL_LABELS (id_channel_class d)) (id_channel_class d))],
            el ''span'' [Txt (str_or (id_label d) (id_destination_ref d))]]) ds))"

definition ScriptPicker :: "ir_script list query \<Rightarrow> string list \<Rightarrow> picker_event vnode" where
  "ScriptPicker q selected =
     (let xs = filter is_enabled (nullish (qdata q) [])
      in if isLoading q then el ''div'' [Txt ''Carregando scripts...'']
         else if xs = [] then el ''p'' [Txt ''Nenhum script de automacao ativo. '',
           button [OnClick (PickNav ''/automation'')] [Txt ''Crie em Automacao.'']]
         else el ''div'' (map (\<lambda>x. El ''button''
           [At ''key'' (is_script_id x), At ''type'' ''button'', OnClick (PickIds (arr_toggle (is_script_id x) selected))]
           [el ''span'' [Txt (is_script_type x)], el ''span'' [Txt (is_name x)]]) xs))"

section \<open>The policy\<close>

text \<open>\<open>form\<close> is the draft, absent until the first edit and after a save or a cancellation.\<close>

record policy_tab =
  pt_form :: "ir_policy option"
  pt_isDirty :: bool

definition policy_tab_mount :: policy_tab where
  "policy_tab_mount = \<lparr>pt_form = None, pt_isDirty = False\<rparr>"

record policy_tab_props =
  py_host :: host
  py_q :: "ir_policy query"
  py_mut :: mut_flags
  py_channels :: "ir_destination list query"
  py_scripts :: "ir_script list query"

text \<open>The events of an edit carry the loaded policy of the render, over which the first edit starts.\<close>

datatype policy_tab_event =
    PtThreshold "ir_policy option" string | PtAutoTicket "ir_policy option" bool | PtManual "ir_policy option" bool
  | PtChannels "ir_policy option" "string list" | PtScripts "ir_policy option" "string list"
  | PtSave ir_policy | PtSaved | PtCancel | PtNavigate string

definition shown_policy :: "ir_policy option \<Rightarrow> policy_tab \<Rightarrow> ir_policy option" where
  "shown_policy cur s = (case pt_form s of Some f \<Rightarrow> Some f | None \<Rightarrow> cur)"

definition updateForm :: "ir_policy option \<Rightarrow> (ir_policy \<Rightarrow> ir_policy) \<Rightarrow> policy_tab \<Rightarrow> policy_tab" where
  "updateForm cur patch s = s\<lparr>pt_form := map_option patch (shown_policy cur s), pt_isDirty := True\<rparr>"

text \<open>\<open>automation_triggers.map\<close> throws on an absent list: the mutation then fails without a request.\<close>

definition ir_policy_put :: "string \<Rightarrow> ir_policy \<Rightarrow> effect list" where
  "ir_policy_put tid b = (case ip_automation_triggers b of
      None \<Rightarrow> []
    | Some ts \<Rightarrow> [Request ''PUT'' (''/api/v1/alerting/tenants/'' @ tid @ ''/incident-response-policy'') (Some (jobj
        [(''severity_threshold'', Some (JStr (ip_severity_threshold b))),
         (''auto_open_ticket'', Some (JBool (ip_auto_open_ticket b))),
         (''manual_override_only'', Some (JBool (ip_manual_override_only b))),
         (''notify_channels'', map_option jstrs (ip_notify_channels b)),
         (''automation_triggers'', Some (JArr (map (\<lambda>t. jobj [(''script_id'', Some (JStr t))]) ts)))]))])"

fun policy_tab_handle :: "string \<Rightarrow> policy_tab \<Rightarrow> policy_tab_event \<Rightarrow> policy_tab \<times> effect list" where
  "policy_tab_handle tid s (PtThreshold l x) = (updateForm l (\<lambda>f. f\<lparr>ip_severity_threshold := x\<rparr>) s, [])"
| "policy_tab_handle tid s (PtAutoTicket l b) = (updateForm l (\<lambda>f. f\<lparr>ip_auto_open_ticket := b\<rparr>) s, [])"
| "policy_tab_handle tid s (PtManual l b) = (updateForm l (\<lambda>f. f\<lparr>ip_manual_override_only := b\<rparr>) s, [])"
| "policy_tab_handle tid s (PtChannels l ids) = (updateForm l (\<lambda>f. f\<lparr>ip_notify_channels := Some ids\<rparr>) s, [])"
| "policy_tab_handle tid s (PtScripts l ids) = (updateForm l (\<lambda>f. f\<lparr>ip_automation_triggers := Some ids\<rparr>) s, [])"
| "policy_tab_handle tid s (PtSave b) = (s, ir_policy_put tid b)"
| "policy_tab_handle tid s PtSaved =
     (s\<lparr>pt_form := None, pt_isDirty := False\<rparr>, [Invalidate [''ir-policy'', tid], Toast ''Politica salva com sucesso.'' ''success''])"
| "policy_tab_handle tid s PtCancel = (s\<lparr>pt_form := None, pt_isDirty := False\<rparr>, [])"
| "policy_tab_handle tid s (PtNavigate x) = (s, [Navigate x])"

fun picked :: "(string list \<Rightarrow> policy_tab_event) \<Rightarrow> picker_event \<Rightarrow> policy_tab_event" where
  "picked f (PickIds ids) = f ids"
| "picked f (PickNav x) = PtNavigate x"

definition policy_fields :: "policy_tab_props \<Rightarrow> ir_policy \<Rightarrow> policy_tab_event vnode list" where
  "policy_fields p b =
     (let l = qdata (py_q p) in
      [el ''div'' [el ''label'' [Txt ''Severidade minima para acionar''],
         select_view (ip_severity_threshold b) (PtThreshold l) (map (\<lambda>x. (x, x)) IR_SEVERITIES)],
       el ''label''
        [El ''input'' [At ''type'' ''checkbox'', Bo ''checked'' (ip_auto_open_ticket b), OnChange (\<lambda>_. PtAutoTicket l (\<not> ip_auto_open_ticket b))] [],
         el ''div'' [el ''p'' [Txt ''Abrir ticket automaticamente''],
           el ''p'' [Txt ''Cria um ticket ITSM quando o limiar de severidade for atingido.'']]],
       el ''label''
        [El ''input'' [At ''type'' ''checkbox'', Bo ''checked'' (ip_manual_override_only b), OnChange (\<lambda>_. PtManual l (\<not> ip_manual_override_only b))] [],
         el ''div'' [el ''p'' [Txt ''Apenas acao manual''],
           el ''p'' [Txt ''Desativa todas as acoes automaticas -- requer intervencao manual.'']]],
       el ''div'' [el ''label'' [Txt ''Canais de notificacao'', el ''span'' [Txt ''(selecione um ou mais)'']],
         embed (picked (PtChannels l)) (ChannelPicker (py_channels p) (nullish (ip_notify_channels b) []))],
       el ''div'' [el ''label'' [Txt ''Scripts de automacao a disparar'', el ''span'' [Txt ''(selecione um ou mais)'']],
         embed (picked (PtScripts l)) (ScriptPicker (py_scripts p) (nullish (ip_automation_triggers b) []))]])"

definition policy_tab_view :: "policy_tab_props \<Rightarrow> policy_tab \<Rightarrow> policy_tab_event vnode" where
  "policy_tab_view p s =
     (if isLoading (py_q p) then el ''div'' [Spinner]
      else case shown_policy (qdata (py_q p)) s of
        None \<Rightarrow> el ''p'' [Txt ''Falha ao carregar politica.'']
      | Some b \<Rightarrow> el ''div''
         [el ''p'' [Txt ''Define o comportamento automatico ao receber eventos de erro de aplicacoes.''],
          Card
           [CardHeader (el ''span'' [Txt ''Politica de Resposta a Incidentes''] #
              jif (truthy (ip_updated_at b)) (el ''span'' [Txt ''atualizado em '', Txt (ir_fmtTs (py_host p) (ip_updated_at b))])),
            el ''div''
             (policy_fields p b @
              [el ''div''
                (Button ''primary'' ''md'' [OnClick (PtSave b), Bo ''disabled'' (\<not> pt_isDirty s \<or> mf_isPending (py_mut p))]
                   [if mf_isPending (py_mut p) then Spinner else Txt ''Salvar politica''] #
                 jif (pt_isDirty s) (Button ''secondary'' ''md'' [OnClick PtCancel] [Txt ''Cancelar'']))] @
              jif (mf_isError (py_mut p)) (el ''p'' [Txt ''Falha ao salvar. Tente novamente.'']) @
              jif (mf_isSuccess (py_mut p) \<and> \<not> pt_isDirty s) (el ''p'' [Txt ''Politica salva com sucesso.'']))]])"

section \<open>The page\<close>

definition incident_view :: "string \<Rightarrow> string vnode" where
  "incident_view tab = el ''div''
     [el ''div'' [el ''h2'' [Txt ''Incident Response'']],
      el ''div'' (map (\<lambda>t. El ''button'' [At ''key'' t, OnClick t] [Txt (if t = ''events'' then ''Eventos'' else ''Politica'')])
        [''events'', ''policy'']),
      if tab = ''events'' then el ''EventsTab'' [] else el ''PolicyTab'' []]"

section \<open>Actions on an event: properties\<close>

definition event_allowed :: "event_props \<Rightarrow> event_detail \<Rightarrow> event_detail_event \<Rightarrow> bool" where
  "event_allowed p s e \<longleftrightarrow> (case e of
      VdTicket \<Rightarrow> ee_status (vp_event p) \<noteq> ''processed'' \<and> \<not> mf_isPending (vp_ticket p)
    | VdProcessed \<Rightarrow> ee_status (vp_event p) \<in> {''received'', ''processing''} \<and> \<not> mf_isPending (vp_processed p)
    | VdAssign \<Rightarrow> vd_showAssignForm s \<and> trim (vd_assignTo s) \<noteq> [] \<and> \<not> mf_isPending (vp_assign p)
    | VdAssignTo x \<Rightarrow> vd_showAssignForm s
    | _ \<Rightarrow> e \<in> {VdBack, VdShowAssign, VdCancelAssign})"

lemma event_view_laws: "solo (event_view p s)" "offers (event_allowed p s) (event_view p s)"
  by (auto simp: event_view_def event_facts_def ir_row_def assign_view_def Let_def)
    (auto simp: event_allowed_def)

theorem event_actions_guarded:
  "fires (event_view p s) x es \<Longrightarrow> e \<in> set es \<Longrightarrow> es = [e] \<and> event_allowed p s e"
  by (rule fires_one [OF _ event_view_laws])

section \<open>The policy draft: properties\<close>

lemma picker_laws:
  "solo (ChannelPicker q sel)" "solo (ScriptPicker q' sel)"
  "offers (\<lambda>e. case e of PickIds ids \<Rightarrow> \<exists>d \<in> set (nullish (qdata q) []). ids = arr_toggle (id_destination_config_id d) sel
     | PickNav x \<Rightarrow> x = ''/channels'') (ChannelPicker q sel)"
  "offers (\<lambda>e. case e of PickIds ids \<Rightarrow> \<exists>x \<in> set (nullish (qdata q') []). is_enabled x \<and> ids = arr_toggle (is_script_id x) sel
     | PickNav x \<Rightarrow> x = ''/automation'') (ScriptPicker q' sel)"
  by (auto simp: ChannelPicker_def ScriptPicker_def Let_def)

definition draft_ok :: "policy_tab \<Rightarrow> bool" where
  "draft_ok s \<longleftrightarrow> (pt_isDirty s \<longleftrightarrow> pt_form s \<noteq> None)"

definition policy_tab_allowed :: "policy_tab_props \<Rightarrow> policy_tab \<Rightarrow> policy_tab_event \<Rightarrow> bool" where
  "policy_tab_allowed p s e \<longleftrightarrow> (let l = qdata (py_q p) in case e of
      PtThreshold l' x \<Rightarrow> l' = l \<and> shown_policy l s \<noteq> None \<and> x \<in> set IR_SEVERITIES
    | PtAutoTicket l' b \<Rightarrow> l' = l \<and> shown_policy l s \<noteq> None
    | PtManual l' b \<Rightarrow> l' = l \<and> shown_policy l s \<noteq> None
    | PtChannels l' ids \<Rightarrow> l' = l \<and> shown_policy l s \<noteq> None
    | PtScripts l' ids \<Rightarrow> l' = l \<and> shown_policy l s \<noteq> None
    | PtSave b \<Rightarrow> shown_policy l s = Some b \<and> pt_isDirty s \<and> \<not> mf_isPending (py_mut p)
    | PtSaved \<Rightarrow> False
    | PtCancel \<Rightarrow> pt_isDirty s
    | PtNavigate x \<Rightarrow> x \<in> {''/channels'', ''/automation''})"

lemma policy_tab_view_laws: "solo (policy_tab_view p s)" "offers (policy_tab_allowed p s) (policy_tab_view p s)"
proof -
  show "solo (policy_tab_view p s)"
    by (auto simp: policy_tab_view_def policy_fields_def Let_def picker_laws split: option.split)
  let ?l = "qdata (py_q p)"
  have pick: "offers (\<lambda>e. policy_tab_allowed p s (picked (PtChannels ?l) e)) (ChannelPicker q sel)"
    "offers (\<lambda>e. policy_tab_allowed p s (picked (PtScripts ?l) e)) (ScriptPicker q' sel)"
    if "shown_policy ?l s \<noteq> None" for q q' sel
    using that by (auto intro!: offers_mono [OF picker_laws(3)] offers_mono [OF picker_laws(4)]
      simp: policy_tab_allowed_def split: picker_event.splits)
  have "offers (policy_tab_allowed p s) v" if "shown_policy ?l s = Some b" "v \<in> set (policy_fields p b)" for b v
    using that pick by (auto simp: policy_fields_def Let_def) (auto simp: policy_tab_allowed_def Let_def)
  then show "offers (policy_tab_allowed p s) (policy_tab_view p s)"
    by (auto simp: policy_tab_view_def policy_tab_allowed_def Let_def split: option.split)
qed

definition policy_tab_net :: "policy_tab_event \<Rightarrow> bool" where
  "policy_tab_net e \<longleftrightarrow> e = PtSaved"

definition policy_tab_request :: "string \<Rightarrow> effect \<Rightarrow> bool" where
  "policy_tab_request tid f \<longleftrightarrow> \<not> is_request f \<or> (\<exists>b. f \<in> set (ir_policy_put tid b))"

interpretation pt: component "\<lambda>s. s = policy_tab_mount" policy_tab_view "policy_tab_handle tid" policy_tab_net
  "\<lambda>s e. e = PtSaved \<or> (\<exists>p. policy_tab_allowed p s e)" draft_ok "policy_tab_request tid" for tid
proof unfold_locales
  show "s = policy_tab_mount \<Longrightarrow> draft_ok s" for s by (simp add: policy_tab_mount_def draft_ok_def)
  show "offers (\<lambda>e. e = PtSaved \<or> (\<exists>p. policy_tab_allowed p s e)) (policy_tab_view p s)" for p s
    using policy_tab_view_laws(2) by (rule offers_mono) blast
  show "policy_tab_net e \<Longrightarrow> e = PtSaved \<or> (\<exists>p. policy_tab_allowed p s e)" for s e by (simp add: policy_tab_net_def)
  show "draft_ok s \<Longrightarrow> e = PtSaved \<or> (\<exists>p. policy_tab_allowed p s e) \<Longrightarrow> draft_ok (fst (policy_tab_handle tid s e))" for s e
    by (cases e) (auto simp: draft_ok_def policy_tab_allowed_def updateForm_def Let_def)
  show "e = PtSaved \<or> (\<exists>p. policy_tab_allowed p s e) \<Longrightarrow> list_all (policy_tab_request tid) (snd (policy_tab_handle tid s e))" for s e
    by (cases e) (auto simp: policy_tab_request_def list_all_iff)
qed (rule policy_tab_view_laws)

text \<open>C39: in every reachable state the policy is marked as changed exactly when there is a draft, and without one
  the policy of the server is shown.\<close>

theorem policy_draft_dirty:
  "reach (\<lambda>s. s = policy_tab_mount) policy_tab_view (policy_tab_handle tid) policy_tab_net s log \<Longrightarrow>
   (pt_isDirty s \<longleftrightarrow> pt_form s \<noteq> None) \<and> (\<not> pt_isDirty s \<longrightarrow> shown_policy l s = l)"
  using pt.reachable_inv unfolding draft_ok_def shown_policy_def by fastforce

text \<open>The fields stay enabled while the policy is saved, and the answer discards the draft: an edit made during
  the save is taken and then lost.\<close>

lemma edit_during_save_lost:
  assumes "\<not> isLoading (py_q p)" "shown_policy (qdata (py_q p)) s = Some b" "x \<in> set IR_SEVERITIES"
  defines "e \<equiv> PtThreshold (qdata (py_q p)) x"
  shows "fires (policy_tab_view (p\<lparr>py_mut := \<lparr>mf_isPending = True, mf_isError = False, mf_isSuccess = False\<rparr>\<rparr>) s) x [e]
    \<and> shown_policy l (fst (policy_tab_handle tid s e)) = Some (b\<lparr>ip_severity_threshold := x\<rparr>)
    \<and> shown_policy l (fst (policy_tab_handle tid (fst (policy_tab_handle tid s e)) PtSaved)) = l"
proof -
  have "e \<in> set (changes x (select_view (ip_severity_threshold b) (PtThreshold (qdata (py_q p))) (map (\<lambda>x. (x, x)) IR_SEVERITIES)))"
    using assms(3) by (simp add: e_def select_view_def enterable_def o_def)
  then have "e \<in> set (changes x (policy_tab_view (p\<lparr>py_mut := \<lparr>mf_isPending = True, mf_isError = False, mf_isSuccess = False\<rparr>\<rparr>) s))"
    using assms(1,2) by (simp add: policy_tab_view_def policy_fields_def Card_def Let_def)
  then show ?thesis using assms(2) by (auto simp: fires_def e_def updateForm_def shown_policy_def)
qed

definition sample_policy :: ir_policy where
  "sample_policy = \<lparr>ip_severity_threshold = ''HIGH'', ip_auto_open_ticket = True, ip_manual_override_only = False,
     ip_notify_channels = Some [], ip_automation_triggers = Some [], ip_updated_by = None, ip_updated_at = None\<rparr>"

definition sample_policy_props :: policy_tab_props where
  "sample_policy_props = \<lparr>py_host = sample_host, py_q = loaded sample_policy,
     py_mut = \<lparr>mf_isPending = False, mf_isError = False, mf_isSuccess = False\<rparr>, py_channels = loaded [], py_scripts = loaded []\<rparr>"

theorem edit_during_save_lost_witness:
  "shown_policy (Some sample_policy) (fst (policy_tab_handle ''t1'' (fst (policy_tab_handle ''t1'' policy_tab_mount
      (PtThreshold (Some sample_policy) ''LOW''))) PtSaved)) = Some sample_policy"
  using edit_during_save_lost [of sample_policy_props policy_tab_mount sample_policy "''LOW''" "Some sample_policy" "''t1''"]
  by (simp add: sample_policy_props_def loaded_def shown_policy_def policy_tab_mount_def IR_SEVERITIES_def)

theorem policy_draft_dirty_witness:
  "pt_isDirty (fst (policy_tab_handle ''t1'' policy_tab_mount (PtThreshold (Some sample_policy) ''LOW''))) \<longleftrightarrow>
   pt_form (fst (policy_tab_handle ''t1'' policy_tab_mount (PtThreshold (Some sample_policy) ''LOW''))) \<noteq> None"
proof -
  have "PtThreshold (Some sample_policy) ''LOW'' \<in> set (changes ''LOW'' (policy_tab_view sample_policy_props policy_tab_mount))"
    by (simp add: policy_tab_view_def policy_fields_def sample_policy_props_def loaded_def shown_policy_def policy_tab_mount_def
        select_view_def enterable_def IR_SEVERITIES_def Card_def o_def Let_def)
  then have f: "fires (policy_tab_view sample_policy_props policy_tab_mount) ''LOW'' [PtThreshold (Some sample_policy) ''LOW'']"
    by (simp add: fires_def)
  have "reach (\<lambda>s. s = policy_tab_mount) policy_tab_view (policy_tab_handle ''t1'') policy_tab_net
      (fst (policy_tab_handle ''t1'' policy_tab_mount (PtThreshold (Some sample_policy) ''LOW''))) []"
    by (rule reach_act1 [where view = policy_tab_view and s = policy_tab_mount, OF _ f]) simp_all
  from policy_draft_dirty [OF this] show ?thesis by blast
qed

end
