(* ===== verification/JS_Timer.thy ===== *)
theory JS_Timer
  imports Main
begin

text \<open>
  The trailing timer that several components use: every change restarts it with the value it will deliver, and it delivers
  when it fires. \<open>delayed\<close> is what a component has to provide; its client learns that a burst of changes is delivered
  once, with the last value, and that nothing is lost.
\<close>

locale delayed =
  fixes now :: "'s \<Rightarrow> 'p" and pending :: "'s \<Rightarrow> 'p option"
    and change :: "'c \<Rightarrow> 's \<Rightarrow> 's" and fire :: "'s \<Rightarrow> 's \<times> 'p option"
  assumes change_pending: "pending (change c s) = Some (now (change c s)) \<or> pending (change c s) = pending s \<and> now (change c s) = now s"
    and fire_delivers: "snd (fire s) = pending s"
    and fire_clears: "pending (fst (fire s)) = None"
    and fire_now: "now (fst (fire s)) = now s"
begin

definition fresh :: "'s \<Rightarrow> bool" where
  "fresh s \<longleftrightarrow> (\<forall>x. pending s = Some x \<longrightarrow> x = now s)"

definition burst :: "'c list \<Rightarrow> 's \<Rightarrow> 's" where
  "burst cs s = foldl (\<lambda>s c. change c s) s cs"

lemma burst_snoc: "burst (cs @ [c]) s = change c (burst cs s)"
  by (simp add: burst_def)

lemma fresh_change: "fresh s \<Longrightarrow> fresh (change c s)"
  using change_pending [of c s] by (auto simp: fresh_def)

lemma fresh_fire: "fresh (fst (fire s))"
  by (simp add: fresh_def fire_clears)

lemma fresh_burst: "fresh s \<Longrightarrow> fresh (burst cs s)"
  by (induction cs rule: rev_induct) (simp_all add: burst_snoc fresh_change, simp add: burst_def)

lemma delivered_last: "fresh s \<Longrightarrow> snd (fire (burst cs s)) = Some x \<Longrightarrow> x = now (burst cs s)"
  using fresh_burst [of s cs] by (simp add: fire_delivers fresh_def)

lemma silent_burst: "pending (burst cs s) = None \<Longrightarrow> now (burst cs s) = now s \<and> pending s = None"
proof (induction cs rule: rev_induct)
  case Nil
  then show ?case by (simp add: burst_def)
next
  case (snoc c cs)
  then show ?case using change_pending [of c "burst cs s"] by (auto simp: burst_snoc)
qed

text \<open>A burst of changes that leaves another value than before delivers exactly that value, and only once.\<close>

lemma burst_delivered:
  assumes "fresh s" "now (burst cs s) \<noteq> now s"
  shows "snd (fire (burst cs s)) = Some (now (burst cs s)) \<and> snd (fire (fst (fire (burst cs s)))) = None"
proof -
  obtain x where "pending (burst cs s) = Some x" using assms(2) silent_burst [of cs s] by (cases "pending (burst cs s)") auto
  then show ?thesis using delivered_last [OF assms(1)] by (auto simp: fire_delivers fire_clears)
qed

end

end
