(* ===== verification/KnowledgeBase.thy ===== *)
theory KnowledgeBase
  imports JS_Timer UiKit
begin

text \<open>
  The knowledge base, \<open>pages/KnowledgeBasePage.tsx\<close>: the article editor, the article with its incident
  links, and the page with search, filters, categories and the deep link to an article. The editor is
  modelled inside the page's state, since the page decides what its data are saved to.
\<close>

section \<open>Data\<close>

record kb_category =
  kc_category_id :: string
  kc_name :: string
  kc_parent_id :: "string option"
  kc_slug :: string

record kb_summary =
  ks_article_id :: string
  ks_title :: string
  ks_status :: string
  ks_category_id :: "string option"
  ks_category_name :: "string option"
  ks_tags :: "string list"
  ks_created_by :: string
  ks_updated_at :: string
  ks_body_length :: int

record kb_incident =
  ki_incident_id :: string
  ki_linked_by :: string
  ki_linked_at :: string

record kb_detail = kb_summary +
  ks_body :: string
  ks_incidents :: "kb_incident list"

definition StatusBadge :: "string \<Rightarrow> 'e vnode" where
  "StatusBadge st = el ''span'' [Txt st]"

section \<open>The editor\<close>

record editor =
  ed_title :: string
  ed_body :: string
  ed_catId :: string
  ed_status :: string
  ed_tagsRaw :: string

definition editor_mount :: "kb_detail option \<Rightarrow> editor" where
  "editor_mount a = (case a of
      None \<Rightarrow> \<lparr>ed_title = [], ed_body = [], ed_catId = [], ed_status = ''draft'', ed_tagsRaw = []\<rparr>
    | Some a \<Rightarrow> \<lparr>ed_title = ks_title a, ed_body = ks_body a, ed_catId = nullish (ks_category_id a) [],
        ed_status = ks_status a, ed_tagsRaw = join '', '' (ks_tags a)\<rparr>)"

datatype editor_event = EdTitle string | EdCat string | EdStatus string | EdBody string | EdTags string | EdSave | EdClose

fun editor_edit :: "editor \<Rightarrow> editor_event \<Rightarrow> editor" where
  "editor_edit s (EdTitle x) = s\<lparr>ed_title := x\<rparr>"
| "editor_edit s (EdCat x) = s\<lparr>ed_catId := x\<rparr>"
| "editor_edit s (EdStatus x) = s\<lparr>ed_status := x\<rparr>"
| "editor_edit s (EdBody x) = s\<lparr>ed_body := x\<rparr>"
| "editor_edit s (EdTags x) = s\<lparr>ed_tagsRaw := x\<rparr>"
| "editor_edit s EdSave = s"
| "editor_edit s EdClose = s"

definition parse_tags :: "string \<Rightarrow> string list" where
  "parse_tags raw = comma_items raw"

definition article_data :: "editor \<Rightarrow> json" where
  "article_data s = jobj
     [(''title'', Some (JStr (trim (ed_title s)))), (''body'', Some (JStr (ed_body s))),
      (''category_id'', Some (if ed_catId s = [] then JNull else JStr (ed_catId s))),
      (''status'', Some (JStr (ed_status s))), (''tags'', Some (jstrs (parse_tags (ed_tagsRaw s))))]"

definition ARTICLE_STATUSES :: "(string \<times> string) list" where
  "ARTICLE_STATUSES = [(''draft'', ''Draft''), (''published'', ''Published''), (''archived'', ''Archived'')]"

definition editor_view :: "kb_category list \<Rightarrow> bool \<Rightarrow> editor \<Rightarrow> editor_event vnode" where
  "editor_view categories isEditing s = el ''div'' [el ''div''
     [el ''h3'' [Txt (if isEditing then ''Edit article'' else ''New article'')],
      el ''label'' [Txt ''Title'',
        El ''input'' [At ''value'' (ed_title s), OnChange EdTitle, At ''placeholder'' ''Article title''] []],
      el ''div''
       [el ''label'' [Txt ''Category'',
          select_view (ed_catId s) EdCat (([], ''-- no category --'') # map (\<lambda>c. (kc_category_id c, kc_name c)) categories)],
        el ''label'' [Txt ''Status'', select_view (ed_status s) EdStatus ARTICLE_STATUSES]],
      el ''label'' [Txt ''Body (Markdown)'', El ''textarea'' [At ''value'' (ed_body s), OnChange EdBody] []],
      el ''label'' [Txt ''Tags (comma-separated)'',
        El ''input'' [At ''value'' (ed_tagsRaw s), OnChange EdTags, At ''placeholder'' ''e.g. networking, dns, runbook''] []],
      el ''div''
       [Button ''primary'' ''sm'' [OnClick EdSave, Bo ''disabled'' (trim (ed_title s) = [])]
          [Txt (if isEditing then ''Save changes'' else ''Create article'')],
        Button ''secondary'' ''sm'' [OnClick EdClose] [Txt ''Cancel'']]]]"

section \<open>An article\<close>

record article_view_state =
  av_incidentInput :: string
  av_confirmDelete :: bool

definition article_mount :: article_view_state where
  "article_mount = \<lparr>av_incidentInput = [], av_confirmDelete = False\<rparr>"

text \<open>\<open>av_html\<close> is \<open>DOMPurify.sanitize(marked(body))\<close>, both third-party.\<close>

record article_props =
  av_host :: host
  av_article :: kb_detail
  av_html :: "string \<Rightarrow> string"
  av_linkPending :: bool

datatype article_event =
    AvEdit | AvBack | AvAskDelete | AvDelete | AvKeep | AvInput string | AvLink | AvLinked | AvUnlink string | AvUnlinked

definition incidents_path :: "string \<Rightarrow> string" where
  "incidents_path i = ''/api/v1/kb/articles/'' @ i @ ''/incidents''"

fun article_handle :: "string \<Rightarrow> article_view_state \<Rightarrow> article_event \<Rightarrow> article_view_state \<times> effect list" where
  "article_handle i s AvEdit = (s, [Callback ''onEdit'' []])"
| "article_handle i s AvBack = (s, [Callback ''onBack'' []])"
| "article_handle i s AvAskDelete = (s\<lparr>av_confirmDelete := True\<rparr>, [])"
| "article_handle i s AvDelete = (s\<lparr>av_confirmDelete := False\<rparr>, [Callback ''onDelete'' []])"
| "article_handle i s AvKeep = (s\<lparr>av_confirmDelete := False\<rparr>, [])"
| "article_handle i s (AvInput x) = (s\<lparr>av_incidentInput := x\<rparr>, [])"
| "article_handle i s AvLink = (s, if trim (av_incidentInput s) \<noteq> []
     then [Request ''POST'' (incidents_path i) (Some (jobj [(''incident_id'', Some (JStr (trim (av_incidentInput s))))]))] else [])"
| "article_handle i s AvLinked = (s\<lparr>av_incidentInput := []\<rparr>, [Invalidate [''kb-article'', i]])"
| "article_handle i s (AvUnlink x) = (s, [Request ''DELETE'' (incidents_path i @ ''/'' @ x) None])"
| "article_handle i s AvUnlinked = (s, [Invalidate [''kb-article'', i]])"

definition incident_links :: "article_props \<Rightarrow> article_view_state \<Rightarrow> article_event vnode" where
  "incident_links p s =
     (let incs = ks_incidents (av_article p)
      in el ''div''
       [el ''h3'' [Txt ''Linked incidents''],
        if incs = [] then el ''p'' [Txt ''No incidents linked.'']
        else el ''div'' (map (\<lambda>x. El ''div'' [At ''key'' (ki_incident_id x)]
          [el ''span'' [Txt (ki_incident_id x)], el ''span'' [Txt ''linked by '', Txt (ki_linked_by x)],
           button [OnClick (AvUnlink (ki_incident_id x))] [Txt ''unlink'']]) incs),
        El ''form'' [OnSubmit AvLink]
         [El ''input'' [At ''value'' (av_incidentInput s), OnChange AvInput, At ''placeholder'' ''Incident ID to link''] [],
          Button ''primary'' ''sm'' [At ''type'' ''submit'', Bo ''disabled'' (trim (av_incidentInput s) = [] \<or> av_linkPending p)]
            [Txt (if av_linkPending p then ''Linking...'' else ''Link'')]]])"

definition article_view :: "article_props \<Rightarrow> article_view_state \<Rightarrow> article_event vnode" where
  "article_view p s =
     (let a = av_article p
      in el ''div''
       ([button [OnClick AvBack] [Txt ''<- Back to articles''],
         el ''div''
          [el ''div''
            [el ''h2'' [Txt (ks_title a)],
             el ''div'' ([StatusBadge (ks_status a)] @
               jif (truthy (ks_category_name a)) (el ''span'' [Txt ''in '', Txt (nullish (ks_category_name a) [])]) @
               [el ''span'' [Txt ''updated '', Txt (locale_date (av_host p) (ks_updated_at a))]])],
           el ''div''
            [Button ''secondary'' ''sm'' [OnClick AvEdit] [Txt ''Edit''],
             Button ''secondary'' ''sm'' [OnClick AvAskDelete] [Txt ''Delete'']]]] @
        jif (ks_tags a \<noteq> []) (el ''div'' (map (\<lambda>t. El ''span'' [At ''key'' t] [Txt t]) (ks_tags a))) @
        [if ks_body a \<noteq> [] then El ''div'' [At ''dangerouslySetInnerHTML'' (av_html p (ks_body a))] []
         else el ''div'' [el ''span'' [Txt ''No content yet.'']],
         incident_links p s] @
        jif (av_confirmDelete s) (ConfirmModal
          \<lparr>cm_title = ''Excluir artigo'',
           cm_description = ''Esta acao e permanente. O artigo sera removido e nao podera ser recuperado.'',
           cm_confirmLabel = Some ''Excluir'', cm_cancelLabel = Some ''Cancelar'', cm_destructive = True,
           cm_isPending = False, cm_onConfirm = AvDelete, cm_onCancel = AvKeep\<rparr>)))"

section \<open>The page\<close>

record kb =
  kb_search :: string
  kb_filterCat :: string
  kb_filterStatus :: string
  kb_store :: storage
  kb_selectedId :: "string option"
  kb_editor :: "editor option"
  kb_showNewCat :: bool
  kb_newCatName :: string
  kb_deletingCatId :: "string option"
  kb_timer :: "string option"
  kb_debouncedQ :: string

text \<open>\<open>kb_editor\<close> holds the mounted editor: \<open>showEditor\<close> is \<open>kb_editor s \<noteq> None\<close>. \<open>kb_timer\<close> is the search
  text of the pending timeout.\<close>

definition kb_status_key :: "string \<Rightarrow> string" where
  "kb_status_key tid = ''jlm_kb_status_'' @ tid"

definition loadKbStatus :: "string \<Rightarrow> storage \<Rightarrow> string" where
  "loadKbStatus tid st = nullish (ls_get st (kb_status_key tid)) ''published''"

text \<open>The state after mounting and after the effect that opens the article of the search parameters.\<close>

definition kb_mount :: "string \<Rightarrow> storage \<Rightarrow> string option \<Rightarrow> kb" where
  "kb_mount tid st param = \<lparr>kb_search = [], kb_filterCat = [], kb_filterStatus = loadKbStatus tid st, kb_store = st,
     kb_selectedId = (if truthy param then param else None), kb_editor = None, kb_showNewCat = False, kb_newCatName = [],
     kb_deletingCatId = None, kb_timer = None, kb_debouncedQ = []\<rparr>"

record kb_props =
  kp_host :: host
  kp_categories :: "kb_category list"
  kp_articles :: "kb_summary list"
  kp_isLoading :: bool
  kp_articleDetail :: "kb_detail option"
  kp_createCatPending :: bool
  kp_deleteCatPending :: bool

datatype kb_event =
    KbEditor editor_event | KbEdit kb_detail | KbDelete string | KbBack | KbNew
  | KbSearch string | KbTimer | KbStatus string | KbCat string | KbToggleCats
  | KbSelect string | KbAskDelCat string | KbDelCat string | KbKeepCat | KbCatName string | KbCreateCat | KbCloseCats
  | KbCreated string | KbUpdated | KbDeleted | KbDeleteError | KbCatCreated | KbCatDeleted | KbCatDeleteError

definition articles_path :: "kb \<Rightarrow> string" where
  "articles_path s =
     (let params = jif (kb_debouncedQ s \<noteq> []) (''q'', kb_debouncedQ s) @
            jif (kb_filterCat s \<noteq> []) (''category_id'', kb_filterCat s) @
            jif (kb_filterStatus s \<noteq> []) (''status'', kb_filterStatus s);
          qs = form_encode params
      in if qs \<noteq> [] then ''/api/v1/kb/articles?'' @ qs else ''/api/v1/kb/articles'')"

definition article_path :: "string \<Rightarrow> string" where
  "article_path i = ''/api/v1/kb/articles/'' @ i"

definition category_path :: "string \<Rightarrow> string" where
  "category_path i = ''/api/v1/kb/categories/'' @ i"

definition save_article :: "kb \<Rightarrow> editor \<Rightarrow> effect" where
  "save_article s e = (if truthy (kb_selectedId s)
     then Request ''PUT'' (article_path (nullish (kb_selectedId s) [])) (Some (article_data e))
     else Request ''POST'' ''/api/v1/kb/articles'' (Some (article_data e)))"

fun kb_handle :: "string \<Rightarrow> kb \<Rightarrow> kb_event \<Rightarrow> kb \<times> effect list" where
  "kb_handle tid s (KbEditor e) = (case kb_editor s of
      None \<Rightarrow> (s, [])
    | Some ed \<Rightarrow> (if e = EdSave then (s, [save_article s ed])
        else if e = EdClose then (s\<lparr>kb_editor := None\<rparr>, [])
        else (s\<lparr>kb_editor := Some (editor_edit ed e)\<rparr>, [])))"
| "kb_handle tid s (KbEdit a) = (s\<lparr>kb_editor := Some (editor_mount (Some a))\<rparr>, [])"
| "kb_handle tid s (KbDelete i) = (s, [Request ''DELETE'' (article_path i) None])"
| "kb_handle tid s KbBack = (s\<lparr>kb_selectedId := None\<rparr>, [])"
| "kb_handle tid s KbNew =
     (s\<lparr>kb_selectedId := None, kb_editor := Some (nullish (kb_editor s) (editor_mount None))\<rparr>, [])"
| "kb_handle tid s (KbSearch x) = (s\<lparr>kb_search := x, kb_timer := Some x\<rparr>, [])"
| "kb_handle tid s KbTimer = (case kb_timer s of None \<Rightarrow> (s, []) | Some x \<Rightarrow> (s\<lparr>kb_timer := None, kb_debouncedQ := x\<rparr>, []))"
| "kb_handle tid s (KbStatus x) = (s\<lparr>kb_filterStatus := x, kb_store := ls_set (kb_status_key tid) x (kb_store s)\<rparr>, [])"
| "kb_handle tid s (KbCat x) = (s\<lparr>kb_filterCat := x\<rparr>, [])"
| "kb_handle tid s KbToggleCats = (s\<lparr>kb_showNewCat := \<not> kb_showNewCat s\<rparr>, [])"
| "kb_handle tid s (KbSelect i) = (s\<lparr>kb_selectedId := Some i\<rparr>, [])"
| "kb_handle tid s (KbAskDelCat i) = (s\<lparr>kb_deletingCatId := Some i\<rparr>, [])"
| "kb_handle tid s (KbDelCat i) = (s, [Request ''DELETE'' (category_path i) None])"
| "kb_handle tid s KbKeepCat = (s\<lparr>kb_deletingCatId := None\<rparr>, [])"
| "kb_handle tid s (KbCatName x) = (s\<lparr>kb_newCatName := x\<rparr>, [])"
| "kb_handle tid s KbCreateCat = (s, if trim (kb_newCatName s) \<noteq> []
     then [Request ''POST'' ''/api/v1/kb/categories'' (Some (jobj [(''name'', Some (JStr (trim (kb_newCatName s))))]))] else [])"
| "kb_handle tid s KbCloseCats = (s\<lparr>kb_showNewCat := False\<rparr>, [])"
| "kb_handle tid s (KbCreated i) = (s\<lparr>kb_editor := None, kb_selectedId := Some i\<rparr>, [Invalidate [''kb-articles'']])"
| "kb_handle tid s KbUpdated =
     (s\<lparr>kb_editor := None\<rparr>, [Invalidate [''kb-articles''], Invalidate [''kb-article'', nullish (kb_selectedId s) []]])"
| "kb_handle tid s KbDeleted = (s\<lparr>kb_selectedId := None\<rparr>, [Invalidate [''kb-articles''], Toast ''Artigo excluido.'' ''success''])"
| "kb_handle tid s KbDeleteError = (s, [Toast ''Erro ao excluir artigo.'' ''error''])"
| "kb_handle tid s KbCatCreated = (s\<lparr>kb_newCatName := []\<rparr>, [Invalidate [''kb-categories'']])"
| "kb_handle tid s KbCatDeleted =
     (s\<lparr>kb_deletingCatId := None\<rparr>, [Invalidate [''kb-categories''], Toast ''Categoria excluida.'' ''success''])"
| "kb_handle tid s KbCatDeleteError = (s\<lparr>kb_deletingCatId := None\<rparr>, [Toast ''Erro ao excluir categoria.'' ''error''])"

definition kb_filters :: "kb_props \<Rightarrow> kb \<Rightarrow> kb_event vnode" where
  "kb_filters p s = el ''div''
     [El ''input'' [At ''value'' (kb_search s), OnChange KbSearch, At ''placeholder'' ''Search articles...''] [],
      select_view (kb_filterStatus s) KbStatus
        [([], ''All statuses''), (''published'', ''Published''), (''draft'', ''Draft''), (''archived'', ''Archived'')],
      select_view (kb_filterCat s) KbCat (([], ''All categories'') # map (\<lambda>c. (kc_category_id c, kc_name c)) (kp_categories p)),
      Button ''secondary'' ''sm'' [OnClick KbToggleCats] [Txt ''+ Category'']]"

definition kb_categories_view :: "kb_props \<Rightarrow> kb \<Rightarrow> kb_event vnode" where
  "kb_categories_view p s = el ''div''
     [el ''h3'' [Txt ''Gerenciar categorias''],
      if kp_categories p \<noteq> [] then el ''div'' (map (\<lambda>c. El ''div'' [At ''key'' (kc_category_id c)]
        [el ''span'' [Txt (kc_name c)], button [OnClick (KbAskDelCat (kc_category_id c))] [Txt ''Excluir'']]) (kp_categories p))
      else el ''p'' [Txt ''Nenhuma categoria criada.''],
      El ''form'' [OnSubmit KbCreateCat]
       [El ''input'' [At ''value'' (kb_newCatName s), OnChange KbCatName, At ''placeholder'' ''Nova categoria...''] [],
        Button ''primary'' ''sm'' [At ''type'' ''submit'', Bo ''disabled'' (trim (kb_newCatName s) = [] \<or> kp_createCatPending p)] [Txt ''Criar''],
        Button ''secondary'' ''sm'' [At ''type'' ''button'', OnClick KbCloseCats] [Txt ''Fechar'']]]"

definition kb_row :: "host \<Rightarrow> kb_summary \<Rightarrow> kb_event vnode" where
  "kb_row h a = El ''div'' [At ''key'' (ks_article_id a), OnClick (KbSelect (ks_article_id a))]
     [el ''div'' ([el ''span'' [Txt (ks_title a)], StatusBadge (ks_status a)] @
        jif (truthy (ks_category_name a)) (el ''span'' [Txt (nullish (ks_category_name a) [])])),
      el ''div'' (map (\<lambda>t. El ''span'' [At ''key'' t] [Txt t]) (slice 0 4 (ks_tags a)) @
        [el ''span'' [Txt (locale_date h (ks_updated_at a))]])]"

definition kb_list_view :: "kb_props \<Rightarrow> kb \<Rightarrow> kb_event vnode" where
  "kb_list_view p s = el ''div''
     ((case kb_editor s of None \<Rightarrow> []
       | Some ed \<Rightarrow> [embed KbEditor (editor_view (kp_categories p) (truthy (kb_selectedId s) \<and> kp_articleDetail p \<noteq> None) ed)]) @
      [el ''div'' [el ''h2'' [Txt ''Knowledge Base''], Button ''primary'' ''sm'' [OnClick KbNew] [Txt ''New article'']],
       kb_filters p s] @
      jif (kb_showNewCat s) (kb_categories_view p s) @
      [if kp_isLoading p then el ''div'' [Txt ''Loading...'']
       else if kp_articles p = [] then el ''div'' [Txt ''No articles found.'']
       else el ''div'' (map (kb_row (kp_host p)) (kp_articles p))] @
      (case (kb_deletingCatId s, find (\<lambda>c. Some (kc_category_id c) = kb_deletingCatId s) (kp_categories p)) of
         (Some i, Some c) \<Rightarrow> jif (i \<noteq> []) (ConfirmModal
           \<lparr>cm_title = ''Excluir categoria'',
            cm_description = ''Excluir a categoria '' @ quoted (kc_name c) @ ''? Artigos vinculados perderao esta categoria.'',
            cm_confirmLabel = Some ''Excluir'', cm_cancelLabel = Some ''Cancelar'', cm_destructive = True,
            cm_isPending = kp_deleteCatPending p, cm_onConfirm = KbDelCat i, cm_onCancel = KbKeepCat\<rparr>)
       | _ \<Rightarrow> []))"

definition kb_view :: "kb_props \<Rightarrow> kb \<Rightarrow> kb_event vnode" where
  "kb_view p s =
     (case (kb_selectedId s, kp_articleDetail p, kb_editor s) of
        (Some i, Some a, None) \<Rightarrow> if i \<noteq> []
          then El ''ArticleDetailView'' [At ''article'' (ks_article_id a), Prop ''onEdit'' (KbEdit a),
            Prop ''onDelete'' (KbDelete i), Prop ''onBack'' KbBack] []
          else kb_list_view p s
      | _ \<Rightarrow> kb_list_view p s)"

section \<open>The editor: properties\<close>

text \<open>The tags of an article are read back exactly from the field that the editor joins them into, when no tag
  is blank, padded or holds a comma.\<close>

lemma tags_roundtrip:
  "list_all item_ok (ks_tags a) \<Longrightarrow> parse_tags (ed_tagsRaw (editor_mount (Some a))) = ks_tags a"
  by (simp add: parse_tags_def editor_mount_def comma_items_join)

lemma editor_view_laws:
  "solo (editor_view cs b s)"
  "offers (\<lambda>e. e = EdSave \<longrightarrow> trim (ed_title s) \<noteq> []) (editor_view cs b s)"
  by (auto simp: editor_view_def)

section \<open>The page: properties\<close>

definition kb_ok :: "string \<Rightarrow> kb \<Rightarrow> bool" where
  "kb_ok tid s \<longleftrightarrow>
     (kb_store s \<noteq> None \<longrightarrow> loadKbStatus tid (kb_store s) = kb_filterStatus s)
     \<and> (case kb_timer s of None \<Rightarrow> kb_debouncedQ s = kb_search s | Some x \<Rightarrow> x = kb_search s)"

definition kb_allowed :: "kb \<Rightarrow> kb_event \<Rightarrow> bool" where
  "kb_allowed s e \<longleftrightarrow> (case e of
      KbEditor EdSave \<Rightarrow> (\<exists>ed. kb_editor s = Some ed \<and> trim (ed_title ed) \<noteq> [])
    | KbDelete i \<Rightarrow> kb_selectedId s = Some i \<and> kb_editor s = None
    | KbDelCat i \<Rightarrow> kb_deletingCatId s = Some i
    | _ \<Rightarrow> True)"

definition kb_net :: "kb_event \<Rightarrow> bool" where
  "kb_net e \<longleftrightarrow> (case e of KbTimer \<Rightarrow> True | KbCreated _ \<Rightarrow> True | KbUpdated \<Rightarrow> True | KbDeleted \<Rightarrow> True | KbDeleteError \<Rightarrow> True
     | KbCatCreated \<Rightarrow> True | KbCatDeleted \<Rightarrow> True | KbCatDeleteError \<Rightarrow> True | _ \<Rightarrow> False)"

lemma kb_view_laws: "solo (kb_view p s)" "offers (kb_allowed s) (kb_view p s)"
proof -
  have list: "solo (kb_list_view p s)"
    by (auto simp: kb_list_view_def kb_filters_def kb_categories_view_def kb_row_def StatusBadge_def editor_view_laws
        split: option.splits)
  have ed: "offers (\<lambda>e. kb_allowed s (KbEditor e)) (editor_view cs b ed)" if "kb_editor s = Some ed" for cs b ed
    using editor_view_laws(2) by (rule offers_mono) (use that in \<open>auto simp: kb_allowed_def split: editor_event.split\<close>)
  have off: "offers (kb_allowed s) (kb_list_view p s)"
    using ed by (auto simp: kb_list_view_def kb_filters_def kb_categories_view_def kb_row_def StatusBadge_def
        split: option.splits) (auto simp: kb_allowed_def dest: find_SomeD)
  show "solo (kb_view p s)" using list by (auto simp: kb_view_def split: option.split)
  show "offers (kb_allowed s) (kb_view p s)" using off
    by (auto simp: kb_view_def split: option.split) (auto simp: kb_allowed_def)
qed

interpretation kbs: persisted "kb_status_key tid" "loadKbStatus tid" id "\<lambda>_. True" for tid
  by unfold_locales (auto simp: loadKbStatus_def)

interpretation kb: component "\<lambda>s. \<exists>st param. s = kb_mount tid st param" kb_view "kb_handle tid" kb_net kb_allowed
  "kb_ok tid" "\<lambda>f. True" for tid
proof unfold_locales
  show "\<exists>st param. s = kb_mount tid st param \<Longrightarrow> kb_ok tid s" for s by (auto simp: kb_mount_def kb_ok_def)
  show "kb_net e \<Longrightarrow> kb_allowed s e" for s e by (cases e) (simp_all add: kb_net_def kb_allowed_def)
  show "kb_ok tid s \<Longrightarrow> kb_allowed s e \<Longrightarrow> kb_ok tid (fst (kb_handle tid s e))" for s e
    using kbs.load_saved [where st = "kb_store s" and tid = tid] by (cases e) (auto simp: kb_ok_def split: option.splits)
qed (simp_all add: kb_view_laws list_all_iff)



text \<open>The view of an article links it with the trimmed, non-blank text in its field, and unlinks the incidents it lists.\<close>

lemma article_requests:
  assumes "fires (article_view p s) x es" "f \<in> set (snd (run (article_handle i) s es))" "is_request f"
  shows "trim (av_incidentInput s) \<noteq> []
      \<and> f = Request ''POST'' (incidents_path i) (Some (JObj [(''incident_id'', JStr (trim (av_incidentInput s)))]))
    \<or> (\<exists>x \<in> set (ks_incidents (av_article p)). f = Request ''DELETE'' (incidents_path i @ ''/'' @ ki_incident_id x) None)"
proof -
  let ?P = "\<lambda>e. \<forall>x. e = AvUnlink x \<longrightarrow> x \<in> ki_incident_id ` set (ks_incidents (av_article p))"
  have "solo (article_view p s)" "offers ?P (article_view p s)"
    by (auto simp: article_view_def incident_links_def StatusBadge_def Let_def)
  then have "length es \<le> 1" "list_all ?P es" using assms(1) fires_solo fires_offers by blast+
  then obtain e where "?P e" "f \<in> set (snd (article_handle i s e))"
    using assms(2) by (cases es) (auto simp: run_none_or_one)
  then show ?thesis using assms(3) by (cases e) (auto simp: jobj_def split: if_splits)
qed

text \<open>The search text as a delayed value: a burst of keystrokes is searched once, for the text at its end.\<close>

definition kb_type :: "string \<Rightarrow> string \<Rightarrow> kb \<Rightarrow> kb" where
  "kb_type tid x s = fst (kb_handle tid s (KbSearch x))"

definition kb_fire :: "string \<Rightarrow> kb \<Rightarrow> kb \<times> string option" where
  "kb_fire tid s = (let t = fst (kb_handle tid s KbTimer) in (t, if kb_timer s = None then None else Some (kb_debouncedQ t)))"

interpretation kbd: delayed kb_search kb_timer "kb_type tid" "kb_fire tid" for tid
  by unfold_locales (auto simp: kb_type_def kb_fire_def Let_def split: option.splits)

lemma kb_burst:
  assumes "kb_ok tid s" "xs \<noteq> []"
  shows "kb_debouncedQ (fst (kb_handle tid (foldl (\<lambda>s x. kb_type tid x s) s xs) KbTimer)) = last xs"
proof -
  let ?t = "foldl (\<lambda>s x. kb_type tid x s) s xs"
  have "kbd.fresh s" using assms(1) by (auto simp: kbd.fresh_def kb_ok_def)
  then have "x = kb_search ?t" if "snd (kb_fire tid ?t) = Some x" for x
    using kbd.delivered_last [of s tid xs x] that by (simp add: kbd.burst_def)
  moreover have "kb_timer ?t = Some (last xs) \<and> kb_search ?t = last xs"
    using assms(2) by (induction xs rule: rev_induct) (simp_all add: kb_type_def)
  ultimately show ?thesis by (simp add: kb_fire_def Let_def)
qed

theorem tags_roundtrip_witness:
  "parse_tags (ed_tagsRaw (editor_mount (Some \<lparr>ks_article_id = ''a'', ks_title = ''T'', ks_status = ''draft'', ks_category_id = None,
      ks_category_name = None, ks_tags = [''dns'', ''run book''], ks_created_by = ''ana'', ks_updated_at = ''0'', ks_body_length = 0,
      ks_body = [], ks_incidents = []\<rparr>))) = [''dns'', ''run book'']"
proof -
  let ?a = "\<lparr>ks_article_id = ''a'', ks_title = ''T'', ks_status = ''draft'', ks_category_id = None, ks_category_name = None,
    ks_tags = [''dns'', ''run book''], ks_created_by = ''ana'', ks_updated_at = ''0'', ks_body_length = 0, ks_body = [], ks_incidents = []\<rparr>"
  have "list_all item_ok [''dns'', ''run book'']" by code_simp
  with tags_roundtrip [of ?a] show ?thesis by simp
qed


end
