(* ===== verification/Noc.thy ===== *)
theory Noc
  imports Complex_Main UiKit
begin

text \<open>
  The operations dashboard, \<open>pages/NOCDashboard.tsx\<close>: the event stream with its reconnection and the REST
  fallback, the widgets kept in \<open>localStorage\<close>, and the overview.
\<close>

section \<open>Data\<close>

record noc_evidence =
  ne_severity_class :: "string option"
  ne_problem_id :: "string option"
  ne_health_classes :: "string list option"

record noc_alert =
  na_alert_id :: string
  na_lifecycle_state :: string
  na_source_kind :: string
  na_monitoring_source_id :: string
  na_monitoring_resource_id :: string
  na_evidence :: "noc_evidence option"
  na_opened_at :: string
  na_resolved_at :: "string option"

record noc_source =
  ns_monitoring_source_id :: string
  ns_display_name :: string
  ns_state :: string

record noc_window =
  nw_window_id :: string
  nw_source_ids :: "string list option"
  nw_active :: bool

definition noc_sevVariant :: "string option \<Rightarrow> string" where
  "noc_sevVariant c = (if c = Some ''critical'' then ''danger''
     else if c = Some ''degraded'' \<or> c = Some ''warning'' then ''warning''
     else if c = Some ''informational'' then ''info'' else ''muted'')"

definition sevLabel :: "string option \<Rightarrow> string" where
  "sevLabel c = nullish (map_option (\<lambda>s. toUpperCase s) c) ''UNKNOWN''"

definition noc_severity :: "noc_alert \<Rightarrow> string option" where
  "noc_severity a = Option.bind (na_evidence a) ne_severity_class"

definition noc_alertTitle :: "noc_alert \<Rightarrow> string" where
  "noc_alertTitle a =
     (let pid = Option.bind (na_evidence a) ne_problem_id; hcs = nullish (Option.bind (na_evidence a) ne_health_classes) []
      in if truthy pid then nullish pid []
         else if hcs \<noteq> [] then join '', '' hcs
         else str_or (na_monitoring_resource_id a) (na_source_kind a))"

definition noc_healthVariant :: "string \<Rightarrow> string" where
  "noc_healthVariant st = (if st = ''current'' then ''success''
     else if st = ''stale'' \<or> st = ''incomplete'' \<or> st = ''reconciliation_required'' then ''warning''
     else if st = ''unavailable'' then ''danger'' else ''muted'')"

definition noc_fmtTs :: "host \<Rightarrow> string option \<Rightarrow> string" where
  "noc_fmtTs h ts = (if truthy ts then locale_ts h (nullish ts []) else [])"

definition LiveDot :: "bool \<Rightarrow> 'e vnode" where
  "LiveDot c = el ''span'' [el ''span'' [], Txt (if c then ''live'' else ''reconnecting...'')]"

section \<open>Widgets\<close>

fun js_true :: "json \<Rightarrow> bool" where
  "js_true JNull = False"
| "js_true (JBool b) = b"
| "js_true (JNum n) = (n \<noteq> JInt 0 \<and> n \<noteq> JNaN)"
| "js_true (JStr s) = (s \<noteq> [])"
| "js_true _ = True"

text \<open>The widgets on the screen, by key. The stored object may hold any JSON under the keys; other members are
  never read.\<close>

type_synonym widgets = "(string \<times> json) list"

definition DEFAULT_WIDGETS :: widgets where
  "DEFAULT_WIDGETS = [(''stats'', JBool True), (''alerts'', JBool True), (''sources'', JBool True)]"

definition widgets_key :: "string \<Rightarrow> string" where
  "widgets_key tid = ''jlm_noc_widgets_'' @ tid"

definition loadWidgets :: "host \<Rightarrow> string \<Rightarrow> storage \<Rightarrow> widgets" where
  "loadWidgets h tid st = (case ls_get st (widgets_key tid) of
      None \<Rightarrow> DEFAULT_WIDGETS
    | Some raw \<Rightarrow> if raw = [] then DEFAULT_WIDGETS else (case json_parse h raw of
        None \<Rightarrow> DEFAULT_WIDGETS
      | Some j \<Rightarrow> map (\<lambda>(k, v). (k, nullish (jfield j k) v)) DEFAULT_WIDGETS))"

definition widget_on :: "widgets \<Rightarrow> string \<Rightarrow> bool" where
  "widget_on w k = js_true (nullish (map_of w k) JNull)"

definition toggle_widget :: "string \<Rightarrow> widgets \<Rightarrow> widgets" where
  "toggle_widget key w = map (\<lambda>(k, v). (k, if k = key then JBool (\<not> js_true v) else v)) w"

definition WIDGET_LABELS :: "(string \<times> string) list" where
  "WIDGET_LABELS = [(''stats'', ''Resumo de contadores''), (''alerts'', ''Alertas ativos''), (''sources'', ''Fontes de monitoramento'')]"

section \<open>State and handlers\<close>

text \<open>\<open>no_es\<close>: there is an event source that is connecting or open. \<open>no_retry\<close>: the delay of the pending
  reconnection timer, in milliseconds. \<open>no_cancelled\<close> is set by the cleanup of the effect.\<close>

record noc =
  no_alerts :: "noc_alert list"
  no_sources :: "noc_source list"
  no_connected :: bool
  no_loading :: bool
  no_error :: bool
  no_es :: bool
  no_retry :: "rat option"
  no_retryDelay :: int
  no_cancelled :: bool
  no_widgets :: widgets
  no_store :: storage
  no_showCustomize :: bool

definition noc_mount :: "host \<Rightarrow> string \<Rightarrow> storage \<Rightarrow> noc" where
  "noc_mount h tid st = \<lparr>no_alerts = [], no_sources = [], no_connected = False, no_loading = True, no_error = False,
     no_es = True, no_retry = None, no_retryDelay = 5000, no_cancelled = False, no_widgets = loadWidgets h tid st,
     no_store = st, no_showCustomize = False\<rparr>"

definition fetch_alerts :: effect where
  "fetch_alerts = Request ''GET'' ''/api/v1/alerting/alerts?lifecycle_state=active&limit=50'' None"

definition fetch_sources :: effect where
  "fetch_sources = Request ''GET'' ''/api/v1/monitoring/sources'' None"

definition noc_mount_effects :: "effect list" where
  "noc_mount_effects = [fetch_alerts, fetch_sources, Callback ''EventSource'' [''/api/v1/noc/stream'']]"

text \<open>\<open>NocError r\<close> carries the value of \<open>Math.random()\<close>, \<open>NocMessage None\<close> a message that does not parse.\<close>

datatype noc_event =
    NocBoot "noc_alert list" "noc_source list" | NocBootFail
  | NocOpen | NocMessage "(noc_alert list \<times> noc_source list) option" | NocError rat | NocTimer
  | NocAlerts "noc_alert list" | NocAlertsFail | NocSources "noc_source list" | NocUnmount
  | NocWidget string | NocToggleMenu | NocCloseMenu | NocNavigate string

definition noc_delay :: "int \<Rightarrow> rat \<Rightarrow> rat" where
  "noc_delay d r = of_int d * (8 / 10 + r * (4 / 10))"

fun noc_handle :: "host \<Rightarrow> string \<Rightarrow> noc \<Rightarrow> noc_event \<Rightarrow> noc \<times> effect list" where
  "noc_handle h tid s (NocBoot as ss) =
     (if no_cancelled s then s else s\<lparr>no_alerts := as, no_sources := ss, no_loading := False\<rparr>, [])"
| "noc_handle h tid s NocBootFail = (if no_cancelled s then s else s\<lparr>no_loading := False\<rparr>, [])"
| "noc_handle h tid s NocOpen =
     (if no_es s then s\<lparr>no_connected := True, no_error := False, no_retryDelay := 5000\<rparr> else s, [])"
| "noc_handle h tid s (NocMessage m) =
     ((case m of None \<Rightarrow> s
       | Some (as, ss) \<Rightarrow> if no_es s then s\<lparr>no_alerts := as, no_sources := ss, no_loading := False, no_error := False\<rparr> else s), [])"
| "noc_handle h tid s (NocError r) =
     (if no_es s
      then (s\<lparr>no_es := False, no_connected := False, no_retry := Some (noc_delay (no_retryDelay s) r),
              no_retryDelay := min (no_retryDelay s * 2) 60000\<rparr>,
            [Callback ''close'' [], fetch_alerts, fetch_sources])
      else (s, []))"
| "noc_handle h tid s NocTimer =
     (if no_retry s \<noteq> None then (s\<lparr>no_retry := None, no_es := True\<rparr>, [Callback ''EventSource'' [''/api/v1/noc/stream'']])
      else (s, []))"
| "noc_handle h tid s (NocAlerts as) = (if no_cancelled s then s else s\<lparr>no_alerts := as, no_loading := False\<rparr>, [])"
| "noc_handle h tid s NocAlertsFail = (if no_cancelled s then s else s\<lparr>no_error := True\<rparr>, [])"
| "noc_handle h tid s (NocSources ss) = (if no_cancelled s then s else s\<lparr>no_sources := ss\<rparr>, [])"
| "noc_handle h tid s NocUnmount =
     (s\<lparr>no_cancelled := True, no_es := False, no_retry := None\<rparr>, if no_es s then [Callback ''close'' []] else [])"
| "noc_handle h tid s (NocWidget k) =
     (let w = toggle_widget k (no_widgets s)
      in (s\<lparr>no_widgets := w, no_store := ls_set (widgets_key tid) (json_text h (jobj (map (\<lambda>(k, v). (k, Some v)) w))) (no_store s)\<rparr>, []))"
| "noc_handle h tid s NocToggleMenu = (s\<lparr>no_showCustomize := \<not> no_showCustomize s\<rparr>, [])"
| "noc_handle h tid s NocCloseMenu = (s\<lparr>no_showCustomize := False\<rparr>, [])"
| "noc_handle h tid s (NocNavigate x) = (s, [Navigate x])"

text \<open>The document listeners of the menu: they are there while it is open. \<open>outside\<close> tells whether the mouse went
  down outside the menu.\<close>

definition noc_mousedown :: "noc \<Rightarrow> bool \<Rightarrow> noc_event list" where
  "noc_mousedown s outside = jif (no_showCustomize s \<and> outside) NocCloseMenu"

definition noc_keydown :: "noc \<Rightarrow> string \<Rightarrow> noc_event list" where
  "noc_keydown s key = jif (no_showCustomize s \<and> key = ''Escape'') NocCloseMenu"

section \<open>View\<close>

record noc_props =
  np_host :: host
  np_windows :: "noc_window list"

definition maintenanceSources :: "noc_window list \<Rightarrow> string list" where
  "maintenanceSources ws = set_of (concat (map (\<lambda>w. nullish (nw_source_ids w) []) (filter nw_active ws)))"

definition allSourcesMaintenance :: "noc_window list \<Rightarrow> bool" where
  "allSourcesMaintenance ws = list_ex (\<lambda>w. nw_active w \<and> nw_source_ids w = None) ws"

definition StatCard :: "string \<Rightarrow> string \<Rightarrow> 'e vnode" where
  "StatCard label v = el ''div'' [el ''div'' [Txt v], el ''div'' [Txt label]]"

definition noc_stats :: "noc \<Rightarrow> 'e vnode" where
  "noc_stats s =
     (let critical = length (filter (\<lambda>a. noc_severity a = Some ''critical'') (no_alerts s));
          degraded = length (filter (\<lambda>a. noc_severity a = Some ''degraded'' \<or> noc_severity a = Some ''warning'') (no_alerts s));
          ok = length (filter (\<lambda>x. noc_healthVariant (ns_state x) = ''success'') (no_sources s))
      in el ''div''
       [StatCard ''Alertas ativos'' (str_nat (length (no_alerts s))), StatCard ''Criticos'' (str_nat critical),
        StatCard ''Degradados'' (str_nat degraded),
        StatCard ''Fontes ativas'' (str_nat ok @ ''/'' @ str_nat (length (no_sources s)))])"

definition noc_link :: "string \<Rightarrow> noc_event vnode list \<Rightarrow> noc_event vnode" where
  "noc_link to kids = El ''Link'' [At ''to'' to, OnClick (NocNavigate to)] kids"

definition noc_welcome :: "noc_event vnode" where
  "noc_welcome = el ''div''
     [el ''div'' [Txt ''Bem-vindo ao JLMirror''],
      el ''p'' [Txt ''Nenhuma fonte de monitoramento conectada ainda. Configure sua primeira fonte para comecar a receber alertas.''],
      el ''div'' (map (\<lambda>(icon, label, desc, page). noc_link page
        [el ''div'' [el icon []], el ''div'' [el ''div'' [Txt label], el ''div'' [Txt desc]]])
        [(''Activity'', ''1. Adicionar fonte'', ''Conecte Zabbix ao JLMirror'', ''/monitoring''),
         (''Bell'', ''2. Definir politicas'', ''Configure as regras de alerta e escalonamento'', ''/policies''),
         (''Zap'', ''3. Configurar automacao'', ''Crie respostas automaticas a incidentes'', ''/automation'')]),
      noc_link ''/monitoring'' [Txt ''Ir para Monitoramento '', el ''ArrowRight'' []]]"

definition noc_alert_row :: "host \<Rightarrow> noc_alert \<Rightarrow> noc_event vnode" where
  "noc_alert_row h a = El ''tr'' [At ''key'' (na_alert_id a), OnClick (NocNavigate (''/alerts?highlight='' @ na_alert_id a))]
     [el ''td'' [Badge (noc_sevVariant (noc_severity a)) [Txt (sevLabel (noc_severity a))]],
      el ''td'' [Txt (noc_alertTitle a)],
      el ''td'' [Txt (na_monitoring_source_id a)],
      el ''td'' [Txt (noc_fmtTs h (Some (na_opened_at a)))]]"

definition noc_alerts_card :: "host \<Rightarrow> noc \<Rightarrow> noc_event vnode" where
  "noc_alerts_card h s = Card
     [CardHeader (el ''span'' [Txt ''Alertas ativos''] # jif (\<not> no_connected s \<and> \<not> no_loading s) Spinner),
      if no_loading s then el ''div'' [Spinner]
      else if no_error s then el ''p'' [Txt ''Falha ao carregar alertas.'']
      else if no_alerts s = [] then el ''p'' [Txt ''Nenhum alerta ativo.'']
      else el ''table''
        [el ''thead'' [el ''tr'' (map (\<lambda>c. el ''th'' [Txt c]) [''Severidade'', ''Evento / Recurso'', ''Fonte'', ''Aberto em''])],
         el ''tbody'' (map (noc_alert_row h) (no_alerts s))]]"

definition noc_source_item :: "noc_window list \<Rightarrow> noc_source \<Rightarrow> noc_event vnode" where
  "noc_source_item ws x = El ''div''
     [At ''key'' (ns_monitoring_source_id x), OnClick (NocNavigate ''/monitoring''), OnEnter (NocNavigate ''/monitoring'')]
     [el ''div''
       [el ''span'' [Txt (ns_display_name x)],
        el ''div''
         (jif (allSourcesMaintenance ws \<or> set_has (maintenanceSources ws) (ns_monitoring_source_id x)) (Badge ''warning'' [Txt ''manutencao'']) @
          [Badge (noc_healthVariant (ns_state x)) [Txt (ns_state x)]])],
      el ''p'' [Txt (ns_monitoring_source_id x)]]"

definition noc_sources_card :: "noc_window list \<Rightarrow> noc \<Rightarrow> noc_event vnode" where
  "noc_sources_card ws s = Card
     [CardHeader [el ''span'' [Txt ''Fontes de monitoramento'']],
      if no_loading s then el ''div'' [Spinner]
      else if no_sources s = [] then el ''div''
        [el ''p'' [Txt ''Nenhuma fonte configurada.''], noc_link ''/monitoring'' [Txt ''Adicionar fonte ->'']]
      else el ''div'' (map (noc_source_item ws) (no_sources s))]"

definition noc_menu :: "noc \<Rightarrow> noc_event vnode" where
  "noc_menu s = el ''div''
     (button [OnClick NocToggleMenu] [Txt ''Personalizar''] #
      jif (no_showCustomize s) (el ''div''
        ([el ''div'' [Txt ''Widgets visiveis'']] @
         map (\<lambda>k. El ''label'' [At ''key'' k]
           [El ''input'' [At ''type'' ''checkbox'', Bo ''checked'' (widget_on (no_widgets s) k), OnChange (\<lambda>_. NocWidget k)] [],
            el ''span'' [Txt (nullish (map_of WIDGET_LABELS k) [])]]) (map fst DEFAULT_WIDGETS) @
         [button [OnClick NocCloseMenu] [Txt ''Fechar'']])))"

definition noc_view :: "noc_props \<Rightarrow> noc \<Rightarrow> noc_event vnode" where
  "noc_view p s =
     (let w = no_widgets s
      in el ''div''
       ([el ''div''
          [el ''div'' [el ''h2'' [Txt ''NOC Overview''], LiveDot (no_connected s)], noc_menu s]] @
        jif (widget_on w ''stats'') (noc_stats s) @
        jif (\<not> no_loading s \<and> no_sources s = []) noc_welcome @
        jif (widget_on w ''alerts'') (noc_alerts_card (np_host p) s) @
        jif (widget_on w ''sources'') (noc_sources_card (np_windows p) s) @
        jif (\<not> widget_on w ''stats'' \<and> \<not> widget_on w ''alerts'' \<and> \<not> widget_on w ''sources'')
          (el ''div'' [Txt ''Nenhum widget visivel. Clique em Personalizar para reativar.''])))"

section \<open>Properties\<close>

interpretation now: stored_setting "widgets_key tid" "loadWidgets h tid" for h tid
  by unfold_locales (simp add: loadWidgets_def)

definition noc_ok :: "noc \<Rightarrow> bool" where
  "noc_ok s \<longleftrightarrow> 5000 \<le> no_retryDelay s \<and> no_retryDelay s \<le> 60000
     \<and> (if no_cancelled s then \<not> no_es s \<and> no_retry s = None
        else (no_es s \<longleftrightarrow> no_retry s = None) \<and> (no_connected s \<longrightarrow> no_es s))
     \<and> (\<forall>d. no_retry s = Some d \<longrightarrow> 4000 \<le> d \<and> d < 72000)"

definition noc_allowed :: "noc_event \<Rightarrow> bool" where
  "noc_allowed e \<longleftrightarrow> (case e of NocError r \<Rightarrow> 0 \<le> r \<and> r < 1 | _ \<Rightarrow> True)"

definition noc_net :: "noc_event \<Rightarrow> bool" where
  "noc_net e \<longleftrightarrow> (case e of NocError r \<Rightarrow> 0 \<le> r \<and> r < 1 | NocWidget _ \<Rightarrow> False | NocToggleMenu \<Rightarrow> False
     | NocNavigate _ \<Rightarrow> False | _ \<Rightarrow> True)"

definition noc_safe :: "effect \<Rightarrow> bool" where
  "noc_safe f \<longleftrightarrow> \<not> is_request f \<or> f = fetch_alerts \<or> f = fetch_sources"

lemma noc_delay_bounds:
  assumes "5000 \<le> d" "d \<le> 60000" "0 \<le> r" "r < 1"
  shows "4000 \<le> noc_delay d r \<and> noc_delay d r < 72000"
proof -
  let ?d = "of_int d :: rat" and ?f = "8 / 10 + r * (4 / 10) :: rat"
  have d: "5000 \<le> ?d" "?d \<le> 60000" 
    using assms(1,2) of_int_le_iff [of 5000 d, where 'a = rat] of_int_le_iff [of d 60000, where 'a = rat] by simp_all
  have f: "8 / 10 \<le> ?f" "?f < 12 / 10" using assms(3,4) by linarith+
  have "5000 * (8 / 10) \<le> ?d * ?f" using d(1) f(1) by (intro mult_mono) auto
  moreover have "?d * ?f < ?d * (12 / 10)" using d(1) f(2) by (intro mult_strict_left_mono) auto
  moreover have "?d * (12 / 10) \<le> 60000 * (12 / 10)" using d(2) by (intro mult_right_mono) auto
  ultimately show ?thesis unfolding noc_delay_def by simp
qed

lemma noc_allowed_simps [simp]:
  "noc_allowed (NocNavigate x)" "noc_allowed (NocWidget k)" "noc_allowed NocToggleMenu" "noc_allowed NocCloseMenu"
  by (simp_all add: noc_allowed_def)

lemma noc_parts_laws:
  "solo (noc_menu s)" "offers noc_allowed (noc_menu s)"
  "solo (noc_stats s)" "offers noc_allowed (noc_stats s)"
  "solo noc_welcome" "offers noc_allowed noc_welcome"
  "solo (noc_alerts_card h s)" "offers noc_allowed (noc_alerts_card h s)"
  "solo (noc_sources_card ws s)" "offers noc_allowed (noc_sources_card ws s)"
  subgoal by (simp add: noc_menu_def DEFAULT_WIDGETS_def)
  subgoal by (simp add: noc_menu_def DEFAULT_WIDGETS_def)
  subgoal by (simp add: noc_stats_def StatCard_def Let_def)
  subgoal by (simp add: noc_stats_def StatCard_def Let_def)
  subgoal by (simp add: noc_welcome_def noc_link_def)
  subgoal by (simp add: noc_welcome_def noc_link_def)
  subgoal by (simp add: noc_alerts_card_def noc_alert_row_def)
  subgoal by (simp add: noc_alerts_card_def noc_alert_row_def)
  subgoal by (simp add: noc_sources_card_def noc_source_item_def noc_link_def)
  subgoal by (simp add: noc_sources_card_def noc_source_item_def noc_link_def)
  done

lemma noc_view_laws: "solo (noc_view p s)" "offers noc_allowed (noc_view p s)"
  by (simp_all add: noc_view_def LiveDot_def Let_def ball_Un noc_parts_laws)

lemma noc_ok_step: "noc_ok s \<Longrightarrow> noc_allowed e \<Longrightarrow> noc_ok (fst (noc_handle h tid s e))"
proof (cases e)
  case (NocError r)
  assume ok: "noc_ok s" and "noc_allowed e"
  then have r: "0 \<le> r" "r < 1" and d: "5000 \<le> no_retryDelay s" "no_retryDelay s \<le> 60000"
    using NocError by (simp_all add: noc_allowed_def noc_ok_def)
  show ?thesis using ok d noc_delay_bounds [OF d r] NocError by (auto simp: noc_ok_def split: if_splits)
qed (auto simp: noc_ok_def Let_def split: option.split)

interpretation no: component "\<lambda>s. \<exists>st. s = noc_mount h tid st" noc_view "noc_handle h tid" noc_net
  "\<lambda>s. noc_allowed" noc_ok noc_safe for h tid
proof unfold_locales
  show "\<exists>st. s = noc_mount h tid st \<Longrightarrow> noc_ok s" for s by (auto simp: noc_mount_def noc_ok_def)
  show "noc_net e \<Longrightarrow> noc_allowed e" for e by (cases e) (simp_all add: noc_net_def noc_allowed_def)
  show "noc_ok s \<Longrightarrow> noc_allowed e \<Longrightarrow> noc_ok (fst (noc_handle h tid s e))" for s e
    by (rule noc_ok_step)
  show "list_all noc_safe (snd (noc_handle h tid s e))" for s e
    by (cases e) (auto simp: noc_safe_def Let_def)
qed (rule noc_view_laws)+

text \<open>C36: in every reachable state of the dashboard a mounted page has either an open stream or a reconnection
  scheduled within 4 to 72 seconds, never both, and shows itself connected only with an open stream; a page that is left
  has neither. It only reads.\<close>

theorem noc_stream:
  "reach (\<lambda>s. \<exists>st. s = noc_mount h tid st) noc_view (noc_handle h tid) noc_net s out \<Longrightarrow>
   noc_ok s \<and> list_all noc_safe out"
  by (rule no.reach_inv)

section \<open>The connection as a state machine\<close>

text \<open>Abstractly the dashboard is connecting, live, waiting for a retry, or left.\<close>

datatype noc_phase = Connecting | Live | Waiting | Left

inductive phase_step :: "noc_phase \<Rightarrow> noc_event \<Rightarrow> noc_phase \<Rightarrow> bool" where
  opened: "f = Connecting \<or> f = Live \<Longrightarrow> phase_step f NocOpen Live"
| failed: "f = Connecting \<or> f = Live \<Longrightarrow> phase_step f (NocError r) Waiting"
| retried: "phase_step Waiting NocTimer Connecting"
| unmounted: "phase_step f NocUnmount Left"
| late: "f = Waiting \<or> f = Left \<Longrightarrow> e = NocOpen \<or> e = NocError r \<Longrightarrow> phase_step f e f"
| untimed: "f \<noteq> Waiting \<Longrightarrow> phase_step f NocTimer f"
| other: "(\<And>r. e \<noteq> NocError r) \<Longrightarrow> e \<notin> {NocOpen, NocTimer, NocUnmount} \<Longrightarrow> phase_step f e f"

inductive_cases phase_step_OpenE: "phase_step f NocOpen g"
inductive_cases phase_step_ErrorE: "phase_step f (NocError r) g"
inductive_cases phase_step_TimerE: "phase_step f NocTimer g"
inductive_cases phase_step_UnmountE: "phase_step f NocUnmount g"
inductive_simps phase_step_Left: "phase_step Left e g"

lemma phase_step_det: "phase_step f e g \<Longrightarrow> phase_step f e g' \<Longrightarrow> g = g'"
  by (cases e)
    (auto elim!: phase_step_OpenE phase_step_ErrorE phase_step_TimerE phase_step_UnmountE elim: phase_step.cases)

lemma left_for_good: "phase_step Left e g \<Longrightarrow> g = Left"
  by (auto simp: phase_step_Left)

definition noc_phase :: "noc \<Rightarrow> noc_phase" where
  "noc_phase s = (if no_cancelled s then Left else if no_retry s \<noteq> None then Waiting else if no_connected s then Live else Connecting)"

lemma noc_step_refines: "noc_ok s \<Longrightarrow> phase_step (noc_phase s) e (noc_phase (fst (noc_handle h tid s e)))"
  by (cases e)
    (auto simp: noc_phase_def noc_ok_def Let_def intro: phase_step.intros split: option.splits if_splits)

text \<open>C34: every event, in every reachable state, moves the dashboard as the state machine says: an opened stream makes it live, a failed
  one waits for the retry, the retry connects again, an unmounted page is left for good, and nothing else changes the phase.\<close>

theorem noc_refines_phases:
  "reach (\<lambda>s. \<exists>st. s = noc_mount h tid st) noc_view (noc_handle h tid) noc_net s out \<Longrightarrow>
   phase_step (noc_phase s) e (noc_phase (fst (noc_handle h tid s e)))"
  by (rule noc_step_refines [OF no.reachable_inv])

text \<open>C35: whatever happened before, a mounted dashboard is live again, with the shortest delay for the next retry, once a pending
  retry has fired and the stream opens.\<close>

theorem noc_recovers:
  assumes "reach (\<lambda>s. \<exists>st. s = noc_mount h tid st) noc_view (noc_handle h tid) noc_net s out" "\<not> no_cancelled s"
  shows "let t = fst (run (noc_handle h tid) s [NocTimer, NocOpen]) in noc_phase t = Live \<and> no_retryDelay t = 5000 \<and> \<not> no_error t"
proof -
  have "noc_ok s" using assms(1) by (rule no.reachable_inv)
  then show ?thesis using assms(2) by (auto simp: noc_ok_def noc_phase_def Let_def split_def split: if_splits)
qed

section \<open>Failures and concrete runs\<close>

text \<open>A dashboard whose first requests fail is drawn exactly as one whose tenant has no alert and no source.\<close>

lemma noc_failure_looks_empty:
  "noc_view p (fst (noc_handle h tid (noc_mount h tid st) NocBootFail)) =
   noc_view p (fst (noc_handle h tid (noc_mount h tid st) (NocBoot [] [])))"
  by (simp add: noc_mount_def)

theorem noc_stream_witness:
  "noc_ok (fst (noc_handle sample_host ''t1'' (noc_mount sample_host ''t1'' None) (NocError (1 / 2))))"
proof -
  let ?m = "noc_mount sample_host ''t1'' None"
  have "noc_net (NocError (1 / 2))" by (simp add: noc_net_def)
  then have "reach (\<lambda>s. \<exists>st. s = noc_mount sample_host ''t1'' st) noc_view (noc_handle sample_host ''t1'') noc_net
      (fst (noc_handle sample_host ''t1'' ?m (NocError (1 / 2)))) (snd (noc_handle sample_host ''t1'' ?m (NocError (1 / 2))))"
    by (rule reach_settle1 [rotated]) auto
  from noc_stream [OF this] show ?thesis by blast
qed

lemma noc_sample_reach:
  "reach (\<lambda>s. \<exists>st. s = noc_mount sample_host ''t1'' st) noc_view (noc_handle sample_host ''t1'') noc_net
     (fst (noc_handle sample_host ''t1'' (noc_mount sample_host ''t1'' None) (NocError (1 / 2)))) [Callback ''close'' [], fetch_alerts, fetch_sources]"
  by (rule reach_settle1 [where e = "NocError (1 / 2)" and s = "noc_mount sample_host ''t1'' None"])
    (auto simp: noc_net_def noc_mount_def)

theorem noc_refines_phases_witness:
  "phase_step Waiting NocTimer (noc_phase (fst (run (noc_handle sample_host ''t1'') (noc_mount sample_host ''t1'' None) [NocError (1 / 2), NocTimer])))"
  using noc_refines_phases [OF noc_sample_reach, of NocTimer] by (simp add: noc_mount_def noc_phase_def Let_def)

theorem noc_recovers_witness:
  "noc_phase (fst (run (noc_handle sample_host ''t1'') (noc_mount sample_host ''t1'' None) [NocError (1 / 2), NocTimer, NocOpen])) = Live"
  using noc_recovers [OF noc_sample_reach] by (simp add: noc_mount_def Let_def split_def)

end
