(* ===== verification/UsersAdmin.thy ===== *)
theory UsersAdmin
  imports UiKit
begin

text \<open>
  The users of a workspace, \<open>pages/UsersAdminPage.tsx\<close>: invitation with a temporary password, inline change of
  role, and deactivation, reactivation and removal behind a dialog of the page's own.
\<close>

section \<open>Data\<close>

record admin_user =
  au_principal_id :: string
  au_idp_subject_ref :: string
  au_active :: bool
  au_created_at :: "string option"
  au_role :: string
  au_membership_state :: string
  au_email :: string
  au_first_name :: string
  au_last_name :: string
  au_kc_enabled :: bool

definition ADMIN_ROLES :: "string list" where
  "ADMIN_ROLES = [''admin'', ''operator'', ''viewer'', ''auditor'']"

definition ua_roleVariant :: "string \<Rightarrow> string" where
  "ua_roleVariant r = (if r = ''admin'' \<or> r = ''tenant_admin'' then ''warning'' else if r = ''operator'' then ''success'' else ''muted'')"

definition ua_fmt :: "host \<Rightarrow> string option \<Rightarrow> string" where
  "ua_fmt h ts = (if truthy ts then locale_fmt h ''pt-BR, dateStyle: short'' (nullish ts []) else ''--'')"

definition fullName :: "admin_user \<Rightarrow> string" where
  "fullName u = str_or (join '' '' (filter (\<lambda>x. x \<noteq> []) [au_first_name u, au_last_name u])) (au_email u)"

definition ua_plural :: "nat \<Rightarrow> string" where
  "ua_plural n = (if n \<noteq> 1 then ''s'' else [])"

section \<open>Copy button and dialogs\<close>

text \<open>\<open>CopyDone\<close>: the text is in the clipboard, through the clipboard API or the fallback. Then \<open>CopyTimer\<close>.\<close>

datatype copy_event = CopyClick | CopyDone | CopyTimer

fun copy_handle :: "string \<Rightarrow> bool \<Rightarrow> copy_event \<Rightarrow> bool \<times> effect list" where
  "copy_handle t copied CopyClick = (copied, [Callback ''clipboard.writeText'' [t]])"
| "copy_handle t copied CopyDone = (True, [])"
| "copy_handle t copied CopyTimer = (False, [])"

definition copy_view :: "bool \<Rightarrow> copy_event vnode" where
  "copy_view copied = button [OnClick CopyClick]
     [el (if copied then ''Check'' else ''Copy'') [], Txt (if copied then ''Copiado'' else ''Copiar'')]"

definition TempPasswordModal :: "string \<Rightarrow> string \<Rightarrow> 'e \<Rightarrow> 'e vnode" where
  "TempPasswordModal email password onClose = Modal onClose [el ''div''
     [el ''div'' [el ''UserPlus'' []],
      el ''div'' [el ''h3'' [Txt ''Usuario criado''],
        el ''p'' [Txt ''Compartilhe estas credenciais com o usuario pelo WhatsApp ou telefone.'']],
      el ''div''
       [el ''div'' [el ''p'' [Txt ''Email de acesso''],
          el ''div'' [el ''span'' [Txt email], El ''CopyButton'' [At ''text'' email] []]],
        el ''div'' [el ''p'' [Txt ''Senha temporaria''],
          el ''div'' [el ''span'' [Txt password], El ''CopyButton'' [At ''text'' password] []]]],
      el ''p'' [Txt ''O usuario devera trocar a senha no primeiro login.''],
      Button ''primary'' ''md'' [OnClick onClose] [Txt ''Entendido'']]]"

record 'e ua_confirm =
  uc_title :: string
  uc_message :: string
  uc_confirmLabel :: string
  uc_isPending :: bool
  uc_onConfirm :: 'e
  uc_onClose :: 'e

definition UaConfirmModal :: "'e ua_confirm \<Rightarrow> 'e vnode" where
  "UaConfirmModal c = Modal (uc_onClose c)
     [el ''h3'' [Txt (uc_title c)],
      el ''p'' [Txt (uc_message c)],
      el ''div''
       [Button ''primary'' ''md'' [OnClick (uc_onConfirm c), Bo ''disabled'' (uc_isPending c)]
          [if uc_isPending c then Spinner else Txt (uc_confirmLabel c)],
        Button ''ghost'' ''md'' [OnClick (uc_onClose c)] [Txt ''Cancelar'']]]"

lemma modal_laws [simp]:
  "solo (UaConfirmModal c)" "offers P (UaConfirmModal c) = (P (uc_onClose c) \<and> (uc_isPending c \<or> P (uc_onConfirm c)))"
  "solo (TempPasswordModal m w e)" "offers P (TempPasswordModal m w e) = P e"
  by (auto simp: UaConfirmModal_def TempPasswordModal_def)

section \<open>Invitation\<close>

record invite =
  iv_email :: string
  iv_firstName :: string
  iv_lastName :: string
  iv_role :: string
  iv_error :: "string option"

definition invite_mount :: invite where
  "invite_mount = \<lparr>iv_email = [], iv_firstName = [], iv_lastName = [], iv_role = ''viewer'', iv_error = None\<rparr>"

datatype invite_event =
    InFirst string | InLast string | InEmail string | InRole string | InCreate | InClose
  | InSuccess string | InError mut_error

definition invite_body :: "invite \<Rightarrow> json" where
  "invite_body s = jobj
     [(''email'', Some (JStr (trim (iv_email s)))), (''first_name'', Some (JStr (trim (iv_firstName s)))),
      (''last_name'', Some (JStr (trim (iv_lastName s)))), (''role'', Some (JStr (iv_role s)))]"

fun invite_handle :: "invite \<Rightarrow> invite_event \<Rightarrow> invite \<times> effect list" where
  "invite_handle s (InFirst x) = (s\<lparr>iv_firstName := x\<rparr>, [])"
| "invite_handle s (InLast x) = (s\<lparr>iv_lastName := x\<rparr>, [])"
| "invite_handle s (InEmail x) = (s\<lparr>iv_email := x\<rparr>, [])"
| "invite_handle s (InRole x) = (s\<lparr>iv_role := x\<rparr>, [])"
| "invite_handle s InCreate = (s, [Request ''POST'' ''/api/admin/users'' (Some (invite_body s))])"
| "invite_handle s InClose = (s, [Callback ''onClose'' []])"
| "invite_handle s (InSuccess pwd) = (s, [Invalidate [''admin-users''], Callback ''onCreated'' [trim (iv_email s), pwd]])"
| "invite_handle s (InError e) = (s\<lparr>iv_error := me_message e\<rparr>, [])"

definition invite_view :: "bool \<Rightarrow> invite \<Rightarrow> invite_event vnode" where
  "invite_view pending s = Modal InClose
     [el ''h3'' [Txt ''Convidar usuario''],
      el ''div''
       ([el ''div''
          [el ''div'' [el ''label'' [Txt ''Nome '', el ''span'' [Txt ''*'']],
             El ''input'' [At ''value'' (iv_firstName s), OnChange InFirst, At ''placeholder'' ''Maria''] []],
           el ''div'' [el ''label'' [Txt ''Sobrenome''],
             El ''input'' [At ''value'' (iv_lastName s), OnChange InLast, At ''placeholder'' ''Silva''] []]],
         el ''div'' [el ''label'' [Txt ''Email '', el ''span'' [Txt ''*'']],
           El ''input'' [At ''type'' ''email'', At ''value'' (iv_email s), OnChange InEmail, At ''placeholder'' ''maria@empresa.com''] []],
         el ''div'' [el ''label'' [Txt ''Funcao''], select_view (iv_role s) InRole (map (\<lambda>r. (r, r)) ADMIN_ROLES)]] @
        jif (truthy (iv_error s)) (el ''p'' [Txt (nullish (iv_error s) [])]) @
        [el ''div''
          [Button ''primary'' ''md'' [OnClick InCreate, Bo ''disabled'' (trim (iv_email s) = [] \<or> trim (iv_firstName s) = [] \<or> pending)]
             [if pending then Spinner else Txt ''Criar usuario''],
           Button ''ghost'' ''md'' [OnClick InClose] [Txt ''Cancelar'']]])]"

section \<open>Role cell\<close>

record uarole_cell =
  uc_editing :: bool
  uc_role :: string

definition uarole_mount :: "admin_user \<Rightarrow> uarole_cell" where
  "uarole_mount u = \<lparr>uc_editing = False, uc_role = au_role u\<rparr>"

datatype uarole_event = UrEdit | UrRole string | UrSave | UrCancel | UrSaved

definition user_path :: "string \<Rightarrow> string" where
  "user_path i = ''/api/admin/users/'' @ i"

fun uarole_handle :: "admin_user \<Rightarrow> uarole_cell \<Rightarrow> uarole_event \<Rightarrow> uarole_cell \<times> effect list" where
  "uarole_handle u s UrEdit = (s\<lparr>uc_editing := True\<rparr>, [])"
| "uarole_handle u s (UrRole r) = (s\<lparr>uc_role := r\<rparr>, [])"
| "uarole_handle u s UrSave =
     (s, [Request ''PATCH'' (user_path (au_principal_id u) @ ''/role'') (Some (jobj [(''role'', Some (JStr (uc_role s)))]))])"
| "uarole_handle u s UrCancel = (s\<lparr>uc_role := au_role u, uc_editing := False\<rparr>, [])"
| "uarole_handle u s UrSaved = (s\<lparr>uc_editing := False\<rparr>, [Invalidate [''admin-users'']])"

definition uarole_view :: "admin_user \<times> bool \<Rightarrow> uarole_cell \<Rightarrow> uarole_event vnode" where
  "uarole_view p s =
     (if \<not> uc_editing s then button [OnClick UrEdit, At ''title'' ''Clique para editar'']
        [Badge (ua_roleVariant (au_role (fst p))) [Txt (au_role (fst p))]]
      else el ''div''
        [select_view (uc_role s) UrRole (map (\<lambda>r. (r, r)) ADMIN_ROLES),
         button [OnClick UrSave, Bo ''disabled'' (snd p), At ''title'' ''Salvar''] [if snd p then Spinner else el ''Check'' []],
         button [OnClick UrCancel, At ''title'' ''Cancelar''] [el ''X'' []]])"

section \<open>The page\<close>

datatype user_action = Deactivate | Reactivate | Delete

record users_admin =
  ua_showInvite :: bool
  ua_tempPwd :: "(string \<times> string) option"
  ua_confirmAction :: "(user_action \<times> admin_user) option"

definition users_mount :: users_admin where
  "users_mount = \<lparr>ua_showInvite = False, ua_tempPwd = None, ua_confirmAction = None\<rparr>"

record users_props =
  up_host :: host
  up_q :: "admin_user list query"
  up_pending :: bool

text \<open>\<open>up_pending\<close>: one of the three mutations is in flight.\<close>

datatype users_event =
    UaInvite | UaInviteClose | UaCreated string string | UaPwdClose
  | UaAsk user_action admin_user | UaConfirm | UaCancel | UaDone user_action | UaFailed mut_error

fun action_request :: "user_action \<Rightarrow> string \<Rightarrow> effect" where
  "action_request Deactivate i = Request ''POST'' (user_path i @ ''/deactivate'') (Some (jobj []))"
| "action_request Reactivate i = Request ''POST'' (user_path i @ ''/reactivate'') (Some (jobj []))"
| "action_request Delete i = Request ''DELETE'' (user_path i) None"

fun action_toast :: "user_action \<Rightarrow> string" where
  "action_toast Deactivate = ''Usuario desativado''"
| "action_toast Reactivate = ''Usuario reativado''"
| "action_toast Delete = ''Usuario removido''"

fun users_handle :: "users_admin \<Rightarrow> users_event \<Rightarrow> users_admin \<times> effect list" where
  "users_handle s UaInvite = (s\<lparr>ua_showInvite := True\<rparr>, [])"
| "users_handle s UaInviteClose = (s\<lparr>ua_showInvite := False\<rparr>, [])"
| "users_handle s (UaCreated email pwd) = (s\<lparr>ua_showInvite := False, ua_tempPwd := Some (email, pwd)\<rparr>, [])"
| "users_handle s UaPwdClose = (s\<lparr>ua_tempPwd := None\<rparr>, [])"
| "users_handle s (UaAsk a u) = (s\<lparr>ua_confirmAction := Some (a, u)\<rparr>, [])"
| "users_handle s UaConfirm = (case ua_confirmAction s of
      None \<Rightarrow> (s, [])
    | Some (a, u) \<Rightarrow> (s, [action_request a (au_principal_id u)]))"
| "users_handle s UaCancel = (s\<lparr>ua_confirmAction := None\<rparr>, [])"
| "users_handle s (UaDone a) = (s\<lparr>ua_confirmAction := None\<rparr>, [Invalidate [''admin-users''], Toast (action_toast a) ''success''])"
| "users_handle s (UaFailed e) = (s, [Toast (str_or (nullish (me_message e) []) ''Erro na operacao'') ''error''])"

definition is_active_user :: "admin_user \<Rightarrow> bool" where
  "is_active_user u \<longleftrightarrow> au_active u \<and> au_membership_state u = ''active''"

definition active_row :: "host \<Rightarrow> admin_user \<Rightarrow> users_event vnode" where
  "active_row h u = El ''tr'' [At ''key'' (au_principal_id u)]
     [el ''td'' [Txt (fullName u)],
      el ''td'' [if au_email u \<noteq> [] then Txt (au_email u) else el ''span'' [Txt ''sem email'']],
      el ''td'' [El ''RoleCell'' [At ''user'' (au_principal_id u)] []],
      el ''td'' [Txt (ua_fmt h (au_created_at u))],
      el ''td'' [el ''div''
        [button [OnClick (UaAsk Deactivate u), At ''title'' ''Desativar''] [el ''ShieldOff'' []],
         button [OnClick (UaAsk Delete u), At ''title'' ''Remover''] [el ''Trash2'' []]]]]"

definition inactive_row :: "admin_user \<Rightarrow> users_event vnode" where
  "inactive_row u = El ''tr'' [At ''key'' (au_principal_id u)]
     [el ''td'' [Txt (fullName u)],
      el ''td'' [Txt (au_email u)],
      el ''td'' [Badge ''muted'' [Txt (au_role u)]],
      el ''td'' [button [OnClick (UaAsk Reactivate u)] [el ''ShieldCheck'' [], Txt '' Reativar'']],
      el ''td'' [button [OnClick (UaAsk Delete u)] [el ''Trash2'' []]]]"

definition action_modal :: "users_props \<Rightarrow> user_action \<Rightarrow> admin_user \<Rightarrow> users_event ua_confirm" where
  "action_modal p a u = \<lparr>
     uc_title = (case a of Delete \<Rightarrow> ''Remover usuario'' | Deactivate \<Rightarrow> ''Desativar usuario'' | Reactivate \<Rightarrow> ''Reativar usuario''),
     uc_message = (case a of
         Delete \<Rightarrow> ''Isso vai remover '' @ fullName u @ '' do workspace e revogar o acesso. O registro de auditoria e preservado.''
       | Deactivate \<Rightarrow> fullName u @ '' nao conseguira fazer login ate ser reativado.''
       | Reactivate \<Rightarrow> fullName u @ '' voltara a ter acesso ao workspace.''),
     uc_confirmLabel = (case a of Delete \<Rightarrow> ''Remover'' | Deactivate \<Rightarrow> ''Desativar'' | Reactivate \<Rightarrow> ''Reativar''),
     uc_isPending = up_pending p, uc_onConfirm = UaConfirm, uc_onClose = UaCancel\<rparr>"

text \<open>The invitation is a mounted child. It calls \<open>onCreated\<close> when its request settles (\<open>UaCreated\<close>), not on an
  action of the user.\<close>

definition users_view :: "users_props \<Rightarrow> users_admin \<Rightarrow> users_event vnode" where
  "users_view p s =
     (let q = up_q p; us = nullish (qdata q) [];
          active = filter is_active_user us; inactive = filter (\<lambda>u. \<not> is_active_user u) us
      in el ''div''
       ([el ''div'' [el ''h2'' [Txt ''Usuarios''], el ''p'' [Txt ''Gerenciamento de acesso . requer tenant:admin'']],
         Card
          ([el ''div''
             [CardHeader [el ''span'' [Txt ''Usuarios ativos''],
                el ''span'' [Txt (str_nat (length active)), Txt '' usuario'', Txt (ua_plural (length active))]],
              el ''div''
               (jif (isFetching q) Spinner @
                [Button ''primary'' ''sm'' [OnClick UaInvite] [el ''UserPlus'' [], Txt ''Convidar'']])],
            if isLoading q then Spinner
            else if isError q then el ''p'' [Txt ''Nao foi possivel carregar os usuarios.'']
            else if active = [] then el ''p'' [Txt ''Nenhum usuario ativo.'']
            else el ''div'' [el ''table''
              [el ''thead'' [el ''tr'' (map (\<lambda>c. el ''th'' [Txt c]) [''Nome'', ''Email'', ''Funcao'', ''Criado'', []])],
               el ''tbody'' (map (active_row (up_host p)) active)]]] @
           jif (inactive \<noteq> []) (el ''details''
             [el ''summary'' [Txt (str_nat (length inactive)), Txt '' desativado'', Txt (ua_plural (length inactive))],
              el ''div'' [el ''table'' [el ''tbody'' (map inactive_row inactive)]]]))] @
        jif (ua_showInvite s) (El ''InviteModal'' [Prop ''onClose'' UaInviteClose] []) @
        (case ua_tempPwd s of None \<Rightarrow> [] | Some (m, w) \<Rightarrow> [TempPasswordModal m w UaPwdClose]) @
        (case ua_confirmAction s of None \<Rightarrow> [] | Some (a, u) \<Rightarrow> [UaConfirmModal (action_modal p a u)])))"

section \<open>Invitation: properties\<close>

definition invite_ok :: "invite \<Rightarrow> bool" where
  "invite_ok s \<longleftrightarrow> iv_role s \<in> set ADMIN_ROLES"

definition invite_allowed :: "invite \<Rightarrow> invite_event \<Rightarrow> bool" where
  "invite_allowed s e \<longleftrightarrow> (case e of InRole x \<Rightarrow> x \<in> set ADMIN_ROLES
     | InCreate \<Rightarrow> trim (iv_email s) \<noteq> [] \<and> trim (iv_firstName s) \<noteq> [] | _ \<Rightarrow> True)"

definition invite_net :: "invite_event \<Rightarrow> bool" where
  "invite_net e \<longleftrightarrow> (case e of InSuccess _ \<Rightarrow> True | InError _ \<Rightarrow> True | _ \<Rightarrow> False)"

definition invite_request :: "effect \<Rightarrow> bool" where
  "invite_request f \<longleftrightarrow> \<not> is_request f \<or> (\<exists>email first last role. f = Request ''POST'' ''/api/admin/users''
     (Some (jobj [(''email'', Some (JStr email)), (''first_name'', Some (JStr first)), (''last_name'', Some (JStr last)),
        (''role'', Some (JStr role))]))
     \<and> email \<noteq> [] \<and> trim email = email \<and> first \<noteq> [] \<and> trim first = first \<and> role \<in> set ADMIN_ROLES)"

interpretation inv: component "\<lambda>s. s = invite_mount" invite_view invite_handle invite_net invite_allowed invite_ok invite_request
proof unfold_locales
  show "s = invite_mount \<Longrightarrow> invite_ok s" for s by (simp add: invite_mount_def invite_ok_def ADMIN_ROLES_def)
  show "solo (invite_view p s)" for p s by (auto simp: invite_view_def)
  show "offers (invite_allowed s) (invite_view p s)" for p s by (auto simp: invite_view_def invite_allowed_def)
  show "invite_net e \<Longrightarrow> invite_allowed s e" for s e by (cases e) (simp_all add: invite_net_def invite_allowed_def)
  show "invite_ok s \<Longrightarrow> invite_allowed s e \<Longrightarrow> invite_ok (fst (invite_handle s e))" for s e
    by (cases e) (simp_all add: invite_ok_def invite_allowed_def)
  have "invite_request (Request ''POST'' ''/api/admin/users'' (Some (invite_body s)))"
    if "invite_ok s" "trim (iv_email s) \<noteq> []" "trim (iv_firstName s) \<noteq> []" for s
    using that unfolding invite_request_def invite_body_def invite_ok_def by (metis trim_trim)
  then show "invite_ok s \<Longrightarrow> invite_allowed s e \<Longrightarrow> list_all invite_request (snd (invite_handle s e))" for s e
    by (cases e) (auto simp: invite_request_def invite_allowed_def)
qed

lemma invite_requests:
  "reach (\<lambda>s. s = invite_mount) invite_view invite_handle invite_net s log \<Longrightarrow> list_all invite_request log"
  using inv.reach_inv by blast

text \<open>The credentials handed over are those of the email typed last, not of the one that was sent.\<close>

theorem invited_email_may_differ:
  "fires (invite_view True s) x [InEmail x]
   \<and> snd (invite_handle (fst (invite_handle s (InEmail x))) (InSuccess pwd)) =
       [Invalidate [''admin-users''], Callback ''onCreated'' [trim x, pwd]]"
  by (simp add: fires_def invite_view_def Modal_def enterable_def)

section \<open>The page: properties\<close>

definition users_allowed :: "users_props \<Rightarrow> users_admin \<Rightarrow> users_event \<Rightarrow> bool" where
  "users_allowed p s e \<longleftrightarrow> (case e of
      UaAsk a u \<Rightarrow> u \<in> set (nullish (qdata (up_q p)) [])
        \<and> (a = Deactivate \<longrightarrow> is_active_user u) \<and> (a = Reactivate \<longrightarrow> \<not> is_active_user u)
    | UaConfirm \<Rightarrow> ua_confirmAction s \<noteq> None \<and> \<not> up_pending p
    | UaCreated m w \<Rightarrow> False | UaDone a \<Rightarrow> False | UaFailed e \<Rightarrow> False
    | _ \<Rightarrow> True)"

lemma users_view_laws: "solo (users_view p s)" "offers (users_allowed p s) (users_view p s)"
proof -
  let ?P = "users_allowed p s"
  have row: "solo (active_row h u)" "solo (inactive_row u)"
    "u \<in> set (nullish (qdata (up_q p)) []) \<Longrightarrow> is_active_user u \<Longrightarrow> offers ?P (active_row h u)"
    "u \<in> set (nullish (qdata (up_q p)) []) \<Longrightarrow> \<not> is_active_user u \<Longrightarrow> offers ?P (inactive_row u)" for h u
    by (simp_all add: active_row_def inactive_row_def users_allowed_def)
  have simps: "?P UaInvite" "?P UaInviteClose" "?P UaPwdClose" "?P UaCancel" by (simp_all add: users_allowed_def)
  show "solo (users_view p s)" using row(1,2) by (auto simp: users_view_def Let_def split: option.split)
  show "offers ?P (users_view p s)" using row(3,4) simps
    by (auto simp: users_view_def Let_def action_modal_def split: option.split) (auto simp: users_allowed_def eq_commute [of "Some x" for x])
qed

theorem users_click_guarded:
  "fires (users_view p s) x es \<Longrightarrow> e \<in> set es \<Longrightarrow> es = [e] \<and> users_allowed p s e"
  by (rule fires_one [OF _ users_view_laws])

end
