(* ===== verification/Sla.thy ===== *)
theory Sla
  imports UiKit
begin

text \<open>
  Service level agreements, \<open>pages/SLAPage.tsx\<close>: the form of a policy, and the page with its policies, the
  trackers of open alerts and the breaches.
\<close>

section \<open>Data\<close>

record sla_policy =
  lp_sla_id :: string
  lp_name :: string
  lp_severity_match :: "string option"
  lp_response_secs :: int
  lp_resolve_secs :: int
  lp_enabled :: bool
  lp_created_at :: string

record sla_tracker =
  lt_tracker_id :: string
  lt_alert_id :: string
  lt_sla_name :: string
  lt_alert_fired_at :: string
  lt_response_deadline :: string
  lt_resolve_deadline :: string
  lt_acknowledged_at :: "string option"
  lt_resolved_at :: "string option"
  lt_response_breached :: bool
  lt_resolve_breached :: bool

record sla_breach =
  lb_breach_id :: string
  lb_alert_id :: string
  lb_sla_name :: string
  lb_breach_type :: string
  lb_breached_at :: string
  lb_deadline_was :: string

definition sla_fmtSecs :: "int \<Rightarrow> string" where
  "sla_fmtSecs s =
     (if s < 3600 then str_int (math_round_div s 60) @ ''m''
      else if s < 86400 then str_int (math_round_div s 3600) @ ''h''
      else str_int (math_round_div s 86400) @ ''d'')"

definition sla_fmtTs :: "host \<Rightarrow> string option \<Rightarrow> string" where
  "sla_fmtTs h ts = (if truthy ts then locale_ts h (nullish ts []) else ''--'')"

section \<open>New policy\<close>

record sla_form =
  lf_name :: string
  lf_severity :: string
  lf_respMins :: string
  lf_resMins :: string
  lf_err :: "string option"

definition sla_form_mount :: sla_form where
  "sla_form_mount = \<lparr>lf_name = [], lf_severity = [], lf_respMins = ''60'', lf_resMins = ''480'', lf_err = None\<rparr>"

datatype sla_form_event =
    LfName string | LfSeverity string | LfResp string | LfRes string | LfCreate | LfDone | LfSuccess | LfError mut_error

text \<open>\<open>parseInt(m) * 60\<close>; JSON writes \<open>NaN\<close> as \<open>null\<close>.\<close>

definition secs_json :: "string \<Rightarrow> json" where
  "secs_json m = (case parseInt m of None \<Rightarrow> JNull | Some n \<Rightarrow> JNum (JInt (n * 60)))"

definition sla_body :: "sla_form \<Rightarrow> json" where
  "sla_body s = jobj
     [(''name'', Some (JStr (lf_name s))),
      (''severity_match'', Some (if trim (lf_severity s) = [] then JNull else JStr (trim (lf_severity s)))),
      (''response_secs'', Some (secs_json (lf_respMins s))), (''resolve_secs'', Some (secs_json (lf_resMins s)))]"

fun sla_form_handle :: "string \<Rightarrow> sla_form \<Rightarrow> sla_form_event \<Rightarrow> sla_form \<times> effect list" where
  "sla_form_handle tid s (LfName x) = (s\<lparr>lf_name := x\<rparr>, [])"
| "sla_form_handle tid s (LfSeverity x) = (s\<lparr>lf_severity := x\<rparr>, [])"
| "sla_form_handle tid s (LfResp x) = (s\<lparr>lf_respMins := x\<rparr>, [])"
| "sla_form_handle tid s (LfRes x) = (s\<lparr>lf_resMins := x\<rparr>, [])"
| "sla_form_handle tid s LfCreate = (s\<lparr>lf_err := None\<rparr>, [Request ''POST'' ''/api/v1/sla/policies'' (Some (sla_body s))])"
| "sla_form_handle tid s LfDone = (s, [Callback ''onDone'' []])"
| "sla_form_handle tid s LfSuccess = (s, [Invalidate [''sla-policies'', tid], Callback ''onDone'' []])"
| "sla_form_handle tid s (LfError e) = (s\<lparr>lf_err := Some (detail_or e ''Failed.'')\<rparr>, [])"

definition sla_form_view :: "bool \<Rightarrow> sla_form \<Rightarrow> sla_form_event vnode" where
  "sla_form_view pending s = Card
     ([el ''h3'' [Txt ''New SLA policy''],
       el ''div'' [el ''label'' [Txt ''Policy name''],
         El ''input'' [At ''value'' (lf_name s), OnChange LfName, At ''placeholder'' ''e.g. Critical SLA''] []],
       el ''div'' [el ''label'' [Txt ''Severity match (blank = all)''],
         El ''input'' [At ''value'' (lf_severity s), OnChange LfSeverity, At ''placeholder'' ''critical, high, medium, low...''] []],
       el ''div''
        [el ''div'' [el ''label'' [Txt ''Response time (minutes)''],
           El ''input'' [At ''type'' ''number'', At ''min'' ''1'', At ''value'' (lf_respMins s), OnChange LfResp] []],
         el ''div'' [el ''label'' [Txt ''Resolve time (minutes)''],
           El ''input'' [At ''type'' ''number'', At ''min'' ''1'', At ''value'' (lf_resMins s), OnChange LfRes] []]]] @
      jif (truthy (lf_err s)) (el ''p'' [Txt (nullish (lf_err s) [])]) @
      [el ''div''
        [Button ''primary'' ''sm'' [OnClick LfCreate, Bo ''disabled'' (pending \<or> trim (lf_name s) = [])]
           (jif pending Spinner @ [Txt ''Create'']),
         Button ''secondary'' ''sm'' [OnClick LfDone] [Txt ''Cancel'']]])"

section \<open>The page\<close>

record sla =
  ls_creating :: bool
  ls_tab :: string

definition sla_mount :: sla where
  "sla_mount = \<lparr>ls_creating = False, ls_tab = ''policies''\<rparr>"

record sla_props =
  lq_host :: host
  lq_canOperate :: bool
  lq_policies :: "sla_policy list query"
  lq_trackers :: "sla_tracker list query"
  lq_breaches :: "sla_breach list query"
  lq_disablePending :: bool
  lq_reactivatePending :: bool

datatype sla_event = LsTab string | LsNew | LsFormDone | LsEnable string bool | LsSaved | LsNavigate string

fun sla_handle :: "string \<Rightarrow> sla \<Rightarrow> sla_event \<Rightarrow> sla \<times> effect list" where
  "sla_handle tid s (LsTab t) = (s\<lparr>ls_tab := t\<rparr>, [])"
| "sla_handle tid s LsNew = (s\<lparr>ls_creating := True\<rparr>, [])"
| "sla_handle tid s LsFormDone = (s\<lparr>ls_creating := False\<rparr>, [])"
| "sla_handle tid s (LsEnable i b) =
     (s, [Request ''PUT'' (''/api/v1/sla/policies/'' @ i) (Some (jobj [(''enabled'', Some (JBool b))]))])"
| "sla_handle tid s LsSaved = (s, [Invalidate [''sla-policies'', tid]])"
| "sla_handle tid s (LsNavigate x) = (s, [Navigate x])"

definition sla_tabs :: "(string \<times> string) list" where
  "sla_tabs = [(''policies'', ''Policies''), (''active'', ''Active''), (''breaches'', ''Breaches'')]"

definition sla_policy_row :: "sla_props \<Rightarrow> sla_policy \<Rightarrow> sla_event vnode" where
  "sla_policy_row p x = El ''tr'' [At ''key'' (lp_sla_id x)]
     [el ''td'' [Txt (lp_name x)],
      el ''td'' [Txt (nullish (lp_severity_match x) ''all'')],
      el ''td'' [Txt (sla_fmtSecs (lp_response_secs x))],
      el ''td'' [Txt (sla_fmtSecs (lp_resolve_secs x))],
      el ''td'' [Badge (if lp_enabled x then ''success'' else ''muted'') [Txt (if lp_enabled x then ''active'' else ''disabled'')]],
      el ''td'' (jif (lq_canOperate p)
        (if lp_enabled x
         then button [OnClick (LsEnable (lp_sla_id x) False), Bo ''disabled'' (lq_disablePending p)] [Txt ''disable'']
         else button [OnClick (LsEnable (lp_sla_id x) True), Bo ''disabled'' (lq_reactivatePending p)] [Txt ''Reativar'']))]"

definition tracker_status :: "sla_tracker \<Rightarrow> string \<times> string" where
  "tracker_status t = (if lt_resolve_breached t \<or> lt_response_breached t then (''danger'', ''breached'')
     else if truthy (lt_acknowledged_at t) then (''info'', ''acknowledged'') else (''warning'', ''open''))"

definition alert_link :: "string \<Rightarrow> sla_event vnode" where
  "alert_link i = button [OnClick (LsNavigate (''/alerts?highlight='' @ i)), At ''title'' i] [Txt (slice 0 20 i), Txt ''...'']"

definition tracker_row :: "host \<Rightarrow> sla_tracker \<Rightarrow> sla_event vnode" where
  "tracker_row h t = El ''tr'' [At ''key'' (lt_tracker_id t)]
     [el ''td'' [alert_link (lt_alert_id t)],
      el ''td'' [Txt (lt_sla_name t)],
      el ''td'' [el ''span'' (Txt (sla_fmtTs h (Some (lt_response_deadline t))) # jif (lt_response_breached t) (Txt '' !''))],
      el ''td'' [el ''span'' (Txt (sla_fmtTs h (Some (lt_resolve_deadline t))) # jif (lt_resolve_breached t) (Txt '' !''))],
      el ''td'' [Badge (fst (tracker_status t)) [Txt (snd (tracker_status t))]]]"

definition breach_row :: "host \<Rightarrow> sla_breach \<Rightarrow> sla_event vnode" where
  "breach_row h b = El ''tr'' [At ''key'' (lb_breach_id b)]
     [el ''td'' [alert_link (lb_alert_id b)],
      el ''td'' [Txt (lb_sla_name b)],
      el ''td'' [Badge ''danger'' [Txt (lb_breach_type b)]],
      el ''td'' [Txt (sla_fmtTs h (Some (lb_deadline_was b)))],
      el ''td'' [Txt (sla_fmtTs h (Some (lb_breached_at b)))]]"

text \<open>The card of a tab: a spinner, a message for an empty list, or a table.\<close>

definition sla_card :: "'a list query \<Rightarrow> string \<Rightarrow> string list \<Rightarrow> ('a \<Rightarrow> sla_event vnode) \<Rightarrow> sla_event vnode" where
  "sla_card q msg heads row = Card [list_table q msg heads (\<lambda>x. [row x])]"

definition sla_view :: "sla_props \<Rightarrow> sla \<Rightarrow> sla_event vnode" where
  "sla_view p s =
     (let op = lq_canOperate p; tab = ls_tab s; h = lq_host p
      in el ''div''
       ([el ''div''
          (el ''div'' [el ''h2'' [Txt ''SLA Management''], el ''p'' [Txt ''Response and resolution time commitments.'']] #
           jif (op \<and> tab = ''policies'' \<and> \<not> ls_creating s) (Button ''primary'' ''sm'' [OnClick LsNew] [Txt ''New policy'']))] @
        jif (op \<and> ls_creating s \<and> tab = ''policies'') (El ''CreatePolicyForm'' [Prop ''onDone'' LsFormDone] []) @
        [el ''div'' (map (\<lambda>(i, l). El ''button'' [At ''key'' i, OnClick (LsTab i)] [Txt l]) sla_tabs)] @
        jif (tab = ''policies'') (sla_card (lq_policies p) ''No SLA policies configured.''
          [''Name'', ''Severity'', ''Response'', ''Resolve'', ''Status'', []] (sla_policy_row p)) @
        jif (tab = ''active'') (sla_card (lq_trackers p) ''No active SLA trackers.''
          [''Alert'', ''SLA'', ''Response by'', ''Resolve by'', ''Status''] (tracker_row h)) @
        jif (tab = ''breaches'') (sla_card (lq_breaches p) ''No SLA breaches recorded.''
          [''Alert'', ''SLA'', ''Type'', ''Deadline was'', ''Breached at''] (breach_row h))))"

section \<open>Properties\<close>

definition sla_form_allowed :: "sla_form \<Rightarrow> sla_form_event \<Rightarrow> bool" where
  "sla_form_allowed s e \<longleftrightarrow> (e = LfCreate \<longrightarrow> trim (lf_name s) \<noteq> [])"

definition sla_form_net :: "sla_form_event \<Rightarrow> bool" where
  "sla_form_net e \<longleftrightarrow> (case e of LfSuccess \<Rightarrow> True | LfError _ \<Rightarrow> True | _ \<Rightarrow> False)"

definition sla_request :: "effect \<Rightarrow> bool" where
  "sla_request f \<longleftrightarrow> \<not> is_request f
     \<or> (\<exists>s. trim (lf_name s) \<noteq> [] \<and> f = Request ''POST'' ''/api/v1/sla/policies'' (Some (sla_body s)))"

interpretation lf: component "\<lambda>s. s = sla_form_mount" sla_form_view "sla_form_handle tid" sla_form_net sla_form_allowed
  "\<lambda>s. True" sla_request for tid
proof unfold_locales
  show "solo (sla_form_view p s)" for p s by (auto simp: sla_form_view_def)
  show "offers (sla_form_allowed s) (sla_form_view p s)" for p s by (auto simp: sla_form_view_def sla_form_allowed_def)
  show "sla_form_net e \<Longrightarrow> sla_form_allowed s e" for s e by (cases e) (simp_all add: sla_form_net_def sla_form_allowed_def)
  show "sla_form_allowed s e \<Longrightarrow> list_all sla_request (snd (sla_form_handle tid s e))" for s e
    by (cases e) (auto simp: sla_request_def sla_form_allowed_def)
qed simp_all

lemma sla_form_requests:
  "reach (\<lambda>s. s = sla_form_mount) sla_form_view (sla_form_handle tid) sla_form_net s log \<Longrightarrow> list_all sla_request log"
  using lf.reach_inv by blast

lemma secs_of_minutes: "secs_json (str_int n) = JNum (JInt (n * 60))"
  by (simp add: secs_json_def)

definition sla_allowed :: "sla_props \<Rightarrow> sla \<Rightarrow> sla_event \<Rightarrow> bool" where
  "sla_allowed p s e \<longleftrightarrow> (case e of
      LsTab t \<Rightarrow> t \<in> set (map fst sla_tabs)
    | LsNew \<Rightarrow> lq_canOperate p
    | LsEnable i b \<Rightarrow> lq_canOperate p \<and> ls_tab s = ''policies''
        \<and> (\<exists>x \<in> set (nullish (qdata (lq_policies p)) []). lp_sla_id x = i \<and> lp_enabled x = (\<not> b))
        \<and> \<not> (if b then lq_reactivatePending p else lq_disablePending p)
    | LsSaved \<Rightarrow> False
    | _ \<Rightarrow> True)"

lemma sla_card_laws:
  "solo (sla_card q m hs row) \<longleftrightarrow> isLoading q \<or> (\<forall>x \<in> set (nullish (qdata q) []). solo (row x))"
  "(\<And>x. x \<in> set (nullish (qdata q) []) \<Longrightarrow> offers P (row x)) \<Longrightarrow> offers P (sla_card q m hs row)"
  by (auto simp: sla_card_def)

lemma sla_view_laws: "solo (sla_view p s)" "offers (sla_allowed p s) (sla_view p s)"
proof -
  let ?P = "sla_allowed p s"
  have row: "solo (sla_policy_row p x)" "solo (tracker_row h t)" "solo (breach_row h b)" for x h t b
    by (simp_all add: sla_policy_row_def tracker_row_def breach_row_def alert_link_def)
  have nav: "offers ?P (tracker_row h t)" "offers ?P (breach_row h b)" for h t b
    by (simp_all add: tracker_row_def breach_row_def alert_link_def sla_allowed_def)
  have pol: "offers ?P (sla_policy_row p x)" if "ls_tab s = ''policies''" "x \<in> set (nullish (qdata (lq_policies p)) [])" for x
    using that by (auto simp: sla_policy_row_def sla_allowed_def)
  have simps: "lq_canOperate p \<Longrightarrow> ?P LsNew" "?P LsFormDone" "t \<in> set (map fst sla_tabs) \<Longrightarrow> ?P (LsTab t)" for t
    by (simp_all add: sla_allowed_def)
  show "solo (sla_view p s)" using row by (auto simp: sla_view_def Let_def sla_card_laws(1) sla_tabs_def)
  show "offers ?P (sla_view p s)" using nav pol simps
    by (auto simp: sla_view_def Let_def sla_tabs_def intro!: sla_card_laws(2))
qed

theorem sla_click_guarded:
  "fires (sla_view p s) x es \<Longrightarrow> e \<in> set es \<Longrightarrow> es = [e] \<and> sla_allowed p s e"
  by (rule fires_one [OF _ sla_view_laws])

end
