(* ===== verification/AuditTrail.thy ===== *)
theory AuditTrail
  imports JS_Timer UiKit "HOL-Library.List_Lexorder" "HOL-Library.Char_ord"
begin

text \<open>
  The audit trail, \<open>pages/AuditPage.tsx\<close>: filters (one of them debounced), pages of fifty events, and the export.
\<close>

section \<open>Data\<close>

record audit_event =
  ae_audit_event_id :: string
  ae_action :: string
  ae_actor_kind :: string
  ae_actor_id :: "string option"
  ae_subject_type :: string
  ae_subject_id :: string
  ae_detail :: json
  ae_correlation_id :: "string option"
  ae_occurred_at :: string

definition ACTOR_VARIANTS :: "(string \<times> string) list" where
  "ACTOR_VARIANTS =
    [(''principal'', ''success''), (''platform_admin'', ''warning''), (''operator'', ''warning''), (''system'', ''muted''),
     (''worker'', ''muted''), (''delegated_principal'', ''success'')]"

definition audit_fmt :: "host \<Rightarrow> string \<Rightarrow> string" where
  "audit_fmt h ts = locale_fmt h ''undefined, dateStyle: short, timeStyle: medium'' ts"

definition AUDIT_PAGE_SIZE :: nat where
  "AUDIT_PAGE_SIZE = 50"

definition KNOWN_ACTIONS :: "string list" where
  "KNOWN_ACTIONS =
    [''alert.acknowledged'', ''alert.created'', ''alert.escalated'', ''alert.resolved'', ''alert.snoozed'',
     ''apikey.created'', ''apikey.revoked'', ''automation.run.created'', ''automation.run.failed'',
     ''automation.run.succeeded'', ''escalation.policy.created'', ''escalation.policy.updated'',
     ''itsm.change.approved'', ''itsm.change.created'', ''itsm.change.rejected'', ''itsm.change.updated'',
     ''maintenance.window.created'', ''maintenance.window.deleted'', ''member.invited'', ''member.removed'',
     ''notification.channel.created'', ''notification.channel.deleted'', ''policy.created'', ''policy.deleted'',
     ''policy.updated'', ''report.generated'', ''sla.breach.detected'', ''tenant.settings.updated'']"

definition KNOWN_SUBJECT_TYPES :: "string list" where
  "KNOWN_SUBJECT_TYPES =
    [''alert'', ''alert_policy'', ''api_key'', ''automation_run'', ''automation_script'', ''change_request'',
     ''escalation_policy'', ''host'', ''itsm_change'', ''maintenance_window'', ''member'', ''monitoring_source'',
     ''notification_channel'', ''report'', ''sla_agreement'', ''tenant'', ''user'']"

section \<open>State and handlers\<close>

record audit =
  at_filterAction :: string
  at_filterSubjectType :: string
  at_actorFilter :: string
  at_debouncedActorFilter :: string
  at_dateFrom :: string
  at_dateTo :: string
  at_expanded :: "string option"
  at_page :: nat
  at_exporting :: bool
  at_timer :: "string option"

text \<open>\<open>at_timer\<close>: the text of the pending debounce timer, which the effect starts on mounting too.\<close>

definition audit_mount :: audit where
  "audit_mount = \<lparr>at_filterAction = [], at_filterSubjectType = [], at_actorFilter = [], at_debouncedActorFilter = [],
     at_dateFrom = [], at_dateTo = [], at_expanded = None, at_page = 0, at_exporting = False, at_timer = Some []\<rparr>"

definition filter_params :: "audit \<Rightarrow> (string \<times> string) list" where
  "filter_params s =
     jif (at_filterAction s \<noteq> []) (''action'', at_filterAction s) @
     jif (at_filterSubjectType s \<noteq> []) (''subject_type'', at_filterSubjectType s) @
     jif (at_debouncedActorFilter s \<noteq> []) (''actor_id'', at_debouncedActorFilter s) @
     jif (at_dateFrom s \<noteq> []) (''occurred_after'', at_dateFrom s @ ''T00:00:00Z'') @
     jif (at_dateTo s \<noteq> []) (''occurred_before'', at_dateTo s @ ''T23:59:59Z'')"

definition audit_path :: "audit \<Rightarrow> string" where
  "audit_path s = ''/api/v1/observability/audit-events?'' @
     form_encode ([(''limit'', str_nat AUDIT_PAGE_SIZE), (''offset'', str_nat (at_page s * AUDIT_PAGE_SIZE))] @ filter_params s)"

definition export_path :: "audit \<Rightarrow> string" where
  "export_path s = ''/api/v1/observability/audit-events/export?'' @ form_encode (filter_params s)"

text \<open>\<open>AtExported\<close>: the export answered with success, and the file is downloaded; \<open>AtQueryError\<close> is the effect on
  a failed query.\<close>

datatype audit_evt =
    AtFrom string | AtTo string | AtActor string | AtTimer | AtAction string | AtSubject string
  | AtExpand string | AtPrev | AtNext | AtExport | AtExported | AtExportError | AtQueryError

fun audit_handle :: "host \<Rightarrow> audit \<Rightarrow> audit_evt \<Rightarrow> audit \<times> effect list" where
  "audit_handle h s (AtFrom x) = (s\<lparr>at_dateFrom := x, at_page := 0\<rparr>, [])"
| "audit_handle h s (AtTo x) = (s\<lparr>at_dateTo := x, at_page := 0\<rparr>, [])"
| "audit_handle h s (AtActor x) =
     (s\<lparr>at_actorFilter := x, at_page := 0, at_timer := (if x = at_actorFilter s then at_timer s else Some x)\<rparr>, [])"
| "audit_handle h s AtTimer = (case at_timer s of None \<Rightarrow> (s, [])
     | Some x \<Rightarrow> (s\<lparr>at_timer := None, at_debouncedActorFilter := x\<rparr>, []))"
| "audit_handle h s (AtAction x) = (s\<lparr>at_filterAction := x, at_page := 0\<rparr>, [])"
| "audit_handle h s (AtSubject x) = (s\<lparr>at_filterSubjectType := x, at_page := 0\<rparr>, [])"
| "audit_handle h s (AtExpand i) = (s\<lparr>at_expanded := (if at_expanded s = Some i then None else Some i)\<rparr>, [])"
| "audit_handle h s AtPrev = (s\<lparr>at_page := at_page s - 1\<rparr>, [])"
| "audit_handle h s AtNext = (s\<lparr>at_page := at_page s + 1\<rparr>, [])"
| "audit_handle h s AtExport = (s\<lparr>at_exporting := True\<rparr>, [Request ''GET'' (export_path s) None])"
| "audit_handle h s AtExported =
     (s\<lparr>at_exporting := False\<rparr>,
      [Callback ''download'' [''audit-export-'' @ slice 0 10 (iso_of_ms h (now_ms h)) @ ''.csv'']])"
| "audit_handle h s AtExportError = (s\<lparr>at_exporting := False\<rparr>, [Toast ''Erro ao exportar'' ''error''])"
| "audit_handle h s AtQueryError = (s, [Toast ''Erro ao carregar auditoria'' ''error''])"

section \<open>View\<close>

record audit_props =
  tp_host :: host
  tp_q :: "audit_event list query"

definition audit_events :: "audit_props \<Rightarrow> audit_event list" where
  "audit_events p = nullish (qdata (tp_q p)) []"

definition hasNext :: "audit_props \<Rightarrow> bool" where
  "hasNext p \<longleftrightarrow> length (audit_events p) = AUDIT_PAGE_SIZE"

text \<open>\<open>sort()\<close> orders by code units; the model's characters are compared by code.\<close>

definition merged :: "string list \<Rightarrow> string list \<Rightarrow> string list" where
  "merged known seen = sort (set_of (known @ seen))"

definition audit_actions :: "audit_props \<Rightarrow> string list" where
  "audit_actions p = merged KNOWN_ACTIONS (map ae_action (audit_events p))"

definition audit_subjects :: "audit_props \<Rightarrow> string list" where
  "audit_subjects p = merged KNOWN_SUBJECT_TYPES (map ae_subject_type (audit_events p))"

definition audit_filters :: "audit_props \<Rightarrow> audit \<Rightarrow> audit_evt vnode" where
  "audit_filters p s = el ''div''
     [el ''label'' [Txt ''De'', El ''input'' [At ''type'' ''date'', At ''value'' (at_dateFrom s), OnChange AtFrom] []],
      el ''label'' [Txt ''Ate'', El ''input'' [At ''type'' ''date'', At ''value'' (at_dateTo s), OnChange AtTo] []],
      El ''input'' [At ''type'' ''text'', At ''placeholder'' ''Filtrar por ator (ID ou email)'', At ''value'' (at_actorFilter s),
        OnChange AtActor] [],
      select_view (at_filterAction s) AtAction (([], ''Todos os actions'') # map (\<lambda>a. (a, a)) (audit_actions p)),
      select_view (at_filterSubjectType s) AtSubject (([], ''Todos os subjects'') # map (\<lambda>a. (a, a)) (audit_subjects p)),
      el ''span'' [Txt (str_nat (length (audit_events p))), Txt '' eventos . pagina '', Txt (str_nat (at_page s + 1))]]"

definition audit_row :: "host \<Rightarrow> audit \<Rightarrow> audit_event \<Rightarrow> audit_evt vnode list" where
  "audit_row h s ev = El ''tr'' [OnClick (AtExpand (ae_audit_event_id ev))]
     [el ''td'' [Txt (audit_fmt h (ae_occurred_at ev))],
      el ''td'' [Txt (ae_action ev)],
      el ''td'' [el ''div'' (Badge (nullish (map_of ACTOR_VARIANTS (ae_actor_kind ev)) ''muted'') [Txt (ae_actor_kind ev)] #
        jif (truthy (ae_actor_id ev)) (el ''span'' [Txt (nullish (ae_actor_id ev) [])]))],
      el ''td'' [el ''span'' [Txt (ae_subject_type ev)], el ''span'' [Txt (ae_subject_id ev)]]]
     # jif (at_expanded s = Some (ae_audit_event_id ev)) (El ''tr'' [At ''key'' (ae_audit_event_id ev @ ''-detail'')]
         [El ''td'' [At ''colSpan'' ''4''] [el ''pre'' [Txt (json_pretty h (jobj
           [(''audit_event_id'', Some (JStr (ae_audit_event_id ev))),
            (''correlation_id'', Some (case ae_correlation_id ev of None \<Rightarrow> JNull | Some c \<Rightarrow> JStr c)),
            (''detail'', Some (ae_detail ev))]))]]])"

definition audit_pager :: "audit_props \<Rightarrow> audit \<Rightarrow> audit_evt vnode" where
  "audit_pager p s = el ''div''
     [Button ''secondary'' ''sm'' [OnClick AtPrev, Bo ''disabled'' (at_page s = 0 \<or> isFetching (tp_q p))] [Txt ''<- Anterior''],
      el ''span'' [Txt ''Pagina '', Txt (str_nat (at_page s + 1))],
      Button ''secondary'' ''sm'' [OnClick AtNext, Bo ''disabled'' (\<not> hasNext p \<or> isFetching (tp_q p))] [Txt ''Proxima ->'']]"

definition audit_view :: "audit_props \<Rightarrow> audit \<Rightarrow> audit_evt vnode" where
  "audit_view p s =
     (let q = tp_q p
      in el ''div''
       ([el ''div''
          [el ''div'' [el ''h2'' [Txt ''Audit trail''], el ''p'' [Txt ''Append-only . tenant-scoped . newest first'']],
           el ''div''
            (jif (isFetching q) Spinner @
             [Button ''secondary'' ''sm'' [OnClick AtExport, Bo ''disabled'' (at_exporting s)]
               (jif (at_exporting s) Spinner @ [Txt ''Exportar CSV''])])],
         audit_filters p s] @
        (if isLoading q then [Spinner]
         else if isError q then [el ''p'' [Txt ''Could not load audit events.'']]
         else if audit_events p = [] then [el ''p'' [Txt (if at_page s > 0 then ''Nenhum evento nesta pagina.'' else ''No audit events found.'')]]
         else [Card [el ''table''
            [el ''thead'' [el ''tr'' (map (\<lambda>c. el ''th'' [Txt c]) [''Time'', ''Action'', ''Actor'', ''Subject''])],
             el ''tbody'' (concat (map (audit_row (tp_host p) s) (audit_events p)))]],
           audit_pager p s])))"

section \<open>Properties\<close>

theorem filter_options:
  "sorted (audit_actions p) \<and> distinct (audit_actions p)
   \<and> set (audit_actions p) = set KNOWN_ACTIONS \<union> ae_action ` set (audit_events p)"
  by (auto simp: audit_actions_def merged_def set_set_of)

definition audit_allowed :: "audit_props \<Rightarrow> audit \<Rightarrow> audit_evt \<Rightarrow> bool" where
  "audit_allowed p s e \<longleftrightarrow> (case e of
      AtAction x \<Rightarrow> x = [] \<or> x \<in> set (audit_actions p)
    | AtSubject x \<Rightarrow> x = [] \<or> x \<in> set (audit_subjects p)
    | AtExpand i \<Rightarrow> i \<in> ae_audit_event_id ` set (audit_events p)
    | AtPrev \<Rightarrow> at_page s > 0 \<and> audit_events p \<noteq> [] \<and> \<not> isFetching (tp_q p)
    | AtNext \<Rightarrow> hasNext p \<and> \<not> isFetching (tp_q p)
    | AtExport \<Rightarrow> \<not> at_exporting s
    | AtFrom _ \<Rightarrow> True | AtTo _ \<Rightarrow> True | AtActor _ \<Rightarrow> True
    | _ \<Rightarrow> False)"

lemma audit_view_laws: "solo (audit_view p s)" "offers (audit_allowed p s) (audit_view p s)"
proof -
  let ?P = "audit_allowed p s"
  have row: "v \<in> set (audit_row h s ev) \<Longrightarrow> solo v"
    "v \<in> set (audit_row h s ev) \<Longrightarrow> ev \<in> set (audit_events p) \<Longrightarrow> offers ?P v" for h ev v
    by (auto simp: audit_row_def audit_allowed_def)
  have flt: "solo (audit_filters p s)" "offers ?P (audit_filters p s)"
    by (auto simp: audit_filters_def audit_allowed_def)
  have pg: "solo (audit_pager p s)" "audit_events p \<noteq> [] \<Longrightarrow> offers ?P (audit_pager p s)"
    by (auto simp: audit_pager_def audit_allowed_def)
  have ex: "\<not> at_exporting s \<Longrightarrow> ?P AtExport" by (simp add: audit_allowed_def)
  show "solo (audit_view p s)" using row(1) flt(1) pg(1) by (auto simp: audit_view_def Let_def)
  show "offers ?P (audit_view p s)" using row(2) flt(2) pg(2) ex by (auto simp: audit_view_def Let_def)
qed

theorem audit_empty_page_no_way_back:
  "audit_events p = [] \<Longrightarrow> \<not> fires (audit_view p s) x [AtPrev]"
  using fires_offers [OF _ audit_view_laws(2)] by (fastforce simp: audit_allowed_def)

definition audit_net :: "audit_evt \<Rightarrow> bool" where
  "audit_net e \<longleftrightarrow> e \<in> {AtTimer, AtExported, AtExportError, AtQueryError}"

definition audit_ok :: "audit \<Rightarrow> bool" where
  "audit_ok s \<longleftrightarrow> (case at_timer s of None \<Rightarrow> at_debouncedActorFilter s = at_actorFilter s | Some x \<Rightarrow> x = at_actorFilter s)"

definition audit_safe :: "effect \<Rightarrow> bool" where
  "audit_safe f \<longleftrightarrow> \<not> is_request f \<or> (\<exists>s. f = Request ''GET'' (export_path s) None)"

interpretation at: component "\<lambda>s. s = audit_mount" audit_view "audit_handle h" audit_net
  "\<lambda>s e. audit_net e \<or> (\<exists>p. audit_allowed p s e)" audit_ok audit_safe for h
proof unfold_locales
  show "s = audit_mount \<Longrightarrow> audit_ok s" for s by (simp add: audit_mount_def audit_ok_def)
  show "offers (\<lambda>e. audit_net e \<or> (\<exists>p. audit_allowed p s e)) (audit_view p s)" for p s
    using audit_view_laws(2) by (rule offers_mono) blast
  show "audit_ok s \<Longrightarrow> audit_ok (fst (audit_handle h s e))" for s e
    by (cases e) (auto simp: audit_ok_def split: option.splits)
  show "list_all audit_safe (snd (audit_handle h s e))" for s e
    by (cases e) (auto simp: audit_safe_def split: option.split)
qed (simp_all add: audit_view_laws)

text \<open>C40: in every reachable state of the audit page a running timer holds the actor on the screen: when it fires,
  or when none runs, the applied filter is what is typed; the page only reads.\<close>

theorem audit_debounce:
  "reach (\<lambda>s. s = audit_mount) audit_view (audit_handle h) audit_net s log \<Longrightarrow>
   (at_timer s = None \<longrightarrow> at_debouncedActorFilter s = at_actorFilter s)
   \<and> at_debouncedActorFilter (fst (audit_handle h s AtTimer)) = at_actorFilter s \<and> list_all audit_safe log"
  using at.reach_inv [of h s log] by (auto simp: audit_ok_def split: option.splits)

text \<open>The debounced filter as a delayed value: typing changes it, the timer applies it.\<close>

definition audit_type :: "host \<Rightarrow> string \<Rightarrow> audit \<Rightarrow> audit" where
  "audit_type h x s = fst (audit_handle h s (AtActor x))"

definition audit_fire :: "host \<Rightarrow> audit \<Rightarrow> audit \<times> string option" where
  "audit_fire h s = (let t = fst (audit_handle h s AtTimer) in (t, if at_timer s = None then None else Some (at_debouncedActorFilter t)))"

interpretation atd: delayed at_actorFilter at_timer "audit_type h" "audit_fire h" for h
  by unfold_locales (auto simp: audit_type_def audit_fire_def Let_def split: option.splits)

text \<open>However the actor is typed, letter by letter, the filter is applied once, with the text that stands at the end.\<close>

lemma audit_burst:
  assumes "audit_ok s" "at_actorFilter (foldl (\<lambda>s x. audit_type h x s) s xs) \<noteq> at_actorFilter s"
  defines "t \<equiv> foldl (\<lambda>s x. audit_type h x s) s xs"
  shows "at_timer t = Some (at_actorFilter t) \<and> at_debouncedActorFilter (fst (audit_handle h t AtTimer)) = at_actorFilter t"
proof -
  have "atd.fresh s" using assms(1) by (auto simp: atd.fresh_def audit_ok_def)
  then have "snd (audit_fire h t) = Some (at_actorFilter t)"
    using atd.burst_delivered [of s h xs] assms(2) by (simp add: atd.burst_def t_def)
  then have "at_timer t = Some (at_actorFilter t)" by (simp only: atd.fire_delivers)
  then show ?thesis by simp
qed

section \<open>The race of the debounced filter\<close>

lemma can_next:
  assumes "hasNext p" "\<not> isFetching (tp_q p)" "\<not> isLoading (tp_q p)" "\<not> isError (tp_q p)"
  shows "can_click (audit_view p s) [AtNext]"
proof -
  have "audit_events p \<noteq> []" using assms(1) by (auto simp: hasNext_def AUDIT_PAGE_SIZE_def)
  moreover have "can_click (audit_pager p s) [AtNext]" using assms by (simp add: audit_pager_def can_click_El)
  ultimately show ?thesis using assms by (simp add: audit_view_def can_click_El Let_def)
qed

text \<open>Typing an actor and going to the next page before the debounce ends applies the filter on the second page of
  its results: the first fifty matching events are skipped.\<close>

lemma audit_debounce_skips_page:
  assumes "hasNext p" "\<not> isFetching (tp_q p)" "\<not> isLoading (tp_q p)" "\<not> isError (tp_q p)"
    and "reach (\<lambda>s. s = audit_mount) audit_view (audit_handle h) audit_net s log"
    and "at_page s = 0" "x \<noteq> at_actorFilter s"
  shows "\<exists>s'. reach (\<lambda>s. s = audit_mount) audit_view (audit_handle h) audit_net s' log
    \<and> at_actorFilter s' = x \<and> at_debouncedActorFilter s' = x \<and> at_page s' = 1"
proof -
  let ?reach = "reach (\<lambda>s. s = audit_mount) audit_view (audit_handle h) audit_net"
  let ?s1 = "s\<lparr>at_actorFilter := x, at_page := 0, at_timer := Some x\<rparr>"
  have "AtActor x \<in> set (changes x (audit_view p s))"
    by (simp add: audit_view_def audit_filters_def enterable_def Let_def)
  then have "fires (audit_view p s) x [AtActor x]" by (simp add: fires_def)
  with assms(5) have "?reach ?s1 (log @ [])" by (rule reach.act) (use assms(7) in simp)
  moreover have "fires (audit_view p ?s1) [] [AtNext]" using can_next [OF assms(1-4)] by (rule can_click_fires)
  ultimately have "?reach (?s1\<lparr>at_page := 1\<rparr>) ((log @ []) @ [])" by (rule reach.act) simp
  then have "?reach (?s1\<lparr>at_page := 1, at_timer := None, at_debouncedActorFilter := x\<rparr>) (((log @ []) @ []) @ [])"
    by (rule reach.settle [where e = AtTimer]) (simp_all add: audit_net_def)
  then show ?thesis by (intro exI) auto
qed

theorem audit_debounce_skips_page_witness:
  "\<exists>s'. reach (\<lambda>s. s = audit_mount) audit_view (audit_handle sample_host) audit_net s' []
    \<and> at_actorFilter s' = ''ana'' \<and> at_debouncedActorFilter s' = ''ana'' \<and> at_page s' = 1"
proof -
  let ?e = "\<lparr>ae_audit_event_id = ''e'', ae_action = ''alert.created'', ae_actor_kind = ''system'', ae_actor_id = None,
    ae_subject_type = ''alert'', ae_subject_id = ''a'', ae_detail = JNull, ae_correlation_id = None, ae_occurred_at = ''0''\<rparr>"
  let ?p = "\<lparr>tp_host = sample_host, tp_q = \<lparr>qdata = Some (replicate 50 ?e), isLoading = False, isError = False,
    isFetching = False, isSuccess = True\<rparr>\<rparr>"
  show ?thesis
  proof (rule audit_debounce_skips_page [where p = ?p])
    show "hasNext ?p" by (simp add: hasNext_def audit_events_def AUDIT_PAGE_SIZE_def)
    show "reach (\<lambda>s. s = audit_mount) audit_view (audit_handle sample_host) audit_net audit_mount []"
      by (rule reach.mount) simp
  qed (simp_all add: audit_mount_def)
qed

theorem audit_debounce_witness:
  "at_debouncedActorFilter (fst (audit_handle sample_host (audit_mount\<lparr>at_actorFilter := ''ana'', at_timer := Some ''ana''\<rparr>) AtTimer)) = ''ana''"
proof -
  let ?s = "audit_mount\<lparr>at_actorFilter := ''ana'', at_timer := Some ''ana''\<rparr>"
  let ?p = "\<lparr>tp_host = sample_host, tp_q = loaded []\<rparr>"
  have "AtActor ''ana'' \<in> set (changes ''ana'' (audit_view ?p audit_mount))"
    by (simp add: audit_view_def audit_filters_def enterable_def Let_def)
  then have f: "fires (audit_view ?p audit_mount) ''ana'' [AtActor ''ana'']" by (simp add: fires_def)
  have "reach (\<lambda>s. s = audit_mount) audit_view (audit_handle sample_host) audit_net ?s []"
    by (rule reach_act1 [where view = audit_view and s = audit_mount, OF _ f]) (simp_all add: audit_mount_def)
  from audit_debounce [OF this] show ?thesis by simp
qed

end
