(* ===== verification/Monitoring.thy ===== *)
theory Monitoring
  imports UiKit
begin

text \<open>
  Monitoring sources, \<open>pages/MonitoringPage.tsx\<close>: the form that registers a source, the exchange of its API token,
  the card of a source with its actions, and the page. Form, exchange and cards are components of their own.
\<close>

section \<open>Data\<close>

record mon_src =
  mo_monitoring_source_id :: string
  mo_display_name :: string
  mo_operational_evidence_state :: string
  mo_provider_instance_ref :: "string option"
  mo_provider_base_url :: "string option"
  mo_configuration_revision :: "int option"
  mo_scope_revision :: "int option"

text \<open>\<open>replace(/\s+/g, "-")\<close> puts a hyphen between the runs that a split at \<open>/\s+/\<close> leaves.\<close>

definition slug_char :: "char \<Rightarrow> bool" where
  "slug_char c \<longleftrightarrow> (let n = of_char c :: nat in 97 \<le> n \<and> n \<le> 122 \<or> 48 \<le> n \<and> n \<le> 57 \<or> c = CHR ''-'')"

definition slugify :: "string \<Rightarrow> string" where
  "slugify s = str_or (slice 0 40 (filter slug_char (join ''-'' (split_runs is_space (toLowerCase s))))) ''cred-binding''"

definition stateVariant :: "string \<Rightarrow> string" where
  "stateVariant st = (if st = ''current'' then ''success''
     else if st = ''stale'' \<or> st = ''incomplete'' \<or> st = ''reconciliation_required'' then ''warning''
     else if st = ''unavailable'' then ''danger'' else ''muted'')"

definition Field :: "string \<Rightarrow> string option \<Rightarrow> 'e vnode \<Rightarrow> 'e vnode" where
  "Field label hint kid = el ''label''
     [el ''span'' (Txt label # jif (truthy hint) (el ''span'' [Txt (nullish hint [])])), el ''style'' [], el ''div'' [kid]]"

lemma Field_laws [simp]:
  "solo (Field l h k) = solo k" "offers P (Field l h k) = offers P k" "sealed (Field l h k) = sealed k"
  by (auto simp: Field_def)

section \<open>New source\<close>

record src_form =
  sf_display_name :: string
  sf_provider_base_url :: string
  sf_api_token :: string
  sf_credential_binding_ref :: string
  sf_host_group_refs :: string

definition src_form_mount :: src_form where
  "src_form_mount = \<lparr>sf_display_name = [], sf_provider_base_url = [], sf_api_token = [], sf_credential_binding_ref = [],
     sf_host_group_refs = []\<rparr>"

datatype src_form_event =
    SfName string | SfUrl string | SfToken string | SfRef string | SfGroups string | SfAdd | SfClose
  | SfSuccess | SfError mut_error

definition src_body :: "src_form \<Rightarrow> json" where
  "src_body d = (let groups = comma_items (sf_host_group_refs d)
     in jobj
      [(''display_name'', Some (JStr (sf_display_name d))),
       (''provider_base_url'', Some (JStr (sf_provider_base_url d))),
       (''api_token'', if sf_api_token d = [] then None else Some (JStr (sf_api_token d))),
       (''credential_binding_ref'', Some (JStr (str_or (sf_credential_binding_ref d) (slugify (sf_display_name d))))),
       (''host_group_refs'', if 0 < length groups then Some (jstrs groups) else None)])"

fun src_form_handle :: "string \<Rightarrow> src_form \<Rightarrow> src_form_event \<Rightarrow> src_form \<times> effect list" where
  "src_form_handle tid s (SfName x) = (s\<lparr>sf_display_name := x\<rparr>, [])"
| "src_form_handle tid s (SfUrl x) = (s\<lparr>sf_provider_base_url := x\<rparr>, [])"
| "src_form_handle tid s (SfToken x) = (s\<lparr>sf_api_token := x\<rparr>, [])"
| "src_form_handle tid s (SfRef x) = (s\<lparr>sf_credential_binding_ref := x\<rparr>, [])"
| "src_form_handle tid s (SfGroups x) = (s\<lparr>sf_host_group_refs := x\<rparr>, [])"
| "src_form_handle tid s SfAdd = (s, [Request ''POST'' ''/api/v1/monitoring/sources'' (Some (src_body s))])"
| "src_form_handle tid s SfClose = (s, [Callback ''onClose'' []])"
| "src_form_handle tid s SfSuccess =
     (s, [Toast ''Fonte adicionada com sucesso.'' ''success'', Invalidate [''sources'', tid], Callback ''onClose'' []])"
| "src_form_handle tid s (SfError e) = (s, [Toast (detail_msg_or e ''Erro ao adicionar fonte.'') ''error''])"

definition credRef :: "src_form \<Rightarrow> string" where
  "credRef s = str_or (str_or (sf_credential_binding_ref s) (slugify (sf_display_name s))) ''cred-binding''"

definition src_form_view :: "bool \<Rightarrow> src_form \<Rightarrow> src_form_event vnode" where
  "src_form_view pending s = El ''div'' [OnSelf SfClose]
     [el ''div''
       [el ''div'' [el ''h3'' [Txt ''Adicionar fonte de monitoramento''], button [OnClick SfClose] [el ''X'' []]],
        el ''div''
         [Field ''Nome da fonte *'' None
            (El ''input'' [At ''type'' ''text'', At ''placeholder'' ''Ex: Producao - Cliente X'', At ''value'' (sf_display_name s), OnChange SfName] []),
          Field ''URL do Zabbix *'' None
            (El ''input'' [At ''type'' ''url'', At ''placeholder'' ''https://zabbix.exemplo.com'', At ''value'' (sf_provider_base_url s), OnChange SfUrl] []),
          Field ''Token de API do Zabbix *'' None
            (El ''input'' [At ''type'' ''password'', At ''placeholder'' ''Token gerado no Zabbix (User -> API tokens)'',
              At ''value'' (sf_api_token s), OnChange SfToken] []),
          Field ''Referencia de credencial'' (Some (''Auto: '' @ quoted (credRef s)))
            (El ''input'' [At ''type'' ''text'', At ''placeholder'' (credRef s), At ''value'' (sf_credential_binding_ref s), OnChange SfRef] []),
          Field ''Grupos de hosts'' (Some ''IDs ou nomes separados por virgula (deixe vazio para todos)'')
            (El ''input'' [At ''type'' ''text'', At ''placeholder'' ''Ex: Linux servers, 2, Windows'', At ''value'' (sf_host_group_refs s), OnChange SfGroups] [])],
        el ''div''
         [button [OnClick SfClose] [Txt ''Cancelar''],
          button [OnClick SfAdd, Bo ''disabled'' (sf_display_name s = [] \<or> sf_provider_base_url s = [] \<or> pending)]
            (jif pending Spinner @ [Txt ''Adicionar fonte''])]]]"

section \<open>Exchange of the token\<close>

datatype rotate_event = RtToken string | RtSave | RtClose | RtSuccess | RtError mut_error

definition credential_path :: "string \<Rightarrow> string" where
  "credential_path i = ''/api/v1/monitoring/sources/'' @ i @ ''/credential''"

text \<open>The state is the token in the field.\<close>

fun rotate_handle :: "string \<Rightarrow> string \<Rightarrow> string \<Rightarrow> rotate_event \<Rightarrow> string \<times> effect list" where
  "rotate_handle tid i token (RtToken x) = (x, [])"
| "rotate_handle tid i token RtSave =
     (token, [Request ''PUT'' (credential_path i) (Some (jobj [(''api_token'', Some (JStr token))]))])"
| "rotate_handle tid i token RtClose = (token, [Callback ''onClose'' []])"
| "rotate_handle tid i token RtSuccess =
     (token, [Toast ''Token atualizado com sucesso.'' ''success'', Invalidate [''sources'', tid], Callback ''onClose'' []])"
| "rotate_handle tid i token (RtError e) = (token, [Toast (detail_msg_or e ''Erro ao atualizar token.'') ''error''])"

definition rotate_view :: "bool \<Rightarrow> string \<Rightarrow> rotate_event vnode" where
  "rotate_view pending token = El ''div'' [OnSelf RtClose]
     [el ''div''
       [el ''div'' [el ''h3'' [Txt ''Trocar token de API''], button [OnClick RtClose] [el ''X'' []]],
        el ''p'' [Txt ''O novo token sera gravado no OpenBao e no arquivo de fallback.'', el ''br'' [],
          Txt ''Revogue o token antigo manualmente em '', el ''strong'' [Txt ''Zabbix -> Administration -> API tokens''], Txt ''.''],
        Field ''Novo token de API do Zabbix *'' None
          (El ''input'' [At ''type'' ''password'', At ''placeholder'' ''Cole o token gerado no Zabbix'', At ''value'' token, OnChange RtToken] []),
        el ''div''
         [button [OnClick RtClose] [Txt ''Cancelar''],
          button [OnClick RtSave, Bo ''disabled'' (trim token = [] \<or> pending)] (jif pending Spinner @ [Txt ''Salvar token''])]]]"

section \<open>The card of a source\<close>

record src_card =
  sk_showRotate :: bool
  sk_confirmRevoke :: bool
  sk_timers :: nat   \<comment> \<open>running refresh timers\<close>

definition src_card_mount :: src_card where
  "src_card_mount = \<lparr>sk_showRotate = False, sk_confirmRevoke = False, sk_timers = 0\<rparr>"

datatype src_card_event =
    SkRecheck | SkRotate | SkRotateClose | SkAskRevoke | SkCancelRevoke | SkRevoke
  | SkRechecked | SkRecheckError | SkTimer | SkRevoked | SkRevokeError mut_error

definition recheck_path :: "string \<Rightarrow> string" where
  "recheck_path i = ''/api/v1/monitoring/sources/'' @ i @ ''/recheck''"

fun src_card_handle :: "string \<Rightarrow> string \<Rightarrow> src_card \<Rightarrow> src_card_event \<Rightarrow> src_card \<times> effect list" where
  "src_card_handle tid i s SkRecheck = (s, [Request ''POST'' (recheck_path i) None])"
| "src_card_handle tid i s SkRechecked =
     (s\<lparr>sk_timers := Suc (sk_timers s)\<rparr>, [Toast ''Revalidacao enfileirada. Aguarde alguns instantes.'' ''success''])"
| "src_card_handle tid i s SkTimer =
     (if 0 < sk_timers s then (s\<lparr>sk_timers := sk_timers s - 1\<rparr>, [Invalidate [''sources'', tid]]) else (s, []))"
| "src_card_handle tid i s SkRecheckError = (s, [Toast ''Erro ao solicitar revalidacao.'' ''error''])"
| "src_card_handle tid i s SkRotate = (s\<lparr>sk_showRotate := True\<rparr>, [])"
| "src_card_handle tid i s SkRotateClose = (s\<lparr>sk_showRotate := False\<rparr>, [])"
| "src_card_handle tid i s SkAskRevoke = (s\<lparr>sk_confirmRevoke := True\<rparr>, [])"
| "src_card_handle tid i s SkCancelRevoke = (s\<lparr>sk_confirmRevoke := False\<rparr>, [])"
| "src_card_handle tid i s SkRevoke = (s, [Request ''DELETE'' (credential_path i) None])"
| "src_card_handle tid i s SkRevoked =
     (s\<lparr>sk_confirmRevoke := False\<rparr>,
      [Toast ''Credencial removida. A fonte perdera acesso ao provider.'' ''success'', Invalidate [''sources'', tid]])"
| "src_card_handle tid i s (SkRevokeError e) = (s, [Toast (detail_msg_or e ''Erro ao revogar credencial.'') ''error''])"

record src_card_props =
  sp_src :: mon_src
  sp_recheckPending :: bool
  sp_revokePending :: bool

definition fact :: "string \<Rightarrow> string \<Rightarrow> 'e vnode" where
  "fact k v = el ''div'' [el ''dt'' [Txt k], el ''dd'' [Txt v]]"

definition src_facts :: "mon_src \<Rightarrow> 'e vnode" where
  "src_facts s = el ''dl''
     (jif (truthy (mo_provider_instance_ref s)) (fact ''Provider'' (nullish (mo_provider_instance_ref s) [])) @
      jif (truthy (mo_provider_base_url s)) (fact ''URL'' (nullish (mo_provider_base_url s) [])) @
      (case mo_configuration_revision s of None \<Rightarrow> [] | Some r \<Rightarrow> [fact ''Config rev'' (str_int r)]) @
      (case mo_scope_revision s of None \<Rightarrow> [] | Some r \<Rightarrow> [fact ''Scope rev'' (str_int r)]))"

definition canRecheck :: "mon_src \<Rightarrow> bool" where
  "canRecheck s \<longleftrightarrow> mo_operational_evidence_state s \<noteq> ''current''"

definition src_card_view :: "src_card_props \<Rightarrow> src_card \<Rightarrow> src_card_event vnode" where
  "src_card_view p s =
     (let m = sp_src p; i = mo_monitoring_source_id m
      in el ''Fragment''
       (jif (sk_showRotate s) (El ''RotateTokenModal'' [At ''sourceId'' i, Prop ''onClose'' SkRotateClose] []) @
        [Card
         [CardHeader [el ''div'' [el ''p'' [Txt (mo_display_name m)], el ''p'' [Txt i]],
            Badge (stateVariant (mo_operational_evidence_state m)) [Txt (mo_operational_evidence_state m)]],
          src_facts m,
          el ''div''
           (jif (canRecheck m)
              (button [OnClick SkRecheck, Bo ''disabled'' (sp_recheckPending p)]
                [if sp_recheckPending p then Spinner else el ''RefreshCw'' [], Txt ''Revalidar'']) @
            [button [OnClick SkRotate] [el ''KeyRound'' [], Txt ''Trocar token''],
             if \<not> sk_confirmRevoke s
             then button [OnClick SkAskRevoke] [el ''Trash2'' [], Txt ''Revogar credencial'']
             else el ''div''
               [button [OnClick SkCancelRevoke] [Txt ''Cancelar''],
                button [OnClick SkRevoke, Bo ''disabled'' (sp_revokePending p)] (jif (sp_revokePending p) Spinner @ [Txt ''Confirmar''])]])]]))"

section \<open>The page\<close>

datatype mon_event = MoAdd | MoAddClose

text \<open>The state tells whether the form is shown.\<close>

fun mon_handle :: "bool \<Rightarrow> mon_event \<Rightarrow> bool \<times> effect list" where
  "mon_handle showAdd MoAdd = (True, [])"
| "mon_handle showAdd MoAddClose = (False, [])"

definition mon_view :: "mon_src list query \<Rightarrow> bool \<Rightarrow> mon_event vnode" where
  "mon_view q showAdd =
     (let sources = nullish (qdata q) []
      in el ''div''
       (jif showAdd (El ''AddSourceModal'' [Prop ''onClose'' MoAddClose] []) @
        [el ''div'' [el ''h2'' [Txt ''Fontes de Monitoramento''],
           el ''div'' (jif (isFetching q) Spinner @ [button [OnClick MoAdd] [el ''Plus'' [], Txt ''Adicionar fonte'']])],
         if isLoading q then el ''div'' [Spinner]
         else if isError q then el ''p'' [Txt ''Falha ao carregar fontes.'']
         else if sources = [] then Card [el ''p'' [Txt (''Nenhuma fonte configurada. Clique em '' @ quoted ''Adicionar fonte'' @ '' para comecar.'')]]
         else el ''div'' (map (\<lambda>s. El ''SourceCard'' [At ''key'' (mo_monitoring_source_id s)] []) sources)]))"

section \<open>The reference of a credential\<close>

lemma slug_char_plain: "slug_char c \<Longrightarrow> \<not> is_space c \<and> low_char c = c"
  by (auto simp: slug_char_def is_space_def low_char_def Let_def)

lemma slugify_id: "s \<noteq> [] \<Longrightarrow> length s \<le> 40 \<Longrightarrow> list_all slug_char s \<Longrightarrow> slugify s = s"
proof -
  assume s: "s \<noteq> []" "length s \<le> 40" "list_all slug_char s"
  then have "toLowerCase s = s" by (auto simp: list_all_iff slug_char_plain intro: map_idI)
  moreover have "split_runs is_space s = [s]" using s(3) by (intro no_sep_split) (auto simp: list_all_iff slug_char_plain)
  moreover have "filter slug_char s = s" using s(3) by (simp add: list_all_iff filter_id_conv)
  ultimately show ?thesis using s by (simp add: slugify_def slice_def str_or_def)
qed

lemma slugify_shape: "slugify s \<noteq> []" "length (slugify s) \<le> 40" "list_all slug_char (slugify s)"
proof -
  have "list_all slug_char (slice 0 40 (filter slug_char t))" for t
    by (auto simp: list_all_iff slice_def dest: in_set_takeD)
  moreover have "list_all slug_char ''cred-binding''" by code_simp
  ultimately show "slugify s \<noteq> []" "length (slugify s) \<le> 40" "list_all slug_char (slugify s)"
    by (auto simp: slugify_def str_or_def)
qed

text \<open>The reference made from a name is never empty, at most forty characters long and holds only lower case
  letters, digits and hyphens; making a reference of it again changes nothing.\<close>

lemma slugify_reference:
  "slugify s \<noteq> [] \<and> length (slugify s) \<le> 40 \<and> list_all slug_char (slugify s) \<and> slugify (slugify s) = slugify s"
  using slugify_shape slugify_id by simp

text \<open>The hint of the form names the reference that is posted.\<close>

lemma hint_is_posted: "jfield (src_body s) ''credential_binding_ref'' = Some (JStr (credRef s))"
  using slugify_shape(1) by (auto simp: src_body_def credRef_def str_or_def jfield_jobj Let_def)

section \<open>Requests\<close>

definition src_form_allowed :: "src_form \<Rightarrow> src_form_event \<Rightarrow> bool" where
  "src_form_allowed s e \<longleftrightarrow> (e = SfAdd \<longrightarrow> sf_display_name s \<noteq> [] \<and> sf_provider_base_url s \<noteq> [])"

definition src_form_net :: "src_form_event \<Rightarrow> bool" where
  "src_form_net e \<longleftrightarrow> (case e of SfSuccess \<Rightarrow> True | SfError _ \<Rightarrow> True | _ \<Rightarrow> False)"

definition source_request :: "effect \<Rightarrow> bool" where
  "source_request f \<longleftrightarrow> \<not> is_request f \<or> (\<exists>name url token ref groups.
     f = Request ''POST'' ''/api/v1/monitoring/sources'' (Some (jobj
       [(''display_name'', Some (JStr name)), (''provider_base_url'', Some (JStr url)), (''api_token'', map_option JStr token),
        (''credential_binding_ref'', Some (JStr ref)), (''host_group_refs'', map_option jstrs groups)]))
     \<and> name \<noteq> [] \<and> url \<noteq> [] \<and> token \<noteq> Some [] \<and> ref \<noteq> [] \<and> groups \<noteq> Some [] \<and> list_all item_ok (nullish groups []))"

lemma source_request_other: "\<not> is_request f \<Longrightarrow> source_request f"
  by (simp add: source_request_def)

lemma src_body_request:
  assumes "sf_display_name s \<noteq> []" "sf_provider_base_url s \<noteq> []"
  shows "source_request (Request ''POST'' ''/api/v1/monitoring/sources'' (Some (src_body s)))"
proof -
  let ?g = "comma_items (sf_host_group_refs s)" and ?t = "sf_api_token s"
  let ?token = "if ?t = [] then None else Some ?t" and ?groups = "if ?g = [] then None else Some ?g"
  have "?token \<noteq> Some []" "?groups \<noteq> Some []" "list_all item_ok (nullish ?groups [])" "credRef s \<noteq> []"
    using comma_items_ok slugify_shape(1) by (simp_all add: credRef_def str_or_def)
  moreover have "src_body s = jobj
       [(''display_name'', Some (JStr (sf_display_name s))), (''provider_base_url'', Some (JStr (sf_provider_base_url s))),
        (''api_token'', map_option JStr ?token), (''credential_binding_ref'', Some (JStr (credRef s))),
        (''host_group_refs'', map_option jstrs ?groups)]"
    using slugify_shape(1) by (simp add: src_body_def credRef_def str_or_def Let_def)
  ultimately show ?thesis unfolding source_request_def using assms by blast
qed

interpretation sf: component "\<lambda>s. s = src_form_mount" src_form_view "src_form_handle tid" src_form_net src_form_allowed
  "\<lambda>s. True" source_request for tid
proof unfold_locales
  show "solo (src_form_view p s)" for p s by (auto simp: src_form_view_def)
  show "offers (src_form_allowed s) (src_form_view p s)" for p s by (auto simp: src_form_view_def src_form_allowed_def)
  show "src_form_net e \<Longrightarrow> src_form_allowed s e" for s e by (cases e) (simp_all add: src_form_net_def src_form_allowed_def)
  show "src_form_allowed s e \<Longrightarrow> list_all source_request (snd (src_form_handle tid s e))" for s e
    by (cases e) (auto simp: src_form_allowed_def intro: src_body_request source_request_other)
qed simp_all

text \<open>Every source ever registered has a name and an address, a token only if one was typed, a non-empty
  credential reference, and host groups only if there are any, each without blanks around it and without commas.\<close>

lemma source_requests:
  "reach (\<lambda>s. s = src_form_mount) src_form_view (src_form_handle tid) src_form_net s log \<Longrightarrow> list_all source_request log"
  using sf.reach_inv by blast

section \<open>Cards\<close>

definition src_card_allowed :: "src_card_props \<Rightarrow> src_card \<Rightarrow> src_card_event \<Rightarrow> bool" where
  "src_card_allowed p s e \<longleftrightarrow> (case e of
      SkRecheck \<Rightarrow> mo_operational_evidence_state (sp_src p) \<noteq> ''current'' \<and> \<not> sp_recheckPending p
    | SkRevoke \<Rightarrow> sk_confirmRevoke s \<and> \<not> sp_revokePending p
    | SkAskRevoke \<Rightarrow> \<not> sk_confirmRevoke s
    | SkCancelRevoke \<Rightarrow> sk_confirmRevoke s
    | SkRotateClose \<Rightarrow> sk_showRotate s
    | _ \<Rightarrow> e = SkRotate)"

lemma src_card_laws: "solo (src_card_view p s)" "offers (src_card_allowed p s) (src_card_view p s)"
  by (auto simp: src_card_view_def src_facts_def fact_def canRecheck_def src_card_allowed_def Let_def split: option.split)

text \<open>A click in the card of a source does one thing only; a credential is revoked only after the question was
  asked and not while a revocation is pending, a source is rechecked only while its evidence is not current.\<close>

lemma source_card_guarded:
  "fires (src_card_view p s) x es \<Longrightarrow> e \<in> set es \<Longrightarrow> es = [e] \<and> src_card_allowed p s e"
  by (rule fires_one [OF _ src_card_laws])

theorem source_requests_witness:
  "list_all source_request [Request ''POST'' ''/api/v1/monitoring/sources'' (Some (jobj
     [(''display_name'', Some (JStr ''DC 1'')), (''provider_base_url'', Some (JStr ''u'')), (''api_token'', None),
      (''credential_binding_ref'', Some (JStr ''dc-1'')), (''host_group_refs'', Some (jstrs [''2'', ''Linux'']))]))]"
proof -
  let ?r = "reach (\<lambda>s. s = src_form_mount) src_form_view (src_form_handle ''t1'') src_form_net"
  let ?s = "src_form_mount\<lparr>sf_display_name := ''DC 1'', sf_provider_base_url := ''u'', sf_host_group_refs := ''2,, Linux ''\<rparr>"
  have "?r src_form_mount []" by (rule reach.mount) simp
  then have "?r (src_form_mount\<lparr>sf_display_name := ''DC 1''\<rparr>) []"
    by (rule reach_enter [where e = "SfName ''DC 1''" and x = "''DC 1''" and p = False]) (simp_all add: src_form_view_def Field_def enterable_def)
  then have "?r (src_form_mount\<lparr>sf_display_name := ''DC 1'', sf_provider_base_url := ''u''\<rparr>) []"
    by (rule reach_enter [where e = "SfUrl ''u''" and x = "''u''" and p = False]) (simp_all add: src_form_view_def Field_def enterable_def)
  then have "?r ?s []"
    by (rule reach_enter [where e = "SfGroups ''2,, Linux ''" and x = "''2,, Linux ''" and p = False]) (simp_all add: src_form_view_def Field_def enterable_def)
  then have "?r ?s ([] @ [Request ''POST'' ''/api/v1/monitoring/sources'' (Some (src_body ?s))])"
    by (rule reach_click [where e = SfAdd and p = False]) (simp_all add: src_form_view_def src_form_mount_def can_click_El)
  moreover have "src_body ?s = jobj
     [(''display_name'', Some (JStr ''DC 1'')), (''provider_base_url'', Some (JStr ''u'')), (''api_token'', None),
      (''credential_binding_ref'', Some (JStr ''dc-1'')), (''host_group_refs'', Some (jstrs [''2'', ''Linux'']))]"
    by code_simp
  ultimately show ?thesis using source_requests by fastforce
qed

theorem source_card_guarded_witness:
  "src_card_allowed \<lparr>sp_src = \<lparr>mo_monitoring_source_id = ''s1'', mo_display_name = ''DC 1'', mo_operational_evidence_state = ''stale'',
      mo_provider_instance_ref = None, mo_provider_base_url = None, mo_configuration_revision = None, mo_scope_revision = None\<rparr>,
      sp_recheckPending = False, sp_revokePending = False\<rparr> src_card_mount SkRecheck"
proof -
  let ?p = "\<lparr>sp_src = \<lparr>mo_monitoring_source_id = ''s1'', mo_display_name = ''DC 1'', mo_operational_evidence_state = ''stale'',
      mo_provider_instance_ref = None, mo_provider_base_url = None, mo_configuration_revision = None, mo_scope_revision = None\<rparr>,
      sp_recheckPending = False, sp_revokePending = False\<rparr>"
  have "can_click (src_card_view ?p src_card_mount) [SkRecheck]"
    by (simp add: src_card_view_def src_card_mount_def canRecheck_def can_click_El Card_def Let_def)
  then have "fires (src_card_view ?p src_card_mount) [] [SkRecheck]" by (rule can_click_fires)
  from source_card_guarded [OF this, of SkRecheck] show ?thesis by simp
qed

end
