(* ===== verification/Reports.thy ===== *)
theory Reports
  imports UiKit
begin

text \<open>
  Scheduled reports, \<open>pages/ReportsPage.tsx\<close>: the forms of a template and of a schedule, the subscribers of a
  schedule, and the page with its three tabs and the confirmed deletions.
\<close>

section \<open>Data\<close>

record template =
  te_template_id :: string
  te_name :: string
  te_report_type :: string
  te_delivery_email :: string
  te_enabled :: bool
  te_created_at :: string

record report_schedule =
  rs_report_schedule_id :: string
  rs_template_id :: string
  rs_template_name :: string
  rs_report_type :: string
  rs_delivery_email :: string
  rs_interval_secs :: int
  rs_last_sent_at :: "string option"
  rs_next_send_at :: string
  rs_enabled :: bool

record delivery =
  dv_delivery_id :: string
  dv_report_type :: string
  dv_recipient :: string
  dv_outcome :: string
  dv_error_detail :: "string option"
  dv_period_start :: string
  dv_period_end :: string
  dv_row_count :: "int option"
  dv_delivered_at :: "string option"
  dv_created_at :: string

definition email_list :: "string \<Rightarrow> string list" where
  "email_list v = (if v \<noteq> [] then comma_items v else [])"

definition EmailList :: "string \<Rightarrow> 'e vnode" where
  "EmailList v = (if email_list v = [] then el ''span'' [Txt ''Nao configurado'']
     else el ''Fragment'' (map (\<lambda>e. El ''span'' [At ''key'' e] [Txt e]) (email_list v)))"

definition REPORT_TYPES :: "(string \<times> string) list" where
  "REPORT_TYPES = [(''alert_summary'', ''Alert Summary''), (''sla_summary'', ''SLA Breach Summary''),
     (''incident_summary'', ''Incident Summary'')]"

definition report_label :: "string \<Rightarrow> string" where
  "report_label t = nullish (map_of REPORT_TYPES t) t"

definition DELIVERY_VARIANTS :: "(string \<times> string) list" where
  "DELIVERY_VARIANTS = [(''pending'', ''warning''), (''sent'', ''success''), (''failed'', ''danger'')]"

definition rep_fmtTs :: "host \<Rightarrow> string option \<Rightarrow> string" where
  "rep_fmtTs h ts = (if truthy ts then locale_ts h (nullish ts []) else ''--'')"

definition rep_fmtDate :: "host \<Rightarrow> string option \<Rightarrow> string" where
  "rep_fmtDate h d = (if truthy d then locale_date h (nullish d []) else ''--'')"

definition fmtInterval :: "int \<Rightarrow> string" where
  "fmtInterval s =
     (if s < 7200 then ''every '' @ str_int (math_round_div s 3600) @ ''h''
      else if s < 86400 then ''every '' @ str_int (math_round_div s 3600) @ ''h''
      else ''every '' @ str_int (math_round_div s 86400) @ ''d'')"

section \<open>New template\<close>

record template_form =
  tf_name :: string
  tf_type :: string
  tf_email :: string
  tf_err :: "string option"

definition template_form_mount :: template_form where
  "template_form_mount = \<lparr>tf_name = [], tf_type = ''alert_summary'', tf_email = [], tf_err = None\<rparr>"

datatype template_form_event =
    TfName string | TfType string | TfEmail string | TfCreate | TfDone | TfSuccess | TfError mut_error

definition template_body :: "template_form \<Rightarrow> json" where
  "template_body s = jobj [(''name'', Some (JStr (tf_name s))), (''report_type'', Some (JStr (tf_type s))),
     (''delivery_email'', Some (JStr (tf_email s)))]"

fun template_form_handle :: "string \<Rightarrow> template_form \<Rightarrow> template_form_event \<Rightarrow> template_form \<times> effect list" where
  "template_form_handle tid s (TfName x) = (s\<lparr>tf_name := x\<rparr>, [])"
| "template_form_handle tid s (TfType x) = (s\<lparr>tf_type := x\<rparr>, [])"
| "template_form_handle tid s (TfEmail x) = (s\<lparr>tf_email := x\<rparr>, [])"
| "template_form_handle tid s TfCreate =
     (s\<lparr>tf_err := None\<rparr>, [Request ''POST'' ''/api/v1/reports/templates'' (Some (template_body s))])"
| "template_form_handle tid s TfDone = (s, [Callback ''onDone'' []])"
| "template_form_handle tid s TfSuccess = (s, [Invalidate [''report-templates'', tid], Callback ''onDone'' []])"
| "template_form_handle tid s (TfError e) = (s\<lparr>tf_err := Some (detail_or e ''Failed.'')\<rparr>, [])"

definition template_form_view :: "bool \<Rightarrow> template_form \<Rightarrow> template_form_event vnode" where
  "template_form_view pending s = Card
     ([el ''h3'' [Txt ''New report template''],
       el ''div'' [el ''label'' [Txt ''Name''],
         El ''input'' [At ''value'' (tf_name s), OnChange TfName, At ''placeholder'' ''e.g. Weekly alert digest''] []],
       el ''div''
        [el ''div'' [el ''label'' [Txt ''Report type''], select_view (tf_type s) TfType REPORT_TYPES],
         el ''div'' [el ''label'' [Txt ''Delivery email''],
           El ''input'' [At ''type'' ''email'', At ''value'' (tf_email s), OnChange TfEmail, At ''placeholder'' ''ops@example.com''] []]]] @
      jif (truthy (tf_err s)) (el ''p'' [Txt (nullish (tf_err s) [])]) @
      [el ''div''
        [Button ''primary'' ''sm'' [OnClick TfCreate, Bo ''disabled'' (pending \<or> trim (tf_name s) = [] \<or> trim (tf_email s) = [])]
           (jif pending Spinner @ [Txt ''Create'']),
         Button ''secondary'' ''sm'' [OnClick TfDone] [Txt ''Cancel'']]])"

section \<open>New schedule\<close>

record rep_schedule_form =
  rf_templateId :: string
  rf_intervalHours :: string
  rf_err :: "string option"

definition rep_schedule_mount :: "template list \<Rightarrow> rep_schedule_form" where
  "rep_schedule_mount ts = \<lparr>rf_templateId = (case ts of [] \<Rightarrow> [] | t # _ \<Rightarrow> te_template_id t),
     rf_intervalHours = ''24'', rf_err = None\<rparr>"

datatype rep_schedule_event =
    RfTemplate string | RfInterval string | RfSchedule | RfDone | RfSuccess | RfError mut_error

definition rep_schedule_body :: "rep_schedule_form \<Rightarrow> json" where
  "rep_schedule_body s = jobj
     [(''template_id'', Some (JStr (rf_templateId s))),
      (''interval_secs'', Some (JNum (case parseInt (rf_intervalHours s) of None \<Rightarrow> JNaN | Some n \<Rightarrow> JInt (n * 3600))))]"

fun rep_schedule_handle :: "string \<Rightarrow> rep_schedule_form \<Rightarrow> rep_schedule_event \<Rightarrow> rep_schedule_form \<times> effect list" where
  "rep_schedule_handle tid s (RfTemplate x) = (s\<lparr>rf_templateId := x\<rparr>, [])"
| "rep_schedule_handle tid s (RfInterval x) = (s\<lparr>rf_intervalHours := x\<rparr>, [])"
| "rep_schedule_handle tid s RfSchedule =
     (s\<lparr>rf_err := None\<rparr>, [Request ''POST'' ''/api/v1/reports/schedules'' (Some (rep_schedule_body s))])"
| "rep_schedule_handle tid s RfDone = (s, [Callback ''onDone'' []])"
| "rep_schedule_handle tid s RfSuccess = (s, [Invalidate [''report-schedules'', tid], Callback ''onDone'' []])"
| "rep_schedule_handle tid s (RfError e) = (s\<lparr>rf_err := Some (detail_or e ''Failed.'')\<rparr>, [])"

definition template_options :: "template list \<Rightarrow> (string \<times> string) list" where
  "template_options ts = map (\<lambda>t. (te_template_id t, te_name t)) (filter te_enabled ts)"

definition rep_schedule_view :: "template list \<Rightarrow> bool \<Rightarrow> rep_schedule_form \<Rightarrow> rep_schedule_event vnode" where
  "rep_schedule_view ts pending s = Card
     ([el ''h3'' [Txt ''Schedule report''],
       el ''div'' [el ''label'' [Txt ''Template''], select_view (rf_templateId s) RfTemplate (template_options ts)],
       el ''div'' [el ''label'' [Txt ''Interval (hours, min 1)''],
         El ''input'' [At ''type'' ''number'', At ''min'' ''1'', At ''value'' (rf_intervalHours s), OnChange RfInterval] []]] @
      jif (truthy (rf_err s)) (el ''p'' [Txt (nullish (rf_err s) [])]) @
      [el ''div''
        [Button ''primary'' ''sm'' [OnClick RfSchedule, Bo ''disabled'' (pending \<or> rf_templateId s = [])]
           (jif pending Spinner @ [Txt ''Schedule'']),
         Button ''secondary'' ''sm'' [OnClick RfDone] [Txt ''Cancel'']]])"

section \<open>Subscribers of a schedule\<close>

record sub_props =
  ub_scheduleId :: string
  ub_subscribers :: "string list query"
  ub_addPending :: bool
  ub_removePending :: bool

datatype sub_event =
    UbEmail string | UbEnter | UbAdd | UbRemove string
  | UbAdded | UbAddError mut_error | UbRemoved | UbRemoveError mut_error

definition subscribers_path :: "string \<Rightarrow> string" where
  "subscribers_path i = ''/api/v1/reports/schedules/'' @ i @ ''/subscribers''"

definition subscriber_path :: "string \<Rightarrow> string \<Rightarrow> string" where
  "subscriber_path i email = subscribers_path i @ ''/'' @ encodeURIComponent email"

definition add_subscriber :: "string \<Rightarrow> string \<Rightarrow> effect list" where
  "add_subscriber i email =
     [Request ''POST'' (subscribers_path i) (Some (jobj [(''email'', Some (JStr (trim email)))]))]"

text \<open>The state is the text of the field.\<close>

fun sub_handle :: "string \<Rightarrow> string \<Rightarrow> sub_event \<Rightarrow> string \<times> effect list" where
  "sub_handle i email (UbEmail x) = (x, [])"
| "sub_handle i email UbEnter = (email, add_subscriber i email)"
| "sub_handle i email UbAdd = (email, add_subscriber i email)"
| "sub_handle i email (UbRemove x) = (email, [Request ''DELETE'' (subscriber_path i x) None])"
| "sub_handle i email UbAdded = ([], [Invalidate [''schedule-subscribers'', i], Toast ''Assinante adicionado.'' ''success''])"
| "sub_handle i email (UbAddError e) = (email, [Toast (detail_or e ''Erro ao adicionar assinante.'') ''error''])"
| "sub_handle i email UbRemoved = (email, [Invalidate [''schedule-subscribers'', i], Toast ''Assinante removido.'' ''success''])"
| "sub_handle i email (UbRemoveError e) = (email, [Toast (detail_or e ''Erro ao remover assinante.'') ''error''])"

definition sub_view :: "sub_props \<Rightarrow> string \<Rightarrow> sub_event vnode" where
  "sub_view p email =
     (let xs = nullish (qdata (ub_subscribers p)) []
      in el ''div''
       [el ''h4'' [Txt ''Assinantes''],
        if isLoading (ub_subscribers p) then Spinner
        else el ''div'' (if xs = [] then [el ''span'' [Txt ''Nenhum assinante.'']]
          else map (\<lambda>e. El ''span'' [At ''key'' e]
            [Txt e, button [OnClick (UbRemove e), Bo ''disabled'' (ub_removePending p), At ''title'' ''Remover assinante''] [Txt ''x'']]) xs),
        el ''div''
         [El ''input'' ([At ''type'' ''email'', At ''value'' email, OnChange UbEmail] @ jif (trim email \<noteq> []) (OnEnter UbEnter) @
            [At ''placeholder'' ''cliente@empresa.com'']) [],
          Button ''primary'' ''sm'' [OnClick UbAdd, Bo ''disabled'' (ub_addPending p \<or> trim email = [])]
            (jif (ub_addPending p) Spinner @ [Txt ''Adicionar''])]])"

section \<open>The page\<close>

record reports =
  rp_tab :: string
  rp_creatingTemplate :: bool
  rp_creatingSchedule :: bool
  rp_confirmDeleteTemplateId :: "string option"
  rp_confirmDeleteScheduleId :: "string option"
  rp_expandedScheduleId :: "string option"

definition reports_mount :: reports where
  "reports_mount = \<lparr>rp_tab = ''templates'', rp_creatingTemplate = False, rp_creatingSchedule = False,
     rp_confirmDeleteTemplateId = None, rp_confirmDeleteScheduleId = None, rp_expandedScheduleId = None\<rparr>"

record reports_props =
  rq_host :: host
  rq_templates :: "template list query"
  rq_schedules :: "report_schedule list query"
  rq_deliveries :: "delivery list query"
  rq_triggerPending :: bool
  rq_deleteTemplatePending :: bool
  rq_deleteSchedulePending :: bool

datatype reports_event =
    RpTab string | RpNewTemplate | RpNewSchedule | RpTemplateDone | RpScheduleDone
  | RpTrigger string | RpTriggered | RpTriggerError
  | RpAskTemplate string | RpDeleteTemplate string | RpKeepTemplate | RpTemplateDeleted | RpTemplateDeleteError
  | RpAskSchedule string | RpDeleteSchedule string | RpKeepSchedule | RpScheduleDeleted | RpScheduleDeleteError
  | RpExpand string

definition template_path :: "string \<Rightarrow> string" where
  "template_path i = ''/api/v1/reports/templates/'' @ i"

definition report_schedule_path :: "string \<Rightarrow> string" where
  "report_schedule_path i = ''/api/v1/reports/schedules/'' @ i"

definition report_trigger_path :: "string \<Rightarrow> string" where
  "report_trigger_path i = template_path i @ ''/trigger''"

fun reports_handle :: "string \<Rightarrow> reports \<Rightarrow> reports_event \<Rightarrow> reports \<times> effect list" where
  "reports_handle tid s (RpTab t) = (s\<lparr>rp_tab := t\<rparr>, [])"
| "reports_handle tid s RpNewTemplate = (s\<lparr>rp_creatingTemplate := True\<rparr>, [])"
| "reports_handle tid s RpNewSchedule = (s\<lparr>rp_creatingSchedule := True\<rparr>, [])"
| "reports_handle tid s RpTemplateDone = (s\<lparr>rp_creatingTemplate := False\<rparr>, [])"
| "reports_handle tid s RpScheduleDone = (s\<lparr>rp_creatingSchedule := False\<rparr>, [])"
| "reports_handle tid s (RpTrigger i) = (s, [Request ''POST'' (report_trigger_path i) (Some (jobj []))])"
| "reports_handle tid s RpTriggered = (s, [Toast ''Relatorio enviado.'' ''success''])"
| "reports_handle tid s RpTriggerError = (s, [Toast ''Erro ao enviar relatorio.'' ''error''])"
| "reports_handle tid s (RpAskTemplate i) = (s\<lparr>rp_confirmDeleteTemplateId := Some i\<rparr>, [])"
| "reports_handle tid s (RpDeleteTemplate i) = (s, [Request ''DELETE'' (template_path i) None])"
| "reports_handle tid s RpKeepTemplate = (s\<lparr>rp_confirmDeleteTemplateId := None\<rparr>, [])"
| "reports_handle tid s RpTemplateDeleted =
     (s\<lparr>rp_confirmDeleteTemplateId := None\<rparr>,
      [Invalidate [''report-templates'', tid], Toast ''Template excluido.'' ''success''])"
| "reports_handle tid s RpTemplateDeleteError =
     (s\<lparr>rp_confirmDeleteTemplateId := None\<rparr>, [Toast ''Erro ao excluir template.'' ''error''])"
| "reports_handle tid s (RpAskSchedule i) = (s\<lparr>rp_confirmDeleteScheduleId := Some i\<rparr>, [])"
| "reports_handle tid s (RpDeleteSchedule i) = (s, [Request ''DELETE'' (report_schedule_path i) None])"
| "reports_handle tid s RpKeepSchedule = (s\<lparr>rp_confirmDeleteScheduleId := None\<rparr>, [])"
| "reports_handle tid s RpScheduleDeleted =
     (s\<lparr>rp_confirmDeleteScheduleId := None\<rparr>,
      [Invalidate [''report-schedules'', tid], Toast ''Agendamento excluido.'' ''success''])"
| "reports_handle tid s RpScheduleDeleteError =
     (s\<lparr>rp_confirmDeleteScheduleId := None\<rparr>, [Toast ''Erro ao excluir agendamento.'' ''error''])"
| "reports_handle tid s (RpExpand i) =
     (s\<lparr>rp_expandedScheduleId := (if rp_expandedScheduleId s = Some i then None else Some i)\<rparr>, [])"

definition reports_tabs :: "(string \<times> string) list" where
  "reports_tabs = [(''templates'', ''Templates''), (''schedules'', ''Schedules''), (''history'', ''Delivery history'')]"

definition template_row :: "reports_props \<Rightarrow> template \<Rightarrow> reports_event vnode" where
  "template_row p t = El ''tr'' [At ''key'' (te_template_id t)]
     [el ''td'' [Txt (te_name t)],
      el ''td'' [Txt (report_label (te_report_type t))],
      el ''td'' [EmailList (te_delivery_email t)],
      el ''td'' [Badge (if te_enabled t then ''success'' else ''muted'') [Txt (if te_enabled t then ''active'' else ''disabled'')]],
      el ''td'' [el ''div''
        (jif (te_enabled t) (button [OnClick (RpTrigger (te_template_id t)), Bo ''disabled'' (rq_triggerPending p)] [Txt ''Enviar agora'']) @
         [button [OnClick (RpAskTemplate (te_template_id t))] [Txt ''Excluir'']])]]"

definition report_schedule_row :: "host \<Rightarrow> reports \<Rightarrow> report_schedule \<Rightarrow> reports_event vnode list" where
  "report_schedule_row h s x =
     (let open' = rp_expandedScheduleId s = Some (rs_report_schedule_id x)
      in el ''tr''
        [el ''td'' [Txt (rs_template_name x)],
         el ''td'' [EmailList (rs_delivery_email x)],
         el ''td'' [Txt (fmtInterval (rs_interval_secs x))],
         el ''td'' [Txt (rep_fmtTs h (Some (rs_next_send_at x)))],
         el ''td'' [el ''div''
           [button [OnClick (RpExpand (rs_report_schedule_id x))] [Txt (if open' then ''Fechar'' else ''Assinantes'')],
            button [OnClick (RpAskSchedule (rs_report_schedule_id x))] [Txt ''Excluir'']]]]
        # jif open' (el ''tr'' [El ''td'' [At ''colSpan'' ''5'']
            [El ''ScheduleSubscribersPanel'' [At ''scheduleId'' (rs_report_schedule_id x)] []]]))"

definition delivery_row :: "host \<Rightarrow> delivery \<Rightarrow> reports_event vnode" where
  "delivery_row h d = El ''tr'' [At ''key'' (dv_delivery_id d)]
     [el ''td'' [Badge (nullish (map_of DELIVERY_VARIANTS (dv_outcome d)) ''muted'') [Txt (dv_outcome d)]],
      el ''td'' [Txt (report_label (dv_report_type d))],
      el ''td'' [Txt (dv_recipient d)],
      el ''td'' [Txt (rep_fmtDate h (Some (dv_period_start d))), Txt '' -> '',
        Txt (if dv_period_end d \<noteq> [] then rep_fmtDate h (Some (dv_period_end d)) else ''--'')],
      el ''td'' [Txt (nullish (map_option str_int (dv_row_count d)) ''--'')],
      el ''td'' [Txt (rep_fmtTs h (dv_delivered_at d))]]"

definition template_modal :: "reports_props \<Rightarrow> reports \<Rightarrow> reports_event vnode list" where
  "template_modal p s = ask_modal (rp_confirmDeleteTemplateId s) te_template_id (nullish (qdata (rq_templates p)) [])
     (\<lambda>i t. \<lparr>cm_title = ''Excluir template'',
       cm_description = ''Excluir permanentemente o template '' @ quoted (te_name t) @
         ''? Agendamentos associados tambem serao removidos.'',
       cm_confirmLabel = Some ''Excluir'', cm_cancelLabel = Some ''Cancelar'', cm_destructive = True,
       cm_isPending = rq_deleteTemplatePending p, cm_onConfirm = RpDeleteTemplate i, cm_onCancel = RpKeepTemplate\<rparr>)"

definition schedule_modal :: "reports_props \<Rightarrow> reports \<Rightarrow> reports_event vnode list" where
  "schedule_modal p s = ask_modal (rp_confirmDeleteScheduleId s) rs_report_schedule_id (nullish (qdata (rq_schedules p)) [])
     (\<lambda>i x. \<lparr>cm_title = ''Excluir agendamento'',
       cm_description = ''Excluir permanentemente o agendamento do template '' @ quoted (rs_template_name x) @ ''?'',
       cm_confirmLabel = Some ''Excluir'', cm_cancelLabel = Some ''Cancelar'', cm_destructive = True,
       cm_isPending = rq_deleteSchedulePending p, cm_onConfirm = RpDeleteSchedule i, cm_onCancel = RpKeepSchedule\<rparr>)"

definition reports_view :: "reports_props \<Rightarrow> reports \<Rightarrow> reports_event vnode" where
  "reports_view p s =
     (let tab = rp_tab s; h = rq_host p
      in el ''div''
       ([el ''div''
          ([el ''div'' [el ''h2'' [Txt ''Scheduled Reports''], el ''p'' [Txt ''Email reports on alerts, SLA breaches, and incidents.'']]] @
           jif (tab = ''templates'' \<and> \<not> rp_creatingTemplate s) (Button ''primary'' ''sm'' [OnClick RpNewTemplate] [Txt ''New template'']) @
           jif (tab = ''schedules'' \<and> \<not> rp_creatingSchedule s) (Button ''primary'' ''sm'' [OnClick RpNewSchedule] [Txt ''Schedule report'']))] @
        jif (rp_creatingTemplate s \<and> tab = ''templates'') (El ''CreateTemplateForm'' [Prop ''onDone'' RpTemplateDone] []) @
        jif (rp_creatingSchedule s \<and> tab = ''schedules'') (El ''AddScheduleForm'' [Prop ''onDone'' RpScheduleDone] []) @
        [tab_bar RpTab reports_tabs] @
        jif (tab = ''templates'') (Card [list_table (rq_templates p) ''No report templates.''
          [''Name'', ''Type'', ''Email de entrega'', ''Status'', []] (\<lambda>t. [template_row p t])]) @
        jif (tab = ''schedules'') (Card [list_table (rq_schedules p) ''No schedules.''
          [''Template'', ''Email de entrega'', ''Interval'', ''Next send'', []] (report_schedule_row h s)]) @
        jif (tab = ''history'') (Card [list_table (rq_deliveries p) ''No deliveries yet.''
          [''Outcome'', ''Type'', ''Recipient'', ''Period'', ''Rows'', ''Sent at''] (\<lambda>d. [delivery_row h d])]) @
        template_modal p s @ schedule_modal p s))"

section \<open>Forms: properties\<close>

definition template_form_ok :: "template_form \<Rightarrow> bool" where
  "template_form_ok s \<longleftrightarrow> tf_type s \<in> set (map fst REPORT_TYPES)"

definition template_form_allowed :: "template_form \<Rightarrow> template_form_event \<Rightarrow> bool" where
  "template_form_allowed s e \<longleftrightarrow> (case e of
      TfType x \<Rightarrow> x \<in> set (map fst REPORT_TYPES)
    | TfCreate \<Rightarrow> trim (tf_name s) \<noteq> [] \<and> trim (tf_email s) \<noteq> []
    | _ \<Rightarrow> True)"

definition template_form_net :: "template_form_event \<Rightarrow> bool" where
  "template_form_net e \<longleftrightarrow> (case e of TfSuccess \<Rightarrow> True | TfError _ \<Rightarrow> True | _ \<Rightarrow> False)"

definition template_request :: "effect \<Rightarrow> bool" where
  "template_request f \<longleftrightarrow> \<not> is_request f \<or> (\<exists>name type email. f = Request ''POST'' ''/api/v1/reports/templates''
     (Some (jobj [(''name'', Some (JStr name)), (''report_type'', Some (JStr type)), (''delivery_email'', Some (JStr email))]))
     \<and> trim name \<noteq> [] \<and> type \<in> set (map fst REPORT_TYPES) \<and> trim email \<noteq> [])"

interpretation tf: component "\<lambda>s. s = template_form_mount" template_form_view "template_form_handle tid" template_form_net
  template_form_allowed template_form_ok template_request for tid
proof unfold_locales
  show "s = template_form_mount \<Longrightarrow> template_form_ok s" for s
    by (simp add: template_form_ok_def template_form_mount_def REPORT_TYPES_def)
  show "solo (template_form_view p s)" for p s by (auto simp: template_form_view_def)
  show "offers (template_form_allowed s) (template_form_view p s)" for p s
    by (auto simp: template_form_view_def template_form_allowed_def)
  show "template_form_net e \<Longrightarrow> template_form_allowed s e" for s e
    by (cases e) (simp_all add: template_form_net_def template_form_allowed_def)
  show "template_form_ok s \<Longrightarrow> template_form_allowed s e \<Longrightarrow> template_form_ok (fst (template_form_handle tid s e))" for s e
    by (cases e) (simp_all add: template_form_ok_def template_form_allowed_def)
  show "template_form_ok s \<Longrightarrow> template_form_allowed s e \<Longrightarrow> list_all template_request (snd (template_form_handle tid s e))" for s e
    by (cases e) (auto simp: template_request_def template_form_ok_def template_form_allowed_def template_body_def)
qed

lemma template_requests:
  "reach (\<lambda>s. s = template_form_mount) template_form_view (template_form_handle tid) template_form_net s log \<Longrightarrow>
   list_all template_request log"
  using tf.reach_inv by blast

text \<open>The schedule form starts on the first template even when it is disabled and not offered.\<close>

lemma schedule_of_disabled_template:
  assumes "\<not> te_enabled t" "te_template_id t \<noteq> []" "\<forall>u \<in> set ts. te_template_id u \<noteq> te_template_id t"
  shows "can_click (rep_schedule_view (t # ts) False (rep_schedule_mount (t # ts))) [RfSchedule]
    \<and> te_template_id t \<notin> set (map fst (template_options (t # ts)))
    \<and> rf_templateId (rep_schedule_mount (t # ts)) = te_template_id t"
  using assms by (auto simp: rep_schedule_view_def Card_def can_click_El rep_schedule_mount_def template_options_def)

text \<open>The interval of a schedule is shown as it was entered when it is less than a day or a whole number of days.\<close>

lemma interval_shown:
  assumes "0 \<le> n"
  shows "jfield (rep_schedule_body (s\<lparr>rf_intervalHours := str_int n\<rparr>)) ''interval_secs'' = Some (JNum (JInt (n * 3600)))"
    and "n < 24 \<Longrightarrow> fmtInterval (n * 3600) = ''every '' @ str_int n @ ''h''"
    and "0 < n \<Longrightarrow> fmtInterval (24 * n * 3600) = ''every '' @ str_int n @ ''d''"
proof -
  show "jfield (rep_schedule_body (s\<lparr>rf_intervalHours := str_int n\<rparr>)) ''interval_secs'' = Some (JNum (JInt (n * 3600)))"
    by (simp add: rep_schedule_body_def jfield_jobj)
  show "n < 24 \<Longrightarrow> fmtInterval (n * 3600) = ''every '' @ str_int n @ ''h''"
    using math_round_exact [of 3600 n] by (simp add: fmtInterval_def)
  have "24 * n * 3600 = n * 86400" by simp
  then show "0 < n \<Longrightarrow> fmtInterval (24 * n * 3600) = ''every '' @ str_int n @ ''d''"
    using math_round_exact [of 86400 n] by (simp add: fmtInterval_def mult.commute)
qed

text \<open>Thirty-six hours are shown as two days.\<close>

lemma interval_rounded: "fmtInterval (36 * 3600) = ''every 2d''"
  by code_simp

section \<open>Subscribers: properties\<close>

text \<open>The path of a removal names its subscriber: no two addresses share one, and none reaches beyond its segment.\<close>

lemma subscriber_path_inj: "subscriber_path i e = subscriber_path i e' \<longleftrightarrow> e = e'"
  using encodeURIComponent_inj by (auto simp: subscriber_path_def)

definition sub_allowed :: "sub_props \<Rightarrow> string \<Rightarrow> sub_event \<Rightarrow> bool" where
  "sub_allowed p email e \<longleftrightarrow> (case e of
      UbEmail _ \<Rightarrow> True
    | UbEnter \<Rightarrow> trim email \<noteq> []
    | UbAdd \<Rightarrow> trim email \<noteq> [] \<and> \<not> ub_addPending p
    | UbRemove x \<Rightarrow> x \<in> set (nullish (qdata (ub_subscribers p)) []) \<and> \<not> ub_removePending p
    | _ \<Rightarrow> False)"

lemma sub_view_laws: "solo (sub_view p s)" "offers (sub_allowed p s) (sub_view p s)"
  by (auto simp: sub_view_def sub_allowed_def Let_def)

text \<open>A subscriber is removed only as listed and not while a removal is pending, and added only with a non-blank
  address; the button cannot add while an addition is pending, but the Enter key still can.\<close>

lemma subscribers_guarded:
  "(fires (sub_view p s) x es \<longrightarrow> list_all (sub_allowed p s) es \<and> length es \<le> 1)
   \<and> (fires (sub_view p s) x [UbAdd] \<longleftrightarrow> trim s \<noteq> [] \<and> \<not> ub_addPending p)
   \<and> (fires (sub_view p s) x [UbEnter] \<longleftrightarrow> trim s \<noteq> [])"
proof (intro conjI impI iffI)
  assume f: "fires (sub_view p s) x es"
  show "list_all (sub_allowed p s) es" using f sub_view_laws(2) by (rule fires_offers)
  show "length es \<le> 1" using f sub_view_laws(1) by (rule fires_solo)
next
  assume "fires (sub_view p s) x [UbAdd]"
  from fires_offers [OF this sub_view_laws(2)] show "trim s \<noteq> []" "\<not> ub_addPending p" by (simp_all add: sub_allowed_def)
next
  assume "trim s \<noteq> [] \<and> \<not> ub_addPending p"
  then have "can_click (sub_view p s) [UbAdd]" by (simp add: sub_view_def can_click_El Let_def)
  then show "fires (sub_view p s) x [UbAdd]" by (rule can_click_fires)
next
  assume "fires (sub_view p s) x [UbEnter]"
  from fires_offers [OF this sub_view_laws(2)] show "trim s \<noteq> []" by (simp add: sub_allowed_def)
next
  assume "trim s \<noteq> []"
  then have "UbEnter \<in> set (enters (sub_view p s))" by (simp add: sub_view_def Let_def)
  then show "fires (sub_view p s) x [UbEnter]" by (auto simp: fires_def)
qed

section \<open>Page: properties\<close>

definition reports_allowed :: "reports_props \<Rightarrow> reports \<Rightarrow> reports_event \<Rightarrow> bool" where
  "reports_allowed p s e \<longleftrightarrow> (let ts = nullish (qdata (rq_templates p)) []; xs = nullish (qdata (rq_schedules p)) [] in case e of
      RpTab t \<Rightarrow> t \<in> set (map fst reports_tabs)
    | RpTrigger i \<Rightarrow> \<not> rq_triggerPending p \<and> (\<exists>t \<in> set ts. te_template_id t = i \<and> te_enabled t)
    | RpAskTemplate i \<Rightarrow> i \<in> te_template_id ` set ts
    | RpDeleteTemplate i \<Rightarrow> rp_confirmDeleteTemplateId s = Some i \<and> \<not> rq_deleteTemplatePending p \<and> i \<in> te_template_id ` set ts
    | RpAskSchedule i \<Rightarrow> i \<in> rs_report_schedule_id ` set xs
    | RpExpand i \<Rightarrow> i \<in> rs_report_schedule_id ` set xs
    | RpDeleteSchedule i \<Rightarrow> rp_confirmDeleteScheduleId s = Some i \<and> \<not> rq_deleteSchedulePending p
        \<and> i \<in> rs_report_schedule_id ` set xs
    | _ \<Rightarrow> e \<in> {RpNewTemplate, RpNewSchedule, RpTemplateDone, RpScheduleDone, RpKeepTemplate, RpKeepSchedule})"

lemma EmailList_laws [simp]: "solo (EmailList v)" "offers P (EmailList v)"
  by (auto simp: EmailList_def)

lemma reports_modals_laws:
  "k \<in> set (template_modal p s) \<Longrightarrow> solo k" "k \<in> set (template_modal p s) \<Longrightarrow> offers (reports_allowed p s) k"
  "k \<in> set (schedule_modal p s) \<Longrightarrow> solo k" "k \<in> set (schedule_modal p s) \<Longrightarrow> offers (reports_allowed p s) k"
  by (auto simp: template_modal_def schedule_modal_def reports_allowed_def Let_def dest!: ask_modalD)

lemma reports_rows_laws:
  "solo (template_row p t)" "solo (delivery_row h d)" "offers (reports_allowed p s) (delivery_row h d)"
  "t \<in> set (nullish (qdata (rq_templates p)) []) \<Longrightarrow> offers (reports_allowed p s) (template_row p t)"
  "k \<in> set (report_schedule_row h s x) \<Longrightarrow> solo k"
  "x \<in> set (nullish (qdata (rq_schedules p)) []) \<Longrightarrow> k \<in> set (report_schedule_row h s x) \<Longrightarrow> offers (reports_allowed p s) k"
  by (auto simp: template_row_def delivery_row_def report_schedule_row_def reports_allowed_def Let_def)

lemma reports_view_laws: "solo (reports_view p s)" "offers (reports_allowed p s) (reports_view p s)"
proof -
  have simps: "reports_allowed p s RpNewTemplate" "reports_allowed p s RpNewSchedule" "reports_allowed p s RpTemplateDone"
    "reports_allowed p s RpScheduleDone" "\<forall>i \<in> set (map fst reports_tabs). reports_allowed p s (RpTab i)"
    by (simp_all add: reports_allowed_def)
  show "solo (reports_view p s)" "offers (reports_allowed p s) (reports_view p s)"
    using reports_rows_laws reports_modals_laws simps
    by (auto simp: reports_view_def Let_def)
qed

lemma reports_click_guarded:
  "fires (reports_view p s) x es \<Longrightarrow> e \<in> set es \<Longrightarrow> es = [e] \<and> reports_allowed p s e"
  by (rule fires_one [OF _ reports_view_laws])

end
