(* ===== verification/Infra.thy ===== *)
theory Infra
  imports UiKit
begin

text \<open>
  Infrastructure governance, \<open>pages/InfraPage.tsx\<close>: the tab of TLS certificates, the tab of assets with its creation
  form, filters and edit dialog, and the page, which keeps the chosen tab in local storage. An \<open>option\<close> element without
  a value attribute has its text as value, which is how \<^const>\<open>select_view\<close> is used for the lists of plain names. Of the
  browser's form validation only required fields are part of the runtime model; the ranges of number fields are not.
\<close>

section \<open>Data\<close>

record cert =
  ct_cert_id :: string
  ct_domain :: string
  ct_port :: int
  ct_expires_at :: "string option"
  ct_issuer :: "string option"
  ct_last_checked_at :: "string option"
  ct_state :: string
  ct_error_detail :: "string option"
  ct_alert_days :: int
  ct_check_enabled :: bool

record asset =
  as_asset_id :: string
  as_name :: string
  as_asset_type :: string
  as_status :: string
  as_ip_address :: "string option"
  as_location :: "string option"
  as_owner :: "string option"
  as_created_at :: string

definition STATE_COLOR :: "(string \<times> string) list" where
  "STATE_COLOR = [(''ok'', ''var(--green, #22c55e)''), (''warning'', ''#f59e0b''), (''critical'', ''var(--red)''),
     (''error'', ''var(--red)''), (''unknown'', ''var(--text-muted)'')]"

definition StateBadge :: "string \<Rightarrow> 'e vnode" where
  "StateBadge st = El ''span'' [At ''color'' (nullish (map_of STATE_COLOR st) ''var(--text-muted)'')] [Txt st]"

text \<open>Days left, from the milliseconds of the two instants; \<open>NaN\<close> is not below 0 and is printed as it is.\<close>

definition daysUntil :: "host \<Rightarrow> string option \<Rightarrow> string" where
  "daysUntil h d = (if \<not> truthy d then ''--''
     else (case date_ms h (nullish d []) of None \<Rightarrow> ''NaNd''
           | Some t \<Rightarrow> if t - now_ms h < 0 then ''EXPIRED'' else str_int ((t - now_ms h) div 86400000) @ ''d''))"

section \<open>Certificates\<close>

record certs =
  cs_domain :: string
  cs_port :: string
  cs_alertDays :: string
  cs_removingCertId :: "string option"
  cs_timers :: nat   \<comment> \<open>running refresh timers\<close>

definition certs_mount :: certs where
  "certs_mount = \<lparr>cs_domain = [], cs_port = ''443'', cs_alertDays = ''30'', cs_removingCertId = None, cs_timers = 0\<rparr>"

record certs_props =
  cq_host :: host
  cq_certs :: "cert list query"
  cq_addPending :: bool
  cq_removePending :: bool
  cq_recheck :: "string mutation"

datatype certs_event =
    CsDomain string | CsPort string | CsDays string | CsSubmit | CsAdded | CsAddError
  | CsAsk string | CsRemove string | CsKeep | CsRemoved | CsRemoveError
  | CsRecheck string | CsRechecked | CsRecheckError | CsTimer

definition cert_path :: "string \<Rightarrow> string" where
  "cert_path i = ''/api/v1/infra/certs/'' @ i"

definition int_json :: "string \<Rightarrow> json" where
  "int_json x = JNum (case parseInt x of None \<Rightarrow> JNaN | Some n \<Rightarrow> JInt n)"

definition cert_body :: "certs \<Rightarrow> json" where
  "cert_body s = jobj [(''domain'', Some (JStr (trim (cs_domain s)))), (''port'', Some (int_json (cs_port s))),
     (''alert_days'', Some (int_json (cs_alertDays s)))]"

fun certs_handle :: "string \<Rightarrow> certs \<Rightarrow> certs_event \<Rightarrow> certs \<times> effect list" where
  "certs_handle tid s (CsDomain x) = (s\<lparr>cs_domain := x\<rparr>, [])"
| "certs_handle tid s (CsPort x) = (s\<lparr>cs_port := x\<rparr>, [])"
| "certs_handle tid s (CsDays x) = (s\<lparr>cs_alertDays := x\<rparr>, [])"
| "certs_handle tid s CsSubmit =
     (s, if trim (cs_domain s) \<noteq> [] then [Request ''POST'' ''/api/v1/infra/certs'' (Some (cert_body s))] else [])"
| "certs_handle tid s CsAdded =
     (s\<lparr>cs_domain := []\<rparr>, [Toast ''Certificado adicionado.'' ''success'', Invalidate [''infra-certs'']])"
| "certs_handle tid s CsAddError = (s, [Toast ''Erro ao adicionar certificado.'' ''error''])"
| "certs_handle tid s (CsAsk i) = (s\<lparr>cs_removingCertId := Some i\<rparr>, [])"
| "certs_handle tid s (CsRemove i) = (s, [Request ''DELETE'' (cert_path i) None])"
| "certs_handle tid s CsKeep = (s\<lparr>cs_removingCertId := None\<rparr>, [])"
| "certs_handle tid s CsRemoved =
     (s\<lparr>cs_removingCertId := None\<rparr>, [Toast ''Certificado removido.'' ''success'', Invalidate [''infra-certs'']])"
| "certs_handle tid s CsRemoveError =
     (s\<lparr>cs_removingCertId := None\<rparr>, [Toast ''Erro ao remover certificado.'' ''error''])"
| "certs_handle tid s (CsRecheck i) = (s, [Request ''POST'' (cert_path i @ ''/recheck'') (Some (jobj []))])"
| "certs_handle tid s CsRechecked =
     (s\<lparr>cs_timers := Suc (cs_timers s)\<rparr>, [Toast ''Verificacao enfileirada. Aguarde alguns instantes.'' ''success''])"
| "certs_handle tid s CsRecheckError = (s, [Toast ''Verificacao manual nao disponivel nesta versao.'' ''info''])"
| "certs_handle tid s CsTimer =
     (if 0 < cs_timers s then (s\<lparr>cs_timers := cs_timers s - 1\<rparr>, [Invalidate [''infra-certs'']]) else (s, []))"

definition cert_row :: "certs_props \<Rightarrow> cert \<Rightarrow> certs_event vnode" where
  "cert_row p c = (let h = cq_host p in El ''tr'' [At ''key'' (ct_cert_id c)]
     [el ''td'' [Txt (ct_domain c)],
      el ''td'' [Txt (str_int (ct_port c))],
      el ''td'' [StateBadge (ct_state c)],
      el ''td'' [Txt (if truthy (ct_expires_at c) then locale_date h (nullish (ct_expires_at c) []) else ''--'')],
      el ''td'' [Txt (daysUntil h (ct_expires_at c))],
      el ''td'' [Txt (nullish (ct_issuer c) ''--'')],
      el ''td'' [Txt (if truthy (ct_last_checked_at c) then locale_ts h (nullish (ct_last_checked_at c) []) else ''pending'')],
      el ''td'' [el ''div''
       [button [OnClick (CsRecheck (ct_cert_id c)),
          Bo ''disabled'' (isPending (cq_recheck p) \<and> variables (cq_recheck p) = Some (ct_cert_id c))] [Txt ''verificar''],
        button [OnClick (CsAsk (ct_cert_id c))] [Txt ''remove'']]]])"

definition cert_modal :: "certs_props \<Rightarrow> certs \<Rightarrow> certs_event vnode list" where
  "cert_modal p s = ask_modal (cs_removingCertId s) ct_cert_id (nullish (qdata (cq_certs p)) [])
     (\<lambda>i c. \<lparr>cm_title = ''Remover certificado'',
       cm_description = ''Parar de monitorar '' @ quoted (ct_domain c @ '':'' @ str_int (ct_port c)) @ ''?'',
       cm_confirmLabel = Some ''Remover'', cm_cancelLabel = None, cm_destructive = True,
       cm_isPending = cq_removePending p, cm_onConfirm = CsRemove i, cm_onCancel = CsKeep\<rparr>)"

definition cert_form :: "certs_props \<Rightarrow> certs \<Rightarrow> certs_event vnode" where
  "cert_form p s = El ''form'' [OnSubmit CsSubmit]
     [El ''input'' [At ''value'' (cs_domain s), OnChange CsDomain, At ''placeholder'' ''domain (e.g. api.example.com)''] [],
      El ''input'' [At ''value'' (cs_port s), OnChange CsPort, At ''placeholder'' ''port'', At ''type'' ''number'',
        At ''min'' ''1'', At ''max'' ''65535''] [],
      El ''input'' [At ''value'' (cs_alertDays s), OnChange CsDays, At ''placeholder'' ''alert days'', At ''type'' ''number'',
        At ''min'' ''1'', At ''max'' ''365''] [],
      Button ''primary'' ''sm'' [At ''type'' ''submit'', Bo ''disabled'' (trim (cs_domain s) = [] \<or> cq_addPending p)]
        [Txt (if cq_addPending p then ''Adding...'' else ''Track certificate'')]]"

definition certs_view :: "certs_props \<Rightarrow> certs \<Rightarrow> certs_event vnode" where
  "certs_view p s =
     (let certs = nullish (qdata (cq_certs p)) []
      in el ''div''
       (cert_modal p s @
        [cert_form p s,
         if isLoading (cq_certs p) then el ''div'' [Txt ''Loading...'']
         else if certs = [] then el ''div'' [Txt ''No certificates tracked.'']
         else el ''div'' [el ''table''
           [el ''thead'' [el ''tr'' (map (\<lambda>c. El ''th'' [At ''key'' c] [Txt c])
              [''Domain'', ''Port'', ''State'', ''Expires'', ''Days left'', ''Issuer'', ''Last check'', []])],
            el ''tbody'' (map (cert_row p) certs)]]]))"

section \<open>Assets\<close>

definition ASSET_TYPES :: "string list" where
  "ASSET_TYPES = [''server'', ''vm'', ''container'', ''network'', ''storage'', ''database'', ''service'', ''other'']"

definition ASSET_STATUSES :: "string list" where
  "ASSET_STATUSES = [''active'', ''inactive'', ''decommissioned'', ''maintenance'']"

definition ASSET_STATUS_COLOR :: "(string \<times> string) list" where
  "ASSET_STATUS_COLOR = [(''active'', ''var(--green, #22c55e)''), (''inactive'', ''var(--text-muted)''),
     (''decommissioned'', ''var(--red)''), (''maintenance'', ''#f59e0b'')]"

record asset_form =
  af_name :: string
  af_asset_type :: string
  af_status :: string
  af_ip_address :: string
  af_location :: string
  af_owner :: string

definition EMPTY_ASSET :: asset_form where
  "EMPTY_ASSET = \<lparr>af_name = [], af_asset_type = ''server'', af_status = ''active'', af_ip_address = [], af_location = [],
     af_owner = []\<rparr>"

record asset_edit =
  ae_name :: string
  ae_status :: string
  ae_ip_address :: string
  ae_location :: string
  ae_owner :: string

record assets =
  at_form :: asset_form
  at_filterType :: string
  at_filterStatus :: string
  at_editing :: "asset option"
  at_editForm :: asset_edit
  at_deletingAssetId :: "string option"

definition assets_mount :: assets where
  "assets_mount = \<lparr>at_form = EMPTY_ASSET, at_filterType = ''all'', at_filterStatus = ''all'', at_editing = None,
     at_editForm = \<lparr>ae_name = [], ae_status = ''active'', ae_ip_address = [], ae_location = [], ae_owner = []\<rparr>,
     at_deletingAssetId = None\<rparr>"

record assets_props =
  atq_assets :: "asset list query"
  atq_createPending :: bool
  atq_updatePending :: bool
  atq_removePending :: bool

datatype assets_event =
    AtName string | AtType string | AtIp string | AtLocation string | AtOwner string | AtSubmit | AtCreated | AtCreateError
  | AtFilterType string | AtFilterStatus string
  | AtEdit asset | AtEditName string | AtEditIp string | AtEditLocation string | AtEditOwner string | AtEditStatus string
  | AtSave | AtCancelEdit | AtUpdated | AtUpdateError
  | AtAsk string | AtRemove string | AtKeep | AtRemoved | AtRemoveError

definition asset_body :: "asset_form \<Rightarrow> json" where
  "asset_body f = jobj
     [(''name'', Some (JStr (af_name f))), (''asset_type'', Some (JStr (af_asset_type f))), (''status'', Some (JStr (af_status f))),
      (''ip_address'', Some (or_null (af_ip_address f))), (''location'', Some (or_null (af_location f))),
      (''owner'', Some (or_null (af_owner f)))]"

definition edit_body :: "asset_edit \<Rightarrow> json" where
  "edit_body f = jobj
     [(''name'', Some (JStr (ae_name f))), (''status'', Some (JStr (ae_status f))),
      (''ip_address'', Some (or_null (ae_ip_address f))), (''location'', Some (or_null (ae_location f))),
      (''owner'', Some (or_null (ae_owner f)))]"

definition openEdit :: "asset \<Rightarrow> assets \<Rightarrow> assets" where
  "openEdit a s = s\<lparr>at_editing := Some a, at_editForm := \<lparr>ae_name = as_name a, ae_status = as_status a,
     ae_ip_address = nullish (as_ip_address a) [], ae_location = nullish (as_location a) [], ae_owner = nullish (as_owner a) []\<rparr>\<rparr>"

definition asset_path :: "string \<Rightarrow> string" where
  "asset_path i = ''/api/v1/infra/assets/'' @ i"

fun assets_handle :: "assets \<Rightarrow> assets_event \<Rightarrow> assets \<times> effect list" where
  "assets_handle s (AtName x) = (s\<lparr>at_form := (at_form s)\<lparr>af_name := x\<rparr>\<rparr>, [])"
| "assets_handle s (AtType x) = (s\<lparr>at_form := (at_form s)\<lparr>af_asset_type := x\<rparr>\<rparr>, [])"
| "assets_handle s (AtIp x) = (s\<lparr>at_form := (at_form s)\<lparr>af_ip_address := x\<rparr>\<rparr>, [])"
| "assets_handle s (AtLocation x) = (s\<lparr>at_form := (at_form s)\<lparr>af_location := x\<rparr>\<rparr>, [])"
| "assets_handle s (AtOwner x) = (s\<lparr>at_form := (at_form s)\<lparr>af_owner := x\<rparr>\<rparr>, [])"
| "assets_handle s AtSubmit =
     (s, if trim (af_name (at_form s)) \<noteq> [] then [Request ''POST'' ''/api/v1/infra/assets'' (Some (asset_body (at_form s)))] else [])"
| "assets_handle s AtCreated =
     (s\<lparr>at_form := EMPTY_ASSET\<rparr>, [Toast ''Asset criado.'' ''success'', Invalidate [''infra-assets'']])"
| "assets_handle s AtCreateError = (s, [Toast ''Erro ao criar asset.'' ''error''])"
| "assets_handle s (AtFilterType x) = (s\<lparr>at_filterType := x\<rparr>, [])"
| "assets_handle s (AtFilterStatus x) = (s\<lparr>at_filterStatus := x\<rparr>, [])"
| "assets_handle s (AtEdit a) = (openEdit a s, [])"
| "assets_handle s (AtEditName x) = (s\<lparr>at_editForm := (at_editForm s)\<lparr>ae_name := x\<rparr>\<rparr>, [])"
| "assets_handle s (AtEditIp x) = (s\<lparr>at_editForm := (at_editForm s)\<lparr>ae_ip_address := x\<rparr>\<rparr>, [])"
| "assets_handle s (AtEditLocation x) = (s\<lparr>at_editForm := (at_editForm s)\<lparr>ae_location := x\<rparr>\<rparr>, [])"
| "assets_handle s (AtEditOwner x) = (s\<lparr>at_editForm := (at_editForm s)\<lparr>ae_owner := x\<rparr>\<rparr>, [])"
| "assets_handle s (AtEditStatus x) = (s\<lparr>at_editForm := (at_editForm s)\<lparr>ae_status := x\<rparr>\<rparr>, [])"
| "assets_handle s AtSave = (s, case at_editing s of None \<Rightarrow> []
     | Some a \<Rightarrow> [Request ''PUT'' (asset_path (as_asset_id a)) (Some (edit_body (at_editForm s)))])"
| "assets_handle s AtCancelEdit = (s\<lparr>at_editing := None\<rparr>, [])"
| "assets_handle s AtUpdated =
     (s\<lparr>at_editing := None\<rparr>, [Toast ''Asset atualizado.'' ''success'', Invalidate [''infra-assets'']])"
| "assets_handle s AtUpdateError = (s, [Toast ''Erro ao atualizar asset.'' ''error''])"
| "assets_handle s (AtAsk i) = (s\<lparr>at_deletingAssetId := Some i\<rparr>, [])"
| "assets_handle s (AtRemove i) = (s, [Request ''DELETE'' (asset_path i) None])"
| "assets_handle s AtKeep = (s\<lparr>at_deletingAssetId := None\<rparr>, [])"
| "assets_handle s AtRemoved =
     (s\<lparr>at_deletingAssetId := None\<rparr>, [Toast ''Asset excluido.'' ''success'', Invalidate [''infra-assets'']])"
| "assets_handle s AtRemoveError = (s\<lparr>at_deletingAssetId := None\<rparr>, [Toast ''Erro ao excluir asset.'' ''error''])"

definition displayed_assets :: "asset list \<Rightarrow> assets \<Rightarrow> asset list" where
  "displayed_assets xs s = filter (\<lambda>a. (at_filterType s = ''all'' \<or> as_asset_type a = at_filterType s)
     \<and> (at_filterStatus s = ''all'' \<or> as_status a = at_filterStatus s)) xs"

definition names :: "string list \<Rightarrow> (string \<times> string) list" where
  "names xs = map (\<lambda>x. (x, x)) xs"

definition asset_modal :: "assets_props \<Rightarrow> assets \<Rightarrow> assets_event vnode list" where
  "asset_modal p s = ask_modal (at_deletingAssetId s) as_asset_id (nullish (qdata (atq_assets p)) [])
     (\<lambda>i a. \<lparr>cm_title = ''Excluir asset'',
       cm_description = ''Excluir '' @ quoted (as_name a) @ ''? Esta acao nao pode ser desfeita.'',
       cm_confirmLabel = Some ''Excluir'', cm_cancelLabel = None, cm_destructive = True,
       cm_isPending = atq_removePending p, cm_onConfirm = AtRemove i, cm_onCancel = AtKeep\<rparr>)"

definition asset_create_form :: "assets_props \<Rightarrow> assets \<Rightarrow> assets_event vnode" where
  "asset_create_form p s = (let f = at_form s in El ''form'' [OnSubmit AtSubmit]
     [El ''input'' [At ''value'' (af_name f), OnChange AtName, At ''placeholder'' ''Name''] [],
      select_view (af_asset_type f) AtType (names ASSET_TYPES),
      El ''input'' [At ''value'' (af_ip_address f), OnChange AtIp, At ''placeholder'' ''IP (optional)''] [],
      El ''input'' [At ''value'' (af_location f), OnChange AtLocation, At ''placeholder'' ''Location''] [],
      El ''input'' [At ''value'' (af_owner f), OnChange AtOwner, At ''placeholder'' ''Owner''] [],
      Button ''primary'' ''sm'' [At ''type'' ''submit'', Bo ''disabled'' (trim (af_name f) = [] \<or> atq_createPending p)]
        [Txt (if atq_createPending p then ''Adding...'' else ''Add asset'')]])"

definition asset_row :: "asset \<Rightarrow> assets_event vnode" where
  "asset_row a = El ''tr'' [At ''key'' (as_asset_id a)]
     [el ''td'' [Txt (as_name a)],
      el ''td'' [Txt (as_asset_type a)],
      el ''td'' [El ''span'' [At ''color'' (nullish (map_of ASSET_STATUS_COLOR (as_status a)) ''var(--text-muted)'')] [Txt (as_status a)]],
      el ''td'' [Txt (nullish (as_ip_address a) ''--'')],
      el ''td'' [Txt (nullish (as_location a) ''--'')],
      el ''td'' [Txt (nullish (as_owner a) ''--'')],
      el ''td'' [button [OnClick (AtEdit a)] [Txt ''edit''], button [OnClick (AtAsk (as_asset_id a))] [Txt ''delete'']]]"

definition edit_field :: "string \<Rightarrow> string \<Rightarrow> (string \<Rightarrow> assets_event) \<Rightarrow> assets_event vnode" where
  "edit_field caption v f = el ''label'' [Txt caption, El ''input'' [At ''type'' ''text'', At ''value'' v, OnChange f] []]"

definition asset_edit_view :: "assets_props \<Rightarrow> assets \<Rightarrow> assets_event vnode" where
  "asset_edit_view p s = (let f = at_editForm s in el ''div'' [el ''div''
     [el ''h3'' [Txt ''Edit asset''],
      el ''div''
       [edit_field ''Name'' (ae_name f) AtEditName, edit_field ''IP address'' (ae_ip_address f) AtEditIp,
        edit_field ''Location'' (ae_location f) AtEditLocation, edit_field ''Owner'' (ae_owner f) AtEditOwner,
        el ''label'' [Txt ''Status'', select_view (ae_status f) AtEditStatus (names ASSET_STATUSES)]],
      el ''div''
       [Button ''primary'' ''sm'' [OnClick AtSave, Bo ''disabled'' (atq_updatePending p)]
          [Txt (if atq_updatePending p then ''Saving...'' else ''Save'')],
        Button ''secondary'' ''sm'' [OnClick AtCancelEdit] [Txt ''Cancel'']]]])"

definition assets_view :: "assets_props \<Rightarrow> assets \<Rightarrow> assets_event vnode" where
  "assets_view p s =
     (let xs = displayed_assets (nullish (qdata (atq_assets p)) []) s
      in el ''div''
       (asset_modal p s @
        [asset_create_form p s,
         el ''div''
          [select_view (at_filterType s) AtFilterType ((''all'', ''All types'') # names ASSET_TYPES),
           select_view (at_filterStatus s) AtFilterStatus ((''all'', ''All statuses'') # names ASSET_STATUSES)],
         if isLoading (atq_assets p) then el ''div'' [Txt ''Loading...'']
         else if xs = [] then el ''div'' [Txt ''No assets found.'']
         else el ''div'' [el ''table''
           [el ''thead'' [el ''tr'' (map (\<lambda>c. El ''th'' [At ''key'' c] [Txt c])
              [''Name'', ''Type'', ''Status'', ''IP'', ''Location'', ''Owner'', []])],
            el ''tbody'' (map asset_row xs)]]] @
        jif (at_editing s \<noteq> None) (asset_edit_view p s)))"

section \<open>The page\<close>

record infra =
  if_tab :: string
  if_store :: storage

definition infra_tab_key :: "string \<Rightarrow> string" where
  "infra_tab_key tid = ''jlm_infra_tab_'' @ tid"

definition loadInfraTab :: "string \<Rightarrow> storage \<Rightarrow> string" where
  "loadInfraTab tid st = (if ls_get st (infra_tab_key tid) = Some ''assets'' then ''assets'' else ''certs'')"

definition infra_mount :: "string \<Rightarrow> storage \<Rightarrow> infra" where
  "infra_mount tid st = \<lparr>if_tab = loadInfraTab tid st, if_store = st\<rparr>"

datatype infra_event = IfTab string

fun infra_handle :: "string \<Rightarrow> infra \<Rightarrow> infra_event \<Rightarrow> infra \<times> effect list" where
  "infra_handle tid s (IfTab t) = (s\<lparr>if_tab := t, if_store := ls_set (infra_tab_key tid) t (if_store s)\<rparr>, [])"

definition infra_tabs :: "(string \<times> string) list" where
  "infra_tabs = [(''certs'', ''Certificates''), (''assets'', ''Asset Inventory'')]"

definition infra_view :: "unit \<Rightarrow> infra \<Rightarrow> infra_event vnode" where
  "infra_view _ s = el ''div''
     ([el ''h2'' [Txt ''Infrastructure Governance''], tab_bar IfTab infra_tabs] @
      jif (if_tab s = ''certs'') (el ''CertsTab'' []) @ jif (if_tab s = ''assets'') (el ''AssetsTab'' []))"

section \<open>Properties: certificates\<close>

definition cert_request :: "effect \<Rightarrow> bool" where
  "cert_request f \<longleftrightarrow> \<not> is_request f
     \<or> (\<exists>i. f = Request ''DELETE'' (cert_path i) None \<or> f = Request ''POST'' (cert_path i @ ''/recheck'') (Some (jobj [])))
     \<or> (\<exists>d port days. d \<noteq> [] \<and> trim d = d \<and> f = Request ''POST'' ''/api/v1/infra/certs'' (Some (jobj
          [(''domain'', Some (JStr d)), (''port'', Some (int_json port)), (''alert_days'', Some (int_json days))])))"

definition certs_net :: "certs_event \<Rightarrow> bool" where
  "certs_net e \<longleftrightarrow> e \<in> {CsAdded, CsAddError, CsRemoved, CsRemoveError, CsRechecked, CsRecheckError, CsTimer}"

definition certs_allowed :: "certs_props \<Rightarrow> certs \<Rightarrow> certs_event \<Rightarrow> bool" where
  "certs_allowed p s e \<longleftrightarrow> (let ids = ct_cert_id ` set (nullish (qdata (cq_certs p)) []) in case e of
      CsSubmit \<Rightarrow> trim (cs_domain s) \<noteq> [] \<and> \<not> cq_addPending p
    | CsAsk i \<Rightarrow> i \<in> ids
    | CsRemove i \<Rightarrow> cs_removingCertId s = Some i \<and> i \<in> ids \<and> \<not> cq_removePending p
    | CsRecheck i \<Rightarrow> i \<in> ids \<and> \<not> (isPending (cq_recheck p) \<and> variables (cq_recheck p) = Some i)
    | _ \<Rightarrow> \<not> certs_net e)"

lemma certs_view_laws: "solo (certs_view p s)" "offers (certs_allowed p s) (certs_view p s)"
proof -
  have row: "solo (cert_row p c)" "c \<in> set (nullish (qdata (cq_certs p)) []) \<Longrightarrow> offers (certs_allowed p s) (cert_row p c)" for c
    by (auto simp: cert_row_def StateBadge_def certs_allowed_def Let_def)
  have modal: "k \<in> set (cert_modal p s) \<Longrightarrow> solo k" "k \<in> set (cert_modal p s) \<Longrightarrow> offers (certs_allowed p s) k" for k
    by (auto simp: cert_modal_def certs_allowed_def certs_net_def Let_def dest!: ask_modalD)
  have form: "solo (cert_form p s)" "offers (certs_allowed p s) (cert_form p s)"
    by (auto simp: cert_form_def submittable_def certs_allowed_def certs_net_def Let_def)
  show "solo (certs_view p s)" "offers (certs_allowed p s) (certs_view p s)"
    using row modal form by (auto simp: certs_view_def Let_def)
qed

lemma cert_body_request:
  assumes "trim (cs_domain s) \<noteq> []"
  shows "cert_request (Request ''POST'' ''/api/v1/infra/certs'' (Some (cert_body s)))"
proof -
  have "trim (trim (cs_domain s)) = trim (cs_domain s)" by simp
  with assms show ?thesis unfolding cert_request_def cert_body_def by blast
qed

lemma cert_request_other:
  "\<not> is_request f \<Longrightarrow> cert_request f" "cert_request (Request ''DELETE'' (cert_path i) None)"
  "cert_request (Request ''POST'' (cert_path i @ ''/recheck'') (Some (jobj [])))"
  by (auto simp: cert_request_def)

interpretation ct: component "\<lambda>s. s = certs_mount" certs_view "certs_handle tid" certs_net
  "\<lambda>s e. certs_net e \<or> (\<exists>p. certs_allowed p s e)" "\<lambda>s. True" cert_request for tid
proof unfold_locales
  show "offers (\<lambda>e. certs_net e \<or> (\<exists>p. certs_allowed p s e)) (certs_view p s)" for p s
    using certs_view_laws(2) by (rule offers_mono) blast
  show "list_all cert_request (snd (certs_handle tid s e))" for s e
    by (cases e) (auto intro: cert_body_request cert_request_other)
qed (simp_all add: certs_view_laws)

lemma cert_requests:
  "reach (\<lambda>s. s = certs_mount) certs_view (certs_handle tid) certs_net s log \<Longrightarrow> list_all cert_request log"
  using ct.reach_inv by blast

lemma certs_click_guarded:
  "fires (certs_view p s) x es \<Longrightarrow> e \<in> set es \<Longrightarrow> es = [e] \<and> certs_allowed p s e"
  by (rule fires_one [OF _ certs_view_laws])

text \<open>The days left of a certificate: a whole number of days from now is shown as that number.\<close>

lemma days_left:
  assumes "d \<noteq> []" "date_ms h d = Some (now_ms h + n * 86400000 + r)" "0 \<le> r" "r < 86400000"
  shows "daysUntil h (Some d) = (if n < 0 then ''EXPIRED'' else str_int n @ ''d'')"
proof -
  have "(n * 86400000 + r) div 86400000 = n" using assms(3,4) by simp
  moreover have "n * 86400000 + r < 0 \<longleftrightarrow> n < 0" using assms(3,4) by linarith
  ultimately show ?thesis using assms(1,2) by (simp add: daysUntil_def)
qed

section \<open>Properties: assets\<close>

definition assets_net :: "assets_event \<Rightarrow> bool" where
  "assets_net e \<longleftrightarrow> e \<in> {AtCreated, AtCreateError, AtUpdated, AtUpdateError, AtRemoved, AtRemoveError}"

definition assets_allowed :: "assets_props \<Rightarrow> assets \<Rightarrow> assets_event \<Rightarrow> bool" where
  "assets_allowed p s e \<longleftrightarrow> (let xs = set (nullish (qdata (atq_assets p)) []) in case e of
      AtSubmit \<Rightarrow> trim (af_name (at_form s)) \<noteq> [] \<and> \<not> atq_createPending p
    | AtType x \<Rightarrow> x \<in> set ASSET_TYPES
    | AtFilterType x \<Rightarrow> x \<in> set (''all'' # ASSET_TYPES)
    | AtFilterStatus x \<Rightarrow> x \<in> set (''all'' # ASSET_STATUSES)
    | AtEdit a \<Rightarrow> a \<in> xs
    | AtEditStatus x \<Rightarrow> x \<in> set ASSET_STATUSES
    | AtSave \<Rightarrow> at_editing s \<noteq> None \<and> \<not> atq_updatePending p
    | AtAsk i \<Rightarrow> i \<in> as_asset_id ` xs
    | AtRemove i \<Rightarrow> at_deletingAssetId s = Some i \<and> i \<in> as_asset_id ` xs \<and> \<not> atq_removePending p
    | _ \<Rightarrow> \<not> assets_net e)"

definition assets_ok :: "assets \<Rightarrow> bool" where
  "assets_ok s \<longleftrightarrow> af_asset_type (at_form s) \<in> set ASSET_TYPES \<and> af_status (at_form s) = ''active''"

definition asset_request :: "effect \<Rightarrow> bool" where
  "asset_request f \<longleftrightarrow> \<not> is_request f
     \<or> (\<exists>i. f = Request ''DELETE'' (asset_path i) None) \<or> (\<exists>i b. f = Request ''PUT'' (asset_path i) (Some (edit_body b)))
     \<or> (\<exists>b. f = Request ''POST'' ''/api/v1/infra/assets'' (Some (asset_body b)) \<and> trim (af_name b) \<noteq> []
          \<and> af_asset_type b \<in> set ASSET_TYPES \<and> af_status b = ''active'')"

lemma set_names [simp]: "fst ` set (names xs) = set xs"
  by (auto simp: names_def image_iff)

lemma assets_view_laws: "solo (assets_view p s)" "offers (assets_allowed p s) (assets_view p s)"
proof -
  have row: "solo (asset_row a)" "a \<in> set (nullish (qdata (atq_assets p)) []) \<Longrightarrow> offers (assets_allowed p s) (asset_row a)" for a
    by (auto simp: asset_row_def assets_allowed_def Let_def)
  have modal: "k \<in> set (asset_modal p s) \<Longrightarrow> solo k" "k \<in> set (asset_modal p s) \<Longrightarrow> offers (assets_allowed p s) k" for k
    by (auto simp: asset_modal_def assets_allowed_def assets_net_def Let_def dest!: ask_modalD)
  have form: "solo (asset_create_form p s)" "offers (assets_allowed p s) (asset_create_form p s)"
    by (auto simp: asset_create_form_def submittable_def assets_allowed_def assets_net_def Let_def)
  have edit: "solo (asset_edit_view p s)" "at_editing s \<noteq> None \<Longrightarrow> offers (assets_allowed p s) (asset_edit_view p s)"
    by (auto simp: asset_edit_view_def edit_field_def assets_allowed_def assets_net_def Let_def)
  have filters: "\<forall>x \<in> set (''all'' # ASSET_TYPES). assets_allowed p s (AtFilterType x)"
    "\<forall>x \<in> set (''all'' # ASSET_STATUSES). assets_allowed p s (AtFilterStatus x)"
    by (simp_all add: assets_allowed_def)
  have shown: "a \<in> set (displayed_assets xs s) \<Longrightarrow> a \<in> set xs" for a xs by (simp add: displayed_assets_def)
  show "solo (assets_view p s)" using row modal form edit by (auto simp: assets_view_def Let_def)
  show "offers (assets_allowed p s) (assets_view p s)" using row modal form edit filters shown
    by (auto simp: assets_view_def Let_def)
qed

interpretation ast: component "\<lambda>s. s = assets_mount" assets_view assets_handle assets_net
  "\<lambda>s e. assets_net e \<or> (\<exists>p. assets_allowed p s e)" assets_ok asset_request
proof unfold_locales
  show "s = assets_mount \<Longrightarrow> assets_ok s" for s by (simp add: assets_mount_def assets_ok_def EMPTY_ASSET_def ASSET_TYPES_def)
  show "offers (\<lambda>e. assets_net e \<or> (\<exists>p. assets_allowed p s e)) (assets_view p s)" for p s
    using assets_view_laws(2) by (rule offers_mono) blast
  show "assets_ok s \<Longrightarrow> assets_net e \<or> (\<exists>p. assets_allowed p s e) \<Longrightarrow> assets_ok (fst (assets_handle s e))" for s e
    by (cases e) (auto simp: assets_ok_def assets_allowed_def assets_net_def openEdit_def EMPTY_ASSET_def ASSET_TYPES_def)
  show "assets_ok s \<Longrightarrow> assets_net e \<or> (\<exists>p. assets_allowed p s e) \<Longrightarrow> list_all asset_request (snd (assets_handle s e))" for s e
    by (cases e) (auto simp: assets_ok_def asset_request_def split: option.split)
qed (simp_all add: assets_view_laws)

lemma asset_requests:
  "reach (\<lambda>s. s = assets_mount) assets_view assets_handle assets_net s log \<Longrightarrow> list_all asset_request log"
  using ast.reach_inv by blast

text \<open>An asset is created only with a non-blank name, but the edit dialog has no such guard: every listed asset can be
  given the empty name.\<close>

lemma edit_blank_name:
  fixes p :: assets_props
  assumes "a \<in> set (nullish (qdata (atq_assets p)) [])" "\<not> isLoading (atq_assets p)" "\<not> atq_updatePending p"
  shows "\<exists>s b. reach (\<lambda>s. s = assets_mount) assets_view assets_handle assets_net s
      [Request ''PUT'' (asset_path (as_asset_id a)) (Some (edit_body b))] \<and> ae_name b = []"
proof -
  let ?r = "reach (\<lambda>s. s = assets_mount) assets_view assets_handle assets_net"
  let ?s = "openEdit a assets_mount" let ?t = "?s\<lparr>at_editForm := (at_editForm ?s)\<lparr>ae_name := []\<rparr>\<rparr>"
  have ed: "at_editing ?s = Some a" "at_editing ?t = Some a" by (simp_all add: openEdit_def)
  have shown: "displayed_assets xs assets_mount = xs" for xs by (simp add: displayed_assets_def assets_mount_def)
  have "can_click (asset_row a) [AtEdit a]" by (simp add: asset_row_def can_click_El)
  then have "can_click (assets_view p assets_mount) [AtEdit a]"
    using assms(1,2) by (auto simp: assets_view_def can_click_El shown Let_def)
  then have "?r ?s ([] @ [])" by (intro reach_click [OF reach.mount]) auto
  moreover have "AtEditName [] \<in> set (changes [] (asset_edit_view p ?s))"
    by (simp add: asset_edit_view_def edit_field_def enterable_def Let_def)
  then have "AtEditName [] \<in> set (changes [] (assets_view p ?s))" using ed by (auto simp: assets_view_def Let_def)
  ultimately have "?r ?t ([] @ [])" by (rule reach_enter) simp
  moreover have "can_click (asset_edit_view p ?t) [AtSave]"
    using assms(3) by (simp add: asset_edit_view_def can_click_El Let_def)
  then have "can_click (assets_view p ?t) [AtSave]" using ed by (auto simp: assets_view_def can_click_El Let_def)
  ultimately have "?r ?t (([] @ []) @ [Request ''PUT'' (asset_path (as_asset_id a)) (Some (edit_body (at_editForm ?t)))])"
    by (rule reach_click) (simp add: ed)
  then show ?thesis by force
qed

section \<open>Properties: the page\<close>

interpretation ift: persisted "infra_tab_key tid" "loadInfraTab tid" id "\<lambda>t. t \<in> {''certs'', ''assets''}" for tid
  by unfold_locales (auto simp: loadInfraTab_def)

interpretation inf: read_only "\<lambda>s. \<exists>st. s = infra_mount tid st" infra_view "infra_handle tid" "\<lambda>_. False"
  "\<lambda>s e. \<exists>t \<in> {''certs'', ''assets''}. e = IfTab t" "\<lambda>s. if_store s \<noteq> None \<longrightarrow> loadInfraTab tid (if_store s) = if_tab s" for tid
proof unfold_locales
  show "\<exists>st. s = infra_mount tid st \<Longrightarrow> if_store s \<noteq> None \<longrightarrow> loadInfraTab tid (if_store s) = if_tab s" for s
    by (auto simp: infra_mount_def)
  show "solo (infra_view p s)" for p s by (auto simp: infra_view_def)
  show "offers (\<lambda>e. \<exists>t \<in> {''certs'', ''assets''}. e = IfTab t) (infra_view p s)" for p s
    by (auto simp: infra_view_def infra_tabs_def)
  show "if_store s \<noteq> None \<longrightarrow> loadInfraTab tid (if_store s) = if_tab s \<Longrightarrow> \<exists>t \<in> {''certs'', ''assets''}. e = IfTab t \<Longrightarrow>
      if_store (fst (infra_handle tid s e)) \<noteq> None \<longrightarrow>
      loadInfraTab tid (if_store (fst (infra_handle tid s e))) = if_tab (fst (infra_handle tid s e))" for s e
    using ift.load_saved [of _ "if_store s" tid] by (cases e) auto
qed auto

text \<open>A reload opens the tab that was chosen, and choosing tabs makes no request.\<close>

lemma infra_tab_restored:
  "reach (\<lambda>s. \<exists>st. s = infra_mount tid st) infra_view (infra_handle tid) (\<lambda>_. False) s log \<Longrightarrow>
   (if_store s \<noteq> None \<longrightarrow> infra_mount tid (if_store s) = s) \<and> \<not> list_ex is_request log"
  using inf.reachable_inv inf.no_request unfolding infra_mount_def by fastforce

end
