(* ===== verification/Alertmanager.thy ===== *)
theory Alertmanager
  imports UiKit
begin

text \<open>
  Alertmanager sources, \<open>pages/AlertmanagerPage.tsx\<close>: the list of sources, the webhook address and events of the
  selected one, the creation form, and the dialog that shows a new token once.
\<close>

section \<open>Data\<close>

record am_source =
  ag_source_id :: string
  ag_display_name :: string
  ag_enabled :: bool
  ag_created_at :: string

record am_event =
  av_event_id :: string
  av_fingerprint :: string
  av_alert_name :: string
  av_severity :: string
  av_status :: string
  av_starts_at :: "string option"
  av_received_at :: string

definition SEV_COLOR :: "(string \<times> string) list" where
  "SEV_COLOR = [(''critical'', ''var(--red)''), (''warning'', ''#f59e0b''), (''info'', ''var(--brand)''),
     (''ok'', ''var(--green, #22c55e)'')]"

definition SevBadge :: "string \<Rightarrow> 'e vnode" where
  "SevBadge sev = El ''span'' [At ''color'' (nullish (map_of SEV_COLOR sev) ''var(--text-muted)'')] [Txt sev]"

definition am_StatusBadge :: "string \<Rightarrow> 'e vnode" where
  "am_StatusBadge st = El ''span'' [At ''color'' (if st = ''firing'' then ''var(--red)'' else ''var(--text-muted)'')]
     [Txt (if st = ''firing'' then ''FIRING'' else ''RESOLVED'')]"

section \<open>Webhook address and events\<close>

text \<open>\<open>window.location\<close>.\<close>

record location =
  lc_protocol :: string
  lc_hostname :: string
  lc_port :: string

definition base_url :: "location \<Rightarrow> string" where
  "base_url l = lc_protocol l @ ''//'' @ lc_hostname l @ (if lc_port l \<noteq> [] then '':'' @ lc_port l else [])"

definition webhook_path :: "string \<Rightarrow> string" where
  "webhook_path i = ''/api/v1/sources/alertmanager/'' @ i @ ''/ingest''"

definition webhookUrl :: "location \<Rightarrow> string \<Rightarrow> string" where
  "webhookUrl l i = base_url l @ webhook_path i"

definition am_event_row :: "host \<Rightarrow> am_event \<Rightarrow> 'e vnode" where
  "am_event_row h e = El ''tr'' [At ''key'' (av_event_id e)]
     [el ''td'' [Txt (av_alert_name e)], el ''td'' [SevBadge (av_severity e)], el ''td'' [am_StatusBadge (av_status e)],
      el ''td'' [Txt (locale_ts h (av_received_at e))]]"

definition EventsPanel :: "host \<Rightarrow> location \<Rightarrow> am_event list query \<Rightarrow> am_source \<Rightarrow> 'e vnode" where
  "EventsPanel h l q src =
     (let events = nullish (qdata q) []
      in el ''div''
       [el ''div''
         [el ''div'' [Txt ''Alertmanager webhook URL''], el ''code'' [Txt (webhookUrl l (ag_source_id src))],
          el ''div'' [Txt ''Set '', el ''code'' [Txt ''X-JLM-Webhook-Secret''], Txt '' header to the token shown at source creation.'']],
        if isLoading q then el ''div'' [Txt ''Loading events...'']
        else if events = [] then el ''div'' [Txt ''No events received yet.'']
        else el ''div'' [el ''table''
          [el ''thead'' [el ''tr'' (map (\<lambda>c. El ''th'' [At ''key'' c] [Txt c]) [''Alert'', ''Severity'', ''Status'', ''Received''])],
           el ''tbody'' (map (am_event_row h) events)]]])"

section \<open>New source\<close>

record new_token =
  nt_token :: string
  nt_sourceId :: string
  nt_name :: string

datatype am_form_event = AfName string | AfSubmit | AfCreated new_token | AfFailed

text \<open>The state is the name in the field; a failure is not handled here, only by the mutation observer.\<close>

fun am_form_handle :: "string \<Rightarrow> am_form_event \<Rightarrow> string \<times> effect list" where
  "am_form_handle name (AfName x) = (x, [])"
| "am_form_handle name AfSubmit = (name, if trim name \<noteq> []
     then [Request ''POST'' ''/api/v1/sources/alertmanager'' (Some (jobj [(''display_name'', Some (JStr (trim name)))]))] else [])"
| "am_form_handle name (AfCreated t) = ([], [Callback ''onCreated'' [nt_token t, nt_sourceId t, nt_name t]])"
| "am_form_handle name AfFailed = (name, [])"

definition am_form_view :: "bool \<Rightarrow> string \<Rightarrow> am_form_event vnode" where
  "am_form_view pending name = El ''form'' [OnSubmit AfSubmit]
     [El ''input'' [At ''value'' name, OnChange AfName, At ''placeholder'' ''Source name (e.g. prod-cluster)''] [],
      Button ''primary'' ''sm'' [At ''type'' ''submit'', Bo ''disabled'' (trim name = [] \<or> pending)]
        [Txt (if pending then ''Creating...'' else ''Add source'')]]"

section \<open>The page\<close>

record amgr =
  ar_selected :: "am_source option"
  ar_newToken :: "new_token option"
  ar_confirmDisableId :: "string option"

definition amgr_mount :: amgr where
  "amgr_mount = \<lparr>ar_selected = None, ar_newToken = None, ar_confirmDisableId = None\<rparr>"

record amgr_props =
  arq_host :: host
  arq_location :: location
  arq_sources :: "am_source list query"
  arq_events :: "am_event list query"
  arq_disablePending :: bool
  arq_rotatePending :: bool

datatype amgr_event =
    ArSelect am_source | ArCreated new_token | ArCloseToken
  | ArRotate string | ArRotated new_token | ArRotateError
  | ArAskDisable string | ArDisable string | ArKeep | ArDisabled | ArDisableError

definition am_source_path :: "string \<Rightarrow> string" where
  "am_source_path i = ''/api/v1/sources/alertmanager/'' @ i"

fun amgr_handle :: "amgr \<Rightarrow> amgr_event \<Rightarrow> amgr \<times> effect list" where
  "amgr_handle s (ArSelect x) = (s\<lparr>ar_selected := Some x\<rparr>, [])"
| "amgr_handle s (ArCreated t) = (s\<lparr>ar_newToken := Some t\<rparr>, [Invalidate [''amgr-sources'']])"
| "amgr_handle s ArCloseToken = (s\<lparr>ar_newToken := None\<rparr>, [])"
| "amgr_handle s (ArRotate i) = (s, [Request ''POST'' (am_source_path i @ ''/rotate-token'') None])"
| "amgr_handle s (ArRotated t) = (s\<lparr>ar_newToken := Some (t\<lparr>nt_name := []\<rparr>)\<rparr>, [Toast ''Token rotacionado'' ''success''])"
| "amgr_handle s ArRotateError = (s, [Toast ''Erro ao rotacionar'' ''error''])"
| "amgr_handle s (ArAskDisable i) = (s\<lparr>ar_confirmDisableId := Some i\<rparr>, [])"
| "amgr_handle s (ArDisable i) = (s, [Request ''DELETE'' (am_source_path i) None])"
| "amgr_handle s ArKeep = (s\<lparr>ar_confirmDisableId := None\<rparr>, [])"
| "amgr_handle s ArDisabled = (s\<lparr>ar_selected := None, ar_confirmDisableId := None\<rparr>,
     [Invalidate [''amgr-sources''], Toast ''Fonte desabilitada'' ''success''])"
| "amgr_handle s ArDisableError = (s, [Toast ''Erro ao desabilitar'' ''error''])"

definition TokenModal :: "new_token \<Rightarrow> amgr_event vnode" where
  "TokenModal t = el ''div'' [el ''div''
     [el ''h3'' [Txt ''Source created -- save your token''],
      el ''p'' [Txt ''This is the only time the token is shown. Copy it now and configure Alertmanager to send it as '',
        el ''code'' [Txt ''X-JLM-Webhook-Secret''], Txt ''.''],
      el ''div'' [Txt (nt_token t)],
      Button ''primary'' ''md'' [OnClick ArCloseToken] [Txt ''Done'']]]"

definition disable_modal :: "amgr_props \<Rightarrow> string \<Rightarrow> amgr_event vnode" where
  "disable_modal p i = ConfirmModal
     \<lparr>cm_title = ''Desabilitar fonte'',
      cm_description = ''Desabilitar '' @ quoted (case find (\<lambda>x. ag_source_id x = i) (nullish (qdata (arq_sources p)) [])
        of None \<Rightarrow> i | Some x \<Rightarrow> ag_display_name x) @ ''? O ingest vai parar de aceitar eventos.'',
      cm_confirmLabel = Some ''Desabilitar'', cm_cancelLabel = None, cm_destructive = True,
      cm_isPending = arq_disablePending p, cm_onConfirm = ArDisable i, cm_onCancel = ArKeep\<rparr>"

definition am_source_item :: "amgr \<Rightarrow> am_source \<Rightarrow> amgr_event vnode" where
  "am_source_item s x = El ''div'' [At ''key'' (ag_source_id x), OnClick (ArSelect x)]
     (el ''div'' [Txt (ag_display_name x)] # jif (\<not> ag_enabled x) (el ''div'' [Txt ''disabled'']))"

definition am_source_detail :: "amgr_props \<Rightarrow> am_source \<Rightarrow> amgr_event vnode" where
  "am_source_detail p x = el ''div''
     [el ''div''
       [el ''h3'' [Txt (ag_display_name x)],
        el ''div''
         [Button ''secondary'' ''sm'' [OnClick (ArRotate (ag_source_id x)), Bo ''disabled'' (arq_rotatePending p)]
            [if arq_rotatePending p then Spinner else Txt ''Rotate token''],
          Button ''secondary'' ''sm'' [OnClick (ArAskDisable (ag_source_id x)), Bo ''disabled'' (arq_disablePending p)]
            [if arq_disablePending p then Spinner else Txt ''Disable'']]],
      EventsPanel (arq_host p) (arq_location p) (arq_events p) x]"

text \<open>The callback of the creation form carries the answer of the server.\<close>

definition amgr_view :: "amgr_props \<Rightarrow> amgr \<Rightarrow> amgr_event vnode" where
  "amgr_view p s =
     (let sources = nullish (qdata (arq_sources p)) []
      in el ''div''
       ((case ar_newToken s of None \<Rightarrow> [] | Some t \<Rightarrow> [TokenModal t]) @
        (case ar_confirmDisableId s of None \<Rightarrow> [] | Some i \<Rightarrow> jif (i \<noteq> []) (disable_modal p i)) @
        [el ''h2'' [Txt ''Alertmanager Sources''],
         el ''p'' [Txt ''Each source gets a unique webhook URL and pre-shared token. Configure the webhook receiver of Alertmanager to POST to the URL with the token as the '',
           el ''code'' [Txt ''X-JLM-Webhook-Secret''], Txt '' header.''],
         El ''CreateSourceForm'' [] [],
         if isLoading (arq_sources p) then el ''div'' [Txt ''Loading...'']
         else if sources = [] then el ''div'' [Txt ''No sources configured.'']
         else el ''div''
          [el ''div'' (map (am_source_item s) sources),
           case ar_selected s of
             None \<Rightarrow> el ''div'' [Txt ''Select a source to view its webhook URL and recent events.'']
           | Some x \<Rightarrow> am_source_detail p x]]))"

section \<open>Properties\<close>

definition am_form_request :: "effect \<Rightarrow> bool" where
  "am_form_request f \<longleftrightarrow> \<not> is_request f \<or> (\<exists>n. n \<noteq> [] \<and> trim n = n
     \<and> f = Request ''POST'' ''/api/v1/sources/alertmanager'' (Some (jobj [(''display_name'', Some (JStr n))])))"

interpretation af: component "\<lambda>s. s = []" am_form_view am_form_handle "\<lambda>e. case e of AfCreated _ \<Rightarrow> True | AfFailed \<Rightarrow> True | _ \<Rightarrow> False"
  "\<lambda>s e. True" "\<lambda>s. True" am_form_request
proof unfold_locales
  show "solo (am_form_view p s)" for p s by (auto simp: am_form_view_def)
  have "trim n \<noteq> [] \<Longrightarrow> am_form_request (Request ''POST'' ''/api/v1/sources/alertmanager'' (Some (jobj [(''display_name'', Some (JStr (trim n)))])))"
    for n unfolding am_form_request_def using trim_trim by blast
  then show "list_all am_form_request (snd (am_form_handle s e))" for s e
    by (cases e) (auto simp: am_form_request_def)
qed simp_all

lemma am_source_requests:
  "reach (\<lambda>s. s = []) am_form_view am_form_handle (\<lambda>e. case e of AfCreated _ \<Rightarrow> True | AfFailed \<Rightarrow> True | _ \<Rightarrow> False) s log \<Longrightarrow>
   list_all am_form_request log"
  using af.reach_inv by blast

text \<open>Different sources have different webhook addresses.\<close>

lemma webhookUrl_inj: "webhookUrl l i = webhookUrl l j \<longleftrightarrow> i = j"
  by (auto simp: webhookUrl_def webhook_path_def)

definition amgr_allowed :: "amgr_props \<Rightarrow> amgr \<Rightarrow> amgr_event \<Rightarrow> bool" where
  "amgr_allowed p s e \<longleftrightarrow> (case e of
      ArSelect x \<Rightarrow> x \<in> set (nullish (qdata (arq_sources p)) [])
    | ArCloseToken \<Rightarrow> ar_newToken s \<noteq> None
    | ArRotate i \<Rightarrow> (\<exists>x. ar_selected s = Some x \<and> ag_source_id x = i) \<and> \<not> arq_rotatePending p
    | ArAskDisable i \<Rightarrow> (\<exists>x. ar_selected s = Some x \<and> ag_source_id x = i) \<and> \<not> arq_disablePending p
    | ArDisable i \<Rightarrow> ar_confirmDisableId s = Some i \<and> \<not> arq_disablePending p
    | ArKeep \<Rightarrow> ar_confirmDisableId s \<noteq> None
    | _ \<Rightarrow> False)"

lemma EventsPanel_laws [simp]: "solo (EventsPanel h l q x)" "offers P (EventsPanel h l q x)"
  by (auto simp: EventsPanel_def am_event_row_def SevBadge_def am_StatusBadge_def Let_def)

lemma amgr_parts:
  "offers P (TokenModal t) = P ArCloseToken" "solo (TokenModal t)"
  "offers P (disable_modal p i) = (P ArKeep \<and> (arq_disablePending p \<or> P (ArDisable i)))" "solo (disable_modal p i)"
  "offers P (am_source_item s x) = P (ArSelect x)" "solo (am_source_item s x)"
  "offers P (am_source_detail p x) = ((arq_rotatePending p \<or> P (ArRotate (ag_source_id x)))
     \<and> (arq_disablePending p \<or> P (ArAskDisable (ag_source_id x))))" "solo (am_source_detail p x)"
  by (auto simp: TokenModal_def disable_modal_def am_source_item_def am_source_detail_def)

lemma amgr_view_laws: "solo (amgr_view p s)" "offers (amgr_allowed p s) (amgr_view p s)"
  by (cases "ar_newToken s"; cases "ar_confirmDisableId s"; cases "ar_selected s";
      auto simp: amgr_view_def amgr_parts amgr_allowed_def Let_def)+

lemma amgr_click_guarded:
  "fires (amgr_view p s) x es \<Longrightarrow> e \<in> set es \<Longrightarrow> es = [e] \<and> amgr_allowed p s e"
  by (rule fires_one [OF _ amgr_view_laws])

text \<open>The dialog keeps one token. When a creation and a rotation are answered before it is closed, the first token,
  which the server shows only once, is gone: the page is what it would be without it.\<close>

lemma token_shown: "ar_newToken s = Some t \<Longrightarrow> nt_token t \<in> set (texts (amgr_view p s))"
  by (simp add: amgr_view_def TokenModal_def Let_def)

lemma token_lost:
  "amgr_view p (fst (amgr_handle (fst (amgr_handle s (ArCreated t))) (ArRotated u))) = amgr_view p (fst (amgr_handle s (ArRotated u)))"
  by simp

end
