(* ===== verification/Msp.thy ===== *)
theory Msp
  imports UiKit
begin

text \<open>
  The portfolio of a managed service provider, \<open>pages/MSPOverviewPage.tsx\<close>: the cards of the clients with their health,
  the panel of the selected client with its alerts, and the switch into the client's workspace.
\<close>

section \<open>Data\<close>

record client_health =
  ch_tenant_id :: string
  ch_display_name :: string
  ch_health :: string
  ch_active_alerts :: nat
  ch_critical_alerts :: nat
  ch_warning_alerts :: nat
  ch_source_count :: nat

record client_alert =
  ca_alert_id :: string
  ca_source_kind :: string
  ca_lifecycle_state :: string
  ca_severity :: "string option"
  ca_monitoring_resource_id :: "string option"
  ca_opened_at :: "string option"
  ca_name :: "string option"
  ca_problem_name :: "string option"

definition HealthBadge :: "string \<Rightarrow> 'e vnode" where
  "HealthBadge h =
     (if h = ''critical'' then el ''span'' [el ''AlertTriangle'' [], Txt ''Critico'']
      else if h = ''warning'' then el ''span'' [el ''AlertTriangle'' [], Txt ''Atencao'']
      else if h = ''ok'' then el ''span'' [el ''CheckCircle2'' [], Txt ''Operacional'']
      else el ''span'' [el ''HelpCircle'' [], Txt ''Desconhecido''])"

definition health_colors :: "(string \<times> string) list" where
  "health_colors = [(''critical'', ''var(--red)''), (''warning'', ''var(--yellow, #f59e0b)''), (''ok'', ''var(--green, #10b981)''),
     (''unknown'', ''var(--text-dim)'')]"

definition HealthDot :: "string \<Rightarrow> 'e vnode" where
  "HealthDot h = El ''span'' [At ''background'' (nullish (map_of health_colors h) ''var(--text-dim)'')] []"

definition msp_sevVariant :: "string option \<Rightarrow> string" where
  "msp_sevVariant s = (if s = Some ''critical'' then ''danger''
     else if s = Some ''warning'' \<or> s = Some ''degraded'' then ''warning'' else if s = Some ''info'' then ''info'' else ''muted'')"

definition msp_fmtTs :: "host \<Rightarrow> string option \<Rightarrow> string" where
  "msp_fmtTs h ts = (if truthy ts then locale_ts h (nullish ts []) else ''--'')"

definition alertDisplayTitle :: "client_alert \<Rightarrow> string" where
  "alertDisplayTitle a = nullish (ostr_or (ca_name a) (ostr_or (ca_problem_name a)
     (ostr_or (ca_monitoring_resource_id a) (Some (ca_source_kind a))))) []"

definition client_initials :: "string \<Rightarrow> string" where
  "client_initials name = str_or (initials name) ''?''"

section \<open>The panel of a client\<close>

text \<open>The state tells whether a switch is under way. \<open>own_switch\<close> tells that the page was given no \<open>onSelectTenant\<close>, in
  which case the panel switches by itself.\<close>

datatype panel_event = PnClose | PnOpen bool string | PnSwitched | PnSwitchError

fun panel_handle :: "bool \<Rightarrow> panel_event \<Rightarrow> bool \<times> effect list" where
  "panel_handle isSwitching PnClose = (isSwitching, [Callback ''onClose'' []])"
| "panel_handle isSwitching (PnOpen own_switch i) =
     (if own_switch
      then (True, [Toast ''Alternando para workspace do cliente...'' ''info'',
              Request ''POST'' ''/api/tenant/select'' (Some (jobj [(''tenant_id'', Some (JStr i))]))])
      else (isSwitching, [Toast ''Alternando para workspace do cliente...'' ''info'', Callback ''onSelectTenant'' [i]]))"
| "panel_handle isSwitching PnSwitched = (False, [Callback ''location.href'' [''/'']])"
| "panel_handle isSwitching PnSwitchError = (False, [Toast ''Erro ao alternar tenant'' ''error''])"

record panel_props =
  pn_host :: host
  pn_client :: client_health
  pn_own_switch :: bool
  pn_q :: "client_alert list query"

definition panel_alert :: "host \<Rightarrow> client_alert \<Rightarrow> 'e vnode" where
  "panel_alert h a = El ''div'' [At ''key'' (ca_alert_id a)]
     ([el ''div'' [el ''span'' [Txt (alertDisplayTitle a)],
        Badge (msp_sevVariant (ca_severity a)) [Txt (nullish (ca_severity a) ''N/A'')]]] @
      jif (truthy (ca_monitoring_resource_id a)) (el ''span'' [Txt (nullish (ca_monitoring_resource_id a) [])]) @
      [el ''span'' [Txt (msp_fmtTs h (ca_opened_at a))]])"

definition panel_metric :: "string \<Rightarrow> nat \<Rightarrow> 'e vnode" where
  "panel_metric label v = El ''div'' [At ''key'' label] [el ''span'' [Txt (str_nat v)], el ''span'' [Txt label]]"

definition panel_view :: "panel_props \<Rightarrow> bool \<Rightarrow> panel_event vnode" where
  "panel_view p isSwitching =
     (let c = pn_client p; alerts = nullish (qdata (pn_q p)) []
      in el ''Fragment''
       [El ''div'' [OnClick PnClose] [],
        el ''div''
         [el ''div''
           [el ''div'' [el ''div'' [Txt (client_initials (ch_display_name c))],
              el ''div'' [el ''div'' [Txt (ch_display_name c)], el ''div'' [Txt (ch_tenant_id c)]]],
            el ''div'' [HealthBadge (ch_health c), button [OnClick PnClose] [el ''X'' []]]],
          el ''div'' [panel_metric ''Alertas ativos'' (ch_active_alerts c), panel_metric ''Criticos'' (ch_critical_alerts c),
            panel_metric ''Fontes'' (ch_source_count c)],
          el ''div'' [button [OnClick (PnOpen (pn_own_switch p) (ch_tenant_id c)), Bo ''disabled'' isSwitching]
            [el ''ExternalLink'' [], Txt (if isSwitching then ''Alternando...'' else ''Abrir dashboard do cliente'')]],
          el ''div''
           [el ''div'' [Txt ''Alertas ativos recentes''],
            if isLoading (pn_q p) then el ''div'' [el ''RefreshCw'' []]
            else if isError (pn_q p) then el ''p'' [Txt ''Falha ao carregar alertas.'']
            else if alerts = [] then el ''div'' [el ''CheckCircle2'' [], el ''p'' [Txt ''Nenhum alerta ativo.'']]
            else el ''div'' (map (panel_alert (pn_host p)) alerts)]]])"

section \<open>The page\<close>

datatype msp_event = MpSelect client_health | MpClose | MpRefetch | MpNavigate string | MpSelectTenant string

text \<open>The state is the client selected: a copy of its data at the click.\<close>

fun msp_handle :: "client_health option \<Rightarrow> msp_event \<Rightarrow> client_health option \<times> effect list" where
  "msp_handle sel (MpSelect c) = (Some c, [])"
| "msp_handle sel MpClose = (None, [])"
| "msp_handle sel MpRefetch = (sel, [Callback ''refetch'' []])"
| "msp_handle sel (MpNavigate x) = (sel, [Navigate x])"
| "msp_handle sel (MpSelectTenant i) = (sel, [Callback ''onSelectTenant'' [i]])"

definition health_count :: "string \<Rightarrow> client_health list \<Rightarrow> nat" where
  "health_count h cs = length (filter (\<lambda>c. ch_health c = h) cs)"

definition ClientCard :: "client_health \<Rightarrow> msp_event vnode" where
  "ClientCard c = El ''div'' [At ''key'' (ch_tenant_id c), OnClick (MpSelect c)]
     [el ''div''
       [el ''div'' [el ''div'' [Txt (client_initials (ch_display_name c))],
          el ''div'' [el ''div'' [Txt (ch_display_name c)], el ''div'' [Txt (ch_tenant_id c)]]],
        HealthDot (ch_health c)],
      HealthBadge (ch_health c),
      el ''div''
       [el ''div'' [el ''div'' [Txt (str_nat (ch_active_alerts c))], el ''div'' [Txt ''alertas'']],
        el ''div'' [el ''div'' [Txt (str_nat (ch_critical_alerts c))], el ''div'' [Txt ''criticos'']],
        el ''div'' [el ''div'' [Txt (str_nat (ch_source_count c))], el ''div'' [Txt ''fontes'']]],
      el ''div'' [Txt ''Clique para ver detalhes'']]"

definition msp_summary :: "client_health list query \<Rightarrow> msp_event vnode" where
  "msp_summary q =
     (let cs = nullish (qdata q) []; critical = health_count ''critical'' cs; warning = health_count ''warning'' cs; ok = health_count ''ok'' cs
      in el ''div''
       [el ''div'' (el ''h2'' [Txt ''Portfolio de Clientes''] #
          jif (qdata q \<noteq> None) (el ''span'' [Txt (str_nat (length cs)), Txt '' '', Txt (if length cs = 1 then ''cliente'' else ''clientes'')])),
        el ''div''
         (jif (qdata q \<noteq> None) (el ''div''
            (jif (0 < critical) (el ''span'' [Txt (str_nat critical), Txt '' critico'', Txt (if 1 < critical then ''s'' else [])]) @
             jif (0 < warning) (el ''span'' [Txt (str_nat warning), Txt '' atencao'']) @
             jif (0 < ok) (el ''span'' [Txt (str_nat ok), Txt '' operacional'', Txt (if 1 < ok then ''is'' else [])]))) @
          [button [OnClick MpRefetch, Bo ''disabled'' (isFetching q)] [el ''RefreshCw'' [], Txt ''Atualizar'']])])"

definition msp_view :: "client_health list query \<Rightarrow> client_health option \<Rightarrow> msp_event vnode" where
  "msp_view q sel =
     (let cs = nullish (qdata q) []
      in el ''div''
       ([msp_summary q] @
        jif (isLoading q) (el ''div'' [el ''RefreshCw'' [], el ''span'' [Txt ''Carregando clientes...'']]) @
        jif (isError q) (el ''div'' [el ''div'' [el ''AlertTriangle'' [], el ''p'' [Txt ''Falha ao carregar clientes.''],
          button [OnClick MpRefetch] [Txt ''Tentar novamente'']]]) @
        jif (\<not> isLoading q \<and> \<not> isError q \<and> cs = []) (el ''div'' [el ''div''
          [el ''Activity'' [], el ''p'' [Txt ''Nenhum cliente configurado''],
           el ''p'' [Txt ''Adicione clientes em '', button [OnClick (MpNavigate ''/platform-admin'')] [Txt ''Administracao da Plataforma''],
             Txt '' para visualiza-los aqui.'']]]) @
        jif (cs \<noteq> []) (el ''div'' (map ClientCard cs)) @
        (case sel of None \<Rightarrow> [] | Some c \<Rightarrow> [El ''ClientDetailPanel'' [At ''client'' (ch_tenant_id c),
           Prop ''onClose'' MpClose, PropF ''onSelectTenant'' MpSelectTenant] []])))"

section \<open>Properties\<close>

text \<open>The summary counts no client twice, and leaves out exactly those of another or unknown health.\<close>

lemma health_counts:
  "health_count ''critical'' cs + health_count ''warning'' cs + health_count ''ok'' cs
     + length (filter (\<lambda>c. ch_health c \<notin> {''critical'', ''warning'', ''ok''}) cs) = length cs"
  by (induction cs) (auto simp: health_count_def)

text \<open>Initials are never empty and at most two characters.\<close>

lemma client_initials_shape: "client_initials n \<noteq> [] \<and> length (client_initials n) \<le> 2"
  by (auto simp: client_initials_def str_or_def initials_def slice_def)

definition panel_allowed :: "panel_props \<Rightarrow> bool \<Rightarrow> panel_event \<Rightarrow> bool" where
  "panel_allowed p isSwitching e \<longleftrightarrow> e = PnClose
     \<or> e = PnOpen (pn_own_switch p) (ch_tenant_id (pn_client p)) \<and> \<not> isSwitching"

lemma panel_view_laws: "solo (panel_view p s)" "offers (panel_allowed p s) (panel_view p s)"
  by (auto simp: panel_view_def HealthBadge_def panel_metric_def panel_alert_def panel_allowed_def Let_def)

definition panel_request :: "string \<Rightarrow> effect \<Rightarrow> bool" where
  "panel_request i f \<longleftrightarrow> \<not> is_request f
     \<or> f = Request ''POST'' ''/api/tenant/select'' (Some (jobj [(''tenant_id'', Some (JStr i))]))"

interpretation pn: component "\<lambda>s. \<not> s" "\<lambda>p. panel_view (p\<lparr>pn_client := c\<rparr>)" panel_handle
  "\<lambda>e. e = PnSwitched \<or> e = PnSwitchError" "\<lambda>s e. e \<in> {PnClose, PnSwitched, PnSwitchError} \<or> (\<exists>own. e = PnOpen own (ch_tenant_id c))"
  "\<lambda>s. True" "panel_request (ch_tenant_id c)" for c
proof unfold_locales
  show "offers (\<lambda>e. e \<in> {PnClose, PnSwitched, PnSwitchError} \<or> (\<exists>own. e = PnOpen own (ch_tenant_id c))) (panel_view (p\<lparr>pn_client := c\<rparr>) s)"
    for p s using panel_view_laws(2) by (rule offers_mono) (auto simp: panel_allowed_def)
  show "e \<in> {PnClose, PnSwitched, PnSwitchError} \<or> (\<exists>own. e = PnOpen own (ch_tenant_id c)) \<Longrightarrow>
      list_all (panel_request (ch_tenant_id c)) (snd (panel_handle s e))" for s e
    by (cases e) (auto simp: panel_request_def)
qed (simp_all add: panel_view_laws)

text \<open>The panel of a client switches into the workspace of that client only, whatever is clicked and in whatever order
  the answers come.\<close>

lemma panel_switches_own_client:
  "reach (\<lambda>s. \<not> s) (\<lambda>p. panel_view (p\<lparr>pn_client := c\<rparr>)) panel_handle (\<lambda>e. e = PnSwitched \<or> e = PnSwitchError) s log \<Longrightarrow>
   list_all (panel_request (ch_tenant_id c)) log"
  using pn.reach_inv by blast

lemma msp_view_laws:
  "solo (msp_view q sel)"
  "offers (\<lambda>e. case e of MpSelect c \<Rightarrow> c \<in> set (nullish (qdata q) []) | MpClose \<Rightarrow> sel \<noteq> None | _ \<Rightarrow> True) (msp_view q sel)"
  by (auto simp: msp_view_def msp_summary_def ClientCard_def HealthBadge_def HealthDot_def Let_def split: option.split)

theorem panel_switches_own_client_witness:
  "panel_request ''c1'' (Request ''POST'' ''/api/tenant/select'' (Some (jobj [(''tenant_id'', Some (JStr ''c1''))])))"
proof -
  let ?c = "\<lparr>ch_tenant_id = ''c1'', ch_display_name = ''Acme'', ch_health = ''ok'', ch_active_alerts = 0, ch_critical_alerts = 0,
    ch_warning_alerts = 0, ch_source_count = 1\<rparr>"
  let ?v = "\<lambda>p. panel_view (p\<lparr>pn_client := ?c\<rparr>)"
  let ?p = "\<lparr>pn_host = sample_host, pn_client = ?c, pn_own_switch = True, pn_q = loaded []\<rparr>"
  let ?r = "reach (\<lambda>s. \<not> s) ?v panel_handle (\<lambda>e. e = PnSwitched \<or> e = PnSwitchError)"
  have "?r False []" by (rule reach.mount) simp
  then have "?r True ([] @ [Toast ''Alternando para workspace do cliente...'' ''info'',
       Request ''POST'' ''/api/tenant/select'' (Some (jobj [(''tenant_id'', Some (JStr ''c1''))]))])"
    by (rule reach_click [where p = ?p and e = "PnOpen True ''c1''"]) (simp_all add: panel_view_def loaded_def can_click_El Let_def)
  from panel_switches_own_client [OF this] show ?thesis by simp
qed

end
