(* ===== verification/Aiops.thy ===== *)
theory Aiops
  imports Complex_Main UiKit
begin

text \<open>
  Advisory findings, \<open>pages/AIOpsPage.tsx\<close>: the list, the details of one finding with links to the alerts it refers to,
  and the dismissal. Of the server, the guard of \<open>dismiss_finding\<close> in \<open>src/api/routers/aiops.py\<close> is modelled.
\<close>

section \<open>Data\<close>

record finding =
  fi_finding_id :: string
  fi_finding_type :: string
  fi_severity_hint :: string
  fi_title :: string
  fi_explanation :: string
  fi_evidence_refs :: "string list option"
  fi_confidence :: "rat option"
  fi_model_id :: string
  fi_created_at :: string
  fi_expires_at :: string
  fi_dismissed_at :: "string option"

definition typeVariant :: "string \<Rightarrow> string" where
  "typeVariant t = (if t = ''root_cause'' then ''warning'' else if t = ''anomaly'' then ''info''
     else if t = ''prediction'' then ''success'' else ''muted'')"

definition finding_sevVariant :: "string \<Rightarrow> string" where
  "finding_sevVariant s = (if s = ''high'' then ''danger'' else if s = ''medium'' then ''warning'' else ''muted'')"

definition typeLabel :: "string \<Rightarrow> string option" where
  "typeLabel t = map_of [(''anomaly'', ''Anomaly''), (''correlation'', ''Correlation''), (''root_cause'', ''Root cause''),
     (''prediction'', ''Prediction'')] t"

text \<open>\<open>Math.round\<close> takes a half upwards; the product with 100 is exact here.\<close>

definition fmtConfidence :: "rat option \<Rightarrow> string" where
  "fmtConfidence c = (case c of None \<Rightarrow> ''--'' | Some x \<Rightarrow> str_int \<lfloor>x * 100 + 1 / 2\<rfloor> @ ''%'')"

section \<open>The page\<close>

record aiops =
  ai_expanded :: "string option"
  ai_showDismissed :: bool

definition aiops_mount :: aiops where
  "aiops_mount = \<lparr>ai_expanded = None, ai_showDismissed = False\<rparr>"

record aiops_props =
  aip_host :: host
  aip_canOperate :: bool
  aip_q :: "finding list query"
  aip_dismissPending :: bool

datatype aiops_event =
    AiToggleDismissed | AiExpand string | AiDismiss string | AiNavigate string | AiDismissed | AiDismissError

definition findings_path :: "bool \<Rightarrow> string" where
  "findings_path showDismissed =
     (if showDismissed then ''/api/v1/aiops/findings?limit=50&include_dismissed=true'' else ''/api/v1/aiops/findings?limit=50'')"

definition dismiss_path :: "string \<Rightarrow> string" where
  "dismiss_path i = ''/api/v1/aiops/findings/'' @ i @ ''/dismiss''"

fun aiops_handle :: "string \<Rightarrow> aiops \<Rightarrow> aiops_event \<Rightarrow> aiops \<times> effect list" where
  "aiops_handle tid s AiToggleDismissed = (s\<lparr>ai_showDismissed := \<not> ai_showDismissed s\<rparr>, [])"
| "aiops_handle tid s (AiExpand i) = (s\<lparr>ai_expanded := if ai_expanded s = Some i then None else Some i\<rparr>, [])"
| "aiops_handle tid s (AiDismiss i) = (s, [Request ''POST'' (dismiss_path i) (Some (jobj []))])"
| "aiops_handle tid s (AiNavigate x) = (s, [Navigate x])"
| "aiops_handle tid s AiDismissed = (s, [Invalidate [''aiops-findings'', tid], Toast ''Finding descartado'' ''success''])"
| "aiops_handle tid s AiDismissError = (s, [Toast ''Erro ao descartar'' ''error''])"

text \<open>The alert a reference names, and the page it is linked to.\<close>

definition alert_href :: "string \<Rightarrow> string" where
  "alert_href i = ''/alerts?highlight='' @ i"

definition evidence_alert :: "string \<Rightarrow> string option" where
  "evidence_alert r = (if prefix ''alert:'' r then Some (drop 6 r) else None)"

definition evidence_link :: "string \<Rightarrow> aiops_event vnode" where
  "evidence_link r = (case evidence_alert r of
     Some i \<Rightarrow> El ''a'' [At ''key'' r, At ''href'' (alert_href i), OnClick (AiNavigate (alert_href i))] [Txt r]
   | None \<Rightarrow> El ''span'' [At ''key'' r] [Txt r])"

definition finding_details :: "host \<Rightarrow> finding \<Rightarrow> aiops_event vnode" where
  "finding_details h f =
     (let refs = nullish (fi_evidence_refs f) []
      in el ''div''
       ([el ''p'' [Txt (fi_explanation f)]] @
        jif (refs \<noteq> []) (el ''div'' [el ''p'' [Txt ''Referenced evidence''], el ''div'' (map evidence_link refs)]) @
        [el ''div''
          [el ''span'' [Txt ''Model: '', el ''span'' [Txt (fi_model_id f)]],
           el ''span'' [Txt ''Generated: '', Txt (locale_ts h (fi_created_at f))],
           el ''span'' [Txt ''Expires: '', Txt (locale_ts h (fi_expires_at f))]]]))"

definition finding_card :: "aiops_props \<Rightarrow> aiops \<Rightarrow> finding \<Rightarrow> aiops_event vnode" where
  "finding_card p s f = Card
     (CardHeader
       [el ''div''
         [el ''div'' [Badge (typeVariant (fi_finding_type f)) [Txt (nullish (typeLabel (fi_finding_type f)) [])],
            Badge (finding_sevVariant (fi_severity_hint f)) [Txt (fi_severity_hint f)]],
          button [OnClick (AiExpand (fi_finding_id f))] [Txt (fi_title f)]],
        el ''div'' ([el ''span'' [Txt ''conf '', Txt (fmtConfidence (fi_confidence f))]] @
          jif (aip_canOperate p) (Button ''ghost'' ''sm''
            [OnClick (AiDismiss (fi_finding_id f)), Bo ''disabled'' (aip_dismissPending p)] [Txt ''Dismiss'']))] #
      jif (ai_expanded s = Some (fi_finding_id f)) (finding_details (aip_host p) f))"

definition aiops_view :: "aiops_props \<Rightarrow> aiops \<Rightarrow> aiops_event vnode" where
  "aiops_view p s =
     (let findings = nullish (qdata (aip_q p)) []
      in el ''div''
       ([el ''div''
          [el ''div'' [el ''h2'' [Txt ''AIOps Advisory Findings''],
             el ''p'' [Txt ''AI-generated analysis - advisory only - does not create or resolve alerts'']],
           el ''div'' (jif (isFetching (aip_q p)) Spinner @
             [button [OnClick AiToggleDismissed] [Txt (if ai_showDismissed s then ''Ocultar descartados'' else ''Ver descartados'')]])]] @
        jif (ai_showDismissed s)
          (el ''p'' [Txt ''Nota: findings descartados nao sao listados caso o servidor nao suporte o filtro.'']) @
        [if isLoading (aip_q p) then el ''div'' [Spinner]
         else if isError (aip_q p) then el ''p'' [Txt ''Failed to load findings.'']
         else if findings = [] then Card
           [el ''p'' [Txt ''No active advisory findings. Analysis runs every 30 minutes when there are active alerts.'']]
         else el ''div'' (map (finding_card p s) findings)]))"

section \<open>The server's guard\<close>

text \<open>The update of \<open>dismiss_finding\<close>: the first row with the id that is not dismissed; \<^const>\<open>None\<close> is the answer 404.\<close>

fun dismiss_finding :: "string \<Rightarrow> string \<Rightarrow> finding list \<Rightarrow> finding list option" where
  "dismiss_finding now i [] = None"
| "dismiss_finding now i (f # fs) =
     (if fi_finding_id f = i \<and> fi_dismissed_at f = None then Some (f\<lparr>fi_dismissed_at := Some now\<rparr> # fs)
      else map_option (Cons f) (dismiss_finding now i fs))"

section \<open>Properties\<close>

definition aiops_allowed :: "aiops_props \<Rightarrow> aiops_event \<Rightarrow> bool" where
  "aiops_allowed p e \<longleftrightarrow> (let fs = nullish (qdata (aip_q p)) [] in case e of
      AiToggleDismissed \<Rightarrow> True
    | AiExpand i \<Rightarrow> i \<in> fi_finding_id ` set fs
    | AiDismiss i \<Rightarrow> aip_canOperate p \<and> \<not> aip_dismissPending p \<and> i \<in> fi_finding_id ` set fs
    | AiNavigate x \<Rightarrow> (\<exists>f \<in> set fs. \<exists>r \<in> set (nullish (fi_evidence_refs f) []). map_option alert_href (evidence_alert r) = Some x)
    | _ \<Rightarrow> False)"

lemma evidence_alert_ref: "evidence_alert (''alert:'' @ i) = Some i"
  by (simp add: evidence_alert_def)

lemma evidence_link_laws [simp]:
  "solo (evidence_link r)"
  "offers P (evidence_link r) \<longleftrightarrow> (\<forall>i. evidence_alert r = Some i \<longrightarrow> P (AiNavigate (alert_href i)))"
  by (auto simp: evidence_link_def dead_def split: option.split)

lemma finding_details_laws [simp]:
  "solo (finding_details h f)"
  "offers P (finding_details h f) \<longleftrightarrow>
     (\<forall>r \<in> set (nullish (fi_evidence_refs f) []). \<forall>i. evidence_alert r = Some i \<longrightarrow> P (AiNavigate (alert_href i)))"
  by (auto simp: finding_details_def Let_def)

lemma finding_card_laws:
  "solo (finding_card p s f)"
  "f \<in> set (nullish (qdata (aip_q p)) []) \<Longrightarrow> offers (aiops_allowed p) (finding_card p s f)"
  by (auto simp: finding_card_def aiops_allowed_def Let_def)

lemma aiops_view_laws: "solo (aiops_view p s)" "offers (aiops_allowed p) (aiops_view p s)"
  using finding_card_laws by (auto simp: aiops_view_def aiops_allowed_def Let_def)

lemma aiops_click_guarded:
  "fires (aiops_view p s) x es \<Longrightarrow> e \<in> set es \<Longrightarrow> es = [e] \<and> aiops_allowed p e"
  by (rule fires_one [OF _ aiops_view_laws])

text \<open>Without the permission to operate the page sends nothing but its reads.\<close>

interpretation aiv: read_only "\<lambda>s. s = aiops_mount" "\<lambda>p. aiops_view (p\<lparr>aip_canOperate := False\<rparr>)" "aiops_handle tid"
  "\<lambda>e. e = AiDismissed \<or> e = AiDismissError" "\<lambda>s e. \<forall>i. e \<noteq> AiDismiss i" "\<lambda>s. True" for tid
proof unfold_locales
  show "offers (\<lambda>e. \<forall>i. e \<noteq> AiDismiss i) (aiops_view (p\<lparr>aip_canOperate := False\<rparr>) s)" for p s
    by (rule offers_mono [OF aiops_view_laws(2)]) (auto simp: aiops_allowed_def Let_def)
  show "\<forall>i. e \<noteq> AiDismiss i \<Longrightarrow> list_all (\<lambda>f. \<not> is_request f) (snd (aiops_handle tid s e))" for s e by (cases e) auto
qed (auto simp: aiops_view_laws)

text \<open>At most one finding shows its details when the ids are distinct.\<close>

lemma one_expanded:
  "distinct (map fi_finding_id fs) \<Longrightarrow> length (filter (\<lambda>f. ai_expanded s = Some (fi_finding_id f)) fs) \<le> 1"
proof (induction fs)
  case (Cons f fs)
  have "filter (\<lambda>g. ai_expanded s = Some (fi_finding_id g)) fs = []" if "ai_expanded s = Some (fi_finding_id f)"
    using that Cons.prems by (auto simp: filter_empty_conv image_iff)
  with Cons show ?case by auto
qed simp

lemma dismiss_found:
  "(dismiss_finding now i fs = None) \<longleftrightarrow> (\<forall>f \<in> set fs. fi_finding_id f = i \<longrightarrow> fi_dismissed_at f \<noteq> None)"
  by (induction fs) auto

text \<open>A second dismissal of a finding is always refused.\<close>

lemma dismiss_twice:
  "distinct (map fi_finding_id fs) \<Longrightarrow> dismiss_finding now i fs = Some fs' \<Longrightarrow> dismiss_finding now' i fs' = None"
proof (induction fs arbitrary: fs')
  case (Cons f fs)
  show ?case
  proof (cases "fi_finding_id f = i \<and> fi_dismissed_at f = None")
    case True
    then have "fs' = f\<lparr>fi_dismissed_at := Some now\<rparr> # fs" "i \<notin> fi_finding_id ` set fs" using Cons.prems by auto
    then show ?thesis by (auto simp: dismiss_found)
  next
    case False
    with Cons show ?thesis by auto
  qed
qed simp

definition sample_finding :: finding where
  "sample_finding = \<lparr>fi_finding_id = ''f1'', fi_finding_type = ''anomaly'', fi_severity_hint = ''high'', fi_title = ''CPU'',
     fi_explanation = ''CPU over 90'', fi_evidence_refs = Some [''alert:a1''], fi_confidence = Some (8 / 10), fi_model_id = ''m1'',
     fi_created_at = ''1'', fi_expires_at = ''2'', fi_dismissed_at = Some ''2024''\<rparr>"

text \<open>In the list with the dismissed findings, a dismissed finding still offers the dismissal to an operator, and the
  server refuses that request whatever the other findings are.\<close>

lemma dismissed_still_offered:
  assumes "qdata (aip_q p) = Some fs" "\<not> isLoading (aip_q p)" "\<not> isError (aip_q p)" "aip_canOperate p" "\<not> aip_dismissPending p"
    and "distinct (map fi_finding_id fs)" "f \<in> set fs" "fi_dismissed_at f = Some t"
  shows "fires (aiops_view p s) [] [AiDismiss (fi_finding_id f)]
    \<and> snd (aiops_handle tid s (AiDismiss (fi_finding_id f))) = [Request ''POST'' (dismiss_path (fi_finding_id f)) (Some (jobj []))]
    \<and> dismiss_finding now (fi_finding_id f) fs = None"
proof -
  have "can_click (finding_card p s f) [AiDismiss (fi_finding_id f)]"
    using assms(4,5) by (simp add: finding_card_def Card_def CardHeader_def can_click_El)
  then have list: "can_click (el ''div'' (map (finding_card p s) fs)) [AiDismiss (fi_finding_id f)]"
    by (rule can_click_kid) (simp add: assms(7))
  have "fs \<noteq> []" using assms(7) by auto
  then have "can_click (aiops_view p s) [AiDismiss (fi_finding_id f)]"
    unfolding aiops_view_def Let_def by (intro can_click_kid [OF list]) (simp add: assms(1-3))
  then have "fires (aiops_view p s) [] [AiDismiss (fi_finding_id f)]" by (rule can_click_fires)
  moreover have "f = g" if "g \<in> set fs" "fi_finding_id g = fi_finding_id f" for g
    using inj_onD [of fi_finding_id "set fs" g f] that assms(6,7) by (simp add: distinct_map)
  then have "dismiss_finding now (fi_finding_id f) fs = None" using assms(8) dismiss_found by (metis option.distinct(1))
  ultimately show ?thesis by simp
qed

theorem dismissed_still_offered_witness:
  "fires (aiops_view \<lparr>aip_host = sample_host, aip_canOperate = True, aip_q = loaded [sample_finding], aip_dismissPending = False\<rparr>
      (aiops_mount\<lparr>ai_showDismissed := True\<rparr>)) [] [AiDismiss ''f1'']
   \<and> dismiss_finding ''2025'' ''f1'' [sample_finding] = None"
  using dismissed_still_offered [of "\<lparr>aip_host = sample_host, aip_canOperate = True, aip_q = loaded [sample_finding],
      aip_dismissPending = False\<rparr>" "[sample_finding]" sample_finding "''2024''" "aiops_mount\<lparr>ai_showDismissed := True\<rparr>" tid "''2025''"]
  by (simp add: loaded_def sample_finding_def)

end
