(* ===== verification/JS_Sort.thy ===== *)
theory JS_Sort
  imports JS_Sets "HOL-Library.Multiset"
begin

text \<open>
  \<open>Array.prototype.sort\<close> with a comparison function: stable; \<open>le a b\<close> stands for a comparison \<open>\<le> 0\<close>. The result is a sorted
  permutation when the comparison is a total preorder; for other comparisons the language leaves the order open.
\<close>

primrec sort_in :: "('a \<Rightarrow> 'a \<Rightarrow> bool) \<Rightarrow> 'a \<Rightarrow> 'a list \<Rightarrow> 'a list" where
  "sort_in le x [] = [x]"
| "sort_in le x (y # ys) = (if le x y then x # y # ys else y # sort_in le x ys)"

definition js_sort :: "('a \<Rightarrow> 'a \<Rightarrow> bool) \<Rightarrow> 'a list \<Rightarrow> 'a list" where
  "js_sort le xs = foldr (sort_in le) xs []"

lemma mset_sort_in [simp]: "mset (sort_in le x xs) = add_mset x (mset xs)"
  by (induction xs) auto

lemma mset_js_sort [simp]: "mset (js_sort le xs) = mset xs"
  by (induction xs) (simp_all add: js_sort_def)

lemma length_js_sort [simp]: "length (js_sort le xs) = length xs"
  by (metis mset_js_sort size_mset)

lemma set_js_sort [simp]: "set (js_sort le xs) = set xs"
  by (metis mset_js_sort set_mset_mset)

lemma sorted_sort_in:
  assumes "totalp le" "transp le" "reflp le" "sorted_wrt le xs"
  shows "sorted_wrt le (sort_in le x xs)"
  using assms(4)
proof (induction xs)
  case (Cons y ys)
  have "set (sort_in le x ys) = insert x (set ys)" by (metis mset_sort_in set_mset_add_mset_insert set_mset_mset)
  moreover have "le y x" if "\<not> le x y" using that assms(1,3) by (metis reflpD totalpD)
  ultimately show ?case using Cons assms(2) by (auto dest: transpD)
qed simp

lemma sorted_js_sort:
  "totalp le \<Longrightarrow> transp le \<Longrightarrow> reflp le \<Longrightarrow> sorted_wrt le (js_sort le xs)"
  by (induction xs) (simp_all add: js_sort_def sorted_sort_in)

lemma distinct_js_sort: "distinct xs \<Longrightarrow> distinct (js_sort le xs)"
  by (metis mset_eq_imp_distinct_iff mset_js_sort)

lemma sorted_wrt_distinct: "sorted_wrt P xs \<Longrightarrow> distinct xs \<Longrightarrow> sorted_wrt (\<lambda>a b. P a b \<and> a \<noteq> b) xs"
  by (induction xs) auto

end
