(* ===== verification/FinOps.thy ===== *)
theory FinOps
  imports UiKit JS_Sort
begin

text \<open>
  Plan, entitlements and usage, \<open>pages/FinOpsPage.tsx\<close>: a page that only observes. Its one computation is the data of the
  usage chart; the drawing of the chart is third-party. \<open>localeCompare\<close> is the host's order of
  texts, an argument \<open>le\<close> here; the metered quantities are counts, whole numbers.
\<close>

section \<open>Data\<close>

record entitlement =
  en_entitlement_id :: string
  en_capability :: string
  en_state :: string

record meter_snapshot =
  ms_meter :: string
  ms_quantity :: int
  ms_window_end :: string

record contract =
  ct_contract_id :: string
  ct_plan_ref :: "string option"
  ct_state :: string
  ct_effective_from :: "string option"
  ct_effective_until :: "string option"

record fin_summary =
  fs_tenant_id :: string
  fs_contract :: "contract option"
  fs_entitlements :: "entitlement list option"
  fs_meter_snapshot :: "meter_snapshot list option"

record usage_row =
  ur_usage_id :: string
  ur_meter :: string
  ur_quantity :: int
  ur_window_start :: string
  ur_window_end :: string

record billing_status =
  bs_adapter :: string
  bs_status :: string
  bs_detail :: "string option"

definition capLabel :: "string \<Rightarrow> string" where
  "capLabel c = nullish (map_of [(''monitoring'', ''Monitoring''), (''alerting'', ''Alerting''), (''itsm'', ''ITSM''), (''aiops'', ''AIOps'')] c) c"

definition meterLabel :: "string \<Rightarrow> string" where
  "meterLabel m = nullish (map_of
     [(''monitoring_sources_active'', ''Sources active''), (''monitoring_resources_observed'', ''Resources observed''),
      (''alerting_alerts_active'', ''Alerts active''), (''alert_transitions_24h'', ''Alert transitions (24 h)''),
      (''aiops_findings_active'', ''AIOps findings active'')] m) m"

definition fin_fmtTs :: "host \<Rightarrow> string option \<Rightarrow> string" where
  "fin_fmtTs h t = (if truthy t then locale_ts h (nullish t []) else ''--'')"

definition fin_fmtDate :: "host \<Rightarrow> string option \<Rightarrow> string" where
  "fin_fmtDate h t = (if truthy t then locale_date h (nullish t []) else ''--'')"

definition entVariant :: "string \<Rightarrow> string" where
  "entVariant s = (if s = ''active'' then ''success'' else if s = ''suspended'' then ''warning'' else if s = ''expired'' then ''danger'' else ''muted'')"

section \<open>The chart\<close>

record chart_bar =
  cb_time :: string
  cb_quantity :: int
  cb_meter :: string

definition chart_rows :: "(string \<Rightarrow> string \<Rightarrow> bool) \<Rightarrow> usage_row list \<Rightarrow> usage_row list" where
  "chart_rows le us = slice_last 20 (js_sort (\<lambda>a b. le (ur_window_end a) (ur_window_end b)) us)"

definition chartData :: "host \<Rightarrow> (string \<Rightarrow> string \<Rightarrow> bool) \<Rightarrow> usage_row list option \<Rightarrow> chart_bar list" where
  "chartData h le us = (case us of None \<Rightarrow> []
     | Some rows \<Rightarrow> map (\<lambda>r. \<lparr>cb_time = locale_fmt h ''month:short day:numeric hour:2-digit minute:2-digit'' (ur_window_end r),
         cb_quantity = ur_quantity r, cb_meter = meterLabel (ur_meter r)\<rparr>) (chart_rows le rows))"

section \<open>The page\<close>

record fin_props =
  fp_host :: host
  fp_le :: "string \<Rightarrow> string \<Rightarrow> bool"
  fp_summary :: "fin_summary query"
  fp_usage :: "usage_row list query"
  fp_billing :: "billing_status query"

definition term_row :: "string \<Rightarrow> 'e vnode list \<Rightarrow> 'e vnode" where
  "term_row k kids = el ''div'' [el ''dt'' [Txt k], el ''dd'' kids]"

definition contract_card :: "host \<Rightarrow> fin_summary option \<Rightarrow> 'e vnode" where
  "contract_card h s = Card
     [CardHeader [el ''span'' [Txt ''Contract'']],
      (case s of None \<Rightarrow> el ''p'' [Txt ''No active contract.'']
       | Some x \<Rightarrow> (case fs_contract x of None \<Rightarrow> el ''p'' [Txt ''No active contract.'']
         | Some c \<Rightarrow> el ''dl''
             ([term_row ''Plan'' [Txt (nullish (ct_plan_ref c) ''--'')],
               term_row ''State'' [Badge (if ct_state c = ''active'' then ''success'' else ''muted'') [Txt (ct_state c)]],
               term_row ''From'' [Txt (fin_fmtDate h (ct_effective_from c))]] @
              jif (truthy (ct_effective_until c)) (term_row ''Until'' [Txt (fin_fmtDate h (ct_effective_until c))]) @
              [term_row ''ID'' [Txt (ct_contract_id c)]])))]"

definition entitlements_card :: "fin_summary option \<Rightarrow> 'e vnode" where
  "entitlements_card s =
     (let es = nullish (Option.bind s fs_entitlements) []
      in Card [CardHeader [el ''span'' [Txt ''Entitlements'']],
        if es = [] then el ''p'' [Txt ''No entitlements.'']
        else el ''div'' (map (\<lambda>e. Badge (entVariant (en_state e)) [Txt (capLabel (en_capability e))]) es)])"

definition billing_card :: "billing_status query \<Rightarrow> 'e vnode" where
  "billing_card q = Card
     (CardHeader (el ''span'' [Txt ''Billing adapter''] # (case qdata q of None \<Rightarrow> []
        | Some b \<Rightarrow> [Badge (if bs_adapter b = ''stub'' then ''muted'' else ''success'') [Txt (bs_adapter b)]])) #
      (if isLoading q then [Spinner]
       else (case qdata q of None \<Rightarrow> []
         | Some b \<Rightarrow> [el ''div''
             ([el ''div'' [el ''span'' [Txt ''Status''], Badge (if bs_status b = ''active'' then ''success'' else ''warning'') [Txt (bs_status b)]]] @
              jif (truthy (bs_detail b)) (el ''p'' [Txt (nullish (bs_detail b) [])]) @
              [el ''p'' [Txt ''Set '', el ''span'' [Txt ''BILLING_ADAPTER''], Txt '' env to connect a provider.'']])])))"

definition meters_card :: "fin_summary option \<Rightarrow> 'e vnode" where
  "meters_card s =
     (let ms = nullish (Option.bind s fs_meter_snapshot) []
      in Card [CardHeader [el ''span'' [Txt ''Current usage'']],
        if ms = [] then el ''p'' [Txt ''No readings yet - the worker meters usage hourly.'']
        else el ''dl'' (map (\<lambda>m. term_row (meterLabel (ms_meter m)) [Txt (str_int (ms_quantity m))]) ms)])"

definition usage_card :: "fin_props \<Rightarrow> 'e vnode" where
  "usage_card p =
     (let q = fp_usage p; rows = nullish (qdata q) []; bars = chartData (fp_host p) (fp_le p) (qdata q)
      in Card
       ([CardHeader (el ''span'' [Txt ''Usage history (last 3 days)''] # jif (isFetching q) Spinner)] @
        jif (\<not> isLoading q \<and> bars \<noteq> []) (el ''BarChart''
          (map (\<lambda>b. El ''Bar'' [At ''time'' (cb_time b), At ''meter'' (cb_meter b)] [Txt (str_int (cb_quantity b))]) bars)) @
        [if isLoading q then el ''div'' [Spinner]
         else if isError q then el ''p'' [Txt ''Failed to load usage history.'']
         else if rows = [] then el ''p'' [Txt ''No usage records yet. The worker writes readings every hour.'']
         else el ''table'' [el ''thead'' [el ''tr'' (map (\<lambda>c. el ''th'' [Txt c]) [''Meter'', ''Quantity'', ''Window end''])],
           el ''tbody'' (map (\<lambda>r. El ''tr'' [At ''key'' (ur_usage_id r)]
             [el ''td'' [Txt (meterLabel (ur_meter r))], el ''td'' [Txt (str_int (ur_quantity r))],
              el ''td'' [Txt (fin_fmtTs (fp_host p) (Some (ur_window_end r)))]]) rows)]]))"

definition finops_view :: "fin_props \<Rightarrow> 'e vnode" where
  "finops_view p =
     (let s = qdata (fp_summary p)
      in el ''div''
       [el ''div'' (el ''div'' [el ''h2'' [Txt ''FinOps''], el ''p'' [Txt ''Plan, entitlements and usage metering - observation only'']] #
          jif (isFetching (fp_summary p)) Spinner),
        if isLoading (fp_summary p) then el ''div'' [Spinner]
        else if isError (fp_summary p) then el ''p'' [Txt ''Failed to load FinOps data.'']
        else el ''div'' [contract_card (fp_host p) s, entitlements_card s, billing_card (fp_billing p), meters_card s],
        usage_card p])"

section \<open>Properties\<close>

text \<open>The page offers no event at all.\<close>

lemma finops_inert: "offers (\<lambda>e. False) (finops_view p)"
  by (auto simp: finops_view_def contract_card_def entitlements_card_def billing_card_def meters_card_def usage_card_def term_row_def
      Let_def split: option.split)

text \<open>The chart holds at most twenty of the loaded rows, in the order of their windows, and every row it leaves out ends
  no later than every row it holds.\<close>

lemma chart_newest_rows:
  assumes "totalp le" "transp le" "reflp le"
  defines "by_end \<equiv> \<lambda>a b. le (ur_window_end a) (ur_window_end b)"
  shows "\<exists>old. mset us = mset old + mset (chart_rows le us) \<and> sorted_wrt by_end (chart_rows le us)
    \<and> length (chart_rows le us) = min 20 (length us) \<and> (\<forall>a \<in> set old. \<forall>b \<in> set (chart_rows le us). by_end a b)"
proof -
  let ?s = "js_sort by_end us" let ?n = "length us - 20"
  have split: "?s = take ?n ?s @ chart_rows le us"
    by (simp add: chart_rows_def by_end_def slice_last_def)
  have "le x y \<or> le y x" for x y using assms(1,3) by (metis reflpD totalpD)
  then have "totalp by_end" by (simp add: by_end_def totalpI)
  moreover have "transp by_end" "reflp by_end" using assms(2,3) unfolding by_end_def by (auto intro!: transpI reflpI dest: transpD reflpD)
  ultimately have "sorted_wrt by_end ?s" by (intro sorted_js_sort)
  then have "sorted_wrt by_end (take ?n ?s @ chart_rows le us)" using split by simp
  moreover have "mset us = mset (take ?n ?s) + mset (chart_rows le us)"
    using arg_cong [OF split, of mset] by simp
  moreover have "length (chart_rows le us) = min 20 (length us)"
    by (simp add: chart_rows_def slice_last_def min_def)
  ultimately show ?thesis unfolding sorted_wrt_append by blast
qed

definition sample_usage :: "string \<Rightarrow> usage_row" where
  "sample_usage t = \<lparr>ur_usage_id = t, ur_meter = ''alerting_alerts_active'', ur_quantity = 3, ur_window_start = [], ur_window_end = t\<rparr>"

theorem chart_newest_rows_witness:
  "\<exists>old. mset (map sample_usage [''bb'', ''a'']) = mset old + mset (map sample_usage [''a'', ''bb''])"
proof -
  let ?le = "\<lambda>a b :: string. length a \<le> length b"
  have "totalp ?le" "transp ?le" "reflp ?le" by (auto intro!: totalpI transpI reflpI)
  moreover have "chart_rows ?le (map sample_usage [''bb'', ''a'']) = map sample_usage [''a'', ''bb'']" by code_simp
  ultimately show ?thesis using chart_newest_rows [of ?le "map sample_usage [''bb'', ''a'']"] by metis
qed

end
