(* ===== verification/Platform.thy ===== *)
theory Platform
  imports Complex_Main UiKit
begin

text \<open>
  The platform page, \<open>pages/PlatformPage.tsx\<close>: system health, the branding card, the card of the public status page and
  the card of its components. The two status cards write the same row: of the server, the schema and the upsert of
  \<open>src/api/routers/status_page.py\<close> are modelled, without the database and the uniqueness of the slug.
\<close>

section \<open>Branding\<close>

record branding_cfg =
  bc_configured :: bool
  bc_brand_name :: "string option"
  bc_brand_color :: "string option"
  bc_logo_url :: "string option"

record branding_card =
  br_editing :: bool
  br_name :: string
  br_color :: string
  br_logoUrl :: string
  br_err :: "string option"

definition branding_mount :: branding_card where
  "branding_mount = \<lparr>br_editing = False, br_name = [], br_color = ''#6366f1'', br_logoUrl = [], br_err = None\<rparr>"

datatype branding_event =
    BrEdit "branding_cfg option" | BrName string | BrColor string | BrLogo string | BrSave | BrCancel | BrSaved | BrError mut_error

definition branding_body :: "branding_card \<Rightarrow> json" where
  "branding_body s = jobj
     [(''brand_name'', Some (or_null (trim (br_name s)))), (''brand_color'', Some (or_null (br_color s))),
      (''logo_url'', Some (or_null (trim (br_logoUrl s))))]"

definition branding_startEdit :: "branding_cfg option \<Rightarrow> branding_card" where
  "branding_startEdit cfg = \<lparr>br_editing = True,
     br_name = nullish (Option.bind cfg bc_brand_name) [],
     br_color = nullish (Option.bind cfg bc_brand_color) ''#6366f1'',
     br_logoUrl = nullish (Option.bind cfg bc_logo_url) [], br_err = None\<rparr>"

fun branding_handle :: "string \<Rightarrow> branding_card \<Rightarrow> branding_event \<Rightarrow> branding_card \<times> effect list" where
  "branding_handle tid s (BrEdit cfg) = (branding_startEdit cfg, [])"
| "branding_handle tid s (BrName x) = (s\<lparr>br_name := x\<rparr>, [])"
| "branding_handle tid s (BrColor x) = (s\<lparr>br_color := x\<rparr>, [])"
| "branding_handle tid s (BrLogo x) = (s\<lparr>br_logoUrl := x\<rparr>, [])"
| "branding_handle tid s BrSave =
     (s\<lparr>br_err := None\<rparr>, [Request ''PUT'' ''/api/v1/platform/branding'' (Some (branding_body s))])"
| "branding_handle tid s BrCancel = (s\<lparr>br_editing := False\<rparr>, [])"
| "branding_handle tid s BrSaved = (s\<lparr>br_editing := False\<rparr>, [Invalidate [''branding'', tid]])"
| "branding_handle tid s (BrError e) = (s\<lparr>br_err := Some (nullish (me_message e) ''Save failed.'')\<rparr>, [])"

record branding_props =
  bp_q :: "branding_cfg query"
  bp_pending :: bool

definition branding_shown :: "branding_cfg \<Rightarrow> branding_event vnode" where
  "branding_shown c = el ''dl''
     (jif (truthy (bc_brand_name c)) (el ''div'' [el ''dt'' [Txt ''Name''], el ''dd'' [Txt (nullish (bc_brand_name c) [])]]) @
      jif (truthy (bc_brand_color c)) (el ''div'' [el ''dt'' [Txt ''Color''],
        el ''dd'' [El ''span'' [At ''background'' (nullish (bc_brand_color c) [])] [], el ''span'' [Txt (nullish (bc_brand_color c) [])]]]) @
      jif (truthy (bc_logo_url c)) (el ''div'' [el ''dt'' [Txt ''Logo''], el ''dd'' [Txt (nullish (bc_logo_url c) [])]]))"

definition branding_form :: "branding_props \<Rightarrow> branding_card \<Rightarrow> branding_event vnode" where
  "branding_form p s = el ''div''
     ([el ''div'' [el ''label'' [Txt ''Platform name''],
         El ''input'' [At ''type'' ''text'', At ''value'' (br_name s), OnChange BrName, At ''placeholder'' ''Acme Operations'', At ''maxLength'' ''80''] []],
       el ''div'' [el ''label'' [Txt ''Brand color (hex)''],
         el ''div'' [El ''input'' [At ''type'' ''color'', At ''value'' (br_color s), OnChange BrColor] [],
           El ''input'' [At ''type'' ''text'', At ''value'' (br_color s), OnChange BrColor, At ''placeholder'' ''#6366f1'', At ''maxLength'' ''7''] []]],
       el ''div'' [el ''label'' [Txt ''Logo URL (optional)''],
         El ''input'' [At ''type'' ''text'', At ''value'' (br_logoUrl s), OnChange BrLogo,
           At ''placeholder'' ''https://cdn.example.com/logo.svg'', At ''maxLength'' ''2048''] []]] @
      jif (truthy (br_err s)) (el ''p'' [Txt (nullish (br_err s) [])]) @
      [el ''div''
        [Button ''primary'' ''sm'' [OnClick BrSave, Bo ''disabled'' (bp_pending p)] (jif (bp_pending p) Spinner @ [Txt ''Save'']),
         Button ''secondary'' ''sm'' [OnClick BrCancel] [Txt ''Cancel'']]])"

definition branding_view :: "branding_props \<Rightarrow> branding_card \<Rightarrow> branding_event vnode" where
  "branding_view p s =
     (let cfg = qdata (bp_q p); configured = (case cfg of None \<Rightarrow> False | Some c \<Rightarrow> bc_configured c)
      in Card
       [CardHeader (el ''span'' [Txt ''White-label Branding''] # jif configured (Badge ''success'' [Txt ''configured''])),
        if isLoading (bp_q p) then Spinner
        else if \<not> br_editing s then el ''div''
          [case cfg of
             Some c \<Rightarrow> if bc_configured c then branding_shown c
               else el ''p'' [Txt ''Not configured. Set a brand name, color, and logo for white-label deployments.'']
           | None \<Rightarrow> el ''p'' [Txt ''Not configured. Set a brand name, color, and logo for white-label deployments.''],
           Button ''secondary'' ''sm'' [OnClick (BrEdit cfg)] [Txt (if configured then ''Edit'' else ''Configure'')]]
        else branding_form p s])"

section \<open>Health and release outcomes\<close>

definition health_variant :: "string \<Rightarrow> string" where
  "health_variant st = (if st = ''ok'' \<or> st = ''ready'' then ''success''
     else if st = ''degraded'' \<or> st = ''stale'' then ''warning''
     else if st = ''unavailable'' \<or> st = ''not_ready'' \<or> st = ''failed'' then ''danger'' else ''muted'')"

definition outcome_descriptions :: "(string \<times> string) list" where
  "outcome_descriptions =
    [(''safe_recoverable'', ''Safe to deploy -- rollback available and all evidence current''),
     (''safe_forward_only'', ''Safe to deploy -- no rollback path, forward-only migration''),
     (''unsafe'', ''Deployment blocked -- evidence gaps or security concerns''),
     (''ambiguous'', ''Classification inconclusive -- human review required'')]"

definition OutcomeList :: "string list \<Rightarrow> 'e vnode" where
  "OutcomeList os = el ''ul'' (map (\<lambda>x. El ''li'' [At ''key'' x]
     [el ''span'' [Txt x], el ''span'' [Txt (nullish (map_of outcome_descriptions x) [])]]) os)"

record worker_health =
  wh_state :: string
  wh_mode :: string
  wh_seconds_stale :: "rat option"

record health_ready =
  hr_status :: string
  hr_environment :: string
  hr_database :: "(string \<times> string) option"   \<comment> \<open>state, mode\<close>
  hr_workers :: "worker_health option"

text \<open>\<open>s.replace("_", " ")\<close>: the first one only.\<close>

fun replace_first :: "char \<Rightarrow> char \<Rightarrow> string \<Rightarrow> string" where
  "replace_first a b [] = []"
| "replace_first a b (c # cs) = (if c = a then b # cs else c # replace_first a b cs)"

definition worker_text :: "worker_health \<Rightarrow> string" where
  "worker_text w = wh_state w @ (case wh_seconds_stale w of None \<Rightarrow> [] | Some t \<Rightarrow> '' ('' @ str_int \<lfloor>t + 1 / 2\<rfloor> @ ''s)'')"

section \<open>The card of the status page\<close>

record comp_item =
  co_name :: string
  co_description :: string
  co_status :: string

record status_cfg =
  sg_configured :: bool
  sg_status_slug :: "string option"
  sg_public_name :: "string option"
  sg_enabled :: "bool option"
  sg_public_url :: "string option"
  sg_components :: "comp_item list option"

record status_card =
  sa_editing :: bool
  sa_slug :: string
  sa_name :: string
  sa_enabled :: bool
  sa_err :: "string option"

definition status_mount :: status_card where
  "status_mount = \<lparr>sa_editing = False, sa_slug = [], sa_name = [], sa_enabled = True, sa_err = None\<rparr>"

datatype status_event =
    SaEdit "status_cfg option" | SaSlug string | SaName string | SaToggle | SaSave | SaCancel | SaSaved | SaError mut_error

definition status_page_path :: string where
  "status_page_path = ''/api/v1/platform/status-page''"

definition status_body :: "status_card \<Rightarrow> json" where
  "status_body s = jobj [(''status_slug'', Some (JStr (trim (sa_slug s)))), (''public_name'', Some (JStr (trim (sa_name s)))),
     (''enabled'', Some (JBool (sa_enabled s)))]"

definition status_startEdit :: "status_cfg option \<Rightarrow> status_card" where
  "status_startEdit cfg = \<lparr>sa_editing = True, sa_slug = nullish (Option.bind cfg sg_status_slug) [],
     sa_name = nullish (Option.bind cfg sg_public_name) [], sa_enabled = nullish (Option.bind cfg sg_enabled) True, sa_err = None\<rparr>"

fun status_handle :: "string \<Rightarrow> status_card \<Rightarrow> status_event \<Rightarrow> status_card \<times> effect list" where
  "status_handle tid s (SaEdit cfg) = (status_startEdit cfg, [])"
| "status_handle tid s (SaSlug x) = (s\<lparr>sa_slug := toLowerCase x\<rparr>, [])"
| "status_handle tid s (SaName x) = (s\<lparr>sa_name := x\<rparr>, [])"
| "status_handle tid s SaToggle = (s\<lparr>sa_enabled := \<not> sa_enabled s\<rparr>, [])"
| "status_handle tid s SaSave = (s\<lparr>sa_err := None\<rparr>, [Request ''PUT'' status_page_path (Some (status_body s))])"
| "status_handle tid s SaCancel = (s\<lparr>sa_editing := False\<rparr>, [])"
| "status_handle tid s SaSaved = (s\<lparr>sa_editing := False\<rparr>, [Invalidate [''status-page-cfg'', tid]])"
| "status_handle tid s (SaError e) = (s\<lparr>sa_err := Some (detail_or e ''Failed to save.'')\<rparr>, [])"

record status_props =
  sap_q :: "status_cfg query"
  sap_pending :: bool

definition status_form :: "status_props \<Rightarrow> status_card \<Rightarrow> status_event vnode" where
  "status_form p s = el ''div''
     ([el ''div'' ([el ''label'' [Txt ''Slug (URL)''],
         El ''input'' [At ''type'' ''text'', At ''value'' (sa_slug s), OnChange SaSlug, At ''placeholder'' ''my-company''] []] @
         jif (sa_slug s \<noteq> []) (el ''p'' [Txt ''/status/'', Txt (sa_slug s)])),
       el ''div'' [el ''label'' [Txt ''Public name''],
         El ''input'' [At ''type'' ''text'', At ''value'' (sa_name s), OnChange SaName, At ''placeholder'' ''Acme Corp''] []],
       el ''label'' [El ''input'' [At ''type'' ''checkbox'', Bo ''checked'' (sa_enabled s), OnChange (\<lambda>_. SaToggle)] [],
         Txt ''Enabled (publicly accessible)'']] @
      jif (truthy (sa_err s)) (el ''p'' [Txt (nullish (sa_err s) [])]) @
      [el ''div''
        [Button ''primary'' ''sm'' [OnClick SaSave, Bo ''disabled'' (sap_pending p \<or> trim (sa_slug s) = [] \<or> trim (sa_name s) = [])]
           (jif (sap_pending p) Spinner @ [Txt ''Save'']),
         Button ''secondary'' ''sm'' [OnClick SaCancel] [Txt ''Cancel'']]])"

definition status_view :: "status_props \<Rightarrow> status_card \<Rightarrow> status_event vnode" where
  "status_view p s =
     (let cfg = qdata (sap_q p); configured = (case cfg of None \<Rightarrow> False | Some c \<Rightarrow> sg_configured c);
          on = nullish (Option.bind cfg sg_enabled) False; url = nullish (Option.bind cfg sg_public_url) []
      in Card
       [CardHeader (el ''span'' [Txt ''Public Status Page''] #
          jif configured (Badge (if on then ''success'' else ''muted'') [Txt (if on then ''enabled'' else ''disabled'')])),
        if isLoading (sap_q p) then Spinner
        else if \<not> sa_editing s then el ''div''
          [if configured then el ''Fragment''
             [el ''div'' [el ''span'' [Txt ''URL''], El ''a'' [At ''href'' url] [Txt url]],
              el ''div'' [el ''span'' [Txt ''Name''], el ''span'' [Txt (nullish (Option.bind cfg sg_public_name) [])]]]
           else el ''p'' [Txt ''Not configured. Set up a public URL for customers to check service status.''],
           Button ''secondary'' ''sm'' [OnClick (SaEdit cfg)] [Txt (if configured then ''Edit'' else ''Configure'')]]
        else status_form p s])"

section \<open>The card of the components\<close>

definition COMP_STATUS_OPTIONS :: "(string \<times> string) list" where
  "COMP_STATUS_OPTIONS = [(''operational'', ''Operacional''), (''degraded'', ''Degradado''), (''outage'', ''Incidente ativo''),
     (''maintenance'', ''Manutencao'')]"

definition COMP_STATUS_COLOR :: "(string \<times> string) list" where
  "COMP_STATUS_COLOR = [(''operational'', ''#6fdc8c''), (''degraded'', ''#e6b450''), (''outage'', ''#ff6b6b''), (''maintenance'', ''#8b93a5'')]"

record comps_card =
  cc_components :: "comp_item list"
  cc_initialized :: bool
  cc_newName :: string
  cc_newDesc :: string
  cc_newStatus :: string
  cc_err :: "string option"
  cc_saved :: bool

definition comps_mount :: comps_card where
  "comps_mount = \<lparr>cc_components = [], cc_initialized = False, cc_newName = [], cc_newDesc = [], cc_newStatus = ''operational'',
     cc_err = None, cc_saved = False\<rparr>"

text \<open>\<open>CcLoad\<close> is the effect that runs after a render with data.\<close>

datatype comps_event =
    CcLoad status_cfg | CcName string | CcDesc string | CcStatus string | CcAdd | CcRemove nat
  | CcSave "status_cfg option" | CcSaved | CcTimer | CcError mut_error

definition comp_json :: "comp_item \<Rightarrow> json" where
  "comp_json c = jobj [(''name'', Some (JStr (co_name c))), (''description'', Some (JStr (co_description c))),
     (''status'', Some (JStr (co_status c)))]"

definition comps_body :: "status_cfg \<Rightarrow> comp_item list \<Rightarrow> json" where
  "comps_body cfg cs = jobj
     [(''status_slug'', map_option JStr (sg_status_slug cfg)), (''public_name'', map_option JStr (sg_public_name cfg)),
      (''enabled'', Some (JBool (nullish (sg_enabled cfg) True))), (''components'', Some (JArr (map comp_json cs)))]"

definition addComponent :: "comps_card \<Rightarrow> comps_card" where
  "addComponent s = (let t = trim (cc_newName s) in
     if t = [] then s
     else s\<lparr>cc_components := cc_components s @ [\<lparr>co_name = t, co_description = trim (cc_newDesc s), co_status = cc_newStatus s\<rparr>],
            cc_newName := [], cc_newDesc := [], cc_newStatus := ''operational''\<rparr>)"

definition removeComponent :: "nat \<Rightarrow> comps_card \<Rightarrow> comps_card" where
  "removeComponent i s = s\<lparr>cc_components := take i (cc_components s) @ drop (Suc i) (cc_components s)\<rparr>"

fun comps_handle :: "string \<Rightarrow> comps_card \<Rightarrow> comps_event \<Rightarrow> comps_card \<times> effect list" where
  "comps_handle tid s (CcLoad cfg) =
     (if cc_initialized s then s else s\<lparr>cc_components := nullish (sg_components cfg) [], cc_initialized := True\<rparr>, [])"
| "comps_handle tid s (CcName x) = (s\<lparr>cc_newName := x\<rparr>, [])"
| "comps_handle tid s (CcDesc x) = (s\<lparr>cc_newDesc := x\<rparr>, [])"
| "comps_handle tid s (CcStatus x) = (s\<lparr>cc_newStatus := x\<rparr>, [])"
| "comps_handle tid s CcAdd = (addComponent s, [])"
| "comps_handle tid s (CcRemove i) = (removeComponent i s, [])"
| "comps_handle tid s (CcSave cfg) =
     (case cfg of
        Some c \<Rightarrow> if sg_configured c
          then (s\<lparr>cc_err := None\<rparr>, [Request ''PUT'' status_page_path (Some (comps_body c (cc_components s)))])
          else (s\<lparr>cc_err := Some ''Falha ao salvar componentes.''\<rparr>, [])
      | None \<Rightarrow> (s\<lparr>cc_err := Some ''Falha ao salvar componentes.''\<rparr>, []))"
| "comps_handle tid s CcSaved = (s\<lparr>cc_err := None, cc_saved := True\<rparr>, [Invalidate [''status-page-cfg'', tid]])"
| "comps_handle tid s CcTimer = (s\<lparr>cc_saved := False\<rparr>, [])"
| "comps_handle tid s (CcError e) = (s\<lparr>cc_err := Some (detail_or e ''Falha ao salvar componentes.'')\<rparr>, [])"

definition comp_row :: "nat \<times> comp_item \<Rightarrow> comps_event vnode" where
  "comp_row x = (let c = snd x in El ''div'' [At ''key'' (str_nat (fst x))]
     [el ''div'' (el ''span'' [Txt (co_name c)] # jif (co_description c \<noteq> []) (el ''span'' [Txt ''-- '', Txt (co_description c)])),
      El ''span'' [At ''color'' (nullish (map_of COMP_STATUS_COLOR (co_status c)) [])]
        [Txt (nullish (map_of COMP_STATUS_OPTIONS (co_status c)) (co_status c))],
      button [OnClick (CcRemove (fst x))] [Txt ''Remover'']])"

definition comps_form :: "comps_card \<Rightarrow> comps_event vnode" where
  "comps_form s = el ''div''
     [el ''p'' [Txt ''Adicionar componente''],
      el ''div''
       [el ''div'' [el ''label'' [Txt ''Nome *''],
          El ''input'' [At ''type'' ''text'', At ''value'' (cc_newName s), OnChange CcName, OnEnter CcAdd, At ''placeholder'' ''CRM'', At ''maxLength'' ''80''] []],
        el ''div'' [el ''label'' [Txt ''Descricao (opcional)''],
          El ''input'' [At ''type'' ''text'', At ''value'' (cc_newDesc s), OnChange CcDesc, OnEnter CcAdd,
            At ''placeholder'' ''Sistema de relacionamento'', At ''maxLength'' ''120''] []],
        el ''div'' [el ''label'' [Txt ''Status''], select_view (cc_newStatus s) CcStatus COMP_STATUS_OPTIONS],
        Button ''secondary'' ''sm'' [OnClick CcAdd, Bo ''disabled'' (trim (cc_newName s) = [])] [Txt ''Adicionar'']]]"

definition comps_view :: "status_props \<Rightarrow> comps_card \<Rightarrow> comps_event vnode" where
  "comps_view p s =
     (let cfg = qdata (sap_q p); cs = cc_components s; n = length cs
      in Card
       [CardHeader [el ''span'' [Txt ''Componentes da Status Page''],
          Badge ''muted'' [Txt (str_nat n), Txt '' componente'', Txt (if n \<noteq> 1 then ''s'' else [])]],
        if isLoading (sap_q p) then Spinner
        else if \<not> (case cfg of None \<Rightarrow> False | Some c \<Rightarrow> sg_configured c)
        then el ''p'' [Txt ''Configure a Status Page primeiro antes de definir os componentes.'']
        else el ''div''
         (jif (0 < n) (el ''div'' (map comp_row (enumerate 0 cs))) @
          [comps_form s] @
          jif (truthy (cc_err s)) (el ''p'' [Txt (nullish (cc_err s) [])]) @
          jif (cc_saved s) (el ''p'' [Txt ''Componentes salvos com sucesso.'']) @
          [Button ''primary'' ''sm'' [OnClick (CcSave cfg), Bo ''disabled'' (sap_pending p)]
             (jif (sap_pending p) Spinner @ [Txt ''Salvar componentes''])])])"

section \<open>The page\<close>

definition platform_env :: "string option \<Rightarrow> health_ready option \<Rightarrow> string" where
  "platform_env live h = nullish live (nullish (map_option hr_environment h) ''unknown'')"

record platform_props =
  pl_health :: "health_ready query"
  pl_live_env :: "string option"
  pl_outcomes :: "string list query"

definition health_card :: "platform_props \<Rightarrow> 'e vnode" where
  "health_card p =
     (let h = qdata (pl_health p)
      in Card
       ([CardHeader (el ''span'' [Txt ''System health''] # (case h of None \<Rightarrow> []
           | Some x \<Rightarrow> [Badge (health_variant (hr_status x)) [Txt (replace_first (CHR ''_'') (CHR '' '') (hr_status x))]]))] @
        (if isLoading (pl_health p) then [Spinner]
         else if isError (pl_health p) then [el ''p'' [Txt ''Health check unavailable.'']]
         else (case h of None \<Rightarrow> []
           | Some x \<Rightarrow> [el ''dl''
              ([el ''div'' [el ''dt'' [Txt ''Environment''], el ''dd'' [Txt (platform_env (pl_live_env p) h)]]] @
               (case hr_database x of None \<Rightarrow> []
                | Some d \<Rightarrow> [el ''div'' [el ''dt'' [Txt ''Database''], el ''dd'' [Badge (health_variant (fst d)) [Txt (fst d)]]]]) @
               (case hr_workers x of None \<Rightarrow> []
                | Some w \<Rightarrow> [el ''div'' [el ''dt'' [Txt ''Workers''], el ''dd'' [Badge (health_variant (wh_state w)) [Txt (worker_text w)]]]]))]))))"

definition gate_card :: "string \<Rightarrow> 'e vnode" where
  "gate_card env = Card
     [CardHeader [el ''span'' [Txt ''Production gate''],
        Badge (if env = ''production'' then ''success'' else ''warning'') [Txt (if env = ''production'' then ''production'' else ''not production'')]],
      el ''div'' [el ''p'' [Txt ''Run the preflight script before promoting to production:''],
        el ''pre'' [Txt ''python -m scripts.production_preflight''],
        el ''p'' [Txt ''The script validates environment, TLS, secrets, DB connectivity, worker heartbeat, and migration state. Exit 0 = authorized.'']]]"

definition platform_view :: "platform_props \<Rightarrow> 'e vnode" where
  "platform_view p = el ''div''
     [el ''div'' (el ''div'' [el ''h2'' [Txt ''Platform''], el ''p'' [Txt ''System health - release classification vocabulary'']] #
        jif (isFetching (pl_health p)) Spinner),
      el ''div''
       [health_card p, gate_card (platform_env (pl_live_env p) (qdata (pl_health p))),
        el ''StatusPageCard'' [], el ''BrandingCard'' [], el ''StatusPageComponentsCard'' [],
        Card (CardHeader (el ''span'' [Txt ''Release outcome classes''] # jif (isFetching (pl_outcomes p)) Spinner) #
          (if isLoading (pl_outcomes p) then [Spinner]
           else if isError (pl_outcomes p) then [el ''p'' [Txt ''Unavailable.'']]
           else (case qdata (pl_outcomes p) of None \<Rightarrow> [] | Some os \<Rightarrow> [OutcomeList os])))]]"

section \<open>The server's side of the status page\<close>

text \<open>\<open>StatusPageConfig\<close> and the columns that \<open>upsert_status_page_config\<close> writes; a refusal (422) is \<^const>\<open>None\<close>. Python's
  white space and \<open>isalnum\<close> are those of the first 256 code points.\<close>

record status_row =
  sr_slug :: string
  sr_name :: string
  sr_enabled :: bool
  sr_components :: "json list"

definition py_space :: "char \<Rightarrow> bool" where
  "py_space c \<longleftrightarrow> (let n = of_char c :: nat in 9 \<le> n \<and> n \<le> 13 \<or> 28 \<le> n \<and> n \<le> 32 \<or> n = 133 \<or> n = 160)"

definition py_strip :: "string \<Rightarrow> string" where
  "py_strip s = rev (dropWhile py_space (rev (dropWhile py_space s)))"

lemma py_strip_strip: "py_strip = strip py_space"
  by (simp add: fun_eq_iff py_strip_def strip_def)

definition py_alnum :: "char \<Rightarrow> bool" where
  "py_alnum c \<longleftrightarrow> (let n = of_char c :: nat in 48 \<le> n \<and> n \<le> 57 \<or> 65 \<le> n \<and> n \<le> 90 \<or> 97 \<le> n \<and> n \<le> 122
     \<or> n \<in> {170, 178, 179, 181, 185, 186, 188, 189, 190} \<or> 192 \<le> n \<and> n \<noteq> 215 \<and> n \<noteq> 247)"

definition slug_ok :: "string \<Rightarrow> bool" where
  "slug_ok s \<longleftrightarrow> (let t = filter (\<lambda>c. c \<noteq> CHR ''-'') s in t \<noteq> [] \<and> list_all py_alnum t)"

text \<open>The fields with a default: absent, or of the declared type. Coercions of other types are left out: they are refused.\<close>

fun enabled_field :: "json option \<Rightarrow> bool option" where
  "enabled_field None = Some True"
| "enabled_field (Some (JBool e)) = Some e"
| "enabled_field _ = None"

fun is_obj :: "json \<Rightarrow> bool" where
  "is_obj (JObj fs) = True"
| "is_obj _ = False"

fun components_field :: "json option \<Rightarrow> json list option" where
  "components_field None = Some []"
| "components_field (Some (JArr xs)) = (if list_all is_obj xs then Some xs else None)"
| "components_field _ = None"

definition upsert_status_page_config :: "json \<Rightarrow> status_row option" where
  "upsert_status_page_config b =
     (case (jfield b ''status_slug'', jfield b ''public_name'', enabled_field (jfield b ''enabled''), components_field (jfield b ''components'')) of
        (Some (JStr slug), Some (JStr name), Some on, Some cs) \<Rightarrow>
          (let s = toLowerCase (py_strip slug); n = py_strip name
           in if slug_ok s \<and> n \<noteq> [] then Some \<lparr>sr_slug = s, sr_name = n, sr_enabled = on, sr_components = cs\<rparr> else None)
      | _ \<Rightarrow> None)"

section \<open>Properties\<close>

definition status_allowed :: "status_card \<Rightarrow> status_event \<Rightarrow> bool" where
  "status_allowed s e \<longleftrightarrow> (case e of
      SaSave \<Rightarrow> sa_editing s \<and> trim (sa_slug s) \<noteq> [] \<and> trim (sa_name s) \<noteq> [] | _ \<Rightarrow> True)"

definition status_net :: "status_event \<Rightarrow> bool" where
  "status_net e \<longleftrightarrow> (case e of SaSaved \<Rightarrow> True | SaError _ \<Rightarrow> True | _ \<Rightarrow> False)"

text \<open>Every save of the card names the row, and says nothing of the components.\<close>

definition status_request :: "effect \<Rightarrow> bool" where
  "status_request f \<longleftrightarrow> \<not> is_request f \<or> (\<exists>slug name on. f = Request ''PUT'' status_page_path (Some (jobj
     [(''status_slug'', Some (JStr slug)), (''public_name'', Some (JStr name)), (''enabled'', Some (JBool on))]))
     \<and> slug \<noteq> [] \<and> trim slug = slug \<and> name \<noteq> [] \<and> trim name = name)"

lemma status_body_request:
  assumes "trim (sa_slug s) \<noteq> []" "trim (sa_name s) \<noteq> []"
  shows "status_request (Request ''PUT'' status_page_path (Some (status_body s)))"
proof -
  have "trim (trim (sa_slug s)) = trim (sa_slug s)" "trim (trim (sa_name s)) = trim (sa_name s)" by simp_all
  with assms show ?thesis unfolding status_request_def status_body_def by blast
qed

lemma status_request_other: "\<not> is_request f \<Longrightarrow> status_request f"
  by (simp add: status_request_def)

interpretation sa: component "\<lambda>s. s = status_mount" status_view "status_handle tid" status_net status_allowed "\<lambda>s. True" status_request for tid
proof unfold_locales
  show "solo (status_view p s)" for p s by (auto simp: status_view_def status_form_def Let_def)
  show "offers (status_allowed s) (status_view p s)" for p s
    by (auto simp: status_view_def status_form_def status_allowed_def Let_def)
  show "status_net e \<Longrightarrow> status_allowed s e" for s e by (cases e) (simp_all add: status_net_def status_allowed_def)
  show "status_allowed s e \<Longrightarrow> list_all status_request (snd (status_handle tid s e))" for s e
    by (cases e) (auto simp: status_allowed_def intro: status_body_request status_request_other)
qed simp_all

text \<open>Every save of the status page card (name, slug or switch) that the server accepts leaves the page without any
  component, since the request carries none and the server writes its default, the empty list.\<close>

lemma status_save_clears_components:
  assumes "reach (\<lambda>s. s = status_mount) status_view (status_handle tid) status_net s out"
    and "Request m path (Some b) \<in> set out" and "upsert_status_page_config b = Some r"
  shows "sr_components r = []"
proof -
  have "status_request (Request m path (Some b))" using sa.emitted_safe [OF assms(1,2)] .
  then obtain slug name on where "b = jobj
     [(''status_slug'', Some (JStr slug)), (''public_name'', Some (JStr name)), (''enabled'', Some (JBool on))]"
    unfolding status_request_def by auto
  then show ?thesis using assms(3) by (auto simp: upsert_status_page_config_def jfield_jobj Let_def split: if_splits)
qed

text \<open>The card of the components writes the list on the screen with the slug, name and switch that were loaded.\<close>

lemma comp_jsons_objs [simp]: "list_all is_obj (map comp_json cs)"
  by (simp add: list_all_iff comp_json_def jobj_def)

lemma comps_save_keeps_row:
  assumes "sg_status_slug c = Some slug" "sg_public_name c = Some name" "upsert_status_page_config (comps_body c cs) = Some r"
  shows "sr_components r = map comp_json cs \<and> sr_slug r = toLowerCase (py_strip slug) \<and> sr_name r = py_strip name
    \<and> sr_enabled r = nullish (sg_enabled c) True"
  using assms by (auto simp: upsert_status_page_config_def comps_body_def jfield_jobj Let_def split: if_splits)

definition comps_net :: "comps_event \<Rightarrow> bool" where
  "comps_net e \<longleftrightarrow> (case e of CcLoad _ \<Rightarrow> True | CcSaved \<Rightarrow> True | CcTimer \<Rightarrow> True | CcError _ \<Rightarrow> True | _ \<Rightarrow> False)"

text \<open>The list is loaded once: what other renders bring later is not taken over, but the row they bring is what a save is
  written to. A change made elsewhere in the meantime is overwritten.\<close>

lemma comps_lost_update:
  fixes c1 c2 :: status_cfg
  assumes "sg_configured c2"
  shows "\<exists>s. reach (\<lambda>s. s = comps_mount) comps_view (comps_handle tid) comps_net s
     [Request ''PUT'' status_page_path (Some (comps_body c2 (nullish (sg_components c1) [])))]"
proof -
  let ?r = "reach (\<lambda>s. s = comps_mount) comps_view (comps_handle tid) comps_net"
  let ?s = "comps_mount\<lparr>cc_components := nullish (sg_components c1) [], cc_initialized := True\<rparr>"
  let ?p = "\<lparr>sap_q = loaded c2, sap_pending = False\<rparr>"
  have first: "comps_handle tid comps_mount (CcLoad c1) = (?s, [])" and later: "comps_handle tid ?s (CcLoad c2) = (?s, [])"
    by (simp_all add: comps_mount_def)
  have "?r ?s []" by (rule reach_settle1 [where handle = "comps_handle tid", OF _ _ first]) (simp_all add: comps_net_def)
  then have "?r ?s ([] @ [])" by (rule reach.settle [where handle = "comps_handle tid", OF _ _ later]) (simp_all add: comps_net_def)
  then have r: "?r ?s []" by simp
  have "can_click (comps_view ?p ?s) [CcSave (Some c2)]"
    using assms by (simp add: comps_view_def Card_def can_click_El loaded_def Let_def)
  from reach_click [OF r this] show ?thesis using assms by (auto simp: comps_mount_def)
qed

text \<open>Adding and removing at the same place leaves the list as it was.\<close>

lemma add_remove: "cc_components (removeComponent (length (cc_components s)) (addComponent s)) = cc_components s"
  by (simp add: removeComponent_def addComponent_def Let_def)

end
