(* ===== verification/StatusPublic.thy ===== *)
theory StatusPublic
  imports Platform
begin

text \<open>
  The public status page, \<open>pages/StatusPublicPage.tsx\<close>, and the routes of \<open>App.tsx\<close>. The page is the reader of the row
  that the platform page writes: of the servers between them, the answers of \<open>get_status_page_config\<close>
  (\<open>src/api/routers/status_page.py\<close>) and of \<open>public_status_json\<close> (\<open>src/bff/main.py\<close>) are modelled, over a list of alerts
  instead of the database.
\<close>

section \<open>Data\<close>

record pub_comp =
  pc_name :: string
  pc_description :: "string option"
  pc_status :: string

record status_data =
  sd_public_name :: string
  sd_status :: string
  sd_active_alerts :: nat
  sd_critical_alerts :: nat
  sd_source_count :: nat
  sd_components :: "pub_comp list option"

text \<open>Label, colour and icon; border and background are layout.\<close>

definition STATUS_CONFIG :: "(string \<times> string \<times> string \<times> string) list" where
  "STATUS_CONFIG =
     [(''operational'', ''Todos os sistemas operacionais'', ''#6fdc8c'', ''CheckCircle''),
      (''degraded'', ''Degradacao de performance'', ''#e6b450'', ''AlertTriangle''),
      (''outage'', ''Interrupcao de servico'', ''#ff6b6b'', ''AlertOctagon''),
      (''maintenance'', ''Em manutencao'', ''#8b93a5'', ''HelpCircle''),
      (''unknown'', ''Status desconhecido'', ''#8b93a5'', ''HelpCircle'')]"

definition status_config :: "string \<Rightarrow> string \<times> string \<times> string" where
  "status_config s = nullish (map_of STATUS_CONFIG s) (''Status desconhecido'', ''#8b93a5'', ''HelpCircle'')"

definition COMPONENT_LABEL :: "(string \<times> string) list" where
  "COMPONENT_LABEL = [(''operational'', ''Operacional''), (''degraded'', ''Degradado''), (''outage'', ''Incidente ativo''),
     (''maintenance'', ''Manutencao''), (''unknown'', ''Desconhecido'')]"

text \<open>The message of the error, or the body; a body that is no JSON throws the host's own error.\<close>

definition fetchStatus :: "outcome \<Rightarrow> string + json" where
  "fetchStatus r = (case r of
      NetworkFailure m \<Rightarrow> Inl m
    | Response st stt txt js \<Rightarrow>
        if st = 404 then Inl ''not_found''
        else if \<not> res_ok st then Inl ''fetch_error''
        else (case js of None \<Rightarrow> Inl ''SyntaxError'' | Some j \<Rightarrow> Inr j))"

definition Dot :: "string \<Rightarrow> 'e vnode" where
  "Dot color = El ''span'' [At ''background'' color] []"

definition monitoringStatus :: "status_data \<Rightarrow> string" where
  "monitoringStatus d = (if 0 < sd_critical_alerts d then ''outage'' else if 0 < sd_active_alerts d then ''degraded''
     else if 0 < sd_source_count d then ''operational'' else ''unknown'')"

definition alertsStatus :: "status_data \<Rightarrow> string" where
  "alertsStatus d = (if 0 < sd_critical_alerts d then ''outage'' else if 0 < sd_active_alerts d then ''degraded'' else ''operational'')"

section \<open>The page\<close>

record public_props =
  pp_slug :: string
  pp_now :: string
  pp_q :: "status_data query"
  pp_error :: "string option"   \<comment> \<open>the error's message\<close>

datatype public_event = PubRefetch

definition shown_components :: "status_data \<Rightarrow> pub_comp list" where
  "shown_components d =
     (if nullish (sd_components d) [] \<noteq> [] then nullish (sd_components d) []
      else [\<lparr>pc_name = ''Monitoramento'', pc_description = None, pc_status = monitoringStatus d\<rparr>,
            \<lparr>pc_name = ''Alertas'', pc_description = None, pc_status = alertsStatus d\<rparr>,
            \<lparr>pc_name = ''Plataforma'', pc_description = None, pc_status = ''operational''\<rparr>])"

definition pub_row :: "pub_comp \<Rightarrow> 'e vnode" where
  "pub_row c = El ''div'' [At ''key'' (pc_name c)]
     [el ''div'' (el ''span'' [Txt (pc_name c)] # jif (truthy (pc_description c)) (el ''span'' [Txt (nullish (pc_description c) [])])),
      el ''span'' [Dot (fst (snd (status_config (pc_status c)))),
        Txt (nullish (map_of COMPONENT_LABEL (pc_status c)) (pc_status c))]]"

definition pub_metric :: "string \<Rightarrow> nat \<Rightarrow> string \<Rightarrow> 'e vnode" where
  "pub_metric label v color = El ''div'' [At ''key'' label]
     [El ''div'' [At ''color'' color] [Txt (str_nat v)], el ''div'' [Txt label]]"

definition pub_status :: "string \<Rightarrow> status_data \<Rightarrow> 'e vnode list" where
  "pub_status now d =
     (let cfg = status_config (sd_status d)
      in [el ''div'' [El (snd (snd cfg)) [At ''color'' (fst (snd cfg))] [],
            el ''div'' [El ''div'' [At ''color'' (fst (snd cfg))] [Txt (fst cfg)], el ''div'' [Txt ''Atualizado em '', Txt now]]],
          el ''div''
           [pub_metric ''Alertas ativos'' (sd_active_alerts d) ''var(--text)'',
            pub_metric ''Criticos'' (sd_critical_alerts d) (if 0 < sd_critical_alerts d then ''var(--red)'' else ''var(--text-muted)''),
            pub_metric ''Fontes monitoradas'' (sd_source_count d) ''var(--brand)''],
          el ''div'' (el ''div'' [Txt ''Componentes''] # map pub_row (shown_components d))] @
         jif (sd_active_alerts d = 0) (el ''div'' [Txt ''Nenhum incidente registrado nos ultimos 90 dias.'']) @
         [el ''div'' [Txt ''Atualizacao automatica a cada 60 segundos'']])"

definition public_view :: "public_props \<Rightarrow> public_event vnode" where
  "public_view p =
     (let q = pp_q p
      in el ''div''
       [el ''header'' [el ''span'' [Txt (nullish (map_option sd_public_name (qdata q)) (pp_slug p))],
          button [OnClick PubRefetch, Bo ''disabled'' (isFetching q)] [el ''RefreshCw'' [], Txt ''Atualizar'']],
        el ''main''
         (jif (isLoading q) (el ''div'' [Txt ''Carregando status...'']) @
          jif (isError q \<and> pp_error p = Some ''not_found'')
            (el ''div'' [el ''HelpCircle'' [], el ''p'' [Txt ''Pagina de status nao encontrada''],
               el ''p'' [Txt ''Verifique o endereco ou contate o responsavel pelo servico.'']]) @
          jif (isError q \<and> pp_error p \<noteq> Some ''not_found'')
            (el ''div'' [Txt ''Nao foi possivel carregar o status. Tente novamente em instantes.'']) @
          (case qdata q of None \<Rightarrow> [] | Some d \<Rightarrow> pub_status (pp_now p) d)),
        el ''footer'' [el ''div'' [Txt ''Atualizado em '', Txt (pp_now p)], Txt ''Monitorado por '', el ''span'' [Txt ''JLMirror'']]])"

text \<open>The routes of the application: the public page needs no session, everything else is the shell.\<close>

definition App :: "'e vnode" where
  "App = el ''BrowserRouter'' [el ''Routes''
     [El ''Route'' [At ''path'' ''/status/:slug''] [el ''StatusPublicPage'' []],
      El ''Route'' [At ''path'' ''/*''] [el ''Shell'' []]]]"

section \<open>The servers\<close>

text \<open>The row as the platform page reads it back, and as the public page reads it; both pages read the items of the stored
  list by the same three fields.\<close>

definition comp_of :: "json \<Rightarrow> comp_item" where
  "comp_of j = \<lparr>co_name = nullish (str_field j ''name'') [], co_description = nullish (str_field j ''description'') [],
     co_status = nullish (str_field j ''status'') []\<rparr>"

definition pub_comp_of :: "json \<Rightarrow> pub_comp" where
  "pub_comp_of j = \<lparr>pc_name = nullish (str_field j ''name'') [], pc_description = str_field j ''description'',
     pc_status = nullish (str_field j ''status'') []\<rparr>"

definition get_status_page_config :: "status_row option \<Rightarrow> status_cfg" where
  "get_status_page_config row = (case row of
      None \<Rightarrow> \<lparr>sg_configured = False, sg_status_slug = None, sg_public_name = None, sg_enabled = None, sg_public_url = None, sg_components = None\<rparr>
    | Some r \<Rightarrow> \<lparr>sg_configured = True, sg_status_slug = Some (sr_slug r), sg_public_name = Some (sr_name r), sg_enabled = Some (sr_enabled r),
        sg_public_url = Some (''/status/'' @ sr_slug r), sg_components = Some (map comp_of (sr_components r))\<rparr>)"

text \<open>The answer for a found row; an alert is its lifecycle state and the severity class of its evidence.\<close>

definition public_status :: "status_row \<Rightarrow> (string \<times> string option) list \<Rightarrow> nat \<Rightarrow> status_data" where
  "public_status r alerts sources =
     (let live = filter (\<lambda>a. fst a = ''active'') alerts;
          active = length live;
          critical = length (filter (\<lambda>a. snd a = Some ''critical'') live);
          degraded_count = length (filter (\<lambda>a. snd a = Some ''warning'' \<or> snd a = Some ''degraded'') live)
      in \<lparr>sd_public_name = sr_name r,
          sd_status = (if 0 < critical then ''outage'' else if 0 < degraded_count \<or> 0 < active then ''degraded'' else ''operational''),
          sd_active_alerts = active, sd_critical_alerts = critical, sd_source_count = sources,
          sd_components = Some (map pub_comp_of (sr_components r))\<rparr>)"

text \<open>\<^const>\<open>None\<close> is the answer 404.\<close>

definition public_status_json :: "status_row list \<Rightarrow> string \<Rightarrow> (string \<times> string option) list \<Rightarrow> nat \<Rightarrow> status_data option" where
  "public_status_json rows slug alerts sources =
     map_option (\<lambda>r. public_status r alerts sources) (find (\<lambda>r. sr_slug r = slug \<and> sr_enabled r) rows)"

section \<open>Properties\<close>

lemma public_view_laws: "solo (public_view p)" "offers (\<lambda>e. \<not> isFetching (pp_q p)) (public_view p)"
  by (auto simp: public_view_def pub_status_def pub_metric_def pub_row_def Dot_def Let_def split: option.split)

lemma fetch_status_errors:
  "fetchStatus (Response st stt txt js) = Inl ''not_found'' \<longleftrightarrow> st = 404"
  "fetchStatus (Response st stt txt js) = Inr j \<Longrightarrow> res_ok st \<and> js = Some j"
  by (auto simp: fetchStatus_def split: if_splits option.splits)

text \<open>C20: the status the server computes and the statuses the page derives from its counts agree: the row of the alerts
  shows what the banner shows, and so does the row of the monitoring unless there is neither a source nor an alert.\<close>

theorem banner_agrees_with_rows:
  "alertsStatus (public_status r alerts n) = sd_status (public_status r alerts n)
   \<and> monitoringStatus (public_status r alerts n)
     = (if n = 0 \<and> sd_active_alerts (public_status r alerts n) = 0 then ''unknown'' else sd_status (public_status r alerts n))"
  by (auto simp: alertsStatus_def monitoringStatus_def public_status_def Let_def filter_empty_conv)

lemma comp_of_json [simp]: "comp_of (comp_json c) = c"
  by (simp add: comp_of_def str_field_def comp_json_def jfield_jobj)

lemma pub_comp_of_json [simp]:
  "pub_comp_of (comp_json c) = \<lparr>pc_name = co_name c, pc_description = Some (co_description c), pc_status = co_status c\<rparr>"
  by (simp add: pub_comp_of_def str_field_def comp_json_def jfield_jobj)

lemma slug_ok_no_space: "slug_ok s \<Longrightarrow> c \<in> set s \<Longrightarrow> \<not> py_space c"
proof -
  have "\<not> py_space c" if "py_alnum c \<or> c = CHR ''-''" for c
    using that by (auto simp: py_alnum_def py_space_def Let_def)
  then show "slug_ok s \<Longrightarrow> c \<in> set s \<Longrightarrow> \<not> py_space c" by (auto simp: slug_ok_def Let_def list_all_iff)
qed

lemma slug_ok_strip: "slug_ok s \<Longrightarrow> py_strip s = s"
proof -
  assume s: "slug_ok s"
  then have "s \<noteq> []" by (auto simp: slug_ok_def Let_def)
  then show ?thesis using slug_ok_no_space [OF s] unfolding py_strip_strip by (intro strip_id) simp_all
qed

text \<open>What every stored row satisfies.\<close>

lemma upsert_row:
  assumes "upsert_status_page_config b = Some r"
  shows "slug_ok (sr_slug r)" "toLowerCase (sr_slug r) = sr_slug r" "sr_name r \<noteq> []" "py_strip (sr_name r) = sr_name r"
  using assms by (auto simp: upsert_status_page_config_def py_strip_strip Let_def split: option.splits json.splits if_splits)

lemma upsert_comps:
  assumes "upsert_status_page_config (comps_body c cs) = Some r"
  shows "sr_components r = map comp_json cs"
  using assms by (auto simp: upsert_status_page_config_def comps_body_def jfield_jobj Let_def split: option.splits if_splits)

lemma shown_saved:
  "cs \<noteq> [] \<Longrightarrow> sr_components r = map comp_json cs \<Longrightarrow> shown_components (public_status r alerts n)
     = map (\<lambda>x. \<lparr>pc_name = co_name x, pc_description = Some (co_description x), pc_status = co_status x\<rparr>) cs"
  by (simp add: shown_components_def public_status_def Let_def)

text \<open>C19: a list of components that the platform page saves is read back by it as it was saved, is what the public page
  shows, in the same order, and saving the loaded configuration again leaves the row as it is.\<close>

theorem components_roundtrip:
  assumes "upsert_status_page_config (comps_body c cs) = Some r"
  shows "sg_components (get_status_page_config (Some r)) = Some cs
    \<and> (cs \<noteq> [] \<longrightarrow> shown_components (public_status r alerts n)
      = map (\<lambda>x. \<lparr>pc_name = co_name x, pc_description = Some (co_description x), pc_status = co_status x\<rparr>) cs)
    \<and> upsert_status_page_config (comps_body (get_status_page_config (Some r)) cs) = Some r"
proof -
  note row = upsert_row [OF assms] and cs = upsert_comps [OF assms]
  have "sg_components (get_status_page_config (Some r)) = Some cs" by (simp add: get_status_page_config_def cs o_def)
  moreover have objs: "list_all is_obj (sr_components r)" by (simp add: cs)
  have "upsert_status_page_config (comps_body (get_status_page_config (Some r)) cs) = Some r"
    by (simp add: upsert_status_page_config_def comps_body_def get_status_page_config_def jfield_jobj Let_def row slug_ok_strip objs flip: cs)
  ultimately show ?thesis using shown_saved [OF _ cs] by simp
qed

text \<open>After every accepted save of the status page card the public page shows the three generic rows instead of the
  components that were published, since the card's request clears them.\<close>

lemma status_save_hides_components:
  assumes "reach (\<lambda>s. s = status_mount) status_view (status_handle tid) status_net s out"
    and "Request m path (Some b) \<in> set out" and "upsert_status_page_config b = Some r"
  shows "map pc_name (shown_components (public_status r alerts n)) = [''Monitoramento'', ''Alertas'', ''Plataforma'']"
proof -
  have "sr_components r = []" using status_save_clears_components [OF assms] .
  then show ?thesis by (simp add: shown_components_def public_status_def Let_def)
qed

text \<open>A slug is stored in lower case and compared as it is: an address with a capital letter is never found.\<close>

lemma capital_slug_not_found:
  assumes "\<forall>r \<in> set rows. \<exists>b. upsert_status_page_config b = Some r" and "toLowerCase slug \<noteq> slug"
  shows "public_status_json rows slug alerts n = None"
proof -
  have "sr_slug r \<noteq> slug" if "r \<in> set rows" for r
    using that assms upsert_row(2) by (metis bspec)
  then show ?thesis by (auto simp: public_status_json_def find_None_iff)
qed

theorem components_roundtrip_witness:
  "upsert_status_page_config (comps_body (get_status_page_config (Some \<lparr>sr_slug = ''acme'', sr_name = ''Acme Corp'', sr_enabled = False,
      sr_components = map comp_json [\<lparr>co_name = ''CRM'', co_description = [], co_status = ''outage''\<rparr>]\<rparr>))
      [\<lparr>co_name = ''CRM'', co_description = [], co_status = ''outage''\<rparr>])
   = Some \<lparr>sr_slug = ''acme'', sr_name = ''Acme Corp'', sr_enabled = False,
      sr_components = map comp_json [\<lparr>co_name = ''CRM'', co_description = [], co_status = ''outage''\<rparr>]\<rparr>"
proof -
  let ?c = "\<lparr>sg_configured = True, sg_status_slug = Some '' ACME '', sg_public_name = Some ''Acme Corp '', sg_enabled = Some False,
    sg_public_url = None, sg_components = None\<rparr>"
  have "upsert_status_page_config (comps_body ?c [\<lparr>co_name = ''CRM'', co_description = [], co_status = ''outage''\<rparr>])
    = Some \<lparr>sr_slug = ''acme'', sr_name = ''Acme Corp'', sr_enabled = False,
      sr_components = map comp_json [\<lparr>co_name = ''CRM'', co_description = [], co_status = ''outage''\<rparr>]\<rparr>"
    by code_simp
  from components_roundtrip [OF this] show ?thesis by blast
qed

theorem status_save_hides_components_witness:
  "map pc_name (shown_components (public_status \<lparr>sr_slug = ''acme'', sr_name = ''Acme Corp'', sr_enabled = True, sr_components = []\<rparr>
     [(''active'', Some ''critical'')] 1)) = [''Monitoramento'', ''Alertas'', ''Plataforma'']"
proof -
  let ?r = "reach (\<lambda>s. s = status_mount) status_view (status_handle ''t1'') status_net"
  let ?p = "\<lparr>sap_q = loaded \<lparr>sg_configured = True, sg_status_slug = Some ''acme'', sg_public_name = Some ''Acme Corp'', sg_enabled = Some True,
    sg_public_url = None, sg_components = Some [\<lparr>co_name = ''CRM'', co_description = [], co_status = ''operational''\<rparr>]\<rparr>, sap_pending = False\<rparr>"
  let ?s = "status_startEdit (qdata (sap_q ?p))"
  have "can_click (status_view ?p status_mount) [SaEdit (qdata (sap_q ?p))]"
    by (simp add: status_view_def status_mount_def loaded_def Card_def can_click_El Let_def)
  then have "?r ?s ([] @ [])" by (intro reach_click [OF reach.mount]) auto
  moreover have "can_click (status_view ?p ?s) [SaSave]"
    by (simp add: status_view_def status_form_def status_startEdit_def loaded_def Card_def can_click_El Let_def trim_def is_space_def)
  ultimately have r: "?r (?s\<lparr>sa_err := None\<rparr>) (([] @ []) @ [Request ''PUT'' status_page_path (Some (status_body ?s))])"
    by (rule reach_click) simp
  have u: "upsert_status_page_config (status_body ?s) =
      Some \<lparr>sr_slug = ''acme'', sr_name = ''Acme Corp'', sr_enabled = True, sr_components = []\<rparr>"
    by code_simp
  show ?thesis by (rule status_save_hides_components [OF r _ u]) simp
qed

end
