(* ===== verification/PlatformAdmin.thy ===== *)
theory PlatformAdmin
  imports UiKit
begin

text \<open>
  Platform administration, \<open>pages/PlatformAdminPage.tsx\<close>: organizations, tenants, contracts with entitlements, and the
  health of the platform. The page reads its lists as JSON and the types it declares are not those of the server, so the
  answers of \<open>src/api/routers/platform.py\<close> are modelled as the JSON that \<open>list_tenants\<close> and \<open>list_commercial_accounts\<close>
  write, and the page's records are read from it field by field. \<open>update_organization_state\<close> is modelled over lists of rows.
\<close>

section \<open>Data\<close>

record pa_org =
  og_organization_id :: string
  og_display_name :: "string option"
  og_state :: string
  og_created_at :: "string option"

record pa_tenant =
  pt_tenant_id :: string
  pt_name :: "string option"
  pt_org_id :: "string option"
  pt_org_name :: "string option"
  pt_state :: string
  pt_created_at :: "string option"

record pa_contract =
  pk_contract_id :: string
  pk_plan_ref :: "string option"
  pk_state :: string
  pk_effective_from :: "string option"
  pk_effective_until :: "string option"

record pa_entitlement =
  pe_entitlement_id :: string
  pe_capability :: string
  pe_state :: string

record pa_account =
  ac_commercial_account_id :: "string option"
  ac_name :: "string option"
  ac_contracts :: "pa_contract list option"
  ac_entitlements :: "pa_entitlement list option"

record pa_health =
  ph_status :: string
  ph_services :: "(string \<times> string) list option"

definition pa_fmt :: "host \<Rightarrow> string option \<Rightarrow> string" where
  "pa_fmt h t = (if truthy t then locale_fmt h ''pt-BR dateStyle:short'' (nullish t []) else ''--'')"

text \<open>\<open>id.length\<close> of an \<open>undefined\<close> id throws.\<close>

definition truncate_id :: "string option \<Rightarrow> nat \<Rightarrow> js_error + string" where
  "truncate_id i len = (case i of None \<Rightarrow> Inl TypeError | Some s \<Rightarrow> Inr (if len < length s then slice 0 len s @ ''...'' else s))"

definition trunc8 :: "string \<Rightarrow> string" where
  "trunc8 s = (if 8 < length s then slice 0 8 s @ ''...'' else s)"

definition pa_stateVariant :: "string \<Rightarrow> string" where
  "pa_stateVariant st = (if st = ''active'' then ''success'' else if st = ''suspended'' then ''warning''
     else if st = ''cancelled'' \<or> st = ''expired'' then ''danger'' else ''muted'')"

definition CAP_LABELS :: "(string \<times> string) list" where
  "CAP_LABELS = [(''monitoring'', ''Monitoring''), (''alerting'', ''Alerting''), (''itsm'', ''ITSM''), (''aiops'', ''AIOps'')]"

definition pa_capLabel :: "string \<Rightarrow> string" where
  "pa_capLabel c = nullish (map_of CAP_LABELS c) c"

definition CAPABILITIES :: "string list" where
  "CAPABILITIES = [''monitoring'', ''alerting'', ''itsm'', ''aiops'']"

definition ENTITLEMENT_STATES :: "string list" where
  "ENTITLEMENT_STATES = [''active'', ''suspended'', ''expired'']"

text \<open>What typing into a slug field leaves there.\<close>

definition slug_input :: "string \<Rightarrow> string" where
  "slug_input x = join ''-'' (split_runs is_space (toLowerCase x))"

section \<open>Creating an organization\<close>

record org_form =
  of_name :: string
  of_slug :: string
  of_displayName :: string
  of_error :: "string option"

definition org_form_mount :: org_form where
  "org_form_mount = \<lparr>of_name = [], of_slug = [], of_displayName = [], of_error = None\<rparr>"

datatype org_form_event =
    OfName string | OfSlug string | OfDisplay string | OfCreate | OfClose | OfSuccess | OfError mut_error

definition org_body :: "org_form \<Rightarrow> json" where
  "org_body s = (let d = str_or (trim (of_displayName s)) (trim (of_name s))
     in jobj [(''organization_id'', Some (JStr (trim (of_slug s)))), (''display_name'', if d \<noteq> [] then Some (JStr d) else None)])"

fun org_form_handle :: "org_form \<Rightarrow> org_form_event \<Rightarrow> org_form \<times> effect list" where
  "org_form_handle s (OfName x) = (s\<lparr>of_name := x\<rparr>, [])"
| "org_form_handle s (OfSlug x) = (s\<lparr>of_slug := slug_input x\<rparr>, [])"
| "org_form_handle s (OfDisplay x) = (s\<lparr>of_displayName := x\<rparr>, [])"
| "org_form_handle s OfCreate = (s, [Request ''POST'' ''/api/v1/platform/organizations'' (Some (org_body s))])"
| "org_form_handle s OfClose = (s, [Callback ''onClose'' []])"
| "org_form_handle s OfSuccess =
     (s, [Invalidate [''platform-organizations''], Toast ''Organizacao criada'' ''success'', Callback ''onClose'' []])"
| "org_form_handle s (OfError e) = (s\<lparr>of_error := Some (message_or e ''Erro ao criar organizacao'')\<rparr>, [])"

definition pa_input :: "string \<Rightarrow> string \<Rightarrow> string \<Rightarrow> (string \<Rightarrow> 'e) \<Rightarrow> 'e vnode" where
  "pa_input label hint v f = el ''div'' [el ''label'' [Txt label], El ''input'' [At ''value'' v, OnChange f, At ''placeholder'' hint] []]"

definition pa_error :: "string option \<Rightarrow> 'e vnode list" where
  "pa_error err = jif (truthy err) (el ''p'' [Txt (nullish err [])])"

definition pa_buttons :: "'e \<Rightarrow> string \<Rightarrow> bool \<Rightarrow> bool \<Rightarrow> 'e \<Rightarrow> 'e vnode" where
  "pa_buttons create caption invalid pending close = el ''div''
     [Button ''primary'' ''md'' [OnClick create, Bo ''disabled'' (invalid \<or> pending)] [if pending then Spinner else Txt caption],
      Button ''ghost'' ''md'' [OnClick close] [Txt ''Cancelar'']]"

definition org_form_view :: "bool \<Rightarrow> org_form \<Rightarrow> org_form_event vnode" where
  "org_form_view pending s = Modal OfClose
     [el ''h3'' [Txt ''Criar organizacao''],
      el ''div''
       ([pa_input ''Nome *'' ''Acme Corp'' (of_name s) OfName,
         pa_input ''Slug *'' ''acme-corp'' (of_slug s) OfSlug,
         pa_input ''Display name'' ''Acme Corporation'' (of_displayName s) OfDisplay] @
        pa_error (of_error s) @
        [pa_buttons OfCreate ''Criar'' (trim (of_name s) = [] \<or> trim (of_slug s) = []) pending OfClose])]"

section \<open>Organizations\<close>

record orgs_tab =
  ot_showCreate :: bool
  ot_confirmSuspend :: "pa_org option"

definition orgs_tab_mount :: orgs_tab where
  "orgs_tab_mount = \<lparr>ot_showCreate = False, ot_confirmSuspend = None\<rparr>"

record orgs_props =
  otp_host :: host
  otp_q :: "pa_org list query"
  otp_patchPending :: bool

datatype orgs_event =
    OtCreate | OtCreateClose | OtAsk pa_org | OtCancel | OtPatch string string | OtPatched string | OtPatchError mut_error

definition org_state_path :: "string \<Rightarrow> string" where
  "org_state_path i = ''/api/v1/platform/organizations/'' @ i @ ''/state''"

fun orgs_handle :: "orgs_tab \<Rightarrow> orgs_event \<Rightarrow> orgs_tab \<times> effect list" where
  "orgs_handle s OtCreate = (s\<lparr>ot_showCreate := True\<rparr>, [])"
| "orgs_handle s OtCreateClose = (s\<lparr>ot_showCreate := False\<rparr>, [])"
| "orgs_handle s (OtAsk x) = (s\<lparr>ot_confirmSuspend := Some x\<rparr>, [])"
| "orgs_handle s OtCancel = (s\<lparr>ot_confirmSuspend := None\<rparr>, [])"
| "orgs_handle s (OtPatch i st) = (s, [Request ''PATCH'' (org_state_path i) (Some (jobj [(''state'', Some (JStr st))]))])"
| "orgs_handle s (OtPatched st) =
     (s\<lparr>ot_confirmSuspend := None\<rparr>,
      [Invalidate [''platform-organizations''],
       Toast (if st = ''suspended'' then ''Organizacao suspensa'' else ''Organizacao ativada'') ''success''])"
| "orgs_handle s (OtPatchError e) = (s\<lparr>ot_confirmSuspend := None\<rparr>, [Toast (message_or e ''Erro ao alterar estado'') ''error''])"

definition org_title :: "pa_org \<Rightarrow> string" where
  "org_title x = str_or (nullish (og_display_name x) []) (og_organization_id x)"

definition org_row :: "orgs_props \<Rightarrow> pa_org \<Rightarrow> orgs_event vnode" where
  "org_row p x = El ''tr'' [At ''key'' (og_organization_id x)]
     [el ''td'' [Txt (org_title x)], el ''td'' [Txt (og_organization_id x)],
      el ''td'' [Badge (pa_stateVariant (og_state x)) [Txt (og_state x)]], el ''td'' [Txt (pa_fmt (otp_host p) (og_created_at x))],
      el ''td'' [el ''div''
       [if og_state x = ''suspended''
        then Button ''ghost'' ''sm'' [Bo ''disabled'' (otp_patchPending p), OnClick (OtPatch (og_organization_id x) ''active'')] [Txt ''Ativar'']
        else Button ''ghost'' ''sm'' [OnClick (OtAsk x)] [Txt ''Suspender'']]]]"

definition suspend_modal :: "bool \<Rightarrow> pa_org \<Rightarrow> orgs_event confirm_props" where
  "suspend_modal pending x = \<lparr>cm_title = ''Suspender organizacao'',
     cm_description = ''Isso vai suspender '' @ quoted (org_title x) @ '' e bloquear o acesso de todos os tenants associados.'',
     cm_confirmLabel = Some ''Suspender'', cm_cancelLabel = None, cm_destructive = True, cm_isPending = pending,
     cm_onConfirm = OtPatch (og_organization_id x) ''suspended'', cm_onCancel = OtCancel\<rparr>"

definition pa_table :: "'a list query \<Rightarrow> string \<Rightarrow> string \<Rightarrow> string list \<Rightarrow> ('a \<Rightarrow> 'e vnode) \<Rightarrow> 'e vnode" where
  "pa_table q failed none heads row =
     (let xs = nullish (qdata q) []
      in if isLoading q then el ''div'' [Spinner]
         else if isError q then el ''p'' [Txt failed]
         else if xs = [] then el ''p'' [Txt none]
         else el ''div'' [el ''table'' [el ''thead'' [el ''tr'' (map (\<lambda>c. el ''th'' [Txt c]) heads)], el ''tbody'' (map row xs)]])"

definition pa_head :: "string \<Rightarrow> string \<Rightarrow> nat \<Rightarrow> bool \<Rightarrow> string \<Rightarrow> 'e \<Rightarrow> 'e vnode" where
  "pa_head title noun n fetching caption create = el ''div''
     [CardHeader [el ''span'' [Txt title], el ''span'' [Txt (str_nat n), Txt '' '', Txt noun, Txt (if n \<noteq> 1 then ''s'' else [])]],
      el ''div'' (jif fetching Spinner @ [Button ''primary'' ''sm'' [OnClick create] [el ''Plus'' [], Txt caption]])]"

definition orgs_view :: "orgs_props \<Rightarrow> orgs_tab \<Rightarrow> orgs_event vnode" where
  "orgs_view p s = Card
     ([pa_head ''Organizacoes'' ''org'' (length (nullish (qdata (otp_q p)) [])) (isFetching (otp_q p)) ''Criar organizacao'' OtCreate,
       pa_table (otp_q p) ''Nao foi possivel carregar as organizacoes. Verifique suas permissoes.'' ''Nenhuma organizacao cadastrada.''
         [''Nome'', ''Slug'', ''Estado'', ''Criado'', []] (org_row p)] @
      jif (ot_showCreate s) (El ''CreateOrgModal'' [Prop ''onClose'' OtCreateClose] []) @
      (case ot_confirmSuspend s of None \<Rightarrow> [] | Some x \<Rightarrow> [ConfirmModal (suspend_modal (otp_patchPending p) x)]))"

section \<open>Tenants\<close>

record tenant_form =
  tf_orgId :: string
  tf_name :: string
  tf_slug :: string
  tf_error :: "string option"

definition tenant_form_mount :: "pa_org list \<Rightarrow> tenant_form" where
  "tenant_form_mount orgs = \<lparr>tf_orgId = (case orgs of [] \<Rightarrow> [] | x # _ \<Rightarrow> og_organization_id x), tf_name = [], tf_slug = [], tf_error = None\<rparr>"

datatype tenant_form_event =
    TnOrg string | TnName string | TnSlug string | TnCreate | TnClose | TnSuccess | TnError mut_error

definition tenant_body :: "tenant_form \<Rightarrow> json" where
  "tenant_body s = jobj [(''tenant_id'', Some (JStr (trim (tf_slug s)))), (''display_name'', Some (JStr (trim (tf_name s)))),
     (''organization_id'', Some (JStr (tf_orgId s)))]"

fun tenant_form_handle :: "tenant_form \<Rightarrow> tenant_form_event \<Rightarrow> tenant_form \<times> effect list" where
  "tenant_form_handle s (TnOrg x) = (s\<lparr>tf_orgId := x\<rparr>, [])"
| "tenant_form_handle s (TnName x) = (s\<lparr>tf_name := x\<rparr>, [])"
| "tenant_form_handle s (TnSlug x) = (s\<lparr>tf_slug := slug_input x\<rparr>, [])"
| "tenant_form_handle s TnCreate = (s, [Request ''POST'' ''/api/v1/platform/tenants'' (Some (tenant_body s))])"
| "tenant_form_handle s TnClose = (s, [Callback ''onClose'' []])"
| "tenant_form_handle s TnSuccess = (s, [Invalidate [''platform-tenants''], Toast ''Tenant criado'' ''success'', Callback ''onClose'' []])"
| "tenant_form_handle s (TnError e) = (s\<lparr>tf_error := Some (message_or e ''Erro ao criar tenant'')\<rparr>, [])"

definition org_options :: "pa_org list \<Rightarrow> (string \<times> string) list" where
  "org_options orgs = map (\<lambda>x. (og_organization_id x, org_title x)) orgs"

definition tenant_form_view :: "pa_org list \<times> bool \<Rightarrow> tenant_form \<Rightarrow> tenant_form_event vnode" where
  "tenant_form_view p s = Modal TnClose
     [el ''h3'' [Txt ''Criar tenant''],
      el ''div''
       ([el ''div'' [el ''label'' [Txt ''Organizacao *''], select_view (tf_orgId s) TnOrg (org_options (fst p))],
         pa_input ''Nome *'' ''Production'' (tf_name s) TnName,
         pa_input ''Slug *'' ''production'' (tf_slug s) TnSlug] @
        pa_error (tf_error s) @
        [pa_buttons TnCreate ''Criar'' (tf_orgId s = [] \<or> trim (tf_name s) = [] \<or> trim (tf_slug s) = []) (snd p) TnClose])]"

datatype tenants_event = TtCreate | TtCreateClose

text \<open>The state of the tab tells whether the form is shown.\<close>

fun tenants_handle :: "bool \<Rightarrow> tenants_event \<Rightarrow> bool \<times> effect list" where
  "tenants_handle showCreate TtCreate = (True, [])"
| "tenants_handle showCreate TtCreateClose = (False, [])"

record tenants_props =
  ttp_host :: host
  ttp_tenants :: "pa_tenant list query"
  ttp_orgs :: "pa_org list query"

definition tenant_org :: "pa_org list \<Rightarrow> pa_tenant \<Rightarrow> js_error + string" where
  "tenant_org orgs t =
     (let named = (case find (\<lambda>x. Some (og_organization_id x) = pt_org_id t) orgs of None \<Rightarrow> None | Some x \<Rightarrow> og_display_name x)
      in if truthy (pt_org_name t) then Inr (nullish (pt_org_name t) [])
         else if truthy named then Inr (nullish named [])
         else truncate_id (pt_org_id t) 8)"

definition tenant_row :: "host \<Rightarrow> pa_org list \<Rightarrow> pa_tenant \<Rightarrow> js_error + 'e vnode" where
  "tenant_row h orgs t = (case tenant_org orgs t of Inl e \<Rightarrow> Inl e
     | Inr org \<Rightarrow> Inr (El ''tr'' [At ''key'' (pt_tenant_id t)]
         [El ''td'' [At ''title'' (pt_tenant_id t)] [Txt (trunc8 (pt_tenant_id t))], el ''td'' [Txt (nullish (pt_name t) [])],
          el ''td'' [Txt org], el ''td'' [Badge (pa_stateVariant (pt_state t)) [Txt (pt_state t)]],
          el ''td'' [Txt (pa_fmt h (pt_created_at t))]]))"

text \<open>A map whose function can throw, from the first element on.\<close>

fun map_throw :: "('a \<Rightarrow> js_error + 'b) \<Rightarrow> 'a list \<Rightarrow> js_error + 'b list" where
  "map_throw f [] = Inr []"
| "map_throw f (x # xs) = (case f x of Inl e \<Rightarrow> Inl e
     | Inr y \<Rightarrow> (case map_throw f xs of Inl e \<Rightarrow> Inl e | Inr ys \<Rightarrow> Inr (y # ys)))"

definition tenants_table :: "tenants_props \<Rightarrow> js_error + 'e vnode" where
  "tenants_table p =
     (let q = ttp_tenants p; ts = nullish (qdata q) []; orgs = nullish (qdata (ttp_orgs p)) []
      in if isLoading q then Inr (el ''div'' [Spinner])
         else if isError q then Inr (el ''p'' [Txt ''Nao foi possivel carregar os tenants. Verifique suas permissoes.''])
         else if ts = [] then Inr (el ''p'' [Txt ''Nenhum tenant cadastrado.''])
         else (case map_throw (tenant_row (ttp_host p) orgs) ts of Inl e \<Rightarrow> Inl e
           | Inr rows \<Rightarrow> Inr (el ''div'' [el ''table''
               [el ''thead'' [el ''tr'' (map (\<lambda>c. el ''th'' [Txt c]) [''ID'', ''Nome'', ''Organizacao'', ''Estado'', ''Criado''])],
                el ''tbody'' rows]])))"

definition tenants_view :: "tenants_props \<Rightarrow> bool \<Rightarrow> js_error + tenants_event vnode" where
  "tenants_view p showCreate =
     (let q = ttp_tenants p; orgs = nullish (qdata (ttp_orgs p)) []
      in case tenants_table p of Inl e \<Rightarrow> Inl e
       | Inr table \<Rightarrow> Inr (Card
          ([pa_head ''Tenants'' ''tenant'' (length (nullish (qdata q) [])) (isFetching q) ''Criar tenant'' TtCreate, table] @
           jif (showCreate \<and> orgs \<noteq> []) (El ''CreateTenantModal'' [Prop ''onClose'' TtCreateClose] []) @
           jif (showCreate \<and> orgs = []) (Modal TtCreateClose [el ''p'' [Txt ''Crie uma organizacao antes de criar um tenant.'']]))))"

section \<open>Contracts and entitlements\<close>

record contract_form =
  kf_accountId :: string
  kf_planRef :: string
  kf_error :: "string option"

definition contract_form_mount :: "pa_account list \<Rightarrow> contract_form" where
  "contract_form_mount as = \<lparr>kf_accountId = (case as of [] \<Rightarrow> [] | a # _ \<Rightarrow> nullish (ac_commercial_account_id a) []), kf_planRef = [], kf_error = None\<rparr>"

text \<open>The id of a new contract is the host's \<open>crypto.randomUUID()\<close>, which the event carries.\<close>

datatype contract_form_event =
    KfAccount string | KfPlan string | KfCreate string | KfClose | KfSuccess | KfError mut_error

definition contract_body :: "string \<Rightarrow> contract_form \<Rightarrow> json" where
  "contract_body uuid s = (let plan = trim (kf_planRef s) in jobj
     [(''contract_id'', Some (JStr uuid)), (''account_id'', Some (JStr (kf_accountId s))),
      (''plan_ref'', if plan \<noteq> [] then Some (JStr plan) else None)])"

fun contract_form_handle :: "contract_form \<Rightarrow> contract_form_event \<Rightarrow> contract_form \<times> effect list" where
  "contract_form_handle s (KfAccount x) = (s\<lparr>kf_accountId := x\<rparr>, [])"
| "contract_form_handle s (KfPlan x) = (s\<lparr>kf_planRef := x\<rparr>, [])"
| "contract_form_handle s (KfCreate uuid) = (s, [Request ''POST'' ''/api/v1/platform/contracts'' (Some (contract_body uuid s))])"
| "contract_form_handle s KfClose = (s, [Callback ''onClose'' []])"
| "contract_form_handle s KfSuccess =
     (s, [Invalidate [''platform-commercial-accounts''], Toast ''Contrato criado'' ''success'', Callback ''onClose'' []])"
| "contract_form_handle s (KfError e) = (s\<lparr>kf_error := Some (message_or e ''Erro ao criar contrato'')\<rparr>, [])"

text \<open>An option without a value has its text as the value.\<close>

definition account_options :: "pa_account list \<Rightarrow> (string \<times> string) list" where
  "account_options as = map (\<lambda>a. (nullish (ac_commercial_account_id a) (nullish (ac_name a) []), nullish (ac_name a) [])) as"

record contract_props =
  kp_uuid :: string
  kp_pending :: bool

definition contract_form_view :: "pa_account list \<Rightarrow> contract_props \<Rightarrow> contract_form \<Rightarrow> contract_form_event vnode" where
  "contract_form_view as p s = Modal KfClose
     [el ''h3'' [Txt ''Novo contrato''],
      el ''div''
       ([el ''div'' [el ''label'' [Txt ''Conta comercial *''], select_view (kf_accountId s) KfAccount (account_options as)],
         pa_input ''Plan ref'' ''standard-v1'' (kf_planRef s) KfPlan] @
        pa_error (kf_error s) @
        [pa_buttons (KfCreate (kp_uuid p)) ''Criar contrato'' (kf_accountId s = []) (kp_pending p) KfClose])]"

record ent_form =
  ef_contractId :: string
  ef_capability :: string
  ef_entState :: string
  ef_error :: "string option"

definition ent_form_mount :: "pa_contract list \<Rightarrow> ent_form" where
  "ent_form_mount cs = \<lparr>ef_contractId = (case cs of [] \<Rightarrow> [] | c # _ \<Rightarrow> pk_contract_id c), ef_capability = ''monitoring'',
     ef_entState = ''active'', ef_error = None\<rparr>"

datatype ent_form_event =
    EfContract string | EfCapability string | EfState string | EfCreate | EfClose | EfSuccess | EfError mut_error

definition ent_body :: "ent_form \<Rightarrow> json" where
  "ent_body s = jobj [(''contract_id'', Some (JStr (ef_contractId s))), (''capability'', Some (JStr (ef_capability s))),
     (''state'', Some (JStr (ef_entState s)))]"

fun ent_form_handle :: "ent_form \<Rightarrow> ent_form_event \<Rightarrow> ent_form \<times> effect list" where
  "ent_form_handle s (EfContract x) = (s\<lparr>ef_contractId := x\<rparr>, [])"
| "ent_form_handle s (EfCapability x) = (s\<lparr>ef_capability := x\<rparr>, [])"
| "ent_form_handle s (EfState x) = (s\<lparr>ef_entState := x\<rparr>, [])"
| "ent_form_handle s EfCreate = (s, [Request ''POST'' ''/api/v1/platform/entitlements'' (Some (ent_body s))])"
| "ent_form_handle s EfClose = (s, [Callback ''onClose'' []])"
| "ent_form_handle s EfSuccess =
     (s, [Invalidate [''platform-commercial-accounts''], Toast ''Entitlement criado'' ''success'', Callback ''onClose'' []])"
| "ent_form_handle s (EfError e) = (s\<lparr>ef_error := Some (message_or e ''Erro ao criar entitlement'')\<rparr>, [])"

definition contract_options :: "pa_contract list \<Rightarrow> (string \<times> string) list" where
  "contract_options cs = map (\<lambda>c. (pk_contract_id c, str_or (nullish (pk_plan_ref c) []) (trunc8 (pk_contract_id c)) @ '' - '' @ pk_state c)) cs"

definition ent_form_view :: "pa_contract list \<Rightarrow> bool \<Rightarrow> ent_form \<Rightarrow> ent_form_event vnode" where
  "ent_form_view cs pending s = Modal EfClose
     [el ''h3'' [Txt ''Novo entitlement''],
      el ''div''
       ([el ''div'' [el ''label'' [Txt ''Contrato *''], select_view (ef_contractId s) EfContract (contract_options cs)],
         el ''div'' [el ''label'' [Txt ''Capability *''], select_view (ef_capability s) EfCapability (map (\<lambda>c. (c, pa_capLabel c)) CAPABILITIES)],
         el ''div'' [el ''label'' [Txt ''Estado''], select_view (ef_entState s) EfState (map (\<lambda>c. (c, c)) ENTITLEMENT_STATES)]] @
        pa_error (ef_error s) @
        [pa_buttons EfCreate ''Criar entitlement'' (ef_contractId s = []) pending EfClose])]"

record contracts_tab =
  kt_showCreateContract :: bool
  kt_showCreateEntitlement :: bool

definition contracts_mount :: contracts_tab where
  "contracts_mount = \<lparr>kt_showCreateContract = False, kt_showCreateEntitlement = False\<rparr>"

datatype contracts_event = KtContract | KtContractClose | KtEntitlement | KtEntitlementClose

fun contracts_handle :: "contracts_tab \<Rightarrow> contracts_event \<Rightarrow> contracts_tab \<times> effect list" where
  "contracts_handle s KtContract = (s\<lparr>kt_showCreateContract := True\<rparr>, [])"
| "contracts_handle s KtContractClose = (s\<lparr>kt_showCreateContract := False\<rparr>, [])"
| "contracts_handle s KtEntitlement = (s\<lparr>kt_showCreateEntitlement := True\<rparr>, [])"
| "contracts_handle s KtEntitlementClose = (s\<lparr>kt_showCreateEntitlement := False\<rparr>, [])"

definition contract_line :: "host \<Rightarrow> pa_contract \<Rightarrow> 'e vnode" where
  "contract_line h c = El ''div'' [At ''key'' (pk_contract_id c)]
     [Badge (pa_stateVariant (pk_state c)) [Txt (pk_state c)], el ''span'' [Txt (str_or (nullish (pk_plan_ref c) []) ''--'')],
      el ''span'' [Txt (pa_fmt h (pk_effective_from c)), Txt '' -> '', Txt (pa_fmt h (pk_effective_until c))],
      El ''span'' [At ''title'' (pk_contract_id c)] [Txt (trunc8 (pk_contract_id c))]]"

definition account_card :: "host \<Rightarrow> pa_account \<Rightarrow> 'e vnode" where
  "account_card h a =
     (let cs = nullish (ac_contracts a) []; es = nullish (ac_entitlements a) []
      in el ''div''
       [el ''div'' [el ''h4'' [Txt (nullish (ac_name a) [])], el ''p'' [Txt (nullish (ac_commercial_account_id a) [])]],
        el ''div'' [el ''p'' [Txt ''Contratos''],
          if cs = [] then el ''p'' [Txt ''Sem contratos.''] else el ''div'' (map (contract_line h) cs)],
        el ''div'' [el ''p'' [Txt ''Entitlements''],
          if es = [] then el ''p'' [Txt ''Sem entitlements.'']
          else el ''div'' (map (\<lambda>e. Badge (pa_stateVariant (pe_state e)) [Txt (pa_capLabel (pe_capability e))]) es)]])"

definition allContracts :: "pa_account list \<Rightarrow> pa_contract list" where
  "allContracts as = concat (map (\<lambda>a. nullish (ac_contracts a) []) as)"

definition contracts_view :: "host \<times> pa_account list query \<Rightarrow> contracts_tab \<Rightarrow> contracts_event vnode" where
  "contracts_view p s =
     (let q = snd p; as = nullish (qdata q) []
      in el ''div''
       ([Card
          [el ''div''
            [el ''div'' (el ''span'' [Txt ''Contas Comerciais''] # jif (isFetching q) Spinner),
             el ''div'' [Button ''secondary'' ''sm'' [OnClick KtEntitlement] [el ''Plus'' [], Txt ''Novo entitlement''],
               Button ''primary'' ''sm'' [OnClick KtContract] [el ''Plus'' [], Txt ''Novo contrato'']]],
           if isLoading q then el ''div'' [Spinner]
           else if isError q then el ''p'' [Txt ''Nao foi possivel carregar as contas comerciais. Verifique suas permissoes.'']
           else if as = [] then el ''p'' [Txt ''Nenhuma conta comercial cadastrada.'']
           else el ''div'' (map (account_card (fst p)) as)]] @
        jif (kt_showCreateContract s \<and> as \<noteq> []) (El ''CreateContractModal'' [Prop ''onClose'' KtContractClose] []) @
        jif (kt_showCreateContract s \<and> as = []) (Modal KtContractClose [el ''p'' [Txt ''Nenhuma conta comercial disponivel.'']]) @
        jif (kt_showCreateEntitlement s \<and> allContracts as \<noteq> []) (El ''CreateEntitlementModal'' [Prop ''onClose'' KtEntitlementClose] []) @
        jif (kt_showCreateEntitlement s \<and> allContracts as = [])
          (Modal KtEntitlementClose [el ''p'' [Txt ''Crie um contrato antes de adicionar entitlements.'']])))"

section \<open>Health\<close>

text \<open>\<open>Object.entries(v)\<close>; the keys of an array are its indices.\<close>

fun entries :: "json \<Rightarrow> (string \<times> json) list" where
  "entries (JObj fs) = fs"
| "entries (JArr xs) = zip (map str_nat [0..<length xs]) xs"
| "entries _ = []"

record health_props =
  hp_orgs :: "pa_org list query"
  hp_tenants :: "pa_tenant list query"
  hp_health :: "pa_health query"
  hp_usage :: "json query"

definition pa_StatCard :: "string \<Rightarrow> string \<Rightarrow> 'e vnode" where
  "pa_StatCard label v = Card [el ''span'' [Txt label], el ''span'' [Txt v]]"

text \<open>\<open>usage?.k ?? n\<close>; \<open>null\<close> is absent.\<close>

definition usage_or :: "json option \<Rightarrow> string \<Rightarrow> nat \<Rightarrow> string" where
  "usage_or u k n = (case Option.bind u (\<lambda>j. jfield j k) of None \<Rightarrow> str_nat n | Some JNull \<Rightarrow> str_nat n | Some v \<Rightarrow> js_String v)"

definition count_state :: "string \<Rightarrow> pa_tenant list \<Rightarrow> nat" where
  "count_state st ts = length (filter (\<lambda>t. pt_state t = st) ts)"

definition ok_variant :: "string \<Rightarrow> string" where
  "ok_variant st = (if st = ''ok'' \<or> st = ''healthy'' then ''success'' else ''warning'')"

definition health_view :: "health_props \<Rightarrow> 'e vnode" where
  "health_view p =
     (let orgs = nullish (qdata (hp_orgs p)) []; ts = nullish (qdata (hp_tenants p)) []; u = qdata (hp_usage p)
      in el ''div''
       ([if isLoading (hp_orgs p) \<or> isLoading (hp_tenants p) then el ''div'' [Spinner]
         else el ''div'' [pa_StatCard ''Organizacoes'' (usage_or u ''total_orgs'' (length orgs)),
           pa_StatCard ''Tenants'' (usage_or u ''total_tenants'' (length ts)),
           pa_StatCard ''Tenants ativos'' (usage_or u ''active_tenants'' (count_state ''active'' ts)),
           pa_StatCard ''Tenants suspensos'' (usage_or u ''suspended_tenants'' (count_state ''suspended'' ts))],
         Card (CardHeader (el ''span'' [Txt ''Status da plataforma''] # jif (isFetching (hp_health p)) Spinner) #
          (if isLoading (hp_health p) then [Spinner]
           else if isError (hp_health p) then [el ''p'' [Txt ''Endpoint de health nao disponivel.'']]
           else (case qdata (hp_health p) of None \<Rightarrow> []
             | Some h \<Rightarrow> [el ''div'' (el ''div'' [Badge (ok_variant (ph_status h)) [Txt (ph_status h)]] #
                 jif (nullish (ph_services h) [] \<noteq> []) (el ''dl'' (map (\<lambda>(svc, st). el ''div''
                   [el ''dt'' [Txt svc], el ''dd'' [Badge (ok_variant st) [Txt st]]]) (nullish (ph_services h) []))))])))] @
        (case u of None \<Rightarrow> []
         | Some j \<Rightarrow> jif (\<not> isError (hp_usage p)) (Card [CardHeader [el ''span'' [Txt ''Usage consolidado'']],
             el ''dl'' (map (\<lambda>(k, v). el ''div'' [el ''dt'' [Txt (map (\<lambda>c. if c = CHR ''_'' then CHR '' '' else c) k)],
               el ''dd'' [Txt (js_String v)]]) (entries j))]))))"

section \<open>The page\<close>

definition PA_TABS :: "(string \<times> string) list" where
  "PA_TABS = [(''orgs'', ''Organizacoes''), (''tenants'', ''Tenants''), (''contracts'', ''Contratos & Entitlements''), (''health'', ''Saude da Plataforma'')]"

datatype padmin_event = PaTab string

fun padmin_handle :: "string \<Rightarrow> padmin_event \<Rightarrow> string \<times> effect list" where
  "padmin_handle activeTab (PaTab x) = (x, [])"

definition padmin_view :: "string \<Rightarrow> padmin_event vnode" where
  "padmin_view activeTab = el ''div''
     ([el ''div'' [el ''h2'' [Txt ''Platform Admin''], el ''p'' [Txt ''Administracao global da plataforma JLMirror - requer platform:admin'']],
       tab_bar PaTab PA_TABS] @
      jif (activeTab = ''orgs'') (el ''OrgsTab'' []) @ jif (activeTab = ''tenants'') (el ''TenantsTab'' []) @
      jif (activeTab = ''contracts'') (el ''ContractsTab'' []) @ jif (activeTab = ''health'') (el ''HealthTab'' []))"

section \<open>The server\<close>

record org_row_db =
  ro_id :: string
  ro_state :: string

record tenant_row_db =
  rt_id :: string
  rt_display_name :: string
  rt_state :: string
  rt_organization_id :: string

record account_row_db =
  ra_account_id :: string
  ra_organization_id :: string
  ra_state :: string
  ra_created_at :: string

definition list_tenants :: "tenant_row_db list \<Rightarrow> json" where
  "list_tenants rows = JArr (map (\<lambda>r. JObj [(''tenant_id'', JStr (rt_id r)), (''display_name'', JStr (rt_display_name r)),
     (''state'', JStr (rt_state r)), (''organization_id'', JStr (rt_organization_id r))]) rows)"

definition list_commercial_accounts :: "account_row_db list \<Rightarrow> json" where
  "list_commercial_accounts rows = JArr (map (\<lambda>r. JObj [(''account_id'', JStr (ra_account_id r)), (''organization_id'', JStr (ra_organization_id r)),
     (''state'', JStr (ra_state r)), (''created_at'', JStr (ra_created_at r))]) rows)"

text \<open>What the page finds in an item of the answer; the lists of an account are left out of the reading when they are absent,
  and every other value there is no list of the types the page declares.\<close>

fun items :: "json \<Rightarrow> json list" where
  "items (JArr xs) = xs"
| "items _ = []"

definition read_tenant :: "json \<Rightarrow> pa_tenant" where
  "read_tenant j = \<lparr>pt_tenant_id = nullish (str_field j ''tenant_id'') [], pt_name = str_field j ''name'', pt_org_id = str_field j ''org_id'',
     pt_org_name = str_field j ''org_name'', pt_state = nullish (str_field j ''state'') [], pt_created_at = str_field j ''created_at''\<rparr>"

definition read_contract :: "json \<Rightarrow> pa_contract" where
  "read_contract j = \<lparr>pk_contract_id = nullish (str_field j ''contract_id'') [], pk_plan_ref = str_field j ''plan_ref'',
     pk_state = nullish (str_field j ''state'') [], pk_effective_from = str_field j ''effective_from'',
     pk_effective_until = str_field j ''effective_until''\<rparr>"

definition read_entitlement :: "json \<Rightarrow> pa_entitlement" where
  "read_entitlement j = \<lparr>pe_entitlement_id = nullish (str_field j ''entitlement_id'') [], pe_capability = nullish (str_field j ''capability'') [],
     pe_state = nullish (str_field j ''state'') []\<rparr>"

definition read_account :: "json \<Rightarrow> pa_account" where
  "read_account j = \<lparr>ac_commercial_account_id = str_field j ''commercial_account_id'', ac_name = str_field j ''name'',
     ac_contracts = map_option (\<lambda>x. map read_contract (items x)) (jfield j ''contracts''),
     ac_entitlements = map_option (\<lambda>x. map read_entitlement (items x)) (jfield j ''entitlements'')\<rparr>"

text \<open>The status of a refusal, or the rows afterwards. Suspending an organization suspends its tenants.\<close>

definition update_organization_state :: "string \<Rightarrow> string \<Rightarrow> org_row_db list \<times> tenant_row_db list \<Rightarrow> nat + (org_row_db list \<times> tenant_row_db list)" where
  "update_organization_state i st db =
     (if st \<notin> set [''active'', ''suspended'', ''cancelled''] then Inl 422
      else if find (\<lambda>r. ro_id r = i) (fst db) = None then Inl 404
      else Inr (map (\<lambda>r. if ro_id r = i then r\<lparr>ro_state := st\<rparr> else r) (fst db),
                if st = ''suspended'' then map (\<lambda>t. if rt_organization_id t = i then t\<lparr>rt_state := ''suspended''\<rparr> else t) (snd db) else snd db))"

section \<open>Organizations: properties\<close>

lemma modal_kit [simp]:
  "solo (pa_input l h v f)" "offers P (pa_input l h v f) \<longleftrightarrow> (\<forall>x. P (f x))"
  "solo (pa_buttons c t i b x)" "offers P (pa_buttons c t i b x) \<longleftrightarrow> (i \<or> b \<or> P c) \<and> P x"
  "k \<in> set (pa_error e) \<Longrightarrow> solo k" "k \<in> set (pa_error e) \<Longrightarrow> offers P k"
  by (auto simp: pa_input_def pa_buttons_def pa_error_def enterable_def)

definition slug_ch :: "char \<Rightarrow> bool" where
  "slug_ch c \<longleftrightarrow> \<not> is_space c \<and> low_char c = c"

lemma slug_input_chars: "list_all slug_ch (slug_input x)"
proof -
  have "slug_ch (CHR ''-'')" by code_simp
  moreover have "slug_ch c" if "w \<in> set (split_runs is_space (toLowerCase x))" "c \<in> set w" for c w
    using split_runs_no_sep [OF that] split_runs_set [OF that] by (auto simp: slug_ch_def)
  ultimately show ?thesis unfolding slug_input_def list_all_iff by (auto dest: set_join)
qed

lemma trim_slug: "list_all slug_ch s \<Longrightarrow> trim s = s"
proof (cases "s = []")
  case False
  assume "list_all slug_ch s"
  with False show ?thesis by (intro trim_id) (auto simp: list_all_iff slug_ch_def)
qed simp

definition slug_text :: "string \<Rightarrow> bool" where
  "slug_text s \<longleftrightarrow> s \<noteq> [] \<and> list_all slug_ch s"

definition name_text :: "string \<Rightarrow> bool" where
  "name_text s \<longleftrightarrow> s \<noteq> [] \<and> trim s = s"

definition org_request :: "effect \<Rightarrow> bool" where
  "org_request f \<longleftrightarrow> \<not> is_request f \<or> (\<exists>slug name. f = Request ''POST'' ''/api/v1/platform/organizations''
     (Some (jobj [(''organization_id'', Some (JStr slug)), (''display_name'', Some (JStr name))])) \<and> slug_text slug \<and> name_text name)"

definition org_form_allowed :: "org_form \<Rightarrow> org_form_event \<Rightarrow> bool" where
  "org_form_allowed s e \<longleftrightarrow> (e = OfCreate \<longrightarrow> trim (of_name s) \<noteq> [] \<and> trim (of_slug s) \<noteq> [])"

lemma org_body_request:
  assumes "trim (of_name s) \<noteq> []" "trim (of_slug s) \<noteq> []" "list_all slug_ch (of_slug s)"
  shows "org_request (Request ''POST'' ''/api/v1/platform/organizations'' (Some (org_body s)))"
proof -
  let ?d = "str_or (trim (of_displayName s)) (trim (of_name s))"
  have "slug_text (of_slug s)" "name_text ?d" "trim (of_slug s) = of_slug s"
    using assms by (auto simp: slug_text_def name_text_def str_or_def trim_slug)
  moreover from this have "org_body s = jobj [(''organization_id'', Some (JStr (of_slug s))), (''display_name'', Some (JStr ?d))]"
    by (simp add: org_body_def name_text_def Let_def)
  ultimately show ?thesis unfolding org_request_def by blast
qed

interpretation orf: component "\<lambda>s. s = org_form_mount" org_form_view org_form_handle "\<lambda>e. e = OfSuccess \<or> (\<exists>x. e = OfError x)" org_form_allowed
  "\<lambda>s. list_all slug_ch (of_slug s)" org_request
proof unfold_locales
  show "solo (org_form_view p s)" for p s by (auto simp: org_form_view_def)
  show "offers (org_form_allowed s) (org_form_view p s)" for p s by (auto simp: org_form_view_def org_form_allowed_def)
  show "list_all slug_ch (of_slug s) \<Longrightarrow> org_form_allowed s e \<Longrightarrow> list_all slug_ch (of_slug (fst (org_form_handle s e)))" for s e
    by (cases e) (auto simp: slug_input_chars)
  show "list_all slug_ch (of_slug s) \<Longrightarrow> org_form_allowed s e \<Longrightarrow> list_all org_request (snd (org_form_handle s e))" for s e
    by (cases e) (auto simp: org_form_allowed_def org_request_def [of "Invalidate _"] org_request_def [of "Toast _ _"]
      org_request_def [of "Callback _ _"] intro: org_body_request)
qed (auto simp: org_form_mount_def org_form_allowed_def)

text \<open>Every organization ever created has an id without blanks and capitals and a trimmed, non-empty display name.\<close>

lemma organization_requests:
  "reach (\<lambda>s. s = org_form_mount) org_form_view org_form_handle (\<lambda>e. e = OfSuccess \<or> (\<exists>x. e = OfError x)) s log \<Longrightarrow> list_all org_request log"
  using orf.reach_inv by blast

definition orgs_allowed :: "orgs_props \<Rightarrow> orgs_tab \<Rightarrow> orgs_event \<Rightarrow> bool" where
  "orgs_allowed p s e \<longleftrightarrow> (let xs = set (nullish (qdata (otp_q p)) []) in case e of
      OtPatch i st \<Rightarrow> \<not> otp_patchPending p
        \<and> (st = ''suspended'' \<and> (\<exists>x. ot_confirmSuspend s = Some x \<and> og_organization_id x = i)
           \<or> st = ''active'' \<and> (\<exists>x \<in> xs. og_organization_id x = i \<and> og_state x = ''suspended''))
    | OtAsk x \<Rightarrow> x \<in> xs \<and> og_state x \<noteq> ''suspended''
    | OtCancel \<Rightarrow> ot_confirmSuspend s \<noteq> None
    | OtCreateClose \<Rightarrow> ot_showCreate s
    | OtCreate \<Rightarrow> True
    | _ \<Rightarrow> False)"

lemma pa_table_laws [simp]:
  "solo (pa_table q a b hs row) \<longleftrightarrow> isLoading q \<or> isError q \<or> (\<forall>x \<in> set (nullish (qdata q) []). solo (row x))"
  "offers P (pa_table q a b hs row) \<longleftrightarrow> isLoading q \<or> isError q \<or> (\<forall>x \<in> set (nullish (qdata q) []). offers P (row x))"
  by (auto simp: pa_table_def Let_def)

lemma pa_head_laws [simp]: "solo (pa_head t n k b c e)" "offers P (pa_head t n k b c e) \<longleftrightarrow> P e"
  by (auto simp: pa_head_def)

lemma orgs_view_laws: "solo (orgs_view p s)" "offers (orgs_allowed p s) (orgs_view p s)"
proof -
  have "solo (org_row p x)" for x by (simp add: org_row_def)
  moreover have "offers (orgs_allowed p s) (org_row p x)" if "x \<in> set (nullish (qdata (otp_q p)) [])" for x
    using that by (auto simp: org_row_def orgs_allowed_def Let_def)
  moreover have "offers (orgs_allowed p s) (ConfirmModal (suspend_modal (otp_patchPending p) x))" if "ot_confirmSuspend s = Some x" for x
    using that by (simp add: suspend_modal_def orgs_allowed_def Let_def)
  ultimately show "solo (orgs_view p s)" "offers (orgs_allowed p s) (orgs_view p s)"
    by (auto simp: orgs_view_def orgs_allowed_def Let_def split: option.split)
qed

text \<open>A click in the list of organizations does one thing; an organization is suspended only by confirming the question asked
  about it, and activated only while it is suspended; neither while a change is pending.\<close>

lemma orgs_click_guarded:
  "fires (orgs_view p s) x es \<Longrightarrow> e \<in> set es \<Longrightarrow> es = [e] \<and> orgs_allowed p s e"
  by (rule fires_one [OF _ orgs_view_laws])

lemma filter_keyed_update:
  assumes "\<And>x. k (u x) = k x"
  shows "filter (\<lambda>x. k x = i) (map (\<lambda>x. if k x = i then u x else x) xs) = map u (filter (\<lambda>x. k x = i) xs)"
    and "filter (\<lambda>x. k x \<noteq> i) (map (\<lambda>x. if k x = i then u x else x) xs) = filter (\<lambda>x. k x \<noteq> i) xs"
  by (induction xs) (simp_all add: assms)

lemma update_state_ok:
  "update_organization_state i st db = Inr db' \<Longrightarrow>
   st \<in> {''active'', ''suspended'', ''cancelled''} \<and> i \<in> ro_id ` set (fst db) \<and> map ro_id (fst db') = map ro_id (fst db)"
  by (auto simp: update_organization_state_def find_None_iff o_def split: if_splits)

text \<open>C27: activating a suspended organization gives it its state back, but not its tenants: whatever they were before, they stay
  suspended. The tenants of other organizations are not touched.\<close>

theorem activation_leaves_tenants_suspended:
  assumes "update_organization_state i ''suspended'' db = Inr db1" and "update_organization_state i ''active'' db1 = Inr db2"
  shows "map ro_state (filter (\<lambda>r. ro_id r = i) (fst db2)) = map (\<lambda>_. ''active'') (filter (\<lambda>r. ro_id r = i) (fst db))
    \<and> map rt_state (filter (\<lambda>t. rt_organization_id t = i) (snd db2)) = map (\<lambda>_. ''suspended'') (filter (\<lambda>t. rt_organization_id t = i) (snd db))
    \<and> filter (\<lambda>t. rt_organization_id t \<noteq> i) (snd db2) = filter (\<lambda>t. rt_organization_id t \<noteq> i) (snd db)"
proof -
  let ?susp = "\<lambda>t. if rt_organization_id t = i then t\<lparr>rt_state := ''suspended''\<rparr> else t"
  have "snd db2 = map ?susp (snd db)"
    and "fst db2 = map (\<lambda>r. if ro_id r = i then r\<lparr>ro_state := ''active''\<rparr> else r) (fst db1)"
    and "fst db1 = map (\<lambda>r. if ro_id r = i then r\<lparr>ro_state := ''suspended''\<rparr> else r) (fst db)"
    using assms by (auto simp: update_organization_state_def split: if_splits)
  note db = this
  have keys: "rt_organization_id (t\<lparr>rt_state := x\<rparr>) = rt_organization_id t" "ro_id (r\<lparr>ro_state := x\<rparr>) = ro_id r"
    for t :: tenant_row_db and r :: org_row_db and x by simp_all
  note rows = filter_keyed_update [of rt_organization_id "\<lambda>t. t\<lparr>rt_state := ''suspended''\<rparr>", OF keys(1)]
    filter_keyed_update(1) [of ro_id "\<lambda>r. r\<lparr>ro_state := ''active''\<rparr>", OF keys(2)]
    filter_keyed_update(1) [of ro_id "\<lambda>r. r\<lparr>ro_state := ''suspended''\<rparr>", OF keys(2)]
  show ?thesis unfolding db rows by (simp add: o_def)
qed

section \<open>Tenants and contracts: properties\<close>

lemma read_list_tenants:
  "map read_tenant (items (list_tenants rows)) = map (\<lambda>r. \<lparr>pt_tenant_id = rt_id r, pt_name = None, pt_org_id = None, pt_org_name = None,
     pt_state = rt_state r, pt_created_at = None\<rparr>) rows"
  by (simp add: list_tenants_def read_tenant_def str_field_def o_def)

text \<open>C28: the rows of the tenants cannot be drawn from the server's answer: it calls the organization of a tenant by another
  name than the page, which then takes the length of an undefined id. As soon as one tenant is listed, the render of the tab throws.\<close>

theorem tenants_tab_throws:
  assumes "qdata (ttp_tenants p) = Some (map read_tenant (items (list_tenants rows)))" "rows \<noteq> []"
    and "\<not> isLoading (ttp_tenants p)" "\<not> isError (ttp_tenants p)"
  shows "tenants_view p showCreate = Inl TypeError"
proof -
  obtain r rs where rows: "rows = r # rs" using assms(2) by (cases rows) auto
  have "find (\<lambda>x :: pa_org. False) xs = None" for xs by (induction xs) auto
  then show ?thesis using assms(1,3,4)
    by (simp add: rows tenants_view_def tenants_table_def read_list_tenants tenant_row_def tenant_org_def truncate_id_def Let_def)
qed

lemma read_list_accounts:
  "map read_account (items (list_commercial_accounts rows))
   = map (\<lambda>r. \<lparr>ac_commercial_account_id = None, ac_name = None, ac_contracts = None, ac_entitlements = None\<rparr>) rows"
  by (simp add: list_commercial_accounts_def read_account_def str_field_def o_def)

interpretation kf: component "\<lambda>s. s = contract_form_mount (map read_account (items (list_commercial_accounts rows)))"
  "contract_form_view (map read_account (items (list_commercial_accounts rows)))" contract_form_handle
  "\<lambda>e. e = KfSuccess \<or> (\<exists>x. e = KfError x)" "\<lambda>s e. (\<forall>i. e \<noteq> KfCreate i) \<and> (\<forall>x. e = KfAccount x \<longrightarrow> x = [])"
  "\<lambda>s. kf_accountId s = []" "\<lambda>f. \<not> is_request f" for rows
proof unfold_locales
  let ?as = "map read_account (items (list_commercial_accounts rows))"
  show "solo (contract_form_view ?as p s)" for p s by (auto simp: contract_form_view_def)
  show "kf_accountId s = [] \<Longrightarrow> offers (\<lambda>e. (\<forall>i. e \<noteq> KfCreate i) \<and> (\<forall>x. e = KfAccount x \<longrightarrow> x = [])) (contract_form_view ?as p s)" for p s
    by (auto simp: contract_form_view_def account_options_def read_list_accounts)
  show "s = contract_form_mount ?as \<Longrightarrow> kf_accountId s = []" for s
    by (auto simp: contract_form_mount_def read_list_accounts split: list.split)
  show "kf_accountId s = [] \<Longrightarrow> (\<forall>i. e \<noteq> KfCreate i) \<and> (\<forall>x. e = KfAccount x \<longrightarrow> x = []) \<Longrightarrow> kf_accountId (fst (contract_form_handle s e)) = []"
    for s e by (cases e) auto
  show "kf_accountId s = [] \<Longrightarrow> (\<forall>i. e \<noteq> KfCreate i) \<and> (\<forall>x. e = KfAccount x \<longrightarrow> x = []) \<Longrightarrow>
      list_all (\<lambda>f. \<not> is_request f) (snd (contract_form_handle s e))" for s e by (cases e) auto
qed auto

text \<open>With the accounts as the server lists them no contract can ever be created: they have no id under the name the page
  reads, the chosen account stays empty and the button disabled, whatever the user does. Nor can an entitlement, since the
  accounts list no contracts.\<close>

lemma contracts_never_created:
  fixes rows :: "account_row_db list"
  defines "as \<equiv> map read_account (items (list_commercial_accounts rows))"
  assumes "reach (\<lambda>s. s = contract_form_mount as) (contract_form_view as) contract_form_handle (\<lambda>e. e = KfSuccess \<or> (\<exists>x. e = KfError x)) s log"
  shows "list_all (\<lambda>f. \<not> is_request f) log \<and> allContracts as = []"
proof -
  have "allContracts as = []" by (simp add: as_def allContracts_def read_list_accounts)
  then show ?thesis using kf.reach_inv [of rows s log] assms(2) by (simp add: as_def)
qed

lemma health_inert: "offers (\<lambda>e. False) (health_view p)"
  by (auto simp: health_view_def pa_StatCard_def Let_def split: option.split)

lemma padmin_view_laws: "solo (padmin_view t)" "offers (\<lambda>e. \<exists>x \<in> set (map fst PA_TABS). e = PaTab x) (padmin_view t)"
  by (auto simp: padmin_view_def)

section \<open>Concrete runs\<close>

theorem activation_leaves_tenants_suspended_witness:
  "map rt_state (filter (\<lambda>t. rt_organization_id t = ''acme'')
     [\<lparr>rt_id = ''t1'', rt_display_name = ''Prod'', rt_state = ''suspended'', rt_organization_id = ''acme''\<rparr>]) = [''suspended'']"
proof -
  let ?t = "\<lambda>st. \<lparr>rt_id = ''t1'', rt_display_name = ''Prod'', rt_state = st, rt_organization_id = ''acme''\<rparr>"
  let ?db = "([\<lparr>ro_id = ''acme'', ro_state = ''active''\<rparr>], [?t ''active''])"
  have "update_organization_state ''acme'' ''suspended'' ?db = Inr ([\<lparr>ro_id = ''acme'', ro_state = ''suspended''\<rparr>], [?t ''suspended''])"
    and "update_organization_state ''acme'' ''active'' ([\<lparr>ro_id = ''acme'', ro_state = ''suspended''\<rparr>], [?t ''suspended''])
      = Inr ([\<lparr>ro_id = ''acme'', ro_state = ''active''\<rparr>], [?t ''suspended''])"
    by code_simp+
  from activation_leaves_tenants_suspended [OF this] show ?thesis by simp
qed

theorem tenants_tab_throws_witness:
  "tenants_view \<lparr>ttp_host = sample_host,
     ttp_tenants = loaded (map read_tenant (items (list_tenants
       [\<lparr>rt_id = ''t1'', rt_display_name = ''Prod'', rt_state = ''active'', rt_organization_id = ''acme''\<rparr>]))),
     ttp_orgs = loaded [\<lparr>og_organization_id = ''acme'', og_display_name = Some ''Acme'', og_state = ''active'', og_created_at = None\<rparr>]\<rparr> False
   = Inl TypeError"
  by (rule tenants_tab_throws [where rows = "[\<lparr>rt_id = ''t1'', rt_display_name = ''Prod'', rt_state = ''active'', rt_organization_id = ''acme''\<rparr>]"])
    (simp_all add: loaded_def)

theorem contracts_never_created_witness:
  "allContracts (map read_account (items (list_commercial_accounts
     [\<lparr>ra_account_id = ''acc1'', ra_organization_id = ''acme'', ra_state = ''active'', ra_created_at = ''2025''\<rparr>]))) = []"
  using contracts_never_created [OF reach.mount, OF refl] by blast

theorem organization_requests_witness:
  "list_all org_request [Request ''POST'' ''/api/v1/platform/organizations'' (Some (jobj
     [(''organization_id'', Some (JStr ''acme-corp'')), (''display_name'', Some (JStr ''Acme''))]))]"
proof -
  let ?r = "reach (\<lambda>s. s = org_form_mount) org_form_view org_form_handle (\<lambda>e. e = OfSuccess \<or> (\<exists>x. e = OfError x))"
  let ?s = "org_form_mount\<lparr>of_name := '' Acme '', of_slug := ''acme-corp''\<rparr>"
  have slug: "slug_input ''Acme  Corp'' = ''acme-corp''" by code_simp
  have "?r org_form_mount []" by (rule reach.mount) simp
  then have "?r (org_form_mount\<lparr>of_name := '' Acme ''\<rparr>) []"
    by (rule reach_enter [where e = "OfName '' Acme ''" and x = "'' Acme ''" and p = False])
      (simp_all add: org_form_view_def Modal_def pa_input_def enterable_def)
  then have "?r ?s []"
    by (rule reach_enter [where e = "OfSlug ''Acme  Corp''" and x = "''Acme  Corp''" and p = False])
      (simp_all add: org_form_view_def Modal_def pa_input_def enterable_def slug)
  then have "?r ?s ([] @ [Request ''POST'' ''/api/v1/platform/organizations'' (Some (org_body ?s))])"
    by (rule reach_click [where e = OfCreate and p = False])
      (simp_all add: org_form_view_def org_form_mount_def Modal_def pa_buttons_def can_click_El trim_def is_space_def)
  moreover have "org_body ?s = jobj [(''organization_id'', Some (JStr ''acme-corp'')), (''display_name'', Some (JStr ''Acme''))]"
    by code_simp
  ultimately show ?thesis using organization_requests by fastforce
qed

end
