(* ===== verification/DeviceDetail.thy ===== *)
theory DeviceDetail
  imports Complex_Main UiKit JS_Sort JS_Timer
begin

text \<open>
  The detail of a device, \<open>pages/DeviceDetail.tsx\<close>, with the two handlers of \<open>api/routers/layout.py\<close> that keep its layout:
  identity, current metrics with the headline metrics found by their names, histories, active problems, and the layout
  (period, expanded metrics, hidden zeros). The drawing of the charts is third-party; their rows and captions are modelled.
  Numbers are rationals, \<open>NaN\<close> is \<^const>\<open>None\<close>; how the host reads and writes them is a record of functions.
\<close>

section \<open>Data\<close>

record dd_iface =
  if_interfaceid :: string
  if_interface_type :: string
  if_main :: bool
  if_ip :: "string option"
  if_dns :: "string option"
  if_port :: "string option"

text \<open>The inventory is read by the names of its optional fields.\<close>

type_synonym dd_inventory = "string \<Rightarrow> string option"

record dd_evidence =
  de_host_status :: "string option"
  de_agent_availability :: "string option"
  de_agent_error :: "string option"
  de_snmp_error :: "string option"
  de_maintenance_status :: "string option"
  de_maintenance_type :: "string option"
  de_inventory :: "dd_inventory option"
  de_interfaces :: "dd_iface list option"
  de_groups :: "(string \<times> string option) list option"   \<comment> \<open>ref, name\<close>
  de_tags :: "(string \<times> string) list option"   \<comment> \<open>tag, value\<close>

record dd_resource =
  rd_monitoring_resource_id :: string
  rd_display_name :: "string option"
  rd_presence_state :: "string option"
  rd_last_observed_at :: "string option"
  rd_normalized_evidence :: "dd_evidence option"

record dd_metric =
  mt_metric_definition_id :: string
  mt_observed_at :: "string option"
  mt_value_kind :: string
  mt_value :: "json option"
  mt_name :: string
  mt_unit :: "string option"

record dd_problem =
  pb_monitoring_problem_id :: string
  pb_summary :: "string option"
  pb_severity_class :: "string option"
  pb_opened_at :: "string option"
  pb_resolved_at :: "string option"

record hist_point =
  hp_observed_at :: string
  hp_value :: "json option"

definition PERIODS :: "(string \<times> int) list" where
  "PERIODS = [(''1h'', 3600), (''6h'', 21600), (''12h'', 43200), (''24h'', 86400), (''7d'', 604800)]"

definition period_sec :: "string \<Rightarrow> int" where
  "period_sec k = nullish (map_of PERIODS k) 86400"

section \<open>The names of the headline metrics\<close>

text \<open>Matching by continuation: \<open>rx_lit w Q\<close> is the text \<open>w\<close> followed by a match of \<open>Q\<close>, \<open>dot_star Q\<close> is \<open>.*\<close> followed by one,
  \<open>rx_test\<close> tries every start. Case is ignored by matching the name in lower case.\<close>

definition line_end :: "char \<Rightarrow> bool" where
  "line_end c \<longleftrightarrow> c = CHR 0x0A \<or> c = CHR 0x0D"

fun dot_star :: "(string \<Rightarrow> bool) \<Rightarrow> string \<Rightarrow> bool" where
  "dot_star Q [] = Q []"
| "dot_star Q (c # cs) = (Q (c # cs) \<or> \<not> line_end c \<and> dot_star Q cs)"

fun some_suffix :: "(string \<Rightarrow> bool) \<Rightarrow> string \<Rightarrow> bool" where
  "some_suffix Q [] = Q []"
| "some_suffix Q (c # cs) = (Q (c # cs) \<or> some_suffix Q cs)"

definition rx_lit :: "string \<Rightarrow> (string \<Rightarrow> bool) \<Rightarrow> string \<Rightarrow> bool" where
  "rx_lit w Q s \<longleftrightarrow> prefix w s \<and> Q (drop (length w) s)"

definition rx_alt :: "string list \<Rightarrow> (string \<Rightarrow> bool) \<Rightarrow> string \<Rightarrow> bool" where
  "rx_alt ws Q s \<longleftrightarrow> list_ex (\<lambda>w. rx_lit w Q s) ws"

definition word_char :: "char \<Rightarrow> bool" where
  "word_char c \<longleftrightarrow> (let n = of_char c :: nat in 97 \<le> n \<and> n \<le> 122 \<or> 65 \<le> n \<and> n \<le> 90 \<or> 48 \<le> n \<and> n \<le> 57 \<or> c = CHR ''_'')"

text \<open>\<open>\b\<close> after a letter.\<close>

definition word_ends :: "string \<Rightarrow> bool" where
  "word_ends s \<longleftrightarrow> (case s of [] \<Rightarrow> True | c # cs \<Rightarrow> \<not> word_char c)"

definition rx_done :: "string \<Rightarrow> bool" where
  "rx_done s \<longleftrightarrow> True"

definition rx_test :: "(string \<Rightarrow> bool) \<Rightarrow> string \<Rightarrow> bool" where
  "rx_test Q name = some_suffix Q (toLowerCase name)"

definition RX_CPU :: "string \<Rightarrow> bool" where
  "RX_CPU = rx_test (rx_lit ''cpu'' (dot_star (rx_alt [''util'', ''usage'', ''load'', ''percent''] rx_done)))"

definition RX_MEM :: "string \<Rightarrow> bool" where
  "RX_MEM = rx_test (rx_lit ''mem'' (dot_star (rx_alt [''util'', ''usage'', ''used'', ''available'', ''free'', ''percent''] rx_done)))"

definition RX_DISK :: "string \<Rightarrow> bool" where
  "RX_DISK = rx_test (rx_alt [''disk'', ''storage'', ''filesystem'', ''fs'']
     (dot_star (rx_alt [''util'', ''used'', ''free'', ''space'', ''percent'', ''%''] rx_done)))"

definition RX_NET_IN :: "string \<Rightarrow> bool" where
  "RX_NET_IN = rx_test (\<lambda>s. rx_lit ''interface'' (dot_star (rx_alt [''in'', ''received'', ''rx''] (dot_star (rx_lit ''bit'' rx_done)))) s
     \<or> rx_lit ''bit'' (dot_star (rx_alt [''receiv'', ''in''] word_ends)) s)"

definition RX_NET_OUT :: "string \<Rightarrow> bool" where
  "RX_NET_OUT = rx_test (\<lambda>s. rx_lit ''interface'' (dot_star (rx_alt [''out'', ''sent'', ''tx''] (dot_star (rx_lit ''bit'' rx_done)))) s
     \<or> rx_lit ''bit'' (dot_star (rx_alt [''sent'', ''out''] word_ends)) s)"

section \<open>Times and numbers\<close>

record num_host =
  nh_host :: host
  nh_float :: "string \<Rightarrow> rat option"   \<comment> \<open>the value of a number that is no integer literal\<close>
  nh_str :: "rat \<Rightarrow> string"   \<comment> \<open>\<open>String(n)\<close>\<close>
  nh_locale :: "rat \<Rightarrow> string"   \<comment> \<open>\<open>toLocaleString("pt-BR", { maximumFractionDigits: 2 })\<close>\<close>

definition dd_fmtTs :: "host \<Rightarrow> string option \<Rightarrow> string" where
  "dd_fmtTs h t = (if truthy t then locale_fmt h ''pt-BR'' (nullish t []) else ''--'')"

definition fmtTsShort :: "host \<Rightarrow> string option \<Rightarrow> string" where
  "fmtTsShort h t = (if truthy t then locale_fmt h ''pt-BR time hour:2-digit minute:2-digit second:2-digit'' (nullish t []) else ''--'')"

definition cleanUnit :: "string option \<Rightarrow> string option" where
  "cleanUnit u = (case u of Some (c # cs) \<Rightarrow> if c = CHR ''!'' then Some cs else u | _ \<Rightarrow> u)"

text \<open>\<open>n.toFixed(d)\<close> below \<open>10 ^ 21\<close>: the nearest multiple of \<open>10 ^ -d\<close>, the larger one of two, for the absolute value.\<close>

fun pad_zeros :: "nat \<Rightarrow> string \<Rightarrow> string" where
  "pad_zeros k s = replicate (k - length s) (CHR ''0'') @ s"

definition fixed_units :: "nat \<Rightarrow> rat \<Rightarrow> nat" where
  "fixed_units d x = nat \<lfloor>\<bar>x\<bar> * 10 ^ d + 1 / 2\<rfloor>"

definition toFixed :: "nat \<Rightarrow> rat \<Rightarrow> string" where
  "toFixed d x = (let m = fixed_units d x
     in (if x < 0 then ''-'' else []) @ str_nat (m div 10 ^ d) @ (if d = 0 then [] else ''.'' @ pad_zeros d (str_nat (m mod 10 ^ d))))"

text \<open>\<open>parseFloat(n.toFixed(2))\<close>.\<close>

definition round2 :: "rat \<Rightarrow> rat" where
  "round2 x = (if x < 0 then - (rat_of_nat (fixed_units 2 x) / 100) else rat_of_nat (fixed_units 2 x) / 100)"

definition fmtBytes :: "num_host \<Rightarrow> rat \<Rightarrow> string" where
  "fmtBytes h n =
     (if 1099511627776 \<le> \<bar>n\<bar> then toFixed 2 (n / 1099511627776) @ '' TB''
      else if 1073741824 \<le> \<bar>n\<bar> then toFixed 2 (n / 1073741824) @ '' GB''
      else if 1048576 \<le> \<bar>n\<bar> then toFixed 2 (n / 1048576) @ '' MB''
      else if 1024 \<le> \<bar>n\<bar> then toFixed 2 (n / 1024) @ '' KB''
      else nh_str h n @ '' B'')"

definition fmtNumber :: "num_host \<Rightarrow> rat \<Rightarrow> string option \<Rightarrow> string" where
  "fmtNumber h n rawUnit =
     (let unit = cleanUnit rawUnit; formatted = (if n < 0 \<and> round2 n = 0 then ''-0'' else nh_locale h (round2 n))
      in if unit = Some ''B'' then fmtBytes h n else if truthy unit then formatted @ '' '' @ nullish unit [] else formatted)"

definition fmtTick :: "num_host \<Rightarrow> rat \<Rightarrow> string option \<Rightarrow> string" where
  "fmtTick h n rawUnit =
     (if cleanUnit rawUnit = Some ''B''
      then (if 1073741824 \<le> \<bar>n\<bar> then toFixed 1 (n / 1073741824) @ ''G''
            else if 1048576 \<le> \<bar>n\<bar> then toFixed 1 (n / 1048576) @ ''M''
            else if 1024 \<le> \<bar>n\<bar> then toFixed 1 (n / 1024) @ ''K''
            else nh_str h n)
      else if 1000000 \<le> \<bar>n\<bar> then toFixed 1 (n / 1000000) @ ''M''
      else if 1000 \<le> \<bar>n\<bar> then toFixed 1 (n / 1000) @ ''K''
      else nh_str h (round2 n))"

text \<open>\<open>Number(v)\<close> of a parsed value; \<^const>\<open>None\<close> is \<open>NaN\<close>.\<close>

definition number_of_text :: "num_host \<Rightarrow> string \<Rightarrow> rat option" where
  "number_of_text h s = (case js_Number (other_number (nh_host h)) s of
      JInt i \<Rightarrow> Some (of_int i) | JFloat t \<Rightarrow> nh_float h t | JNaN \<Rightarrow> None)"

fun js_number :: "num_host \<Rightarrow> json \<Rightarrow> rat option" where
  "js_number h (JNum (JInt i)) = Some (of_int i)"
| "js_number h (JNum (JFloat t)) = nh_float h t"
| "js_number h (JNum JNaN) = None"
| "js_number h JNull = Some 0"
| "js_number h (JBool b) = Some (if b then 1 else 0)"
| "js_number h (JStr s) = number_of_text h s"
| "js_number h (JArr xs) = number_of_text h (js_String (JArr xs))"
| "js_number h (JObj fs) = None"

definition fmtMetricValue :: "num_host \<Rightarrow> json option \<Rightarrow> string option \<Rightarrow> string" where
  "fmtMetricValue h value rawUnit =
     (case Option.bind value (\<lambda>v. jfield v ''n'') of
        Some n \<Rightarrow> (case js_number h n of None \<Rightarrow> ''--'' | Some x \<Rightarrow> fmtNumber h x rawUnit)
      | None \<Rightarrow> (case Option.bind value (\<lambda>v. jfield v ''s'') of Some s \<Rightarrow> slice 0 80 (js_String s) | None \<Rightarrow> ''--''))"

definition isZeroValue :: "num_host \<Rightarrow> dd_metric \<Rightarrow> bool" where
  "isZeroValue h m = (case mt_value m of
      Some (JObj fs) \<Rightarrow> (case map_of fs ''n'' of Some n \<Rightarrow> js_number h n = Some 0 | None \<Rightarrow> False)
    | Some (JArr xs) \<Rightarrow> False
    | _ \<Rightarrow> True)"

definition isNumeric :: "dd_metric \<Rightarrow> bool" where
  "isNumeric m \<longleftrightarrow> mt_value_kind m = ''number'' \<or> mt_value_kind m = ''integer''"

text \<open>A point is a time in milliseconds and a value; \<^const>\<open>None\<close> is \<open>NaN\<close>.\<close>

definition toChartData :: "num_host \<Rightarrow> hist_point list \<Rightarrow> (int option \<times> rat option) list" where
  "toChartData h ps = concat (map (\<lambda>p. case Option.bind (hp_value p) (\<lambda>v. jfield v ''n'') of
      None \<Rightarrow> [] | Some n \<Rightarrow> [(date_ms (nh_host h) (hp_observed_at p), js_number h n)]) ps)"

definition availVariant :: "string option \<Rightarrow> string" where
  "availVariant a = (if a = Some ''available'' then ''success'' else if a = Some ''unavailable'' then ''danger'' else ''muted'')"

definition availLabel :: "string option \<Rightarrow> string" where
  "availLabel a = (if a = Some ''available'' then ''online'' else if a = Some ''unavailable'' then ''offline'' else ''desconhecido'')"

definition dd_sevVariant :: "string option \<Rightarrow> string" where
  "dd_sevVariant s = (if s = Some ''critical'' then ''danger'' else if s = Some ''degraded'' \<or> s = Some ''warning'' then ''warning''
     else if s = Some ''informational'' then ''info'' else ''muted'')"

text \<open>A time on the axis of a chart; \<^const>\<open>None\<close> is the invalid date.\<close>

definition makeTickFmt :: "host \<Rightarrow> int \<Rightarrow> int option \<Rightarrow> string" where
  "makeTickFmt h periodSec t = (case t of None \<Rightarrow> ''Invalid Date''
     | Some n \<Rightarrow> if periodSec \<le> 86400 then locale_fmt h ''time hour:2-digit minute:2-digit'' (iso_of_ms h n)
         else locale_fmt h ''date month:short day:numeric'' (iso_of_ms h n))"

section \<open>Metrics and histories\<close>

text \<open>\<open>toChartData\<close>: a point is a time in milliseconds and a value.\<close>

definition points_ok :: "num_host \<Rightarrow> hist_point list \<Rightarrow> bool" where
  "points_ok h ps \<longleftrightarrow> list_all (\<lambda>p. date_ms (nh_host h) (hp_observed_at p) \<noteq> None) ps"

text \<open>The comparison \<open>a - b\<close> of two times; with \<open>NaN\<close> it counts as equal.\<close>

definition ts_le :: "int option \<Rightarrow> int option \<Rightarrow> bool" where
  "ts_le a b \<longleftrightarrow> (case (a, b) of (Some x, Some y) \<Rightarrow> x \<le> y | _ \<Rightarrow> True)"

type_synonym dual_row = "int option \<times> rat option option \<times> rat option option"

definition dual_rows :: "num_host \<Rightarrow> hist_point list \<Rightarrow> hist_point list \<Rightarrow> dual_row list" where
  "dual_rows h ins outs =
     (let inMap = map_of_entries (toChartData h ins); outMap = map_of_entries (toChartData h outs);
          allTs = js_sort ts_le (set_of (map fst inMap @ map fst outMap))
      in map (\<lambda>t. (t, map_of inMap t, map_of outMap t)) allTs)"

definition history_path :: "num_host \<Rightarrow> string \<Rightarrow> string \<Rightarrow> string \<Rightarrow> string" where
  "history_path h sourceId metricId period =
     (let till = now_ms (nh_host h) div 1000; from_s = till - period_sec period
      in ''/api/v1/monitoring/sources/'' @ sourceId @ ''/metrics/'' @ metricId @ ''/history?window_from='' @ str_int from_s
           @ ''&window_till='' @ str_int till)"

record overview =
  ov_cpu :: "dd_metric option"
  ov_mem :: "dd_metric option"
  ov_disk :: "dd_metric option"
  ov_netIn :: "dd_metric option"
  ov_netOut :: "dd_metric option"

definition overview_of :: "dd_metric list \<Rightarrow> overview" where
  "overview_of allMetrics =
     (let numericMetrics = filter isNumeric allMetrics; headline = (\<lambda>rx. find (\<lambda>m. rx (mt_name m)) numericMetrics)
      in \<lparr>ov_cpu = headline RX_CPU, ov_mem = headline RX_MEM, ov_disk = headline RX_DISK,
          ov_netIn = headline RX_NET_IN, ov_netOut = headline RX_NET_OUT\<rparr>)"

definition hasOverview :: "overview \<Rightarrow> bool" where
  "hasOverview v \<longleftrightarrow> ov_cpu v \<noteq> None \<or> ov_mem v \<noteq> None \<or> ov_disk v \<noteq> None \<or> ov_netIn v \<noteq> None \<and> ov_netOut v \<noteq> None"

definition overview_metrics :: "overview \<Rightarrow> dd_metric list" where
  "overview_metrics v = concat (map (\<lambda>m. case m of None \<Rightarrow> [] | Some x \<Rightarrow> [x]) [ov_cpu v, ov_mem v, ov_disk v, ov_netIn v, ov_netOut v])"

definition overviewIds :: "overview \<Rightarrow> string list" where
  "overviewIds v = set_of (filter (\<lambda>i. i \<noteq> []) (map mt_metric_definition_id (overview_metrics v)))"

definition gridMetrics :: "num_host \<Rightarrow> bool \<Rightarrow> dd_metric list \<Rightarrow> dd_metric list" where
  "gridMetrics h hideZeros allMetrics =
     (let metrics = (if hideZeros then filter (\<lambda>m. \<not> isZeroValue h m) allMetrics else allMetrics)
      in filter (\<lambda>m. \<not> set_has (overviewIds (overview_of allMetrics)) (mt_metric_definition_id m)) metrics)"

definition activeProblems :: "dd_problem list \<Rightarrow> dd_problem list" where
  "activeProblems ps = filter (\<lambda>x. \<not> truthy (pb_resolved_at x)) ps"

definition primaryIface :: "dd_evidence option \<Rightarrow> dd_iface option" where
  "primaryIface ev = (case Option.bind ev de_interfaces of None \<Rightarrow> None
     | Some is \<Rightarrow> (case find if_main is of Some i \<Rightarrow> Some i | None \<Rightarrow> (case is of [] \<Rightarrow> None | i # _ \<Rightarrow> Some i)))"

section \<open>The stored layout\<close>

record stored_layout =
  sl_expanded :: "string list option"
  sl_period :: "string option"
  sl_hideZeros :: "bool option"

text \<open>The members of a stored layout, as the page reads them from the answer.\<close>

definition read_layout :: "json \<Rightarrow> stored_layout" where
  "read_layout j = \<lparr>
     sl_expanded = (case jfield j ''expanded'' of
        Some (JArr xs) \<Rightarrow> Some (concat (map (\<lambda>x. case x of JStr s \<Rightarrow> [s] | _ \<Rightarrow> []) xs)) | _ \<Rightarrow> None),
     sl_period = str_field j ''period'',
     sl_hideZeros = (case jfield j ''hideZeros'' of Some (JBool b) \<Rightarrow> Some b | _ \<Rightarrow> None)\<rparr>"

text \<open>The handlers of the server. The context is the tenant and the principal of a session; the table is keyed by both, the
  kind of the view and its key. \<open>size\<close> is the length of the written layout.\<close>

datatype layout_error = BadViewType | TooLarge | NoContext

type_synonym layout_table = "(string \<times> string \<times> string \<times> string) \<rightharpoonup> json"

definition VALID_VIEW_TYPES :: "string list" where
  "VALID_VIEW_TYPES = [''dashboard'', ''tv_mode'', ''device_panel'', ''incident_board'']"

definition MAX_LAYOUT_BYTES :: nat where
  "MAX_LAYOUT_BYTES = 64 * 1024"

definition require_context :: "(string \<times> string) option \<Rightarrow> layout_error + string \<times> string" where
  "require_context ctx = (case ctx of Some (t, p) \<Rightarrow> if t \<noteq> [] \<and> p \<noteq> [] then Inr (t, p) else Inl NoContext | None \<Rightarrow> Inl NoContext)"

definition get_layout :: "layout_table \<Rightarrow> (string \<times> string) option \<Rightarrow> string \<Rightarrow> string \<Rightarrow> layout_error + json" where
  "get_layout tab ctx view_type view_key =
     (if view_type \<notin> set VALID_VIEW_TYPES then Inl BadViewType
      else case require_context ctx of Inl e \<Rightarrow> Inl e
        | Inr (t, p) \<Rightarrow> Inr (case tab (t, p, view_type, view_key) of None \<Rightarrow> JObj [] | Some j \<Rightarrow> j))"

definition save_layout :: "(json \<Rightarrow> nat) \<Rightarrow> layout_table \<Rightarrow> (string \<times> string) option \<Rightarrow> string \<Rightarrow> string \<Rightarrow> json
    \<Rightarrow> layout_error + layout_table" where
  "save_layout sz tab ctx view_type view_key body =
     (if view_type \<notin> set VALID_VIEW_TYPES then Inl BadViewType
      else if MAX_LAYOUT_BYTES < sz body then Inl TooLarge
      else case require_context ctx of Inl e \<Rightarrow> Inl e
        | Inr (t, p) \<Rightarrow> Inr (tab((t, p, view_type, view_key) \<mapsto> body)))"

section \<open>State and handlers\<close>

record layout_payload =
  lp_expanded :: "string list"
  lp_period :: string
  lp_hideZeros :: bool

definition payload_json :: "layout_payload \<Rightarrow> json" where
  "payload_json y = JObj [(''expanded'', jstrs (lp_expanded y)), (''period'', JStr (lp_period y)), (''hideZeros'', JBool (lp_hideZeros y))]"

text \<open>\<open>dv_timer\<close>: what the pending save will write, from the values its handler closed over.\<close>

record device =
  dv_period :: string
  dv_expanded :: "string list"
  dv_hideZeros :: bool
  dv_lastRefreshed :: "int option"
  dv_timer :: "layout_payload option"

definition dv_mount :: device where
  "dv_mount = \<lparr>dv_period = ''24h'', dv_expanded = [], dv_hideZeros = True, dv_lastRefreshed = None, dv_timer = None\<rparr>"

definition layout_path :: "string \<Rightarrow> string" where
  "layout_path resourceId = ''/api/v1/layout?view_type=device_panel&view_key='' @ encodeURIComponent resourceId"

definition restore_layout :: "stored_layout \<Rightarrow> device \<Rightarrow> device" where
  "restore_layout l s = s\<lparr>
     dv_expanded := (case sl_expanded l of Some xs \<Rightarrow> set_of xs | None \<Rightarrow> dv_expanded s),
     dv_period := (if truthy (sl_period l) then nullish (sl_period l) [] else dv_period s),
     dv_hideZeros := nullish (sl_hideZeros l) (dv_hideZeros s)\<rparr>"

definition saveLayout :: "string list option \<Rightarrow> string option \<Rightarrow> bool option \<Rightarrow> device \<Rightarrow> layout_payload" where
  "saveLayout ex per hz s = \<lparr>lp_expanded = nullish ex (dv_expanded s), lp_period = nullish per (dv_period s),
     lp_hideZeros = nullish hz (dv_hideZeros s)\<rparr>"

text \<open>\<open>DvLayout\<close>: the answer of the layout query, \<^const>\<open>None\<close> when it has no layout. \<open>DvStamp t\<close>: at time \<open>t\<close> the metrics
  were loaded, or the refetches of a manual refresh have ended, with or without an error. \<open>DvTimer\<close>: the 800 ms are over.\<close>

datatype dv_event =
    DvLayout "stored_layout option" | DvStamp int | DvTimer
  | DvToggle string | DvPeriod string | DvHideZeros bool | DvRefresh | DvBack

fun dv_handle :: "string \<Rightarrow> string \<Rightarrow> device \<Rightarrow> dv_event \<Rightarrow> device \<times> effect list" where
  "dv_handle src rid s (DvLayout l) = (case l of None \<Rightarrow> s | Some y \<Rightarrow> restore_layout y s, [])"
| "dv_handle src rid s (DvStamp t) = (s\<lparr>dv_lastRefreshed := Some t\<rparr>, [])"
| "dv_handle src rid s DvTimer = (case dv_timer s of None \<Rightarrow> (s, [])
     | Some y \<Rightarrow> (s\<lparr>dv_timer := None\<rparr>, [Request ''PUT'' (layout_path rid) (Some (JObj [(''layout'', payload_json y)]))]))"
| "dv_handle src rid s (DvToggle i) =
     (let nxt = set_toggle i (dv_expanded s)
      in (s\<lparr>dv_expanded := nxt, dv_timer := Some (saveLayout (Some nxt) None None s)\<rparr>, []))"
| "dv_handle src rid s (DvPeriod k) = (s\<lparr>dv_period := k, dv_timer := Some (saveLayout None (Some k) None s)\<rparr>, [])"
| "dv_handle src rid s (DvHideZeros v) = (s\<lparr>dv_hideZeros := v, dv_timer := Some (saveLayout None None (Some v) s)\<rparr>, [])"
| "dv_handle src rid s DvRefresh =
     (s, [Invalidate [''resource-current'', src, rid], Invalidate [''resource-problems'', src, rid]])"
| "dv_handle src rid s DvBack = (s, [Callback ''onBack'' []])"

text \<open>The requests of the page's queries.\<close>

definition dv_queries :: "string \<Rightarrow> string \<Rightarrow> string list" where
  "dv_queries src rid = layout_path rid # map (\<lambda>sfx. ''/api/v1/monitoring/sources/'' @ src @ ''/resources/'' @ rid @ sfx)
     [[], ''/current'', ''/problems'']"

section \<open>View\<close>

text \<open>\<open>dp_history\<close> is the query of a history, by the id of the metric and the period.\<close>

record dv_props =
  dp_num :: num_host
  dp_source :: string
  dp_resource :: "dd_resource query"
  dp_current :: "dd_metric list query"
  dp_problems :: "dd_problem list query"
  dp_history :: "string \<Rightarrow> string \<Rightarrow> hist_point list query"

definition dd_KV :: "string \<Rightarrow> string option \<Rightarrow> 'e vnode list" where
  "dd_KV label v = jif (truthy v) (el ''div'' [el ''dt'' [Txt label], el ''dd'' [Txt (nullish v [])]])"

text \<open>The value of a chart's row in its tooltip.\<close>

definition tip_value :: "num_host \<Rightarrow> rat option \<Rightarrow> string option \<Rightarrow> string" where
  "tip_value h v unit = (case v of Some x \<Rightarrow> fmtNumber h x unit
     | None \<Rightarrow> (if truthy (cleanUnit unit) then ''NaN '' @ nullish (cleanUnit unit) [] else ''NaN''))"

definition tip_label :: "num_host \<Rightarrow> int option \<Rightarrow> string" where
  "tip_label h t = (case t of None \<Rightarrow> ''Invalid Date'' | Some n \<Rightarrow> locale_fmt (nh_host h) ''pt-BR'' (iso_of_ms (nh_host h) n))"

definition MetricChart :: "dv_props \<Rightarrow> string \<Rightarrow> string option \<Rightarrow> string \<Rightarrow> 'e vnode" where
  "MetricChart p metricId unit period =
     (let q = dp_history p metricId period; h = dp_num p; items = nullish (qdata q) []; rows = toChartData h items
      in if isLoading q then el ''div'' [Spinner]
         else if isError q \<or> items = [] then el ''p'' [Txt ''Sem dados no periodo.'']
         else if rows = [] then el ''p'' [Txt ''Sem valores numericos.'']
         else el ''AreaChart'' (map (\<lambda>(t, v). El ''Area''
           [At ''tick'' (makeTickFmt (nh_host h) (period_sec period) t), At ''label'' (tip_label h t)] [Txt (tip_value h v unit)]) rows))"

definition dual_line :: "num_host \<Rightarrow> string \<Rightarrow> rat option option \<Rightarrow> string option \<Rightarrow> 'e vnode list" where
  "dual_line h name v unit = (case v of None \<Rightarrow> [] | Some x \<Rightarrow> [El ''Line''
     [At ''name'' (if name = ''in'' then ''Entrada'' else ''Saida'')] [Txt (tip_value h x unit)]])"

definition DualLineChart :: "dv_props \<Rightarrow> string \<Rightarrow> string \<Rightarrow> string option \<Rightarrow> string \<Rightarrow> 'e vnode" where
  "DualLineChart p metricIdIn metricIdOut unitIn period =
     (let inQ = dp_history p metricIdIn period; outQ = dp_history p metricIdOut period; h = dp_num p;
          rows = dual_rows h (nullish (qdata inQ) []) (nullish (qdata outQ) [])
      in if isLoading inQ \<or> isLoading outQ then el ''div'' [Spinner]
         else if rows = [] then el ''p'' [Txt ''Sem dados no periodo.'']
         else el ''LineChart'' (map (\<lambda>(t, i, u). El ''row''
           [At ''tick'' (makeTickFmt (nh_host h) (period_sec period) t), At ''label'' (tip_label h t)]
           (dual_line h ''in'' i unitIn @ dual_line h ''out'' u unitIn)) rows))"

definition OverviewChartCard :: "string \<Rightarrow> string option \<Rightarrow> string option \<Rightarrow> 'e vnode \<Rightarrow> 'e vnode" where
  "OverviewChartCard title v unit child = el ''div''
     [el ''div'' (el ''span'' [Txt title] #
        jif (truthy v) (el ''span'' (Txt (nullish v []) #
          jif (truthy unit) (el ''span'' [Txt (nullish (cleanUnit unit) [])])))),
      child]"

definition MetricCard :: "dv_props \<Rightarrow> dd_metric \<Rightarrow> string \<Rightarrow> bool \<Rightarrow> dv_event \<Rightarrow> dv_event vnode" where
  "MetricCard p m period expanded onToggle =
     (let numeric = isNumeric m
      in El ''div'' (At ''key'' (mt_metric_definition_id m) # jif numeric (OnClick onToggle))
       ([el ''div'' [Txt (mt_name m)], el ''div'' [Txt (fmtMetricValue (dp_num p) (mt_value m) (mt_unit m))]] @
        jif (truthy (mt_observed_at m)) (el ''div'' [Txt (dd_fmtTs (nh_host (dp_num p)) (mt_observed_at m))]) @
        jif (expanded \<and> numeric) (el ''div'' [MetricChart p (mt_metric_definition_id m) (mt_unit m) period])))"

definition PeriodPicker :: "dv_event vnode" where
  "PeriodPicker = el ''div'' (map (\<lambda>k. button [At ''key'' k, OnClick (DvPeriod k)] [Txt k]) (map fst PERIODS))"

definition back_link :: "dv_event vnode" where
  "back_link = button [OnClick DvBack] [Txt ''<- Inventario'']"

definition dv_header :: "dv_props \<Rightarrow> dd_resource \<Rightarrow> device \<Rightarrow> dv_event vnode" where
  "dv_header p r s =
     (let ev = rd_normalized_evidence r; agentAvail = Option.bind ev de_agent_availability; h = nh_host (dp_num p)
      in el ''div''
       ([back_link, el ''h2'' [Txt (nullish (rd_display_name r) (rd_monitoring_resource_id r))],
         Badge (availVariant agentAvail) [Txt (availLabel agentAvail)]] @
        jif (Option.bind ev de_maintenance_status = Some ''active'')
          (Badge ''warning'' [Txt ''Em manutencao'', Txt (if Option.bind ev de_maintenance_type = Some ''no_data'' then '' (sem coleta)'' else [])]) @
        jif (Option.bind ev de_host_status = Some ''disabled'') (Badge ''muted'' [Txt ''Desabilitado'']) @
        jif (rd_presence_state r = Some ''removed'') (Badge ''muted'' [Txt ''Removido'']) @
        [el ''div''
          ((case dv_lastRefreshed s of None \<Rightarrow> []
            | Some t \<Rightarrow> [el ''span'' [Txt ''Atualizado as '', Txt (fmtTsShort h (Some (iso_of_ms h t)))]]) @
           [button [OnClick DvRefresh, Bo ''disabled'' (isFetching (dp_current p))]
              [if isFetching (dp_current p) then Spinner else Txt ''@'', Txt '' Atualizar'']])]))"

definition headline_card :: "dv_props \<Rightarrow> string \<Rightarrow> dd_metric option \<Rightarrow> string \<Rightarrow> dv_event vnode list" where
  "headline_card p title mo period = (case mo of None \<Rightarrow> []
     | Some m \<Rightarrow> [OverviewChartCard title (Some (fmtMetricValue (dp_num p) (mt_value m) (mt_unit m))) (mt_unit m)
         (MetricChart p (mt_metric_definition_id m) (mt_unit m) period)])"

definition net_card :: "dv_props \<Rightarrow> overview \<Rightarrow> string \<Rightarrow> dv_event vnode list" where
  "net_card p v period = (case (ov_netIn v, ov_netOut v) of
     (Some i, Some u) \<Rightarrow> [OverviewChartCard ''Rede (entrada / saida)'' None None
       (DualLineChart p (mt_metric_definition_id i) (mt_metric_definition_id u) (mt_unit i) period)]
   | _ \<Rightarrow> [])"

definition overview_section :: "dv_props \<Rightarrow> overview \<Rightarrow> device \<Rightarrow> dv_event vnode list" where
  "overview_section p v s = jif (hasOverview v) (Card
     [CardHeader [el ''span'' [Txt ''Visao Geral''], PeriodPicker],
      el ''div'' (headline_card p ''CPU'' (ov_cpu v) (dv_period s) @ headline_card p ''Memoria'' (ov_mem v) (dv_period s) @
        headline_card p ''Disco'' (ov_disk v) (dv_period s) @ net_card p v (dv_period s))])"

definition inv_rows :: "dd_inventory option \<Rightarrow> (string \<times> string list) list \<Rightarrow> 'e vnode list" where
  "inv_rows ivt rows = concat (map (\<lambda>(label, ks). dd_KV label (Option.bind ivt (\<lambda>f. case List.find (\<lambda>k. f k \<noteq> None) ks of None \<Rightarrow> None | Some k \<Rightarrow> f k))) rows)"

definition identity_card :: "host \<Rightarrow> dd_resource \<Rightarrow> dd_inventory option \<Rightarrow> dd_iface option \<Rightarrow> 'e vnode" where
  "identity_card h r ivt pif = Card [CardHeader [el ''span'' [Txt ''Identificacao'']],
     el ''dl''
      (dd_KV ''Endereco IP'' (Option.bind pif if_ip) @ dd_KV ''DNS'' (Option.bind pif if_dns) @ dd_KV ''Porta'' (Option.bind pif if_port) @
       dd_KV ''Protocolo'' (map_option if_interface_type pif) @
       inv_rows ivt [(''Sistema op.'', [''os_full'', ''os'']), (''Fabricante'', [''vendor'']), (''Modelo'', [''model'']),
         (''Tipo'', [''device_type'']), (''Hardware'', [''hardware_full'', ''hardware'']), (''Serial'', [''serial_primary'']),
         (''Asset tag'', [''asset_tag'']), (''MAC primario'', [''mac_primary'']), (''MAC secundario'', [''mac_secondary''])] @
       dd_KV ''Ultimo visto'' (Some (dd_fmtTs h (rd_last_observed_at r))))]"

definition remote_links :: "dd_inventory option \<Rightarrow> 'e vnode list" where
  "remote_links ivt =
     (let urls = filter (\<lambda>u. u \<noteq> []) (map (\<lambda>k. nullish (Option.bind ivt (\<lambda>f. f k)) []) [''url_a'', ''url_b'', ''url_c''])
      in jif (urls \<noteq> []) (el ''div'' [el ''dt'' [Txt ''Acesso remoto''],
           el ''dd'' [el ''span'' (map (\<lambda>u. El ''a'' [At ''href'' u] [Txt u]) urls)]]))"

definition iface_row :: "dd_iface \<Rightarrow> 'e vnode" where
  "iface_row i = El ''div'' [At ''key'' (if_interfaceid i)]
     ([el ''span'' [Txt (if_interface_type i)],
       el ''span'' [Txt (str_or (nullish (if_ip i) []) (str_or (nullish (if_dns i) []) ''--''))]] @
      jif (if_main i) (el ''span'' [Txt ''(primario)'']))"

definition contact_card :: "dd_evidence option \<Rightarrow> dd_inventory option \<Rightarrow> 'e vnode" where
  "contact_card ev ivt =
     (let ifs = nullish (Option.bind ev de_interfaces) []; ae = Option.bind ev de_agent_error; se = Option.bind ev de_snmp_error
      in Card
       ([CardHeader [el ''span'' [Txt ''Localizacao e contato'']],
         el ''dl'' (inv_rows ivt [(''Local'', [''location'']), (''Rack'', [''site_rack'']), (''Cidade'', [''site_city'']),
           (''Observacoes'', [''site_notes'']), (''Contato'', [''contact'']), (''Responsavel 1'', [''poc_1_name'']),
           (''E-mail 1'', [''poc_1_email'']), (''Telefone 1'', [''poc_1_phone'']), (''Responsavel 2'', [''poc_2_name'']),
           (''E-mail 2'', [''poc_2_email''])] @ remote_links ivt)] @
        (if 1 < length ifs then el ''div'' [Txt ''Interfaces''] # map iface_row ifs else []) @
        jif (truthy ae) (el ''div'' [el ''p'' [Txt ''Erro agente: '', Txt (nullish ae [])]]) @
        jif (truthy se) (el ''div'' [el ''p'' [Txt ''Erro SNMP: '', Txt (nullish se [])]])))"

definition identity_section :: "host \<Rightarrow> dd_resource \<Rightarrow> 'e vnode list" where
  "identity_section h r =
     (let ev = rd_normalized_evidence r; ivt = Option.bind ev de_inventory; pif = primaryIface ev
      in jif (ivt \<noteq> None \<or> pif \<noteq> None) (el ''div'' [identity_card h r ivt pif, contact_card ev ivt]))"

definition groups_section :: "dd_evidence option \<Rightarrow> 'e vnode list" where
  "groups_section ev =
     (let gs = nullish (Option.bind ev de_groups) []; ts = nullish (Option.bind ev de_tags) []
      in jif (gs \<noteq> [] \<or> ts \<noteq> []) (Card [el ''div''
        (map (\<lambda>(r, n). El ''span'' [At ''key'' r] [Txt (nullish n r)]) gs @
         map (\<lambda>(t, v). El ''span'' [At ''key'' (t @ '':'' @ v)] [Txt t, Txt (if v \<noteq> [] then '': '' @ v else [])]) ts)]))"

definition metrics_section :: "dv_props \<Rightarrow> device \<Rightarrow> dd_metric list \<Rightarrow> dv_event vnode list" where
  "metrics_section p s allMetrics =
     (let v = overview_of allMetrics; grid = gridMetrics (dp_num p) (dv_hideZeros s) allMetrics;
          rest = int (length allMetrics) - int (length (overviewIds v)); q = dp_current p
      in jif (allMetrics \<noteq> []) (Card
       [CardHeader
         [el ''span'' [Txt ''Todas as metricas'', el ''span''
            [Txt (str_nat (length grid)), Txt (if dv_hideZeros s \<and> int (length grid) < rest then '' / '' @ str_int rest else [])]],
          el ''div'' (button [OnClick (DvHideZeros (\<not> dv_hideZeros s))] [Txt (if dv_hideZeros s then ''!= 0'' else ''= 0'')] #
            jif (\<not> hasOverview v) PeriodPicker)],
        if isLoading q then el ''div'' [Spinner]
        else if isError q then el ''p'' [Txt ''Falha ao carregar metricas.'']
        else if grid = [] then el ''div''
          (el ''p'' [Txt (if 0 < rest then ''Todas as metricas estao com valor zero.'' else ''Nenhuma metrica adicional disponivel.'')] #
           jif (0 < rest) (button [OnClick (DvHideZeros False)] [Txt ''Mostrar todas'']))
        else el ''div''
          [el ''p'' [Txt ''Clique em uma metrica numerica para ver o grafico historico.''],
           el ''div'' (map (\<lambda>m. MetricCard p m (dv_period s) (set_has (dv_expanded s) (mt_metric_definition_id m))
             (DvToggle (mt_metric_definition_id m))) grid)]]))"

definition problem_item :: "host \<Rightarrow> dd_problem \<Rightarrow> 'e vnode" where
  "problem_item h x = El ''li'' [At ''key'' (pb_monitoring_problem_id x)]
     [Badge (dd_sevVariant (pb_severity_class x)) [Txt (toUpperCase (nullish (pb_severity_class x) ''?''))],
      el ''div'' [el ''p'' [Txt (nullish (pb_summary x) ''--'')], el ''p'' [Txt ''Aberto '', Txt (dd_fmtTs h (pb_opened_at x))]]]"

definition problems_section :: "host \<Rightarrow> dd_problem list query \<Rightarrow> 'e vnode" where
  "problems_section h q =
     (let as = activeProblems (nullish (qdata q) [])
      in Card
       [CardHeader (el ''span'' [Txt ''Problemas ativos''] # jif (as \<noteq> []) (Badge ''danger'' [Txt (str_nat (length as))])),
        if isLoading q then el ''div'' [Spinner]
        else if as = [] then el ''p'' [Txt ''Nenhum problema ativo.'']
        else el ''ul'' (map (problem_item h) as)])"

definition dv_view :: "dv_props \<Rightarrow> device \<Rightarrow> dv_event vnode" where
  "dv_view p s =
     (let q = dp_resource p; allMetrics = nullish (qdata (dp_current p)) []; h = nh_host (dp_num p)
      in if isLoading q then el ''div'' [Spinner]
         else case (isError q, qdata q) of
           (False, Some r) \<Rightarrow> el ''div''
             ([dv_header p r s] @ overview_section p (overview_of allMetrics) s @ identity_section h r @
              groups_section (rd_normalized_evidence r) @ metrics_section p s allMetrics @ [problems_section h (dp_problems p)])
         | _ \<Rightarrow> el ''div'' [back_link, el ''p'' [Txt ''Falha ao carregar dispositivo.'']])"

section \<open>Laws of the view\<close>

definition dv_user :: "dv_event \<Rightarrow> bool" where
  "dv_user e \<longleftrightarrow> (case e of DvPeriod k \<Rightarrow> k \<in> fst ` set PERIODS | DvToggle _ \<Rightarrow> True | DvHideZeros _ \<Rightarrow> True
     | DvRefresh \<Rightarrow> True | DvBack \<Rightarrow> True | _ \<Rightarrow> False)"

definition dv_net :: "dv_event \<Rightarrow> bool" where
  "dv_net e \<longleftrightarrow> (case e of DvLayout _ \<Rightarrow> True | DvStamp _ \<Rightarrow> True | DvTimer \<Rightarrow> True | _ \<Rightarrow> False)"

definition dv_allowed :: "dv_event \<Rightarrow> bool" where
  "dv_allowed e \<longleftrightarrow> dv_user e \<or> dv_net e"

lemma dv_user_simps [simp]:
  "dv_user (DvToggle i)" "dv_user (DvHideZeros b)" "dv_user DvRefresh" "dv_user DvBack"
  "dv_user (DvPeriod k) \<longleftrightarrow> k \<in> fst ` set PERIODS"
  by (simp_all add: dv_user_def)

lemma chart_laws [simp]:
  "solo (MetricChart p i u per)" "offers P (MetricChart p i u per)" "solo (DualLineChart p a b u per)" "offers P (DualLineChart p a b u per)"
  by (auto simp: MetricChart_def DualLineChart_def dual_line_def Let_def dead_def split: option.split)

lemma chart_sealed [simp]: "sealed (MetricChart p i u per)"
  by (auto simp: MetricChart_def Let_def)

lemma OverviewChartCard_laws [simp]:
  "solo (OverviewChartCard t v u k) = solo k" "offers P (OverviewChartCard t v u k) = offers P k"
  by (auto simp: OverviewChartCard_def)

lemma PeriodPicker_laws [simp]: "solo PeriodPicker" "offers dv_user PeriodPicker"
  by (auto simp: PeriodPicker_def)

lemma MetricCard_laws [simp]: "solo (MetricCard p m per ex (DvToggle i))" "offers dv_user (MetricCard p m per ex (DvToggle i))"
  by (auto simp: MetricCard_def Let_def jif_def)

lemma dv_header_laws: "solo (dv_header p r s)" "offers dv_user (dv_header p r s)"
  by (auto simp: dv_header_def back_link_def Let_def split: option.split)

lemma overview_section_laws:
  "\<forall>k \<in> set (overview_section p v s). solo k \<and> offers dv_user k"
  by (auto simp: overview_section_def headline_card_def net_card_def split: option.split)

lemma KV_laws [simp]: "k \<in> set (dd_KV l v) \<Longrightarrow> solo k \<and> offers P k"
  by (auto simp: dd_KV_def)

lemma inv_rows_laws [simp]: "k \<in> set (inv_rows ivt rows) \<Longrightarrow> solo k \<and> offers P k"
  by (auto simp: inv_rows_def)

lemma remote_links_laws [simp]: "k \<in> set (remote_links ivt) \<Longrightarrow> solo k \<and> offers P k"
  by (auto simp: remote_links_def Let_def)

lemma iface_row_laws [simp]: "solo (iface_row i)" "offers P (iface_row i)"
  by (auto simp: iface_row_def)

lemma identity_parts_laws:
  "solo (identity_card h r ivt pif)" "offers P (identity_card h r ivt pif)" "solo (contact_card ev ivt)" "offers P (contact_card ev ivt)"
  by (auto simp: identity_card_def contact_card_def Let_def ball_Un)

lemma identity_section_laws: "\<forall>k \<in> set (identity_section h r). solo k \<and> offers P k"
  by (simp add: identity_section_def Let_def identity_parts_laws)

lemma groups_section_laws: "\<forall>k \<in> set (groups_section ev). solo k \<and> offers P k"
  by (auto simp: groups_section_def Let_def)

lemma metrics_section_laws: "\<forall>k \<in> set (metrics_section p s ms). solo k \<and> offers dv_user k"
  by (auto simp: metrics_section_def Let_def)

lemma problems_section_laws: "solo (problems_section h q)" "offers P (problems_section h q)"
  by (auto simp: problems_section_def problem_item_def Let_def)

lemma dv_view_laws: "solo (dv_view p s)" "offers dv_user (dv_view p s)"
  using overview_section_laws [of p _ s] metrics_section_laws [of p s]
  by (simp_all add: dv_view_def back_link_def Let_def ball_Un dv_header_laws problems_section_laws identity_section_laws
      groups_section_laws split: option.split bool.split)

section \<open>Properties\<close>

text \<open>The invariant of the page's own state: the expanded metrics are a set, the period is a text, and so is what the
  pending save holds.\<close>

definition dv_ok :: "device \<Rightarrow> bool" where
  "dv_ok s \<longleftrightarrow> distinct (dv_expanded s) \<and> dv_period s \<noteq> []
     \<and> (\<forall>y. dv_timer s = Some y \<longrightarrow> distinct (lp_expanded y) \<and> lp_period y \<noteq> [])"

definition dv_safe :: "string \<Rightarrow> string \<Rightarrow> effect \<Rightarrow> bool" where
  "dv_safe src rid f \<longleftrightarrow> f = Callback ''onBack'' [] \<or> f = Invalidate [''resource-current'', src, rid]
     \<or> f = Invalidate [''resource-problems'', src, rid]
     \<or> (\<exists>y. distinct (lp_expanded y) \<and> lp_period y \<noteq> []
         \<and> f = Request ''PUT'' (layout_path rid) (Some (JObj [(''layout'', payload_json y)])))"

lemma dv_ok_mount [simp]: "dv_ok dv_mount"
  by (simp add: dv_ok_def dv_mount_def)

lemma PERIODS_nonempty: "k \<in> fst ` set PERIODS \<Longrightarrow> k \<noteq> []"
  by (auto simp: PERIODS_def)

lemma dv_ok_restore: "dv_ok s \<Longrightarrow> dv_ok (restore_layout l s)"
  by (auto simp: dv_ok_def restore_layout_def truthy_def split: option.split)

lemma dv_ok_step:
  assumes "dv_ok s" "dv_allowed e"
  shows "dv_ok (fst (dv_handle src rid s e)) \<and> list_all (dv_safe src rid) (snd (dv_handle src rid s e))"
proof (cases e)
  case (DvLayout l)
  then show ?thesis using assms dv_ok_restore by (auto split: option.split)
next
  case DvTimer
  then show ?thesis using assms by (auto simp: dv_ok_def dv_safe_def split: option.split)
next
  case (DvPeriod k)
  then show ?thesis using assms PERIODS_nonempty [of k] by (simp add: dv_ok_def saveLayout_def dv_allowed_def dv_net_def)
qed (use assms in \<open>auto simp: dv_ok_def saveLayout_def dv_safe_def Let_def\<close>)

interpretation dv: component "\<lambda>s. s = dv_mount" dv_view "dv_handle src rid" dv_net "\<lambda>s. dv_allowed" dv_ok "dv_safe src rid" for src rid
proof unfold_locales
  show "offers dv_allowed (dv_view p s)" for p s
    using dv_view_laws(2) by (rule offers_mono) (simp add: dv_allowed_def)
qed (auto simp: dv_view_laws dv_allowed_def dest: dv_ok_step [unfolded dv_allowed_def])

text \<open>C24: whatever the user does and whenever answers arrive, the page of a device only saves its own layout, with every
  expanded metric once and a period, refreshes its own metrics and problems, or leaves; it never reloads the stored layout.\<close>

theorem device_requests:
  "reach (\<lambda>s. s = dv_mount) dv_view (dv_handle src rid) dv_net s out \<Longrightarrow> dv_ok s \<and> list_all (dv_safe src rid) out"
  by (rule dv.reach_inv)


definition saved_shown :: "device \<Rightarrow> bool" where
  "saved_shown s \<longleftrightarrow> (\<forall>y. dv_timer s = Some y \<longrightarrow> y = saveLayout None None None s)"

definition dv_late :: "dv_event \<Rightarrow> bool" where
  "dv_late e \<longleftrightarrow> dv_allowed e \<and> (case e of DvLayout _ \<Rightarrow> False | _ \<Rightarrow> True)"

definition dv_net_late :: "dv_event \<Rightarrow> bool" where
  "dv_net_late e \<longleftrightarrow> dv_net e \<and> (case e of DvLayout _ \<Rightarrow> False | _ \<Rightarrow> True)"

lemma saved_shown_step: "saved_shown s \<Longrightarrow> dv_late e \<Longrightarrow> saved_shown (fst (dv_handle src rid s e))"
  by (cases e) (auto simp: saved_shown_def saveLayout_def dv_late_def Let_def split: option.split)

interpretation dvl: component "\<lambda>s. dv_timer s = None" dv_view "dv_handle src rid" dv_net_late "\<lambda>s. dv_late" saved_shown "\<lambda>f. True"
  for src rid
proof unfold_locales
  show "offers dv_late (dv_view p s)" for p s
    using dv_view_laws(2) by (rule offers_mono) (auto simp: dv_late_def dv_allowed_def dv_user_def split: dv_event.splits)
  show "saved_shown s \<Longrightarrow> dv_late e \<Longrightarrow> saved_shown (fst (dv_handle src rid s e))" for s e by (rule saved_shown_step)
qed (auto simp: dv_view_laws saved_shown_def dv_late_def dv_net_late_def dv_allowed_def list_all_iff)

text \<open>A save that is pending writes exactly what the screen shows, as long as no stored layout arrives after the change
  that started it.\<close>

lemma pending_save_shown:
  "reach (\<lambda>s. dv_timer s = None) dv_view (dv_handle src rid) dv_net_late s out \<Longrightarrow> saved_shown s"
  by (rule dvl.reachable_inv)

text \<open>The save as a delayed value: its changes are those of the period, the zeros and the expanded metrics.\<close>

definition save_request :: "string \<Rightarrow> layout_payload \<Rightarrow> effect" where
  "save_request rid y = Request ''PUT'' (layout_path rid) (Some (JObj [(''layout'', payload_json y)]))"

definition is_change :: "dv_event \<Rightarrow> bool" where
  "is_change e \<longleftrightarrow> (case e of DvToggle _ \<Rightarrow> True | DvPeriod _ \<Rightarrow> True | DvHideZeros _ \<Rightarrow> True | _ \<Rightarrow> False)"

definition dv_change :: "string \<Rightarrow> string \<Rightarrow> dv_event \<Rightarrow> device \<Rightarrow> device" where
  "dv_change src rid e s = (if is_change e then fst (dv_handle src rid s e) else s)"

definition dv_fire :: "string \<Rightarrow> string \<Rightarrow> device \<Rightarrow> device \<times> effect option" where
  "dv_fire src rid s = (let (t, out) = dv_handle src rid s DvTimer in (t, case out of [] \<Rightarrow> None | f # _ \<Rightarrow> Some f))"

definition shown_save :: "string \<Rightarrow> device \<Rightarrow> effect" where
  "shown_save rid s = save_request rid (saveLayout None None None s)"

interpretation dvd: delayed "shown_save rid" "\<lambda>s. map_option (save_request rid) (dv_timer s)" "dv_change src rid" "dv_fire src rid"
  for src rid
proof unfold_locales
  fix c s
  show "map_option (save_request rid) (dv_timer (dv_change src rid c s)) = Some (shown_save rid (dv_change src rid c s))
    \<or> map_option (save_request rid) (dv_timer (dv_change src rid c s)) = map_option (save_request rid) (dv_timer s)
      \<and> shown_save rid (dv_change src rid c s) = shown_save rid s"
    by (cases c) (auto simp: dv_change_def is_change_def shown_save_def saveLayout_def Let_def)
qed (auto simp: dv_fire_def save_request_def shown_save_def saveLayout_def split: option.splits)

lemma run_changes: "list_all is_change es \<Longrightarrow> run (dv_handle src rid) s es = (dvd.burst src rid es s, [])"
proof (induction es arbitrary: s)
  case (Cons e es)
  then have "dv_handle src rid s e = (dv_change src rid e s, [])"
    by (cases e) (auto simp: is_change_def dv_change_def Let_def)
  with Cons show ?case by (simp add: dvd.burst_def)
qed (simp add: dvd.burst_def)

lemma pending_burst:
  assumes "list_all is_change es" "es \<noteq> []"
  shows "dv_timer (dvd.burst src rid es s) \<noteq> None"
proof -
  obtain xs e where es: "es = xs @ [e]" using assms(2) by (cases es rule: rev_cases) auto
  with assms(1) have "is_change e" by simp
  then show ?thesis by (cases e) (auto simp: es dvd.burst_snoc dv_change_def is_change_def Let_def)
qed

lemma run_append: "run h s (xs @ ys) = (let (s1, o1) = run h s xs; (s2, o2) = run h s1 ys in (s2, o1 @ o2))"
  for h :: "device \<Rightarrow> dv_event \<Rightarrow> device \<times> effect list"
  by (induction xs arbitrary: s) (auto simp: split_def Let_def)

text \<open>C25: one or more changes made before the timer fires are saved by one request, which carries the layout on the screen after
  the last of them; the timer never fires twice for them.\<close>

theorem one_save_per_burst:
  assumes "dv_timer s = None" "list_all is_change es" "es \<noteq> []"
  shows "run (dv_handle src rid) s (es @ [DvTimer, DvTimer]) =
    ((fst (run (dv_handle src rid) s es))\<lparr>dv_timer := None\<rparr>, [shown_save rid (fst (run (dv_handle src rid) s es))])"
proof -
  let ?t = "dvd.burst src rid es s"
  have t: "run (dv_handle src rid) s es = (?t, [])" using assms(2) by (rule run_changes)
  obtain y where y: "dv_timer ?t = Some y" using pending_burst [OF assms(2,3), of src rid s] by blast
  have "dvd.fresh rid s" using assms(1) by (simp add: dvd.fresh_def)
  then have "save_request rid y = shown_save rid ?t"
    using dvd.delivered_last [of rid s src es "save_request rid y"] y by (simp add: dvd.fire_delivers)
  with y show ?thesis by (simp add: run_append t save_request_def)
qed

text \<open>A stored layout that arrives after a change replaces what the screen shows, the change included, while the save started
  by that change still writes the values from before: the stored set of expanded metrics is lost.\<close>

lemma late_layout_overwritten:
  "let s1 = fst (dv_handle src rid dv_mount (DvPeriod ''7d''));
       s2 = fst (dv_handle src rid s1 (DvLayout (Some \<lparr>sl_expanded = Some xs, sl_period = Some ''1h'', sl_hideZeros = Some False\<rparr>)))
   in dv_expanded s2 = set_of xs \<and> dv_period s2 = ''1h'' \<and> \<not> dv_hideZeros s2
     \<and> snd (dv_handle src rid s2 DvTimer) = [Request ''PUT'' (layout_path rid) (Some (JObj [(''layout'',
          JObj [(''expanded'', JArr []), (''period'', JStr ''7d''), (''hideZeros'', JBool True)])]))]"
  by (simp add: dv_mount_def saveLayout_def restore_layout_def payload_json_def jstrs_def)

lemma read_payload: "read_layout (payload_json y) =
   \<lparr>sl_expanded = Some (lp_expanded y), sl_period = Some (lp_period y), sl_hideZeros = Some (lp_hideZeros y)\<rparr>"
proof -
  have "concat (map (\<lambda>x. case x of JStr s \<Rightarrow> [s] | _ \<Rightarrow> []) (map JStr xs)) = xs" for xs :: "string list"
    by (induction xs) auto
  then show ?thesis by (simp add: read_layout_def payload_json_def jstrs_def str_field_def)
qed

text \<open>C21: the server gives back to the same principal the layout it stored, and the page that reads it shows the periods, the
  expanded metrics and the zeros as they were when it was saved, whatever it showed before; no other entry changes.\<close>

theorem layout_roundtrip:
  assumes "reach (\<lambda>s. s = dv_mount) dv_view (dv_handle src rid) dv_net s out"
    and "save_layout sz tab (Some (t, p)) ''device_panel'' rid (payload_json (saveLayout None None None s)) = Inr tab'"
  shows "\<exists>j. get_layout tab' (Some (t, p)) ''device_panel'' rid = Inr j
      \<and> (let s' = restore_layout (read_layout j) any
         in dv_expanded s' = dv_expanded s \<and> dv_period s' = dv_period s \<and> dv_hideZeros s' = dv_hideZeros s)
      \<and> (\<forall>k. k \<noteq> (t, p, ''device_panel'', rid) \<longrightarrow> tab' k = tab k)"
proof -
  have "dv_ok s" using assms(1) by (rule dv.reachable_inv)
  moreover have "t \<noteq> [] \<and> p \<noteq> []" "tab' = tab((t, p, ''device_panel'', rid) \<mapsto> payload_json (saveLayout None None None s))"
    using assms(2) by (auto simp: save_layout_def require_context_def VALID_VIEW_TYPES_def split: if_splits)
  ultimately show ?thesis
    by (simp add: get_layout_def require_context_def VALID_VIEW_TYPES_def read_payload restore_layout_def saveLayout_def dv_ok_def
        set_of_distinct Let_def)
qed

text \<open>A page opened again while the query library still holds the layout it read first restores that one: nothing the page
  does reads the layout again, so the saved change is off the screen and the next save removes it from the server.\<close>

lemma reopened_layout_stale:
  assumes "sl_expanded l = Some xs"
  shows "i \<in> set (dv_expanded (fst (dv_handle src rid (restore_layout l dv_mount) (DvToggle i)))) \<longleftrightarrow> i \<notin> set (dv_expanded (restore_layout l dv_mount))"
  using assms by (auto simp: Let_def restore_layout_def set_toggle_def set_add_def set_del_def)

section \<open>The page and its server\<close>

text \<open>What a request does to the server's table: the route takes the path before the question mark and reads the kind of the view,
  its key (empty by default) and the body; a request it refuses, or that is for another route, changes nothing, for no other
  handler of the server writes the table. \<open>query_value\<close> is how the server's framework reads a name or a value of the query:
  percent-decoding, hence on a component the client has encoded the component itself. The last of equal names counts.\<close>

definition decodes :: "(string \<Rightarrow> string) \<Rightarrow> bool" where
  "decodes query_value \<longleftrightarrow> (\<forall>s. query_value (encodeURIComponent s) = s)"

definition query_params :: "(string \<Rightarrow> string) \<Rightarrow> string \<Rightarrow> (string \<times> string) list" where
  "query_params query_value q = map (\<lambda>w. (query_value (takeWhile (\<lambda>c. c \<noteq> CHR ''='') w),
     query_value (tl (dropWhile (\<lambda>c. c \<noteq> CHR ''='') w)))) (split_on (CHR ''&'') q)"

definition serve :: "(string \<Rightarrow> string) \<Rightarrow> (json \<Rightarrow> nat) \<Rightarrow> (string \<times> string) option \<Rightarrow> layout_table \<Rightarrow> effect \<Rightarrow> layout_table" where
  "serve query_value sz ctx tab f = (case f of
     Request mth url (Some body) \<Rightarrow>
       (let ps = map_of (rev (query_params query_value (tl (dropWhile (\<lambda>c. c \<noteq> CHR ''?'') url))))
        in if mth = ''PUT'' \<and> takeWhile (\<lambda>c. c \<noteq> CHR ''?'') url = ''/api/v1/layout''
           then (case (ps ''view_type'', jfield body ''layout'') of
             (Some view_type, Some (JObj l)) \<Rightarrow>
               (case save_layout sz tab ctx view_type (nullish (ps ''view_key'') []) (JObj l) of Inr tab' \<Rightarrow> tab' | Inl e \<Rightarrow> tab)
           | _ \<Rightarrow> tab)
           else tab)
   | _ \<Rightarrow> tab)"

lemma encoded_literals:
  "encodeURIComponent ''view_type'' = ''view_type''" "encodeURIComponent ''device_panel'' = ''device_panel''"
  "encodeURIComponent ''view_key'' = ''view_key''"
  by code_simp+

lemma decodes_literals:
  "decodes qv \<Longrightarrow> qv ''view_type'' = ''view_type''" "decodes qv \<Longrightarrow> qv ''device_panel'' = ''device_panel''"
  "decodes qv \<Longrightarrow> qv ''view_key'' = ''view_key''" "decodes qv \<Longrightarrow> qv (encodeURIComponent i) = i"
  unfolding decodes_def using encoded_literals by metis+

text \<open>The address of the layout, taken apart by the server.\<close>

lemma layout_path_read:
  assumes "decodes qv"
  shows "takeWhile (\<lambda>c. c \<noteq> CHR ''?'') (layout_path i) = ''/api/v1/layout''"
    and "query_params qv (tl (dropWhile (\<lambda>c. c \<noteq> CHR ''?'') (layout_path i))) = [(''view_type'', ''device_panel''), (''view_key'', i)]"
proof -
  have path: "layout_path i = ''/api/v1/layout'' @ CHR ''?'' # (''view_type=device_panel'' @ CHR ''&'' # (''view_key='' @ encodeURIComponent i))"
    by (simp add: layout_path_def)
  have amp: "CHR ''&'' \<notin> set (''view_key='' @ encodeURIComponent i)"
    using encodeURIComponent_safe [of "CHR ''&''" i] uri_unsafe_delims(1) by auto
  have lit: "CHR ''&'' \<notin> set ''view_type=device_panel''" by simp
  have sep: "split_on (CHR ''&'') (''view_type=device_panel'' @ CHR ''&'' # (''view_key='' @ encodeURIComponent i)) =
      [''view_type=device_panel'', ''view_key='' @ encodeURIComponent i]"
    by (simp only: split_on_sep [OF lit] split_on_none [OF amp])
  show "takeWhile (\<lambda>c. c \<noteq> CHR ''?'') (layout_path i) = ''/api/v1/layout''" unfolding path by simp
  have tail: "tl (dropWhile (\<lambda>c. c \<noteq> CHR ''?'') (layout_path i)) =
      ''view_type=device_panel'' @ CHR ''&'' # (''view_key='' @ encodeURIComponent i)" unfolding path by simp
  show "query_params qv (tl (dropWhile (\<lambda>c. c \<noteq> CHR ''?'') (layout_path i))) = [(''view_type'', ''device_panel''), (''view_key'', i)]"
    unfolding tail query_params_def sep by (simp add: decodes_literals [OF assms])
qed

lemma serve_put:
  assumes "decodes qv"
  shows "serve qv sz ctx tab (Request ''PUT'' (layout_path rid) (Some (JObj [(''layout'', JObj l)]))) =
   (case save_layout sz tab ctx ''device_panel'' rid (JObj l) of Inr tab' \<Rightarrow> tab' | Inl e \<Rightarrow> tab)"
  by (simp add: serve_def layout_path_read [OF assms])

text \<open>The layouts that a log puts, wherever it puts them.\<close>

definition put_layouts :: "effect list \<Rightarrow> json list" where
  "put_layouts fs = concat (map (\<lambda>f. case f of
     Request mth url (Some body) \<Rightarrow> (if mth = ''PUT'' then (case jfield body ''layout'' of Some l \<Rightarrow> [l] | None \<Rightarrow> []) else [])
   | _ \<Rightarrow> []) fs)"

lemma put_layouts_append: "put_layouts (xs @ ys) = put_layouts xs @ put_layouts ys"
  by (simp add: put_layouts_def)

text \<open>One effect of the page: it puts nothing, or a well-formed layout that the server stores in the page's entry unless it is
  too long.\<close>

lemma serve_own:
  assumes "decodes qv" "dv_safe src rid f" "t \<noteq> []" "u \<noteq> []"
  shows "put_layouts [f] = [] \<and> serve qv sz (Some (t, u)) tab f = tab
    \<or> (\<exists>y. distinct (lp_expanded y) \<and> lp_period y \<noteq> [] \<and> put_layouts [f] = [payload_json y]
         \<and> serve qv sz (Some (t, u)) tab f =
             (if sz (payload_json y) \<le> MAX_LAYOUT_BYTES then tab((t, u, ''device_panel'', rid) \<mapsto> payload_json y) else tab))"
  using assms(2) unfolding dv_safe_def
proof (elim disjE exE conjE)
  fix y assume y: "distinct (lp_expanded y)" "lp_period y \<noteq> []"
    and f: "f = Request ''PUT'' (layout_path rid) (Some (JObj [(''layout'', payload_json y)]))"
  have "put_layouts [f] = [payload_json y]" by (simp add: f put_layouts_def)
  moreover have "serve qv sz (Some (t, u)) tab f =
      (if sz (payload_json y) \<le> MAX_LAYOUT_BYTES then tab((t, u, ''device_panel'', rid) \<mapsto> payload_json y) else tab)"
    unfolding f payload_json_def serve_put [OF assms(1)]
    using assms(3,4) by (simp add: save_layout_def VALID_VIEW_TYPES_def require_context_def)
  ultimately show ?thesis using y by blast
qed (simp_all add: serve_def put_layouts_def)

text \<open>C22: through the whole way from the page to the server's table, whatever the user does, the page of a device leaves the table
  with the last layout it has put -- among those that are not too long for the server -- in the entry of its own device, kind of
  view, user and tenant, and every other entry as it was; and each layout it puts is well-formed.\<close>

theorem device_writes_own_entry:
  assumes "reach (\<lambda>s. s = dv_mount) dv_view (dv_handle src rid) dv_net s out" "decodes query_value" "t \<noteq> []" "u \<noteq> []"
  shows "(let ls = filter (\<lambda>l. sz l \<le> MAX_LAYOUT_BYTES) (put_layouts out)
      in foldl (serve query_value sz (Some (t, u))) tab out =
           (if ls = [] then tab else tab((t, u, ''device_panel'', rid) \<mapsto> last ls)))
    \<and> (\<forall>l \<in> set (put_layouts out). \<exists>y. distinct (lp_expanded y) \<and> lp_period y \<noteq> [] \<and> l = payload_json y)"
proof -
  have "list_all (dv_safe src rid) out" using dv.reach_inv [OF assms(1)] by simp
  then show ?thesis
  proof (induction out rule: rev_induct)
    case Nil
    then show ?case by (simp add: put_layouts_def)
  next
    case (snoc f out)
    then have f: "dv_safe src rid f" by simp
    from serve_own [OF assms(2) f assms(3,4), of sz "foldl (serve query_value sz (Some (t, u))) tab out"] snoc
    show ?case by (auto simp: put_layouts_append Let_def)
  qed
qed

section \<open>Charts, metrics, numbers\<close>

lemma toChartData_valid: "points_ok h ps \<Longrightarrow> t \<in> fst ` set (toChartData h ps) \<Longrightarrow> t \<noteq> None"
  by (fastforce simp: toChartData_def points_ok_def list_all_iff split: option.splits)

lemma ts_le_Some: "ts_le (Some x) (Some y) \<longleftrightarrow> x \<le> y"
  by (simp add: ts_le_def)

text \<open>The comparison of two times is a total preorder on those that are valid, which is all that sorting them needs.\<close>

lemma js_sort_Some: "js_sort ts_le (map Some xs) = map Some (js_sort (\<le>) xs)"
proof -
  have "sort_in ts_le (Some x) (map Some xs) = map Some (sort_in (\<le>) x xs)" for x xs
    by (induction xs) (simp_all add: ts_le_Some)
  then show ?thesis by (induction xs) (simp_all add: js_sort_def)
qed

lemma sorted_ts: "None \<notin> set ts \<Longrightarrow> sorted_wrt ts_le (js_sort ts_le ts)"
proof -
  assume "None \<notin> set ts"
  then have "ts = map Some (map the ts)" by (induction ts) auto
  then obtain xs where ts: "ts = map Some xs" by blast
  have "sorted_wrt (\<le>) (js_sort (\<le>) xs)"
    by (rule sorted_js_sort) (auto simp: totalp_on_def transp_def reflp_on_def)
  then show ?thesis unfolding ts js_sort_Some by (simp add: sorted_wrt_map ts_le_Some)
qed

definition ts_less :: "dual_row \<Rightarrow> dual_row \<Rightarrow> bool" where
  "ts_less a b \<longleftrightarrow> (\<exists>x y. fst a = Some x \<and> fst b = Some y \<and> x < y)"

lemma dual_rows_times: "map fst (dual_rows h ins outs) =
   js_sort ts_le (set_of (map fst (map_of_entries (toChartData h ins)) @ map fst (map_of_entries (toChartData h outs))))"
  by (simp add: dual_rows_def Let_def o_def)

lemma dual_rows_set: "fst ` set (dual_rows h ins outs) = fst ` set (toChartData h ins) \<union> fst ` set (toChartData h outs)"
proof -
  have "fst ` set (dual_rows h ins outs) = set (map fst (dual_rows h ins outs))" by simp
  also have "\<dots> = fst ` set (toChartData h ins) \<union> fst ` set (toChartData h outs)"
    unfolding dual_rows_times by (simp add: set_set_of)
  finally show ?thesis .
qed

lemma dual_row_at:
  assumes "t \<in> fst ` set (toChartData h ins) \<union> fst ` set (toChartData h outs)"
  shows "(t, map_of (rev (toChartData h ins)) t, map_of (rev (toChartData h outs)) t) \<in> set (dual_rows h ins outs)"
proof -
  have "t \<in> fst ` set (dual_rows h ins outs)" using assms by (simp only: dual_rows_set)
  then show ?thesis by (auto simp: dual_rows_def Let_def map_of_entries_last)
qed

lemma dual_rows_gap:
  "t \<in> fst ` set (toChartData h ins) - fst ` set (toChartData h outs) \<Longrightarrow> \<exists>v. (t, Some v, None) \<in> set (dual_rows h ins outs)"
  "t \<in> fst ` set (toChartData h outs) - fst ` set (toChartData h ins) \<Longrightarrow> \<exists>v. (t, None, Some v) \<in> set (dual_rows h ins outs)"
proof -
  have look: "if t \<in> fst ` set xs then \<exists>v. map_of (rev xs) t = Some v else map_of (rev xs) t = None"
    for t and xs :: "('t \<times> 'v) list"
    using weak_map_of_SomeI [of t _ "rev xs"] map_of_SomeD [of "rev xs" t]
    by (cases "map_of (rev xs) t") (force simp: map_of_eq_None_iff)+
  show "t \<in> fst ` set (toChartData h ins) - fst ` set (toChartData h outs) \<Longrightarrow> \<exists>v. (t, Some v, None) \<in> set (dual_rows h ins outs)"
    using dual_row_at [of t h ins outs] look [of t "toChartData h ins"] look [of t "toChartData h outs"] by auto
  show "t \<in> fst ` set (toChartData h outs) - fst ` set (toChartData h ins) \<Longrightarrow> \<exists>v. (t, None, Some v) \<in> set (dual_rows h ins outs)"
    using dual_row_at [of t h ins outs] look [of t "toChartData h ins"] look [of t "toChartData h outs"] by auto
qed

text \<open>C23: the traffic chart merges two histories whose observation times are all valid dates by equality of the times: its rows
  are strictly increasing in time, one for each time of either history, and each carries the last value that each history has at
  exactly that time. A comment at this place (\<open>DeviceDetail.tsx:345\<close>) announces an alignment to the nearest second, which the code does
  not do: at a time that only one history has, the row has a gap for the other, however near its values are.\<close>

theorem dual_rows_merge:
  assumes "points_ok h ins" "points_ok h outs"
  shows "sorted_wrt ts_less (dual_rows h ins outs)
    \<and> fst ` set (dual_rows h ins outs) = fst ` set (toChartData h ins) \<union> fst ` set (toChartData h outs)
    \<and> (\<forall>(t, i, u) \<in> set (dual_rows h ins outs). i = map_of (rev (toChartData h ins)) t \<and> u = map_of (rev (toChartData h outs)) t)
    \<and> (\<forall>t \<in> fst ` set (toChartData h ins) - fst ` set (toChartData h outs). \<exists>v. (t, Some v, None) \<in> set (dual_rows h ins outs))
    \<and> (\<forall>t \<in> fst ` set (toChartData h outs) - fst ` set (toChartData h ins). \<exists>v. (t, None, Some v) \<in> set (dual_rows h ins outs))"
proof -
  let ?r = "dual_rows h ins outs"
  let ?ts = "set_of (map fst (map_of_entries (toChartData h ins)) @ map fst (map_of_entries (toChartData h outs)))"
  have "None \<notin> fst ` set ?r" unfolding dual_rows_set using toChartData_valid assms by blast
  then have valid: "None \<notin> set (map fst ?r)" by simp
  then have "None \<notin> set ?ts" by (simp only: dual_rows_times set_js_sort) simp
  then have "sorted_wrt ts_le (map fst ?r)" unfolding dual_rows_times by (rule sorted_ts)
  moreover have "distinct (map fst ?r)"
    unfolding dual_rows_times by (rule distinct_js_sort) simp
  ultimately have "sorted_wrt (\<lambda>a b. ts_le a b \<and> a \<noteq> b) (map fst ?r)" by (rule sorted_wrt_distinct)
  then have "sorted_wrt (\<lambda>a b. ts_le (fst a) (fst b) \<and> fst a \<noteq> fst b) ?r" by (simp add: sorted_wrt_map)
  then have "sorted_wrt ts_less ?r"
  proof (rule sorted_wrt_mono_rel [rotated])
    fix a b :: dual_row
    assume "a \<in> set ?r" "b \<in> set ?r" "ts_le (fst a) (fst b) \<and> fst a \<noteq> fst b"
    moreover from this(1,2) have "fst a \<in> set (map fst ?r)" "fst b \<in> set (map fst ?r)" by simp_all
    then have "fst a \<noteq> None" "fst b \<noteq> None" using valid by metis+
    ultimately show "ts_less a b" by (auto simp: ts_less_def ts_le_def)
  qed
  moreover have "\<forall>(t, i, u) \<in> set ?r. i = map_of (rev (toChartData h ins)) t \<and> u = map_of (rev (toChartData h outs)) t"
    by (auto simp: dual_rows_def Let_def map_of_entries_last)
  ultimately show ?thesis using dual_rows_set [of h ins outs] by (intro conjI ballI dual_rows_gap) simp_all
qed


text \<open>Two values a millisecond apart are in different rows of the traffic chart: nothing is aligned to the second.\<close>

lemma dual_rows_unaligned:
  assumes "date_ms (nh_host h) a = Some n" "date_ms (nh_host h) b = Some (n + 1)"
  shows "dual_rows h [\<lparr>hp_observed_at = a, hp_value = Some (JObj [(''n'', JNum (JInt 1))])\<rparr>]
      [\<lparr>hp_observed_at = b, hp_value = Some (JObj [(''n'', JNum (JInt 2))])\<rparr>] =
    [(Some n, Some (Some 1), None), (Some (n + 1), None, Some (Some 2))]"
  using assms by (simp add: dual_rows_def toChartData_def map_of_entries_def set_of_def set_add_def js_sort_def ts_le_Some)

lemma overview_subset: "set (overview_metrics (overview_of ms)) \<subseteq> set ms"
  by (auto simp: overview_metrics_def overview_of_def Let_def dest!: find_SomeD split: option.splits)

lemma overviewIds_set: "set (overviewIds (overview_of ms)) =
   mt_metric_definition_id ` set (overview_metrics (overview_of ms)) - {[]}"
  by (auto simp: overviewIds_def set_set_of)

text \<open>With distinct, nonempty ids, the number next to the grid is right: without the hidden zeros the grid has exactly the
  metrics that are in no headline, as many as the total less the headlines; hiding zeros only removes some of them.\<close>

lemma grid_count:
  assumes "distinct (map mt_metric_definition_id ms)" "[] \<notin> mt_metric_definition_id ` set ms"
  shows "length (gridMetrics h False ms) = length ms - length (overviewIds (overview_of ms))
    \<and> length (overviewIds (overview_of ms)) \<le> length ms
    \<and> gridMetrics h True ms = filter (\<lambda>m. \<not> isZeroValue h m) (gridMetrics h False ms)"
proof -
  let ?k = mt_metric_definition_id and ?ids = "overviewIds (overview_of ms)"
  have sub: "set ?ids \<subseteq> ?k ` set ms" using overview_subset [of ms] by (auto simp: overviewIds_set)
  have ids: "distinct ?ids" by (simp add: overviewIds_def)
  have "length (gridMetrics h False ms) = length (filter (\<lambda>i. i \<notin> set ?ids) (map ?k ms))"
    by (simp add: gridMetrics_def filter_map o_def)
  also have "\<dots> = card (set (filter (\<lambda>i. i \<notin> set ?ids) (map ?k ms)))"
    by (rule distinct_card [symmetric]) (simp add: assms(1) del: set_filter)
  also have "set (filter (\<lambda>i. i \<notin> set ?ids) (map ?k ms)) = ?k ` set ms - set ?ids" by auto
  also have "card \<dots> = card (?k ` set ms) - card (set ?ids)" using sub by (simp add: card_Diff_subset)
  also have "\<dots> = length ms - length ?ids"
    using assms(1) ids by (simp add: distinct_card card_image distinct_map)
  finally have len: "length (gridMetrics h False ms) = length ms - length ?ids" .
  have "length ?ids \<le> card (?k ` set ms)" using sub ids by (metis card_mono distinct_card finite_imageI List.finite_set)
  also have "\<dots> = length ms" using assms(1) by (simp add: card_image distinct_map distinct_card)
  finally show ?thesis using len by (simp add: gridMetrics_def Let_def filter_filter conj_commute)
qed

text \<open>Whether a tree occurs in another.\<close>

fun occurs :: "'e vnode \<Rightarrow> 'e vnode \<Rightarrow> bool" where
  "occurs w (Txt x) \<longleftrightarrow> w = Txt x"
| "occurs w (El t as ks) \<longleftrightarrow> w = El t as ks \<or> list_ex (occurs w) ks"

lemma occurs_refl [simp]: "occurs w w"
  by (cases w) simp_all

lemma occurs_kid: "k \<in> set ks \<Longrightarrow> occurs w k \<Longrightarrow> occurs w (El t as ks)"
  by (auto simp: list_ex_iff)

lemma occurs_kit:
  "k \<in> set ks \<Longrightarrow> occurs w k \<Longrightarrow> occurs w (Card ks)" "occurs w k \<Longrightarrow> occurs w (OverviewChartCard title v u k)"
  by (auto simp: Card_def OverviewChartCard_def list_ex_iff)

text \<open>A headline whose history its card charts; a traffic metric is charted with the one of the other direction only.\<close>

definition lone_net :: "overview \<Rightarrow> dd_metric \<Rightarrow> bool" where
  "lone_net v m \<longleftrightarrow> (ov_netIn v = Some m \<and> ov_netOut v = None) \<or> (ov_netOut v = Some m \<and> ov_netIn v = None)"

definition headline_charted :: "dv_props \<Rightarrow> string \<Rightarrow> dd_metric \<Rightarrow> dv_event vnode \<Rightarrow> bool" where
  "headline_charted p period x v \<longleftrightarrow>
     (\<exists>title. occurs (OverviewChartCard title (Some (fmtMetricValue (dp_num p) (mt_value x) (mt_unit x))) (mt_unit x)
        (MetricChart p (mt_metric_definition_id x) (mt_unit x) period)) v)
     \<or> (\<exists>i u. (x = i \<or> x = u) \<and> occurs (DualLineChart p (mt_metric_definition_id i) (mt_metric_definition_id u) (mt_unit i) period) v)"

lemma headline_up: "headline_charted p period x k \<Longrightarrow> k \<in> set ks \<Longrightarrow> headline_charted p period x (El t as ks)"
  unfolding headline_charted_def by (blast intro: occurs_kid)

lemma overview_charts:
  assumes "x \<in> set (overview_metrics v)" "\<not> lone_net v x"
  shows "\<exists>w \<in> set (overview_section p v s). headline_charted p (dv_period s) x w"
proof -
  let ?cards = "headline_card p ''CPU'' (ov_cpu v) (dv_period s) @ headline_card p ''Memoria'' (ov_mem v) (dv_period s) @
        headline_card p ''Disco'' (ov_disk v) (dv_period s) @ net_card p v (dv_period s)"
  have has: "hasOverview v" using assms
    by (cases "ov_netIn v"; cases "ov_netOut v") (auto simp: overview_metrics_def hasOverview_def lone_net_def split: option.splits)
  have up: "headline_charted p (dv_period s) x (Card [CardHeader hs, el ''div'' ?cards])"
    if "k \<in> set ?cards" "headline_charted p (dv_period s) x k" for hs k
  proof -
    have "headline_charted p (dv_period s) x (el ''div'' ?cards)" using that by (rule headline_up [rotated])
    then show ?thesis unfolding Card_def by (rule headline_up) simp
  qed
  have alone: "headline_card p title (Some x) (dv_period s) = [k] \<Longrightarrow> headline_charted p (dv_period s) x k" for title k
    unfolding headline_charted_def by (rule disjI1, rule exI [of _ title]) (simp add: headline_card_def)
  have both: "headline_charted p (dv_period s) x k"
    if net: "net_card p v (dv_period s) = [k]" "ov_netIn v = Some x \<or> ov_netOut v = Some x" for k
  proof -
    obtain i u where "ov_netIn v = Some i" "ov_netOut v = Some u" using net(1)
      by (cases "ov_netIn v"; cases "ov_netOut v") (auto simp: net_card_def)
    then have "x = i \<or> x = u" "occurs (DualLineChart p (mt_metric_definition_id i) (mt_metric_definition_id u) (mt_unit i) (dv_period s)) k"
      using net by (auto simp: net_card_def intro: occurs_kit)
    then show ?thesis unfolding headline_charted_def by blast
  qed
  have nets: "ov_netIn v = Some x \<or> ov_netOut v = Some x \<Longrightarrow> \<exists>k. net_card p v (dv_period s) = [k]"
    using assms(2) by (cases "ov_netIn v"; cases "ov_netOut v") (auto simp: lone_net_def net_card_def)
  consider "ov_cpu v = Some x" | "ov_mem v = Some x" | "ov_disk v = Some x" | "ov_netIn v = Some x \<or> ov_netOut v = Some x"
    using assms(1) by (auto simp: overview_metrics_def split: option.splits)
  then have "\<exists>k \<in> set ?cards. headline_charted p (dv_period s) x k"
  proof cases
    case 4
    then show ?thesis using nets both by fastforce
  qed (use alone in \<open>fastforce simp: headline_card_def\<close>)+
  then show ?thesis using up by (auto simp: overview_section_def has)
qed

lemma grid_card_shown:
  assumes "qdata (dp_current p) = Some ms" "\<not> isLoading (dp_current p)" "\<not> isError (dp_current p)"
    and "m \<in> set (gridMetrics (dp_num p) (dv_hideZeros s) ms)"
  shows "\<exists>w \<in> set (metrics_section p s ms). occurs (MetricCard p m (dv_period s)
      (set_has (dv_expanded s) (mt_metric_definition_id m)) (DvToggle (mt_metric_definition_id m))) w"
proof -
  have "m \<in> set ms" using assms(4) by (auto simp: gridMetrics_def Let_def split: if_splits)
  let ?card = "\<lambda>m. MetricCard p m (dv_period s) (set_has (dv_expanded s) (mt_metric_definition_id m)) (DvToggle (mt_metric_definition_id m))"
  have "ms \<noteq> []" "gridMetrics (dp_num p) (dv_hideZeros s) ms \<noteq> []" using assms(4) \<open>m \<in> set ms\<close> by auto
  then obtain hd1 hint where "metrics_section p s ms =
      [Card [hd1, el ''div'' [hint, el ''div'' (map ?card (gridMetrics (dp_num p) (dv_hideZeros s) ms))]]]"
    using assms(1-3) by (simp add: metrics_section_def Let_def)
  moreover have "occurs (?card m) (el ''div'' (map ?card (gridMetrics (dp_num p) (dv_hideZeros s) ms)))"
    using assms(4) by (intro occurs_kid [of "?card m"]) simp_all
  ultimately show ?thesis by (simp add: Card_def)
qed

text \<open>C26: once the device and its metrics are loaded, with the zeros shown, every metric with a non-empty id is on the page: its card
  is in the grid, or a headline with its id is charted in a card of the overview (CPU, memory and disk each alone, the two
  directions of the traffic together), with one exception: the traffic metric of one direction when none was found for the other.\<close>

theorem metric_reachable:
  assumes "qdata (dp_resource p) = Some r" "\<not> isLoading (dp_resource p)" "\<not> isError (dp_resource p)"
    and "qdata (dp_current p) = Some ms" "\<not> isLoading (dp_current p)" "\<not> isError (dp_current p)"
    and "\<not> dv_hideZeros s" "m \<in> set ms" "mt_metric_definition_id m \<noteq> []"
  shows "occurs (MetricCard p m (dv_period s) (set_has (dv_expanded s) (mt_metric_definition_id m))
        (DvToggle (mt_metric_definition_id m))) (dv_view p s)
    \<or> (\<exists>x \<in> set ms. mt_metric_definition_id x = mt_metric_definition_id m
         \<and> (headline_charted p (dv_period s) x (dv_view p s) \<or> lone_net (overview_of ms) x))"
proof -
  let ?v = "overview_of ms"
  have view: "dv_view p s = el ''div'' ([dv_header p r s] @ overview_section p ?v s @ identity_section (nh_host (dp_num p)) r @
      groups_section (rd_normalized_evidence r) @ metrics_section p s ms @ [problems_section (nh_host (dp_num p)) (dp_problems p)])"
    using assms(1-4) by (simp add: dv_view_def Let_def)
  show ?thesis
  proof (cases "mt_metric_definition_id m \<in> set (overviewIds ?v)")
    case False
    then have "m \<in> set (gridMetrics (dp_num p) (dv_hideZeros s) ms)" using assms(7,8) by (simp add: gridMetrics_def)
    from grid_card_shown [OF assms(4-6) this] show ?thesis unfolding view by (fastforce simp: list_ex_iff)
  next
    case True
    then obtain x where x: "x \<in> set (overview_metrics ?v)" "mt_metric_definition_id x = mt_metric_definition_id m"
      by (auto simp: overviewIds_set)
    then have "x \<in> set ms" using overview_subset by blast
    moreover have "headline_charted p (dv_period s) x (dv_view p s)" if lone: "\<not> lone_net ?v x"
    proof -
      obtain w where "w \<in> set (overview_section p ?v s)" "headline_charted p (dv_period s) x w"
        using overview_charts [OF x(1) lone] by blast
      then show ?thesis unfolding view by (intro headline_up [of p "dv_period s" x w]) simp_all
    qed
    ultimately show ?thesis using x(2) by blast
  qed
qed

text \<open>The exception is the usual case: the standard name of the received bits does not match its pattern, which asks for a
  word end after \<open>receiv\<close>, while that of the sent bits matches its own.\<close>

definition net_metric :: "string \<Rightarrow> string \<Rightarrow> dd_metric" where
  "net_metric i name = \<lparr>mt_metric_definition_id = i, mt_observed_at = None, mt_value_kind = ''number'', mt_value = None,
     mt_name = name, mt_unit = Some ''bps''\<rparr>"

lemma rx_received: "\<not> RX_NET_IN ''Interface eth0: Bits received''" "RX_NET_OUT ''Interface eth0: Bits sent''"
  by code_simp+

lemma rx_others:
  "\<not> RX_CPU ''Interface eth0: Bits sent''" "\<not> RX_MEM ''Interface eth0: Bits sent''" "\<not> RX_DISK ''Interface eth0: Bits sent''"
  "\<not> RX_CPU ''Interface eth0: Bits received''" "\<not> RX_MEM ''Interface eth0: Bits received''" "\<not> RX_DISK ''Interface eth0: Bits received''"
  "\<not> RX_NET_IN ''Interface eth0: Bits sent''" "\<not> RX_NET_OUT ''Interface eth0: Bits received''"
  by code_simp+


lemma sent_bits_hidden:
  fixes ms defines "ms \<equiv> [net_metric ''i1'' ''Interface eth0: Bits received'', net_metric ''i2'' ''Interface eth0: Bits sent'']"
  shows "ov_netIn (overview_of ms) = None \<and> ov_netOut (overview_of ms) = Some (net_metric ''i2'' ''Interface eth0: Bits sent'')
    \<and> overview_section p (overview_of ms) s = [] \<and> gridMetrics h False ms = [net_metric ''i1'' ''Interface eth0: Bits received'']"
proof -
  have v: "overview_of ms = \<lparr>ov_cpu = None, ov_mem = None, ov_disk = None, ov_netIn = None,
      ov_netOut = Some (net_metric ''i2'' ''Interface eth0: Bits sent'')\<rparr>"
    unfolding overview_of_def ms_def by (simp add: net_metric_def isNumeric_def rx_others rx_received del: append.simps)
  have "gridMetrics h False ms = [net_metric ''i1'' ''Interface eth0: Bits received'']"
    unfolding gridMetrics_def v by (simp add: ms_def overviewIds_def overview_metrics_def net_metric_def set_of_def set_add_def)
  then show ?thesis by (simp add: v overview_section_def hasOverview_def)
qed

text \<open>Problems that could not be loaded look like a device without problems, and a manual refresh is stamped as done whether or
  not its refetches succeeded.\<close>

lemma problems_failure_silent:
  "qdata q = None \<Longrightarrow> \<not> isLoading q \<Longrightarrow> problems_section h q = problems_section h (loaded [])"
  by (simp add: problems_section_def activeProblems_def loaded_def)

section \<open>Rounding\<close>

lemma fixed_units_close: "\<bar>rat_of_nat (fixed_units d x) - \<bar>x\<bar> * 10 ^ d\<bar> \<le> 1 / 2"
proof -
  let ?y = "\<bar>x\<bar> * 10 ^ d"
  have "0 \<le> ?y" by simp
  then have "0 \<le> \<lfloor>?y + 1 / 2\<rfloor>" by linarith
  then have "rat_of_nat (fixed_units d x) = of_int \<lfloor>?y + 1 / 2\<rfloor>" by (simp add: fixed_units_def)
  moreover have "of_int \<lfloor>?y + 1 / 2\<rfloor> \<le> ?y + 1 / 2" "?y + 1 / 2 < of_int \<lfloor>?y + 1 / 2\<rfloor> + 1" by linarith+
  ultimately show ?thesis by linarith
qed

text \<open>Rounding to hundredths is off by at most half a hundredth, is odd, and does not change a rounded number.\<close>

lemma round2_close: "\<bar>round2 x - x\<bar> \<le> 1 / 200 \<and> round2 (- x) = - round2 x \<and> round2 (round2 x) = round2 x"
proof -
  have close: "\<bar>round2 x - x\<bar> \<le> 1 / 200"
    using fixed_units_close [of 2 x] by (auto simp: round2_def abs_if split: if_splits)
  have half: "\<lfloor>1 / 2 :: rat\<rfloor> = 0" by (simp add: floor_eq_iff)
  have abs: "fixed_units 2 (- y) = fixed_units 2 y" for y by (simp add: fixed_units_def)
  have exact: "fixed_units 2 (rat_of_nat n / 100) = n" for n by (simp add: fixed_units_def half)
  then have "fixed_units 2 (- (rat_of_nat n / 100)) = n" for n using abs by metis
  then have "round2 (round2 x) = round2 x" using exact exact [of 0] by (auto simp: round2_def)
  moreover have "round2 (- x) = - round2 x" using exact [of 0] by (auto simp: round2_def abs)
  ultimately show ?thesis using close by blast
qed

section \<open>Concrete inputs\<close>

definition sample_num :: num_host where
  "sample_num = \<lparr>nh_host = sample_host, nh_float = (\<lambda>_. None), nh_str = (\<lambda>x. str_int \<lfloor>x\<rfloor>), nh_locale = (\<lambda>x. str_int \<lfloor>x\<rfloor>)\<rparr>"

definition sample_dv :: dv_props where
  "sample_dv = \<lparr>dp_num = sample_num, dp_source = ''s'',
     dp_resource = loaded \<lparr>rd_monitoring_resource_id = ''r'', rd_display_name = None, rd_presence_state = None,
       rd_last_observed_at = None, rd_normalized_evidence = None\<rparr>,
     dp_current = loaded [net_metric ''m1'' ''Processes''], dp_problems = loaded [], dp_history = (\<lambda>_ _. loaded [])\<rparr>"

lemma header_button: "can_click (Card [CardHeader [k, el ''div'' (button [OnClick e] t # ks)], c]) [e]"
proof -
  have "can_click (el ''div'' (button [OnClick e] t # ks)) [e]" by (rule can_click_kid [of "button [OnClick e] t"]) simp_all
  then show ?thesis by (simp add: Card_def CardHeader_def can_click_El)
qed

lemma zeros_button: "ms \<noteq> [] \<Longrightarrow> \<exists>k \<in> set (metrics_section p s ms). can_click k [DvHideZeros (\<not> dv_hideZeros s)]"
  by (simp add: metrics_section_def Let_def header_button)

lemma sample_dv_click: "can_click (dv_view sample_dv dv_mount) [DvHideZeros False]"
  using zeros_button [of "[net_metric ''m1'' ''Processes'']" sample_dv dv_mount]
  by (auto simp: dv_view_def sample_dv_def loaded_def Let_def dv_mount_def intro!: can_click_kid)

definition sample_payload :: layout_payload where
  "sample_payload = \<lparr>lp_expanded = [], lp_period = ''24h'', lp_hideZeros = False\<rparr>"

lemma sample_dv_run:
  assumes "init dv_mount" "net DvTimer"
  shows "reach init dv_view (dv_handle ''s'' ''r'') net (dv_mount\<lparr>dv_hideZeros := False\<rparr>)
    [Request ''PUT'' (layout_path ''r'') (Some (JObj [(''layout'', payload_json sample_payload)]))]"
proof -
  let ?s = "dv_mount\<lparr>dv_hideZeros := False, dv_timer := Some sample_payload\<rparr>" and ?e = "DvHideZeros False"
  have step: "dv_handle ''s'' ''r'' dv_mount ?e = (?s, [])" by (simp add: saveLayout_def sample_payload_def dv_mount_def)
  have "reach init dv_view (dv_handle ''s'' ''r'') net ?s []"
    using assms(1) can_click_fires [OF sample_dv_click] step by (rule reach_act1)
  from reach.settle [OF this assms(2)] show ?thesis by (simp add: dv_mount_def)
qed

theorem device_requests_witness:
  "dv_safe ''s'' ''r'' (Request ''PUT'' (layout_path ''r'') (Some (JObj [(''layout'', payload_json sample_payload)])))"
  using device_requests [OF sample_dv_run [of "\<lambda>s. s = dv_mount"]] by (simp add: dv_net_def)

theorem pending_save_shown_witness: "saved_shown (dv_mount\<lparr>dv_hideZeros := False\<rparr>)"
  using pending_save_shown [OF sample_dv_run [of "\<lambda>s. dv_timer s = None"]] by (simp add: dv_net_def dv_net_late_def dv_mount_def)

theorem layout_roundtrip_witness:
  "\<exists>tab' j. save_layout (\<lambda>_. 10) Map.empty (Some (''t'', ''u'')) ''device_panel'' ''r''
        (payload_json (saveLayout None None None (dv_mount\<lparr>dv_hideZeros := False\<rparr>))) = Inr tab'
     \<and> get_layout tab' (Some (''t'', ''u'')) ''device_panel'' ''r'' = Inr j
     \<and> \<not> dv_hideZeros (restore_layout (read_layout j) dv_mount)"
proof -
  let ?s = "dv_mount\<lparr>dv_hideZeros := False\<rparr>"
  obtain tab' where t: "save_layout (\<lambda>_. 10) Map.empty (Some (''t'', ''u'')) ''device_panel'' ''r'' (payload_json (saveLayout None None None ?s)) = Inr tab'"
    by (simp add: save_layout_def VALID_VIEW_TYPES_def MAX_LAYOUT_BYTES_def require_context_def)
  from layout_roundtrip [OF sample_dv_run [of "\<lambda>s. s = dv_mount" dv_net] t, of dv_mount] t show ?thesis
    by (auto simp: dv_net_def Let_def)
qed

definition sample_point :: "string \<Rightarrow> int \<Rightarrow> hist_point" where
  "sample_point t n = \<lparr>hp_observed_at = t, hp_value = Some (JObj [(''n'', JNum (JInt n))])\<rparr>"

theorem dual_rows_merge_witness:
  "sorted_wrt ts_less (dual_rows sample_num [sample_point ''20'' 1, sample_point ''10'' 2] [sample_point ''20'' 3])
   \<and> dual_rows sample_num [sample_point ''20'' 1, sample_point ''10'' 2] [sample_point ''20'' 3] =
      [(Some 10, Some (Some 2), None), (Some 20, Some (Some 1), Some (Some 3))]"
proof -
  have "points_ok sample_num [sample_point ''20'' 1, sample_point ''10'' 2]" "points_ok sample_num [sample_point ''20'' 3]"
    by code_simp+
  moreover have "dual_rows sample_num [sample_point ''20'' 1, sample_point ''10'' 2] [sample_point ''20'' 3] =
      [(Some 10, Some (Some 2), None), (Some 20, Some (Some 1), Some (Some 3))]" by code_simp
  ultimately show ?thesis using dual_rows_merge by blast
qed

definition sample_metrics :: "dd_metric list" where
  "sample_metrics = [net_metric ''i1'' ''CPU utilization'', net_metric ''i2'' ''Uptime'']"

theorem grid_count_witness:
  "length (gridMetrics sample_num False sample_metrics) = length sample_metrics - length (overviewIds (overview_of sample_metrics))
   \<and> overviewIds (overview_of sample_metrics) = [''i1'']"
proof -
  have "overviewIds (overview_of sample_metrics) = [''i1'']" by code_simp
  then show ?thesis using grid_count [of sample_metrics sample_num] by (simp add: sample_metrics_def net_metric_def)
qed

theorem metric_reachable_witness:
  "let p = sample_dv\<lparr>dp_current := loaded sample_metrics\<rparr>; s = dv_mount\<lparr>dv_hideZeros := False\<rparr>; m = net_metric ''i2'' ''Uptime''
   in occurs (MetricCard p m ''24h'' False (DvToggle ''i2'')) (dv_view p s)
     \<or> (\<exists>x \<in> set sample_metrics. mt_metric_definition_id x = ''i2''
          \<and> (headline_charted p ''24h'' x (dv_view p s) \<or> lone_net (overview_of sample_metrics) x))"
proof -
  let ?p = "sample_dv\<lparr>dp_current := loaded sample_metrics\<rparr>"
  obtain r where r: "qdata (dp_resource ?p) = Some r" "\<not> isLoading (dp_resource ?p)" "\<not> isError (dp_resource ?p)"
    by (simp add: sample_dv_def loaded_def)
  have "qdata (dp_current ?p) = Some sample_metrics" "\<not> isLoading (dp_current ?p)" "\<not> isError (dp_current ?p)"
    by (simp_all add: loaded_def)
  from metric_reachable [OF r this, of "dv_mount\<lparr>dv_hideZeros := False\<rparr>" "net_metric ''i2'' ''Uptime''"]
  show ?thesis by (simp add: sample_metrics_def net_metric_def dv_mount_def Let_def)
qed

theorem one_save_per_burst_witness:
  "run (dv_handle ''s'' ''r'') dv_mount ([DvHideZeros False, DvPeriod ''7d''] @ [DvTimer, DvTimer]) =
     (dv_mount\<lparr>dv_hideZeros := False, dv_period := ''7d''\<rparr>,
      [shown_save ''r'' (dv_mount\<lparr>dv_hideZeros := False, dv_period := ''7d''\<rparr>)])"
  using one_save_per_burst [of dv_mount "[DvHideZeros False, DvPeriod ''7d'']" "''s''" "''r''"]
  by (simp add: is_change_def dv_mount_def shown_save_def saveLayout_def)

theorem device_writes_own_entry_witness:
  "foldl (serve (\<lambda>s. nullish (decodeURIComponent s) []) (\<lambda>_. 10) (Some (''t'', ''u''))) Map.empty
     [Request ''PUT'' (layout_path ''r'') (Some (JObj [(''layout'', payload_json sample_payload)]))] =
   [(''t'', ''u'', ''device_panel'', ''r'') \<mapsto> payload_json sample_payload]"
proof -
  have "decodes (\<lambda>s. nullish (decodeURIComponent s) [])" by (simp add: decodes_def)
  from device_writes_own_entry [OF sample_dv_run [of "\<lambda>s. s = dv_mount" dv_net] this, of "''t''" "''u''" "\<lambda>_. 10" Map.empty]
  show ?thesis by (simp add: dv_net_def put_layouts_def MAX_LAYOUT_BYTES_def)
qed

end
