(* ===== verification/Settings.thy ===== *)
theory Settings
  imports Alerts KnowledgeBase Infra Noc
begin

text \<open>
  The pages and the shell share one \<open>localStorage\<close>. Every one of them keeps its settings under keys of its own, per workspace
  where the setting belongs to one: no step of a page changes what another page, or the same page in another workspace, will
  read.
\<close>

section \<open>Steps on the shared storage\<close>

text \<open>The parts of the application that write to the storage.\<close>

datatype keeper = AlertsOf string | ArticlesOf string | InfraOf string | DashboardOf string | ShellOf "string option"

text \<open>A step of one of them, by its own handler, from the storage before to the storage after.\<close>

inductive page_step :: "keeper \<Rightarrow> storage \<Rightarrow> storage \<Rightarrow> bool" where
  alerts: "page_step (AlertsOf tid) (al_store s) (al_store (fst (alerts_handle tid s e)))"
| articles: "page_step (ArticlesOf tid) (kb_store t) (kb_store (fst (kb_handle tid t f)))"
| infra: "page_step (InfraOf tid) (if_store u) (if_store (fst (infra_handle tid u g)))"
| dashboard: "page_step (DashboardOf tid) (no_store v) (no_store (fst (noc_handle h tid v i)))"
| shell: "page_step (ShellOf (tenant_of se)) (store w) (store (fst (shell_handle h se w j)))"

inductive_cases page_stepE: "page_step k st st'"

text \<open>The keys that each of them writes.\<close>

fun keys_of :: "keeper \<Rightarrow> string set" where
  "keys_of (AlertsOf tid) = {filter_key tid}"
| "keys_of (ArticlesOf tid) = {kb_status_key tid}"
| "keys_of (InfraOf tid) = {infra_tab_key tid}"
| "keys_of (DashboardOf tid) = {widgets_key tid}"
| "keys_of (ShellOf tid) = {''jlm_sidebar_collapsed'', ''jlm_collapsed_groups'', last_path_key tid}"

definition writes_only :: "string set \<Rightarrow> storage \<Rightarrow> storage \<Rightarrow> bool" where
  "writes_only K st st' \<longleftrightarrow> st' = st \<or> (\<exists>k \<in> K. \<exists>x. st' = ls_set k x st)"

lemma alerts_writes: "writes_only {filter_key tid} (al_store s) (al_store (fst (alerts_handle tid s e)))"
  by (cases "(tid, s, e)" rule: alerts_handle.cases) (auto simp: writes_only_def split: option.splits snooze_event.splits)

lemma articles_writes: "writes_only {kb_status_key tid} (kb_store s) (kb_store (fst (kb_handle tid s e)))"
  by (cases e) (auto simp: writes_only_def split: option.splits)

lemma infra_writes: "writes_only {infra_tab_key tid} (if_store s) (if_store (fst (infra_handle tid s e)))"
  by (cases e) (auto simp: writes_only_def)

lemma dashboard_writes: "writes_only {widgets_key tid} (no_store s) (no_store (fst (noc_handle h tid s e)))"
  by (cases e) (auto simp: writes_only_def Let_def split: option.splits)

lemma shell_writes:
  "writes_only {''jlm_sidebar_collapsed'', ''jlm_collapsed_groups'', last_path_key (tenant_of se)} (store s) (store (fst (shell_handle h se s e)))"
  by (cases e) (auto simp: writes_only_def Let_def)

lemma page_step_writes: "page_step k st st' \<Longrightarrow> writes_only (keys_of k) st st'"
  by (erule page_stepE) (simp_all add: alerts_writes articles_writes infra_writes dashboard_writes shell_writes)

text \<open>What a keeper reads when it is mounted.\<close>

definition reads_same :: "host \<Rightarrow> keeper \<Rightarrow> storage \<Rightarrow> storage \<Rightarrow> bool" where
  "reads_same h k st st' \<longleftrightarrow> (case k of
      AlertsOf tid \<Rightarrow> loadAlertFilter st' tid = loadAlertFilter st tid
    | ArticlesOf tid \<Rightarrow> loadKbStatus tid st' = loadKbStatus tid st
    | InfraOf tid \<Rightarrow> loadInfraTab tid st' = loadInfraTab tid st
    | DashboardOf tid \<Rightarrow> loadWidgets h tid st' = loadWidgets h tid st
    | ShellOf tid \<Rightarrow> load_collapsed st' = load_collapsed st \<and> load_collapsedGroups h st' = load_collapsedGroups h st
        \<and> (\<forall>se pathname. tenant_of se = tid \<longrightarrow> restore_last_path se pathname st' = restore_last_path se pathname st))"

lemma reads_same_refl [simp]: "reads_same h k st st"
  by (simp add: reads_same_def split: keeper.split)

lemma reads_same_other: "k \<notin> keys_of r \<Longrightarrow> reads_same h r st (ls_set k x st)"
  by (cases r)
    (auto simp: reads_same_def alf.load_other kbs.load_other ift.load_other now.load_other shc.load_other shg.load_other shp.load_other)

lemma keys_disjoint:
  "k \<noteq> r \<Longrightarrow> \<nexists>a b. k = ShellOf a \<and> r = ShellOf b \<Longrightarrow> x \<in> keys_of k \<Longrightarrow> x \<notin> keys_of r"
  by (cases k; cases r)
    (auto simp: filter_key_def kb_status_key_def infra_tab_key_def widgets_key_def last_path_key_def)

text \<open>C4: a step of one keeper leaves what every other keeper reads as it was: pages do not disturb each other's settings, nor the
  settings of the same page in another workspace. Only the shell's own sidebar is shared by all workspaces.\<close>

theorem settings_independent:
  assumes "page_step k st st'" "k \<noteq> r" "\<nexists>a b. k = ShellOf a \<and> r = ShellOf b"
  shows "reads_same h r st st'"
proof -
  from page_step_writes [OF assms(1)] consider "st' = st" | x y where "x \<in> keys_of k" "st' = ls_set x y st"
    by (auto simp: writes_only_def)
  then show ?thesis
  proof cases
    case 2
    then show ?thesis using keys_disjoint [OF assms(2,3)] reads_same_other by blast
  qed simp
qed

theorem settings_independent_witness:
  "loadKbStatus ''t1'' (al_store (fst (alerts_handle ''t1'' (alerts_mount (Some Map.empty) ''t1'') (SetFilter ''all'')))) = ''published''"
proof -
  have "page_step (AlertsOf ''t1'') (al_store (alerts_mount (Some Map.empty) ''t1''))
      (al_store (fst (alerts_handle ''t1'' (alerts_mount (Some Map.empty) ''t1'') (SetFilter ''all''))))"
    by (rule page_step.alerts)
  from settings_independent [OF this, of "ArticlesOf ''t1''" sample_host] show ?thesis
    by (simp add: reads_same_def alerts_mount_def loadKbStatus_def ls_get_def)
qed

end
