(* ===== verification/Viewers.thy ===== *)
theory Viewers
  imports Alerts AlertDetail Policies Escalation Maintenance Channels Sla Automation Aiops
begin

text \<open>
  The pages that ask \<open>useCanOperate\<close> (\<open>hooks/usePermission.ts\<close>) before they offer a write, run by a user whose session
  does not have the permission: what such a session can send, over all of them.
\<close>

section \<open>What a page offers to be filled in\<close>

text \<open>The form controls and the child components in a tree (React takes an element with a capital for a component). A child
  component may write on its own, so that it counts whatever it is, but for the icons of the third-party collection, which are
  pictures.\<close>

definition ICONS :: "string list" where
  "ICONS = [''BookOpen'', ''ChevronDown'', ''ChevronRight'']"

definition control :: "string \<Rightarrow> bool" where
  "control t \<longleftrightarrow> t \<in> {''input'', ''textarea'', ''select'', ''form''}
     \<or> t \<noteq> [] \<and> hd t \<in> set ''ABCDEFGHIJKLMNOPQRSTUVWXYZ'' \<and> t \<notin> set ICONS"

fun controls :: "'e vnode \<Rightarrow> string set" where
  "controls (Txt s) = {}"
| "controls (El t as ks) = (if control t then {t} else {}) \<union> \<Union> (set (map controls ks))"

lemma plain_tags [simp]:
  "\<not> control ''div''" "\<not> control ''span''" "\<not> control ''button''" "\<not> control ''p''" "\<not> control ''a''" "\<not> control ''h1''" "\<not> control ''h2''"
  "\<not> control ''h3''" "\<not> control ''table''" "\<not> control ''thead''" "\<not> control ''tbody''" "\<not> control ''tr''" "\<not> control ''th''"
  "\<not> control ''td''" "\<not> control ''ul''" "\<not> control ''ol''" "\<not> control ''li''" "\<not> control ''dl''" "\<not> control ''dt''" "\<not> control ''dd''"
  "\<not> control ''code''" "\<not> control ''label''" "\<not> control ''option''" "\<not> control ''pre''" "\<not> control ''section''" "\<not> control ''BookOpen''" "\<not> control ''ChevronDown''" "\<not> control ''ChevronRight''"
  by (simp_all add: control_def ICONS_def)

lemma kit_controls [simp]:
  "controls (Badge v ks) = \<Union> (controls ` set ks)" "controls (Button v z as ks) = \<Union> (controls ` set ks)"
  "controls (Card ks) = \<Union> (controls ` set ks)" "controls (CardHeader ks) = \<Union> (controls ` set ks)"
  "controls Spinner = {}" "controls (embed f w) = controls w"
proof -
  show "controls (embed f w) = controls w" by (induction w) auto
qed (simp_all add: Badge_def Button_def Card_def CardHeader_def Spinner_def)

lemmas view_parts = UN_subset_iff Un_subset_iff ball_Un ball_jif Let_def

lemma list_table_controls [simp]:
  "controls (list_table q m hs rows) =
     (if isLoading q then {} else \<Union>x \<in> set (nullish (qdata q) []). \<Union>k \<in> set (rows x). controls k)"
  by (auto simp: list_table_def Let_def)

text \<open>A page that offers a viewer no control but the given ones, and makes no request: what the pages owe to a viewer.\<close>

locale viewer_page = read_only init view handle net allowed inv
  for init :: "'s \<Rightarrow> bool" and view :: "'p \<Rightarrow> 's \<Rightarrow> 'e vnode" and handle :: "'s \<Rightarrow> 'e \<Rightarrow> 's \<times> effect list"
    and net :: "'e \<Rightarrow> bool" and allowed :: "'s \<Rightarrow> 'e \<Rightarrow> bool" and inv :: "'s \<Rightarrow> bool" +
  fixes shown :: "string set"
  assumes controls_shown: "inv s \<Longrightarrow> controls (view p s) \<subseteq> shown"
begin

lemma silent: "reach init view handle net s out \<Longrightarrow> controls (view p s) \<subseteq> shown \<and> \<not> list_ex is_request out"
  using controls_shown reachable_inv no_request by blast

end

section \<open>The pages of a viewer\<close>

lemma alerts_controls: "controls (alerts_view (p\<lparr>alerts_props.ap_canOperate := False\<rparr>) s) \<subseteq> {''AlertDetail''}"
  by (auto simp: alerts_view_def alerts_filters_def alerts_table_def alert_row_def alerts_pager_def view_parts)

interpretation al_v: viewer_page "alerts_init tid" "\<lambda>p. alerts_view (p\<lparr>alerts_props.ap_canOperate := False\<rparr>)" "alerts_handle tid" alerts_net
  "\<lambda>s e. \<forall>i e'. e \<noteq> RowSnooze i e'" "\<lambda>s. True" "{''AlertDetail''}" for tid
  by unfold_locales (simp_all only: alerts_controls)


lemma policies_controls: "ps_deletingPolicyId s = None \<Longrightarrow> controls (policies_view (p\<lparr>pp_canOperate := False\<rparr>) s) = {}"
  by (auto simp: policies_view_def policy_card_def policy_title_def policy_actions_def view_parts split: option.split)

interpretation ps_v: viewer_page "\<lambda>s. s = policies_mount" "\<lambda>p. policies_view (p\<lparr>pp_canOperate := False\<rparr>)" policies_handle
  policies_net "\<lambda>s. policies_reading" "\<lambda>s. ps_deletingPolicyId s = None" "{}"
  by unfold_locales (simp add: policies_controls)

lemma aiops_controls: "controls (aiops_view (p\<lparr>aip_canOperate := False\<rparr>) s) = {}"
  by (auto simp: aiops_view_def finding_card_def finding_details_def evidence_link_def view_parts split: option.split)

interpretation ai_v: viewer_page "\<lambda>s. s = aiops_mount" "\<lambda>p. aiops_view (p\<lparr>aip_canOperate := False\<rparr>)" "aiops_handle tid"
  "\<lambda>e. e = AiDismissed \<or> e = AiDismissError" "\<lambda>s e. \<forall>i. e \<noteq> AiDismiss i" "\<lambda>s. True" "{}" for tid
  by unfold_locales (simp add: aiops_controls)

lemma maint_controls: "controls (maint_view (p\<lparr>mp_canOperate := False\<rparr>) s) = {}"
  by (auto simp: maint_view_def window_section_def WindowCard_def view_parts split: option.split)

interpretation mt_v: viewer_page "\<lambda>s. s = maint_mount h" "\<lambda>p. maint_view (p\<lparr>mp_canOperate := False\<rparr>)" "maint_handle h tid" maint_net
  "maint_allowed False" "\<lambda>s. True" "{}" for h tid
proof unfold_locales
  show "maint_allowed False s e \<Longrightarrow> list_all (\<lambda>f. \<not> is_request f) (snd (maint_handle h tid s e))" for s e
    using mt.handle_safe [where operate = False and h = h and tid = tid and s = s and e = e] by (auto simp: maint_request_def list_all_iff)
qed (auto simp: maint_controls intro: mt.view_solo mt.view_allowed mt.net_allowed)

lemma channels_controls: "channels_ok False s \<Longrightarrow> controls (channels_view (p\<lparr>cp_canOperate := False\<rparr>) s) = {}"
  by (auto simp: channels_ok_def truthy_def channels_view_def channels_table_def channel_row_def view_parts split: option.split)

interpretation nc_v: viewer_page "\<lambda>s. s = channels_mount" "\<lambda>p. channels_view (p\<lparr>cp_canOperate := False\<rparr>)" "channels_handle tid"
  channels_net "channels_allowed False" "channels_ok False" "{}" for tid
proof unfold_locales
  show "channels_ok False s \<Longrightarrow> channels_allowed False s e \<Longrightarrow> list_all (\<lambda>f. \<not> is_request f) (snd (channels_handle tid s e))" for s e
    using nc.handle_safe [where operate = False and tid = tid and s = s and e = e] by (auto simp: channels_request_def list_all_iff)
qed (auto simp: channels_controls intro: nc.inv_mount nc.view_solo nc.view_allowed nc.net_allowed nc.handle_inv)

definition sla_net :: "sla_event \<Rightarrow> bool" where
  "sla_net e \<longleftrightarrow> e = LsSaved"

lemma sla_controls: "controls (sla_view (p\<lparr>lq_canOperate := False\<rparr>) s) = {}"
  by (auto simp: sla_view_def sla_card_def sla_policy_row_def tracker_row_def breach_row_def alert_link_def view_parts)

interpretation ls_v: viewer_page "\<lambda>s. s = sla_mount" "\<lambda>p. sla_view (p\<lparr>lq_canOperate := False\<rparr>)" "sla_handle tid" sla_net
  "\<lambda>s e. \<forall>i b. e \<noteq> LsEnable i b" "\<lambda>s. True" "{}" for tid
proof unfold_locales
  show "offers (\<lambda>e. \<forall>i b. e \<noteq> LsEnable i b) (sla_view (p\<lparr>lq_canOperate := False\<rparr>) s)" for p s
    by (rule offers_mono [OF sla_view_laws(2)]) (auto simp: sla_allowed_def)
  show "\<forall>i b. e \<noteq> LsEnable i b \<Longrightarrow> list_all (\<lambda>f. \<not> is_request f) (snd (sla_handle tid s e))" for s e
    by (cases e) auto
qed (auto simp: sla_view_laws sla_net_def sla_controls)

lemma automation_controls: "automation_ok False s \<Longrightarrow> controls (automation_view (p\<lparr>automation_props.ap_canOperate := False\<rparr>) s) = {}"
proof -
  assume ok: "automation_ok False s"
  then have "automation_modals q s = []" for q by (simp add: automation_ok_def automation_modals_def)
  with ok show ?thesis
    by (auto simp: automation_ok_def automation_view_def scripts_tab_def script_row_def schedules_tab_def schedule_row_def runs_tab_def run_row_def view_parts)
qed

interpretation am_v: viewer_page "\<lambda>s. s = automation_mount" "\<lambda>p. automation_view (p\<lparr>automation_props.ap_canOperate := False\<rparr>)"
  "automation_handle tid" automation_net "\<lambda>s e. \<exists>p. automation_allowed (p\<lparr>automation_props.ap_canOperate := False\<rparr>) s e"
  "automation_ok False" "{}" for tid
proof unfold_locales
  show "automation_ok False s \<Longrightarrow> \<exists>p. automation_allowed (p\<lparr>automation_props.ap_canOperate := False\<rparr>) s e \<Longrightarrow>
      list_all (\<lambda>f. \<not> is_request f) (snd (automation_handle tid s e))" for s e
    using am.handle_safe [where operate = False and tid = tid and s = s and e = e] by (auto simp: automation_request_def list_all_iff)
qed (auto simp: automation_controls intro: am.inv_mount am.view_solo am.view_allowed am.net_allowed am.handle_inv)

lemma esc_controls: "eg_deletingId s = None \<Longrightarrow> controls (esc_view (p\<lparr>xp_canOperate := False\<rparr>) s) \<subseteq> {''PolicyDetailView''}"
proof -
  assume "eg_deletingId s = None"
  then have "esc_modals (p\<lparr>xp_canOperate := False\<rparr>) s ps = []" for ps by (simp add: esc_modals_def)
  then show ?thesis by (auto simp: esc_view_def esc_table_def esc_row_def view_parts)
qed

interpretation eg_v: viewer_page "\<lambda>s. s = esc_mount" "\<lambda>p. esc_view (p\<lparr>xp_canOperate := False\<rparr>)" "esc_handle tid" esc_net
  "esc_allowed False" "\<lambda>s. eg_deletingId s = None" "{''PolicyDetailView''}" for tid
proof unfold_locales
  show "eg_deletingId s = None \<Longrightarrow> esc_allowed False s e \<Longrightarrow> list_all (\<lambda>f. \<not> is_request f) (snd (esc_handle tid s e))" for s e
    using eg.handle_safe [where operate = False and tid = tid and s = s and e = e] by (auto simp: esc_request_def list_all_iff)
  show "eg_deletingId s = None \<Longrightarrow> esc_allowed False s e \<Longrightarrow> eg_deletingId (fst (esc_handle tid s e)) = None" for s e
    using eg.handle_inv [where operate = False and tid = tid and s = s and e = e] by simp
qed (auto simp: esc_controls esc_mount_def esc_view_laws intro: eg.view_allowed eg.net_allowed)

text \<open>The detail of an escalation policy; a render that throws shows nothing.\<close>

definition esc_detail_shown :: "string \<Rightarrow> esc_detail_props \<Rightarrow> esc_detail \<Rightarrow> esc_detail_event vnode" where
  "esc_detail_shown pid p s = (case esc_detail_view pid p s of Inl _ \<Rightarrow> el ''div'' [] | Inr v \<Rightarrow> v)"

definition esc_detail_net :: "esc_detail_event \<Rightarrow> bool" where
  "esc_detail_net e \<longleftrightarrow> e = EdDeleteSuccess \<or> e = EdDeleteError"

definition esc_detail_reading :: "esc_detail_event \<Rightarrow> bool" where
  "esc_detail_reading e \<longleftrightarrow> (\<forall>n. e \<noteq> EdAskDelete n \<and> e \<noteq> EdConfirmDelete n)"

lemma esc_detail_viewer:
  assumes "ed_deletingStepNo s = None"
  shows "let v = esc_detail_shown pid (p\<lparr>xd_canOperate := False\<rparr>) s in solo v \<and> offers esc_detail_reading v \<and> controls v \<subseteq> {}"
  using assms
  by (auto simp: esc_detail_shown_def esc_detail_view_def esc_detail_body_def step_row_def esc_detail_reading_def view_parts enumerate_eq_zip
      dest: set_zip_rightD split: option.splits prod.splits)

interpretation ed_v: viewer_page "\<lambda>s. s = esc_detail_mount" "\<lambda>p. esc_detail_shown pid (p\<lparr>xd_canOperate := False\<rparr>)" "esc_detail_handle pid"
  esc_detail_net "\<lambda>s. esc_detail_reading" "\<lambda>s. ed_deletingStepNo s = None" "{}" for pid
proof unfold_locales
  show "esc_detail_reading e \<Longrightarrow> list_all (\<lambda>f. \<not> is_request f) (snd (esc_detail_handle pid s e))" for s e
    by (cases e) (auto simp: esc_detail_reading_def)
  show "ed_deletingStepNo s = None \<Longrightarrow> esc_detail_reading e \<Longrightarrow> ed_deletingStepNo (fst (esc_detail_handle pid s e)) = None" for s e
    by (cases e) (auto simp: esc_detail_reading_def)
qed (use esc_detail_viewer in \<open>auto simp: Let_def esc_detail_net_def esc_detail_reading_def esc_detail_mount_def\<close>)

section \<open>A session over all pages\<close>

text \<open>The note of the alert detail, which its form does not guard (\<open>AlertDetail.tsx:262-290\<close>): trimmed and not blank.\<close>

definition note_request :: "effect \<Rightarrow> bool" where
  "note_request f \<longleftrightarrow> (\<exists>t d. f = Request ''POST'' ''/api/v1/itsm/changes'' (Some (change_body t d ''low'')) \<and> trim d = d \<and> d \<noteq> [])"

text \<open>What a session \<open>se\<close> does: runs of the pages with the permission that \<open>useCanOperate\<close> reads from it, one after the other. The
  first argument holds the controls on the screen, each with its page, the second is the log of the effects.\<close>

inductive session_run :: "session option \<Rightarrow> (string \<times> string) set \<Rightarrow> effect list \<Rightarrow> bool" for se where
  start: "session_run se {} []"
| visit: "session_run se seen log1 \<Longrightarrow> session_run se seen' log2 \<Longrightarrow> session_run se (seen \<union> seen') (log1 @ log2)"
| alerts: "reach (alerts_init tid) (\<lambda>p. alerts_view (p\<lparr>alerts_props.ap_canOperate := useCanOperate se\<rparr>)) (alerts_handle tid) alerts_net s log1 \<Longrightarrow>
    session_run se (Pair ''AlertsPage'' ` controls (alerts_view (p\<lparr>alerts_props.ap_canOperate := useCanOperate se\<rparr>) s)) log1"
| detail: "reach (\<lambda>s. s = detail_mount) (\<lambda>p. detail_view (p\<lparr>dp_canOperate := useCanOperate se\<rparr>)) (detail_handle aid) detail_net s log1 \<Longrightarrow>
    session_run se (Pair ''AlertDetail'' ` controls (detail_view (p\<lparr>dp_canOperate := useCanOperate se\<rparr>) s)) log1"
| policies: "reach (\<lambda>s. s = policies_mount) (\<lambda>p. policies_view (p\<lparr>pp_canOperate := useCanOperate se\<rparr>)) policies_handle policies_net s log1 \<Longrightarrow>
    session_run se (Pair ''AlertPoliciesPage'' ` controls (policies_view (p\<lparr>pp_canOperate := useCanOperate se\<rparr>) s)) log1"
| escalation: "reach (\<lambda>s. s = esc_mount) (\<lambda>p. esc_view (p\<lparr>xp_canOperate := useCanOperate se\<rparr>)) (esc_handle tid) esc_net s log1 \<Longrightarrow>
    session_run se (Pair ''EscalationPage'' ` controls (esc_view (p\<lparr>xp_canOperate := useCanOperate se\<rparr>) s)) log1"
| esc_policy: "reach (\<lambda>s. s = esc_detail_mount) (\<lambda>p. esc_detail_shown pid (p\<lparr>xd_canOperate := useCanOperate se\<rparr>)) (esc_detail_handle pid) esc_detail_net s log1 \<Longrightarrow>
    session_run se (Pair ''PolicyDetailView'' ` controls (esc_detail_shown pid (p\<lparr>xd_canOperate := useCanOperate se\<rparr>) s)) log1"
| maintenance: "reach (\<lambda>s. s = maint_mount h) (\<lambda>p. maint_view (p\<lparr>mp_canOperate := useCanOperate se\<rparr>)) (maint_handle h tid) maint_net s log1 \<Longrightarrow>
    session_run se (Pair ''MaintenancePage'' ` controls (maint_view (p\<lparr>mp_canOperate := useCanOperate se\<rparr>) s)) log1"
| channels: "reach (\<lambda>s. s = channels_mount) (\<lambda>p. channels_view (p\<lparr>cp_canOperate := useCanOperate se\<rparr>)) (channels_handle tid) channels_net s log1 \<Longrightarrow>
    session_run se (Pair ''NotificationChannelsPage'' ` controls (channels_view (p\<lparr>cp_canOperate := useCanOperate se\<rparr>) s)) log1"
| sla: "reach (\<lambda>s. s = sla_mount) (\<lambda>p. sla_view (p\<lparr>lq_canOperate := useCanOperate se\<rparr>)) (sla_handle tid) sla_net s log1 \<Longrightarrow>
    session_run se (Pair ''SLAPage'' ` controls (sla_view (p\<lparr>lq_canOperate := useCanOperate se\<rparr>) s)) log1"
| automation: "reach (\<lambda>s. s = automation_mount) (\<lambda>p. automation_view (p\<lparr>automation_props.ap_canOperate := useCanOperate se\<rparr>)) (automation_handle tid) automation_net s log1 \<Longrightarrow>
    session_run se (Pair ''AutomationPage'' ` controls (automation_view (p\<lparr>automation_props.ap_canOperate := useCanOperate se\<rparr>) s)) log1"
| aiops: "reach (\<lambda>s. s = aiops_mount) (\<lambda>p. aiops_view (p\<lparr>aip_canOperate := useCanOperate se\<rparr>)) (aiops_handle tid) (\<lambda>e. e = AiDismissed \<or> e = AiDismissError) s log1 \<Longrightarrow>
    session_run se (Pair ''AIOpsPage'' ` controls (aiops_view (p\<lparr>aip_canOperate := useCanOperate se\<rparr>) s)) log1"

lemma detail_controls: "controls (detail_view p s) \<subseteq> {''textarea''}"
  by (auto simp: detail_view_def detail_header_def detail_facts_def detail_transitions_def detail_notes_def detail_kb_def KV_def view_parts
      split: option.split bool.split)

lemma detail_viewer:
  "reach (\<lambda>s. s = detail_mount) (\<lambda>p. detail_view (p\<lparr>dp_canOperate := False\<rparr>)) (detail_handle aid) detail_net s log1 \<Longrightarrow>
   list_all (\<lambda>f. is_request f \<longrightarrow> note_request f) log1"
  using dt.reach_inv [where operate = False and aid = aid and s = s]
  by (auto simp: list_all_iff detail_request_def note_request_def)

lemma no_requests: "\<not> list_ex is_request log1 \<Longrightarrow> list_all (\<lambda>f. is_request f \<longrightarrow> note_request f) log1"
  by (auto simp: list_all_iff list_ex_iff)

lemma seen_of: "controls v \<subseteq> A \<and> \<not> list_ex is_request out \<Longrightarrow> Pair pg ` A \<subseteq> B \<Longrightarrow>
    Pair pg ` controls v \<subseteq> B \<and> list_all (\<lambda>f. is_request f \<longrightarrow> note_request f) out"
  using no_requests [of out] by blast

text \<open>C5: on the pages that ask for the permission to operate, a session without it -- or one that is not there yet -- is never
  offered a form control or a child component but the field for notes of the alert detail and the two details, which
  are among these pages; and it sends nothing but such notes, in whatever order the pages are visited and whatever the user does.\<close>

theorem viewer_writes_nothing:
  assumes "\<not> useCanOperate se" "session_run se seen log1"
  shows "seen \<subseteq> {(''AlertsPage'', ''AlertDetail''), (''AlertDetail'', ''textarea''), (''EscalationPage'', ''PolicyDetailView'')}
    \<and> list_all (\<lambda>f. is_request f \<longrightarrow> note_request f) log1"
proof -
  have no: "useCanOperate se = False" using assms(1) by simp
  show ?thesis using assms(2)
  proof (induction rule: session_run.induct)
    case (visit seen log1 seen' log2)
    then show ?case by simp
  next
    case (detail aid s log1 p)
    from detail_viewer [OF detail [unfolded no]] detail_controls [of "p\<lparr>dp_canOperate := False\<rparr>" s] show ?case
      unfolding no by auto
  next
    case (alerts)
    from al_v.silent [OF alerts [unfolded no]] show ?case unfolding no by (rule seen_of) simp
  next
    case (policies)
    from ps_v.silent [OF policies [unfolded no]] show ?case unfolding no by (rule seen_of) simp
  next
    case (escalation)
    from eg_v.silent [OF escalation [unfolded no]] show ?case unfolding no by (rule seen_of) simp
  next
    case (esc_policy)
    from ed_v.silent [OF esc_policy [unfolded no]] show ?case unfolding no by (rule seen_of) simp
  next
    case (maintenance)
    from mt_v.silent [OF maintenance [unfolded no]] show ?case unfolding no by (rule seen_of) simp
  next
    case (channels)
    from nc_v.silent [OF channels [unfolded no]] show ?case unfolding no by (rule seen_of) simp
  next
    case (sla)
    from ls_v.silent [OF sla [unfolded no]] show ?case unfolding no by (rule seen_of) simp
  next
    case (automation)
    from am_v.silent [OF automation [unfolded no]] show ?case unfolding no by (rule seen_of) simp
  next
    case (aiops)
    from ai_v.silent [OF aiops [unfolded no]] show ?case unfolding no by (rule seen_of) simp
  qed simp
qed

lemma viewer_note_run:
  "session_run None (Pair ''AlertDetail'' ` controls (detail_view ((sample_detail_props True)\<lparr>dp_canOperate := useCanOperate None\<rparr>) (detail_mount\<lparr>dt_noteText := '' ok ''\<rparr>)))
     [Request ''POST'' ''/api/v1/itsm/changes'' (Some (change_body ''Nota de alerta: alert_id'' ''ok'' ''low''))]"
proof -
  let ?v = "\<lambda>p. detail_view (p\<lparr>dp_canOperate := useCanOperate None\<rparr>)"
  let ?reach = "reach (\<lambda>s. s = detail_mount) ?v (detail_handle ''a1'') detail_net"
  let ?s = "detail_mount\<lparr>dt_noteText := '' ok ''\<rparr>"
  have enter: "NoteChange '' ok '' \<in> set (changes '' ok '' (?v (sample_detail_props True) detail_mount))" by code_simp
  have click: "can_click (?v (sample_detail_props True) ?s) [NoteClick ''Nota de alerta: alert_id'' ''ok'']" by code_simp
  have "?reach detail_mount []" by (rule reach.mount) simp
  then have "?reach ?s []" using enter by (rule reach_enter) simp
  then have "?reach ?s ([] @ snd (detail_handle ''a1'' ?s (NoteClick ''Nota de alerta: alert_id'' ''ok'')))"
    using click by (rule reach_click) simp
  then show ?thesis using session_run.detail by fastforce
qed

theorem viewer_writes_nothing_witness:
  "\<not> useCanOperate None \<and> list_all (\<lambda>f. is_request f \<longrightarrow> note_request f)
     [Request ''POST'' ''/api/v1/itsm/changes'' (Some (change_body ''Nota de alerta: alert_id'' ''ok'' ''low''))]"
proof -
  have no: "\<not> useCanOperate None" by (simp add: useCanOperate_def usePermission_def)
  from viewer_writes_nothing [OF this viewer_note_run] no show ?thesis by blast
qed

end
