(* ===== verification/Links.thy ===== *)
theory Links
  imports Shell Noc Sla Aiops Alerts AlertDetail KnowledgeBase
begin

text \<open>
  Links between the pages: the dashboard, the SLA page and the findings lead to an alert, the detail of an alert to an
  article of the knowledge base. A link is a path with a query; the shell mounts the page of the path and the page reads
  the query with \<open>useSearchParams\<close>.
\<close>

section \<open>Reading the query of the address\<close>

text \<open>\<open>URLSearchParams.get\<close>: the value of the first pair with the name. \<open>+\<close> is a space and a malformed escape stands for itself;
  \<^const>\<open>None\<close> is also given for a code point that the strings of the model do not hold.\<close>

fun form_decode :: "string \<Rightarrow> string option" where
  "form_decode [] = Some []"
| "form_decode (c # cs) =
     (if c = CHR ''+'' then map_option (Cons (CHR '' '')) (form_decode cs)
      else if c \<noteq> CHR ''%'' then map_option (Cons c) (form_decode cs)
      else (case cs of
        h # l # r \<Rightarrow> (case hexbyte h l of
            None \<Rightarrow> map_option (Cons c) (form_decode cs)
          | Some b \<Rightarrow>
              if b < 128 then map_option (Cons (char_of b)) (form_decode r)
              else if b = 194 \<or> b = 195 then
                (case r of
                  p # h2 # l2 # r2 \<Rightarrow> (case hexbyte h2 l2 of
                      None \<Rightarrow> None
                    | Some b2 \<Rightarrow> if p = CHR ''%'' \<and> 128 \<le> b2 \<and> b2 < 192
                        then map_option (Cons (char_of ((b - 192) * 64 + (b2 - 128)))) (form_decode r2)
                        else None)
                | _ \<Rightarrow> None)
              else None)
      | _ \<Rightarrow> map_option (Cons c) (form_decode cs)))"

definition form_pair :: "string \<Rightarrow> string option \<times> string option" where
  "form_pair w = (form_decode (takeWhile (\<lambda>c. c \<noteq> CHR ''='') w), form_decode (tl (dropWhile (\<lambda>c. c \<noteq> CHR ''='') w)))"

definition search_get :: "string \<Rightarrow> string \<Rightarrow> string option" where
  "search_get search k =
     (let body = (if prefix ''?'' search then tl search else search);
          ps = map form_pair (filter (\<lambda>w. w \<noteq> []) (split_on (CHR ''&'') body))
      in case find (\<lambda>p. fst p = Some k) ps of None \<Rightarrow> None | Some p \<Rightarrow> snd p)"

text \<open>The characters that stand for themselves in a query.\<close>

definition plain_char :: "char \<Rightarrow> bool" where
  "plain_char c \<longleftrightarrow> c \<notin> {CHR ''&'', CHR ''+'', CHR ''%'', CHR ''#''}"

lemma form_decode_plain: "list_all plain_char s \<Longrightarrow> form_decode s = Some s"
  by (induction s) (auto simp: plain_char_def)

lemma pair_parts: "CHR ''='' \<notin> set k \<Longrightarrow>
    takeWhile (\<lambda>c. c \<noteq> CHR ''='') (k @ CHR ''='' # v) = k \<and> dropWhile (\<lambda>c. c \<noteq> CHR ''='') (k @ CHR ''='' # v) = CHR ''='' # v"
  by (induction k) auto

lemma search_get_single:
  assumes "list_all plain_char k" "CHR ''='' \<notin> set k" "list_all plain_char v"
  shows "search_get (''?'' @ k @ ''='' @ v) k = Some v"
proof -
  have no: "CHR ''&'' \<notin> set (k @ ''='' @ v)" using assms by (auto simp: list_all_iff plain_char_def)
  have "form_pair (k @ ''='' @ v) = (Some k, Some v)"
    using assms by (simp add: form_pair_def pair_parts form_decode_plain)
  then show ?thesis using split_on_none [OF no] by (simp add: search_get_def)
qed

text \<open>A raw ampersand ends the value: an id that holds one is cut.\<close>

lemma search_get_cut:
  assumes "list_all plain_char v"
  shows "search_get (''?highlight='' @ v @ ''&'' @ r) ''highlight'' = Some v"
proof -
  have no: "CHR ''&'' \<notin> set (''highlight='' @ v)" using assms by (auto simp: list_all_iff plain_char_def)
  have "form_pair (''highlight='' @ v) = (Some ''highlight'', Some v)"
    using assms by (simp add: form_pair_def form_decode_plain)
  then show ?thesis using split_on_sep [OF no, of r] by (simp add: search_get_def)
qed

section \<open>Following a link\<close>

text \<open>\<open>route\<close> is the address of \<open>useLocation\<close> after \<open>navigate\<close>, its path and its query; the router is third-party, and what
  is documented of it is that it takes a path with a query apart.\<close>

definition router_ok :: "(string \<Rightarrow> string \<times> string) \<Rightarrow> bool" where
  "router_ok route \<longleftrightarrow> (\<forall>path query. CHR ''?'' \<notin> set path \<and> CHR ''#'' \<notin> set path \<and> CHR ''#'' \<notin> set query \<longrightarrow>
     route (path @ ''?'' @ query) = (path, ''?'' @ query))"

definition query_of :: "(string \<Rightarrow> string \<times> string) \<Rightarrow> string \<Rightarrow> string \<Rightarrow> string option" where
  "query_of route to k = search_get (snd (route to)) k"

lemma routed:
  assumes "router_ok route" "CHR ''?'' \<notin> set path" "CHR ''#'' \<notin> set path" "list_all plain_char k" "CHR ''='' \<notin> set k" "list_all plain_char v"
  shows "fst (route (path @ ''?'' @ k @ ''='' @ v)) = path \<and> query_of route (path @ ''?'' @ k @ ''='' @ v) k = Some v"
proof -
  have "CHR ''#'' \<notin> set (k @ ''='' @ v)" using assms(4,6) by (auto simp: list_all_iff plain_char_def)
  then have "route (path @ ''?'' @ k @ ''='' @ v) = (path, ''?'' @ k @ ''='' @ v)" using assms(1-3) by (simp add: router_ok_def)
  then show ?thesis using search_get_single [OF assms(4-6)] by (simp add: query_of_def)
qed

text \<open>\<open>leads_to_alert i to\<close>: a click on what a page shows for the alert \<open>i\<close> navigates to \<open>to\<close>.\<close>

inductive leads_to_alert :: "string \<Rightarrow> string \<Rightarrow> bool" where
  from_noc: "fires (noc_alert_row h a) y es \<Longrightarrow> Navigate to \<in> set (snd (run (noc_handle h tid) s es)) \<Longrightarrow> leads_to_alert (na_alert_id a) to"
| from_tracker: "fires (tracker_row h t) y es \<Longrightarrow> Navigate to \<in> set (snd (run (sla_handle tid) s es)) \<Longrightarrow> leads_to_alert (lt_alert_id t) to"
| from_breach: "fires (breach_row h b) y es \<Longrightarrow> Navigate to \<in> set (snd (run (sla_handle tid) s es)) \<Longrightarrow> leads_to_alert (lb_alert_id b) to"
| from_finding: "evidence_alert r = Some i \<Longrightarrow> fires (evidence_link r) y es \<Longrightarrow> Navigate to \<in> set (snd (run (aiops_handle tid) s es)) \<Longrightarrow>
    leads_to_alert i to"

lemma navigate_solo:
  assumes "fires v y es" "solo v" "offers (\<lambda>e. P e) v" "Navigate to \<in> set (snd (run h s es))"
  shows "\<exists>e. P e \<and> Navigate to \<in> set (snd (h s e))"
  using fires_solo [OF assms(1,2)] fires_offers [OF assms(1,3)] assms(4) by (cases es) (auto simp: run_none_or_one)

lemma leads_to_alert_target: "leads_to_alert i to \<Longrightarrow> to = ''/alerts?highlight='' @ i"
proof (induction rule: leads_to_alert.induct)
  case (from_noc h a y es to tid s)
  have "solo (noc_alert_row h a)" "offers (\<lambda>e. e = NocNavigate (''/alerts?highlight='' @ na_alert_id a)) (noc_alert_row h a)"
    by (simp_all add: noc_alert_row_def)
  from navigate_solo [OF from_noc(1) this from_noc(2)] show ?case by auto
next
  case (from_tracker h t y es to tid s)
  have "solo (tracker_row h t)" "offers (\<lambda>e. e = LsNavigate (''/alerts?highlight='' @ lt_alert_id t)) (tracker_row h t)"
    by (simp_all add: tracker_row_def alert_link_def)
  from navigate_solo [OF from_tracker(1) this from_tracker(2)] show ?case by auto
next
  case (from_breach h b y es to tid s)
  have "solo (breach_row h b)" "offers (\<lambda>e. e = LsNavigate (''/alerts?highlight='' @ lb_alert_id b)) (breach_row h b)"
    by (simp_all add: breach_row_def alert_link_def)
  from navigate_solo [OF from_breach(1) this from_breach(2)] show ?case by auto
next
  case (from_finding r i y es to tid s)
  have "solo (evidence_link r)" "offers (\<lambda>e. e = AiNavigate (''/alerts?highlight='' @ i)) (evidence_link r)"
    using from_finding(1) by (auto simp: alert_href_def)
  from navigate_solo [OF from_finding(2) this from_finding(3)] show ?case by auto
qed

text \<open>The page of the alerts, mounted at the address a link leads to, once its list is loaded.\<close>

definition opened_alerts :: "string \<Rightarrow> storage \<Rightarrow> string option \<Rightarrow> alerts" where
  "opened_alerts tid st hl = (let s = alerts_mount st tid in fst (run (alerts_handle tid) s (auto_open hl False (al_autoOpenedFor s))))"

text \<open>C6: whatever shows an alert elsewhere -- a row of the dashboard, a tracker or a breach of the SLA page, the evidence of a finding --
  a click on it leads to the page of the alerts, which opens the detail of exactly that alert, whatever its list holds and
  whatever was stored; going back from the detail shows the list and does not open it again.\<close>

theorem alert_links_open:
  assumes "router_ok route" "leads_to_alert i to" "i \<noteq> []" "list_all plain_char i"
  shows "let hl = query_of route to ''highlight''; s = opened_alerts tid st hl; t = fst (alerts_handle tid s AlertsBack)
    in mounts ''AlertsPage'' (main_content (currentViewFromPath (fst (route to))) tid')
       \<and> alerts_view (p\<lparr>ap_highlight := hl\<rparr>) s = El ''AlertDetail'' [At ''alertId'' i, Prop ''onBack'' AlertsBack] []
       \<and> al_selectedId t = None \<and> auto_open hl False (al_autoOpenedFor t) = []"
proof -
  have to: "to = ''/alerts'' @ ''?'' @ ''highlight'' @ ''='' @ i" using leads_to_alert_target [OF assms(2)] by simp
  have r: "fst (route to) = ''/alerts''" "query_of route to ''highlight'' = Some i"
    unfolding to using routed [of route "''/alerts''" "''highlight''" i] assms(1,4) by (simp_all add: plain_char_def)
  have v: "currentViewFromPath ''/alerts'' = ''alerts''" by code_simp
  have "mounts ''AlertsPage'' (main_content ''alerts'' tid')" by (simp add: mounts_main_content PAGES_def)
  then show ?thesis using assms(3)
    by (simp add: r v opened_alerts_def auto_open_def alerts_mount_def alerts_view_def Let_def)
qed

text \<open>The articles that the detail of an alert lists lead to the page of the knowledge base, which shows exactly that article.\<close>

lemma article_links_open:
  assumes "router_ok route" "list_all plain_char i" "i \<noteq> []" "Navigate to \<in> set (snd (detail_handle aid s (OpenArticle i)))"
  shows "mounts ''KnowledgeBasePage'' (main_content (currentViewFromPath (fst (route to))) tid')
    \<and> kb_selectedId (kb_mount tid st (query_of route to ''article'')) = Some i"
proof -
  have to: "to = ''/kb'' @ ''?'' @ ''article'' @ ''='' @ i" using assms(4) by simp
  have r: "fst (route to) = ''/kb''" "query_of route to ''article'' = Some i"
    unfolding to using routed [of route "''/kb''" "''article''" i] assms(1,2) by (simp_all add: plain_char_def)
  have v: "currentViewFromPath ''/kb'' = ''kb''" by code_simp
  have "mounts ''KnowledgeBasePage'' (main_content ''kb'' tid')" by (simp add: mounts_main_content PAGES_def)
  then show ?thesis using assms(3) by (simp add: r v kb_mount_def)
qed

definition sample_route :: "string \<Rightarrow> string \<times> string" where
  "sample_route to = (takeWhile (\<lambda>c. c \<noteq> CHR ''?'') to, dropWhile (\<lambda>c. c \<noteq> CHR ''?'') to)"

lemma sample_route_ok: "router_ok sample_route"
proof -
  have "takeWhile (\<lambda>c. c \<noteq> CHR ''?'') (path @ CHR ''?'' # query) = path
      \<and> dropWhile (\<lambda>c. c \<noteq> CHR ''?'') (path @ CHR ''?'' # query) = CHR ''?'' # query" if "CHR ''?'' \<notin> set path" for path query
    using that by (induction path) auto
  then show ?thesis by (simp add: router_ok_def sample_route_def)
qed

definition sample_noc_alert :: noc_alert where
  "sample_noc_alert = \<lparr>na_alert_id = ''a1'', na_lifecycle_state = ''active'', na_source_kind = [], na_monitoring_source_id = [],
     na_monitoring_resource_id = [], na_evidence = None, na_opened_at = [], na_resolved_at = None\<rparr>"

lemma sample_link: "leads_to_alert ''a1'' ''/alerts?highlight=a1''"
proof -
  have "can_click (noc_alert_row sample_host sample_noc_alert) [NocNavigate ''/alerts?highlight=a1'']" by code_simp
  then have "fires (noc_alert_row sample_host sample_noc_alert) [] [NocNavigate ''/alerts?highlight=a1'']" by (rule can_click_fires)
  from leads_to_alert.from_noc [OF this] show ?thesis by (simp add: sample_noc_alert_def)
qed

theorem alert_links_open_witness:
  "alerts_view ((sample_alerts_props [])\<lparr>ap_highlight := query_of sample_route ''/alerts?highlight=a1'' ''highlight''\<rparr>)
     (opened_alerts ''t1'' None (query_of sample_route ''/alerts?highlight=a1'' ''highlight''))
   = El ''AlertDetail'' [At ''alertId'' ''a1'', Prop ''onBack'' AlertsBack] []"
  using alert_links_open [OF sample_route_ok sample_link, of "''t1''" None None "sample_alerts_props []"]
  by (simp add: plain_char_def Let_def)

end
