(* ===== verification/QueryCache.thy ===== *)
theory QueryCache
  imports Shell Alerts AlertDetail Policies Escalation Inventory Maintenance DeviceDetail Itsm ApiKeys Channels Automation Team Incident
    KnowledgeBase Noc UsersAdmin Sla Monitoring Reports Infra Alertmanager Msp Aiops FinOps Platform StatusPublic PlatformAdmin
    Onboarding AuditTrail "HOL-Library.Sublist"
begin

text \<open>
  The queries of the application: each is declared with the key of its entry in the shared query cache and the request that
  fills it. The cache is third-party; of its documented behaviour only this is used: queries with equal keys share one entry,
  an entry is shown until it is replaced, and \<open>invalidateQueries\<close> marks the entries stale whose key starts with the given one.
  A query that several components declare alike (the sources, the scripts, the branding and so on) is listed once.
\<close>

section \<open>The declarations\<close>

text \<open>Key and path.\<close>

type_synonym query_decl = "json list \<times> string"

definition q_session :: "query_decl" where
  "q_session = ([JStr ''session''],
     ''/api/session'')"

definition q_mspcheck :: "string \<Rightarrow> query_decl" where
  "q_mspcheck t = ([JStr ''msp-clients-check'', JStr t],
     ''/api/v1/msp/clients'')"

definition q_navalerts :: "string \<Rightarrow> query_decl" where
  "q_navalerts t = ([JStr ''nav-badge-alerts'', JStr t],
     ''/api/v1/alerting/alerts?lifecycle_state=active'')"

definition q_navincidents :: "string \<Rightarrow> query_decl" where
  "q_navincidents t = ([JStr ''nav-badge-incidents'', JStr t],
     ''/api/v1/alerting/tenants/'' @ t @ ''/application-error-events'')"

definition q_navchanges :: "string \<Rightarrow> query_decl" where
  "q_navchanges t = ([JStr ''nav-badge-changes'', JStr t],
     ''/api/v1/itsm/changes'')"

definition q_navsla :: "string \<Rightarrow> query_decl" where
  "q_navsla t = ([JStr ''nav-badge-sla'', JStr t],
     ''/api/v1/sla/breaches'')"

definition q_navmonitoring :: "string \<Rightarrow> query_decl" where
  "q_navmonitoring t = ([JStr ''nav-badge-monitoring'', JStr t],
     ''/api/v1/monitoring/sources'')"

definition q_navmaintenance :: "string \<Rightarrow> query_decl" where
  "q_navmaintenance t = ([JStr ''nav-badge-maintenance'', JStr t],
     ''/api/v1/maintenance/windows?tenant_id='' @ t)"

definition q_navchannels :: "string \<Rightarrow> query_decl" where
  "q_navchannels t = ([JStr ''nav-badge-channels'', JStr t],
     ''/api/v1/alerting/notifications'')"

definition q_navcritical :: "string \<Rightarrow> query_decl" where
  "q_navcritical t = ([JStr ''nav-badge-critical'', JStr t],
     ''/api/v1/alerting/alerts?lifecycle_state=active&severity=critical'')"

definition q_branding :: "string \<Rightarrow> query_decl" where
  "q_branding t = ([JStr ''branding'', JStr t],
     ''/api/v1/platform/branding'')"

definition q_findings :: "string \<Rightarrow> bool \<Rightarrow> query_decl" where
  "q_findings t b = ([JStr ''aiops-findings'', JStr t, JBool b],
     findings_path b)"

definition q_alert :: "string \<Rightarrow> query_decl" where
  "q_alert i = ([JStr ''alert'', JStr i],
     detail_path i)"

definition q_kbsearch :: "string \<Rightarrow> query_decl" where
  "q_kbsearch x = ([JStr ''kb-search'', JStr x],
     kb_search_path x)"

definition q_policies :: "query_decl" where
  "q_policies = ([JStr ''alert-policies''],
     ''/api/v1/alerting/policies'')"

definition q_policysources :: "query_decl" where
  "q_policysources = ([JStr ''monitoring-sources-for-policy''],
     ''/api/v1/monitoring/sources'')"

definition q_hookevents :: "string \<Rightarrow> query_decl" where
  "q_hookevents i = ([JStr ''amgr-events'', JStr i],
     ''/api/v1/sources/alertmanager/'' @ i @ ''/events'')"

definition q_hooksources :: "string \<Rightarrow> query_decl" where
  "q_hooksources t = ([JStr ''amgr-sources'', JStr t],
     ''/api/v1/sources/alertmanager'')"

definition q_alerts :: "string \<Rightarrow> string \<Rightarrow> query_decl" where
  "q_alerts t x = ([JStr ''alerts'', JStr t, JStr x],
     alerts_path x)"

definition q_apikeys :: "string \<Rightarrow> query_decl" where
  "q_apikeys t = ([JStr ''api-keys'', JStr t],
     ''/api/v1/api-keys'')"

definition q_audit :: "string \<Rightarrow> string \<Rightarrow> string \<Rightarrow> string \<Rightarrow> string \<Rightarrow> string \<Rightarrow> nat \<Rightarrow> query_decl" where
  "q_audit t ac su p df dt n = ([JStr ''audit-events'', JStr t, JStr ac, JStr su, JStr p, JStr df, JStr dt, JNum (JInt (int n))],
     audit_path (audit_mount\<lparr>at_filterAction := ac, at_filterSubjectType := su, at_debouncedActorFilter := p,
        at_dateFrom := df, at_dateTo := dt, at_page := n\<rparr>))"

definition q_scripts :: "string \<Rightarrow> query_decl" where
  "q_scripts t = ([JStr ''automation-scripts'', JStr t],
     ''/api/v1/automation/scripts'')"

definition q_schedules :: "string \<Rightarrow> query_decl" where
  "q_schedules t = ([JStr ''automation-schedules'', JStr t],
     ''/api/v1/automation/schedules'')"

definition q_runs :: "string \<Rightarrow> query_decl" where
  "q_runs t = ([JStr ''automation-runs'', JStr t],
     ''/api/v1/automation/runs'')"

definition q_history :: "num_host \<Rightarrow> string \<Rightarrow> string \<Rightarrow> string \<Rightarrow> query_decl" where
  "q_history h src i x = ([JStr ''metric-history'', JStr src, JStr i, JStr x],
     history_path h src i x)"

definition q_layout :: "string \<Rightarrow> query_decl" where
  "q_layout i = ([JStr ''device-layout'', JStr i],
     layout_path i)"

definition q_resource :: "string \<Rightarrow> string \<Rightarrow> query_decl" where
  "q_resource src i = ([JStr ''resource-detail'', JStr src, JStr i],
     ''/api/v1/monitoring/sources/'' @ src @ ''/resources/'' @ i)"

definition q_current :: "string \<Rightarrow> string \<Rightarrow> query_decl" where
  "q_current src i = ([JStr ''resource-current'', JStr src, JStr i],
     ''/api/v1/monitoring/sources/'' @ src @ ''/resources/'' @ i @ ''/current'')"

definition q_problems :: "string \<Rightarrow> string \<Rightarrow> query_decl" where
  "q_problems src i = ([JStr ''resource-problems'', JStr src, JStr i],
     ''/api/v1/monitoring/sources/'' @ src @ ''/resources/'' @ i @ ''/problems'')"

definition q_escpolicy :: "string \<Rightarrow> query_decl" where
  "q_escpolicy i = ([JStr ''esc-policy'', JStr i],
     esc_policy_path i)"

definition q_escpolicies :: "string \<Rightarrow> query_decl" where
  "q_escpolicies t = ([JStr ''esc-policies'', JStr t],
     ''/api/v1/alerting/escalation-policies'')"

definition q_summary :: "string \<Rightarrow> query_decl" where
  "q_summary t = ([JStr ''finops-summary'', JStr t],
     ''/api/v1/finops/summary'')"

definition q_usage :: "string \<Rightarrow> query_decl" where
  "q_usage t = ([JStr ''finops-usage'', JStr t],
     ''/api/v1/finops/usage?days=3&limit=100'')"

definition q_billing :: "query_decl" where
  "q_billing = ([JStr ''billing-status''],
     ''/api/v1/billing/status'')"

definition q_rfc :: "string \<Rightarrow> query_decl" where
  "q_rfc i = ([JStr ''itsm-rfc'', JStr i],
     rfc_path i)"

definition q_changes :: "string \<Rightarrow> query_decl" where
  "q_changes t = ([JStr ''itsm-changes'', JStr t],
     ''/api/v1/itsm/changes'')"

definition q_errorevents :: "string \<Rightarrow> query_decl" where
  "q_errorevents t = ([JStr ''ir-events'', JStr t],
     ''/api/v1/alerting/tenants/'' @ t @ ''/application-error-events'')"

definition q_pickedchannels :: "string \<Rightarrow> query_decl" where
  "q_pickedchannels t = ([JStr ''notif-channels'', JStr t],
     ''/api/v1/alerting/notification-channels'')"

definition q_irpolicy :: "string \<Rightarrow> query_decl" where
  "q_irpolicy t = ([JStr ''ir-policy'', JStr t],
     ''/api/v1/alerting/tenants/'' @ t @ ''/incident-response-policy'')"

definition q_certs :: "string \<Rightarrow> query_decl" where
  "q_certs t = ([JStr ''infra-certs'', JStr t],
     ''/api/v1/infra/certs'')"

definition q_assets :: "string \<Rightarrow> query_decl" where
  "q_assets t = ([JStr ''infra-assets'', JStr t],
     ''/api/v1/infra/assets'')"

definition q_sources :: "string \<Rightarrow> query_decl" where
  "q_sources t = ([JStr ''sources'', JStr t],
     ''/api/v1/monitoring/sources'')"

definition q_resources :: "string \<Rightarrow> string \<Rightarrow> string option \<Rightarrow> query_decl" where
  "q_resources t src c = ([JStr ''resources'', JStr t, JStr src, (case c of None \<Rightarrow> JNull | Some x \<Rightarrow> JStr x)],
     resources_path (Some src) c)"

definition q_categories :: "string \<Rightarrow> query_decl" where
  "q_categories t = ([JStr ''kb-categories'', JStr t],
     ''/api/v1/kb/categories'')"

definition q_articles :: "string \<Rightarrow> string \<Rightarrow> string \<Rightarrow> string \<Rightarrow> query_decl" where
  "q_articles t x c w = ([JStr ''kb-articles'', JStr t, JStr x, JStr c, JStr w],
     articles_path ((kb_mount [] None None)\<lparr>kb_debouncedQ := x, kb_filterCat := c, kb_filterStatus := w\<rparr>))"

definition q_article :: "string \<Rightarrow> query_decl" where
  "q_article i = ([JStr ''kb-article'', JStr i],
     article_path i)"

definition q_mspclient :: "string \<Rightarrow> query_decl" where
  "q_mspclient i = ([JStr ''msp-client-detail'', JStr i],
     ''/api/v1/msp/clients/'' @ i @ ''/detail'')"

definition q_mspclients :: "string \<Rightarrow> query_decl" where
  "q_mspclients t = ([JStr ''msp-clients'', JStr t],
     ''/api/v1/msp/clients'')"

definition q_windows :: "string \<Rightarrow> query_decl" where
  "q_windows t = ([JStr ''maintenance-windows'', JStr t],
     ''/api/v1/maintenance/windows?tenant_id='' @ t)"

definition q_nocwindows :: "string \<Rightarrow> query_decl" where
  "q_nocwindows t = ([JStr ''maintenance-windows'', JStr t],
     ''/api/v1/maintenance/windows'')"

definition q_channels :: "string \<Rightarrow> query_decl" where
  "q_channels t = ([JStr ''notification-channels'', JStr t],
     ''/api/v1/alerting/notification-channels'')"

definition q_organizations :: "query_decl" where
  "q_organizations = ([JStr ''platform-organizations''],
     ''/api/v1/platform/organizations'')"

definition q_tenants :: "query_decl" where
  "q_tenants = ([JStr ''platform-tenants''],
     ''/api/v1/platform/tenants'')"

definition q_accounts :: "query_decl" where
  "q_accounts = ([JStr ''platform-commercial-accounts''],
     ''/api/v1/platform/commercial-accounts'')"

definition q_platformhealth :: "query_decl" where
  "q_platformhealth = ([JStr ''platform-health''],
     ''/api/v1/platform/health'')"

definition q_platformusage :: "query_decl" where
  "q_platformusage = ([JStr ''platform-usage''],
     ''/api/v1/platform/usage'')"

definition q_statusconfig :: "string \<Rightarrow> query_decl" where
  "q_statusconfig t = ([JStr ''status-page-cfg'', JStr t],
     status_page_path)"

definition q_ready :: "query_decl" where
  "q_ready = ([JStr ''health-ready''],
     ''/health/ready'')"

definition q_live :: "query_decl" where
  "q_live = ([JStr ''health-live''],
     ''/health'')"

definition q_outcomes :: "query_decl" where
  "q_outcomes = ([JStr ''release-outcomes''],
     ''/api/v1/release/outcomes'')"

definition q_subscribers :: "string \<Rightarrow> query_decl" where
  "q_subscribers i = ([JStr ''schedule-subscribers'', JStr i],
     subscribers_path i)"

definition q_templates :: "string \<Rightarrow> query_decl" where
  "q_templates t = ([JStr ''report-templates'', JStr t],
     ''/api/v1/reports/templates'')"

definition q_reportschedules :: "string \<Rightarrow> query_decl" where
  "q_reportschedules t = ([JStr ''report-schedules'', JStr t],
     ''/api/v1/reports/schedules'')"

definition q_deliveries :: "string \<Rightarrow> query_decl" where
  "q_deliveries t = ([JStr ''report-deliveries'', JStr t],
     ''/api/v1/reports/deliveries'')"

definition q_slapolicies :: "string \<Rightarrow> query_decl" where
  "q_slapolicies t = ([JStr ''sla-policies'', JStr t],
     ''/api/v1/sla/policies'')"

definition q_trackers :: "string \<Rightarrow> query_decl" where
  "q_trackers t = ([JStr ''sla-trackers'', JStr t],
     ''/api/v1/sla/trackers'')"

definition q_breaches :: "string \<Rightarrow> query_decl" where
  "q_breaches t = ([JStr ''sla-breaches'', JStr t],
     ''/api/v1/sla/breaches'')"

definition q_members :: "query_decl" where
  "q_members = ([JStr ''team-members''],
     ''/api/v1/tenant/members'')"

definition q_roles :: "query_decl" where
  "q_roles = ([JStr ''tenant-roles''],
     ''/api/v1/tenant/roles'')"

definition q_users :: "query_decl" where
  "q_users = ([JStr ''admin-users''],
     ''/api/admin/users'')"

definition q_publicstatus :: "string \<Rightarrow> query_decl" where
  "q_publicstatus x = ([JStr ''public-status'', JStr x],
     ''/api/public/status/'' @ x)"

text \<open>The queries with a fixed key.\<close>

datatype app_query =
    QSession | QPolicies | QPolicySources | QBilling | QOrganizations | QTenants | QAccounts | QPlatformHealth
    | QPlatformUsage | QReady | QLive | QOutcomes | QMembers | QRoles | QUsers

text \<open>The queries whose key is a name and the workspace.\<close>

datatype tenant_query =
    QMspCheck | QNavAlerts | QNavIncidents | QNavChanges | QNavSla | QNavMonitoring | QNavMaintenance | QNavChannels
    | QNavCritical | QBranding | QHookSources | QApiKeys | QScripts | QSchedules | QRuns | QEscPolicies | QSummary
    | QUsage | QChanges | QErrorEvents | QPickedChannels | QIrPolicy | QCerts | QAssets | QSources | QCategories
    | QMspClients | QWindows | QNocWindows | QChannels | QStatusConfig | QTemplates | QReportSchedules | QDeliveries
    | QSlaPolicies | QTrackers | QBreaches

text \<open>The queries whose key has arguments.\<close>

datatype arg_query =
    QFindings bool | QAlert string | QKbSearch string | QHookEvents string | QAlerts string
    | QAudit string string string string string nat | QHistory string string string | QLayout string
    | QResource string string | QCurrent string string | QProblems string string | QEscPolicy string | QRfc string
    | QResources string "string option" | QArticles string string string | QArticle string | QMspClient string
    | QSubscribers string | QPublicStatus string

datatype page_query = OfApp app_query | OfTenant tenant_query | OfArg arg_query

fun app_decl :: "app_query \<Rightarrow> query_decl" where
  "app_decl QSession = q_session"
| "app_decl QPolicies = q_policies"
| "app_decl QPolicySources = q_policysources"
| "app_decl QBilling = q_billing"
| "app_decl QOrganizations = q_organizations"
| "app_decl QTenants = q_tenants"
| "app_decl QAccounts = q_accounts"
| "app_decl QPlatformHealth = q_platformhealth"
| "app_decl QPlatformUsage = q_platformusage"
| "app_decl QReady = q_ready"
| "app_decl QLive = q_live"
| "app_decl QOutcomes = q_outcomes"
| "app_decl QMembers = q_members"
| "app_decl QRoles = q_roles"
| "app_decl QUsers = q_users"

fun tenant_decl :: "string \<Rightarrow> tenant_query \<Rightarrow> query_decl" where
  "tenant_decl t QMspCheck = q_mspcheck t"
| "tenant_decl t QNavAlerts = q_navalerts t"
| "tenant_decl t QNavIncidents = q_navincidents t"
| "tenant_decl t QNavChanges = q_navchanges t"
| "tenant_decl t QNavSla = q_navsla t"
| "tenant_decl t QNavMonitoring = q_navmonitoring t"
| "tenant_decl t QNavMaintenance = q_navmaintenance t"
| "tenant_decl t QNavChannels = q_navchannels t"
| "tenant_decl t QNavCritical = q_navcritical t"
| "tenant_decl t QBranding = q_branding t"
| "tenant_decl t QHookSources = q_hooksources t"
| "tenant_decl t QApiKeys = q_apikeys t"
| "tenant_decl t QScripts = q_scripts t"
| "tenant_decl t QSchedules = q_schedules t"
| "tenant_decl t QRuns = q_runs t"
| "tenant_decl t QEscPolicies = q_escpolicies t"
| "tenant_decl t QSummary = q_summary t"
| "tenant_decl t QUsage = q_usage t"
| "tenant_decl t QChanges = q_changes t"
| "tenant_decl t QErrorEvents = q_errorevents t"
| "tenant_decl t QPickedChannels = q_pickedchannels t"
| "tenant_decl t QIrPolicy = q_irpolicy t"
| "tenant_decl t QCerts = q_certs t"
| "tenant_decl t QAssets = q_assets t"
| "tenant_decl t QSources = q_sources t"
| "tenant_decl t QCategories = q_categories t"
| "tenant_decl t QMspClients = q_mspclients t"
| "tenant_decl t QWindows = q_windows t"
| "tenant_decl t QNocWindows = q_nocwindows t"
| "tenant_decl t QChannels = q_channels t"
| "tenant_decl t QStatusConfig = q_statusconfig t"
| "tenant_decl t QTemplates = q_templates t"
| "tenant_decl t QReportSchedules = q_reportschedules t"
| "tenant_decl t QDeliveries = q_deliveries t"
| "tenant_decl t QSlaPolicies = q_slapolicies t"
| "tenant_decl t QTrackers = q_trackers t"
| "tenant_decl t QBreaches = q_breaches t"

fun arg_decl :: "num_host \<Rightarrow> string \<Rightarrow> arg_query \<Rightarrow> query_decl" where
  "arg_decl h t (QFindings b) = q_findings t b"
| "arg_decl h t (QAlert i) = q_alert i"
| "arg_decl h t (QKbSearch x) = q_kbsearch x"
| "arg_decl h t (QHookEvents i) = q_hookevents i"
| "arg_decl h t (QAlerts x) = q_alerts t x"
| "arg_decl h t (QAudit ac su p df dt n) = q_audit t ac su p df dt n"
| "arg_decl h t (QHistory src i x) = q_history h src i x"
| "arg_decl h t (QLayout i) = q_layout i"
| "arg_decl h t (QResource src i) = q_resource src i"
| "arg_decl h t (QCurrent src i) = q_current src i"
| "arg_decl h t (QProblems src i) = q_problems src i"
| "arg_decl h t (QEscPolicy i) = q_escpolicy i"
| "arg_decl h t (QRfc i) = q_rfc i"
| "arg_decl h t (QResources src c) = q_resources t src c"
| "arg_decl h t (QArticles x c w) = q_articles t x c w"
| "arg_decl h t (QArticle i) = q_article i"
| "arg_decl h t (QMspClient i) = q_mspclient i"
| "arg_decl h t (QSubscribers i) = q_subscribers i"
| "arg_decl h t (QPublicStatus x) = q_publicstatus x"

fun decl :: "num_host \<Rightarrow> string \<Rightarrow> page_query \<Rightarrow> query_decl" where
  "decl h t (OfApp q) = app_decl q"
| "decl h t (OfTenant q) = tenant_decl t q"
| "decl h t (OfArg q) = arg_decl h t q"

text \<open>The queries whose key does not name the workspace.\<close>

fun unscoped :: "page_query \<Rightarrow> bool" where
  "unscoped (OfApp q) = True"
| "unscoped (OfTenant q) = False"
| "unscoped (OfArg (QAlert _)) = True"
| "unscoped (OfArg (QKbSearch _)) = True"
| "unscoped (OfArg (QHookEvents _)) = True"
| "unscoped (OfArg (QHistory _ _ _)) = True"
| "unscoped (OfArg (QLayout _)) = True"
| "unscoped (OfArg (QResource _ _)) = True"
| "unscoped (OfArg (QCurrent _ _)) = True"
| "unscoped (OfArg (QProblems _ _)) = True"
| "unscoped (OfArg (QEscPolicy _)) = True"
| "unscoped (OfArg (QRfc _)) = True"
| "unscoped (OfArg (QArticle _)) = True"
| "unscoped (OfArg (QMspClient _)) = True"
| "unscoped (OfArg (QSubscribers _)) = True"
| "unscoped (OfArg (QPublicStatus _)) = True"
| "unscoped (OfArg _) = False"

text \<open>The dashboard and the page of the maintenance windows share one entry.\<close>

definition canon :: "page_query \<Rightarrow> page_query" where
  "canon q = (if q = OfTenant QNocWindows then OfTenant QWindows else q)"

lemmas decl_defs = q_session_def q_mspcheck_def q_navalerts_def q_navincidents_def q_navchanges_def q_navsla_def q_navmonitoring_def
  q_navmaintenance_def q_navchannels_def q_navcritical_def q_branding_def q_findings_def q_alert_def q_kbsearch_def
  q_policies_def q_policysources_def q_hookevents_def q_hooksources_def q_alerts_def q_apikeys_def q_audit_def
  q_scripts_def q_schedules_def q_runs_def q_history_def q_layout_def q_resource_def q_current_def q_problems_def
  q_escpolicy_def q_escpolicies_def q_summary_def q_usage_def q_billing_def q_rfc_def q_changes_def q_errorevents_def
  q_pickedchannels_def q_irpolicy_def q_certs_def q_assets_def q_sources_def q_resources_def q_categories_def
  q_articles_def q_article_def q_mspclient_def q_mspclients_def q_windows_def q_nocwindows_def q_channels_def
  q_organizations_def q_tenants_def q_accounts_def q_platformhealth_def q_platformusage_def q_statusconfig_def
  q_ready_def q_live_def q_outcomes_def q_subscribers_def q_templates_def q_reportschedules_def q_deliveries_def
  q_slapolicies_def q_trackers_def q_breaches_def q_members_def q_roles_def q_users_def q_publicstatus_def

section \<open>Which queries share an entry\<close>

text \<open>The query and the workspace can be read back from a key.\<close>

fun jstring :: "json \<Rightarrow> string" where
  "jstring (JStr s) = s"
| "jstring _ = []"

fun jnat :: "json \<Rightarrow> nat" where
  "jnat (JNum (JInt i)) = nat i"
| "jnat _ = 0"

definition app_of :: "string \<Rightarrow> app_query option" where
  "app_of n =
    (if n = ''session'' then Some QSession
     else if n = ''alert-policies'' then Some QPolicies
     else if n = ''monitoring-sources-for-policy'' then Some QPolicySources
     else if n = ''billing-status'' then Some QBilling
     else if n = ''platform-organizations'' then Some QOrganizations
     else if n = ''platform-tenants'' then Some QTenants
     else if n = ''platform-commercial-accounts'' then Some QAccounts
     else if n = ''platform-health'' then Some QPlatformHealth
     else if n = ''platform-usage'' then Some QPlatformUsage
     else if n = ''health-ready'' then Some QReady
     else if n = ''health-live'' then Some QLive
     else if n = ''release-outcomes'' then Some QOutcomes
     else if n = ''team-members'' then Some QMembers
     else if n = ''tenant-roles'' then Some QRoles
     else if n = ''admin-users'' then Some QUsers
     else None)"

definition tenant_of :: "string \<Rightarrow> tenant_query option" where
  "tenant_of n =
    (if n = ''msp-clients-check'' then Some QMspCheck
     else if n = ''nav-badge-alerts'' then Some QNavAlerts
     else if n = ''nav-badge-incidents'' then Some QNavIncidents
     else if n = ''nav-badge-changes'' then Some QNavChanges
     else if n = ''nav-badge-sla'' then Some QNavSla
     else if n = ''nav-badge-monitoring'' then Some QNavMonitoring
     else if n = ''nav-badge-maintenance'' then Some QNavMaintenance
     else if n = ''nav-badge-channels'' then Some QNavChannels
     else if n = ''nav-badge-critical'' then Some QNavCritical
     else if n = ''branding'' then Some QBranding
     else if n = ''amgr-sources'' then Some QHookSources
     else if n = ''api-keys'' then Some QApiKeys
     else if n = ''automation-scripts'' then Some QScripts
     else if n = ''automation-schedules'' then Some QSchedules
     else if n = ''automation-runs'' then Some QRuns
     else if n = ''esc-policies'' then Some QEscPolicies
     else if n = ''finops-summary'' then Some QSummary
     else if n = ''finops-usage'' then Some QUsage
     else if n = ''itsm-changes'' then Some QChanges
     else if n = ''ir-events'' then Some QErrorEvents
     else if n = ''notif-channels'' then Some QPickedChannels
     else if n = ''ir-policy'' then Some QIrPolicy
     else if n = ''infra-certs'' then Some QCerts
     else if n = ''infra-assets'' then Some QAssets
     else if n = ''sources'' then Some QSources
     else if n = ''kb-categories'' then Some QCategories
     else if n = ''msp-clients'' then Some QMspClients
     else if n = ''maintenance-windows'' then Some QWindows
     else if n = ''notification-channels'' then Some QChannels
     else if n = ''status-page-cfg'' then Some QStatusConfig
     else if n = ''report-templates'' then Some QTemplates
     else if n = ''report-schedules'' then Some QReportSchedules
     else if n = ''report-deliveries'' then Some QDeliveries
     else if n = ''sla-policies'' then Some QSlaPolicies
     else if n = ''sla-trackers'' then Some QTrackers
     else if n = ''sla-breaches'' then Some QBreaches
     else None)"

definition arg_of :: "string \<Rightarrow> json list \<Rightarrow> (arg_query \<times> string option) option" where
  "arg_of n xs =
    (if n = ''aiops-findings'' then Some (QFindings (xs ! 1 = JBool True), Some (jstring (xs ! 0)))
     else if n = ''alert'' then Some (QAlert (jstring (xs ! 0)), None)
     else if n = ''kb-search'' then Some (QKbSearch (jstring (xs ! 0)), None)
     else if n = ''amgr-events'' then Some (QHookEvents (jstring (xs ! 0)), None)
     else if n = ''alerts'' then Some (QAlerts (jstring (xs ! 1)), Some (jstring (xs ! 0)))
     else if n = ''audit-events'' then Some (QAudit (jstring (xs ! 1)) (jstring (xs ! 2)) (jstring (xs ! 3)) (jstring (xs ! 4)) (jstring (xs ! 5)) (jnat (xs ! 6)), Some (jstring (xs ! 0)))
     else if n = ''metric-history'' then Some (QHistory (jstring (xs ! 0)) (jstring (xs ! 1)) (jstring (xs ! 2)), None)
     else if n = ''device-layout'' then Some (QLayout (jstring (xs ! 0)), None)
     else if n = ''resource-detail'' then Some (QResource (jstring (xs ! 0)) (jstring (xs ! 1)), None)
     else if n = ''resource-current'' then Some (QCurrent (jstring (xs ! 0)) (jstring (xs ! 1)), None)
     else if n = ''resource-problems'' then Some (QProblems (jstring (xs ! 0)) (jstring (xs ! 1)), None)
     else if n = ''esc-policy'' then Some (QEscPolicy (jstring (xs ! 0)), None)
     else if n = ''itsm-rfc'' then Some (QRfc (jstring (xs ! 0)), None)
     else if n = ''resources'' then Some (QResources (jstring (xs ! 1)) (if xs ! 2 = JNull then None else Some (jstring (xs ! 2))), Some (jstring (xs ! 0)))
     else if n = ''kb-articles'' then Some (QArticles (jstring (xs ! 1)) (jstring (xs ! 2)) (jstring (xs ! 3)), Some (jstring (xs ! 0)))
     else if n = ''kb-article'' then Some (QArticle (jstring (xs ! 0)), None)
     else if n = ''msp-client-detail'' then Some (QMspClient (jstring (xs ! 0)), None)
     else if n = ''schedule-subscribers'' then Some (QSubscribers (jstring (xs ! 0)), None)
     else if n = ''public-status'' then Some (QPublicStatus (jstring (xs ! 0)), None)
     else None)"

definition read_key :: "json list \<Rightarrow> (page_query \<times> string option) option" where
  "read_key k = (let n = jstring (hd k); xs = tl k in
     case app_of n of Some q \<Rightarrow> Some (OfApp q, None) | None \<Rightarrow>
       (case tenant_of n of Some q \<Rightarrow> Some (OfTenant q, Some (jstring (xs ! 0)))
        | None \<Rightarrow> map_option (map_prod OfArg id) (arg_of n xs)))"

lemma read_app: "app_of (jstring (hd (fst (app_decl q)))) = Some q"
  by (cases q) (simp_all add: app_of_def decl_defs)

lemma tl_tenant: "tl (fst (tenant_decl t q)) = [JStr t]"
  by (cases q) (simp_all add: decl_defs)

lemma read_tenant: "tenant_of (jstring (hd (fst (tenant_decl t q)))) = Some (if q = QNocWindows then QWindows else q)"
  by (cases q) (simp_all add: tenant_of_def decl_defs)

lemma read_arg:
  "arg_of (jstring (hd (fst (arg_decl h t q)))) (tl (fst (arg_decl h t q)))
     = Some (q, if unscoped (OfArg q) then None else Some t)"
  by (cases q) (simp_all add: arg_of_def decl_defs split: option.split)

lemma names_apart: "app_of (jstring (hd (fst (tenant_decl t q)))) = None"
  by (cases q) (simp_all add: app_of_def decl_defs)

lemma arg_names_apart:
  "app_of (jstring (hd (fst (arg_decl h t p)))) = None"
  "tenant_of (jstring (hd (fst (arg_decl h t p)))) = None"
  by (cases p; simp add: app_of_def decl_defs) (cases p; simp add: tenant_of_def decl_defs)

lemma read_back: "read_key (fst (decl h t q)) = Some (canon q, if unscoped q then None else Some t)"
  by (cases q) (simp_all add: read_key_def read_app tl_tenant read_tenant names_apart arg_names_apart read_arg canon_def Let_def)

lemma key_of_canon: "fst (decl h t (canon q)) = fst (decl h t q)"
  by (simp add: canon_def decl_defs)

lemma key_unscoped: "unscoped q \<Longrightarrow> fst (decl h t q) = fst (decl h' t' q)"
  by (cases q rule: unscoped.cases) (simp_all add: decl_defs)

lemma key_host: "fst (decl h t q) = fst (decl h' t q)"
  by (cases "(h, t, q)" rule: decl.cases; simp; case_tac qa; simp add: decl_defs)

text \<open>C9: two queries of the application share an entry of the cache exactly when they are the same query -- those of the
  maintenance windows of the dashboard and of their own page being one -- and are asked in the same workspace or have a key
  without one.\<close>

theorem cache_entries:
  "fst (decl h t q) = fst (decl h' t' q') \<longleftrightarrow> canon q = canon q' \<and> (t = t' \<or> unscoped q)"
proof
  assume "fst (decl h t q) = fst (decl h' t' q')"
  then have "read_key (fst (decl h t q)) = read_key (fst (decl h' t' q'))" by simp
  then show "canon q = canon q' \<and> (t = t' \<or> unscoped q)" by (auto simp: read_back split: if_splits)
next
  assume same: "canon q = canon q' \<and> (t = t' \<or> unscoped q)"
  then have "fst (decl h t q) = fst (decl h' t' q)" using key_unscoped key_host by metis
  then show "fst (decl h t q) = fst (decl h' t' q')" using same key_of_canon by metis
qed

text \<open>So queries with one entry make one request, but for the maintenance windows of the two pages.\<close>

lemma path_of_unscoped: "unscoped q \<Longrightarrow> snd (decl h t q) = snd (decl h t' q)"
  by (cases q rule: unscoped.cases) (simp_all add: decl_defs)

lemma entry_one_request:
  assumes "fst (decl h t q) = fst (decl h t' q')"
  shows "snd (decl h t q) = snd (decl h t' q') \<or> q \<noteq> q' \<and> {q, q'} = {OfTenant QWindows, OfTenant QNocWindows}"
proof -
  have "canon q = canon q'" and t: "t = t' \<or> unscoped q"
    using read_back [of h t q] read_back [of h t' q'] assms by (auto split: if_splits)
  then have "q = q' \<or> q \<noteq> q' \<and> {q, q'} = {OfTenant QWindows, OfTenant QNocWindows}" by (auto simp: canon_def split: if_splits)
  moreover have "snd (decl h t q) = snd (decl h t' q)" using t path_of_unscoped by blast
  ultimately show ?thesis by auto
qed

section \<open>What the pages invalidate\<close>

text \<open>Whether the effects invalidate a key.\<close>

definition refreshes :: "effect list \<Rightarrow> json list \<Rightarrow> bool" where
  "refreshes out k = list_ex (\<lambda>f. case f of Invalidate p \<Rightarrow> prefix (map JStr p) k | _ \<Rightarrow> False) out"

text \<open>A key that is the prefix of one under which some query is declared in workspace \<open>t\<close>.\<close>

definition known :: "string \<Rightarrow> string list \<Rightarrow> bool" where
  "known t k \<longleftrightarrow> (\<exists>q. \<forall>h. prefix (map JStr k) (fst (decl h t q)))"

definition all_known :: "string \<Rightarrow> effect list \<Rightarrow> bool" where
  "all_known t out \<longleftrightarrow> (\<forall>k. Invalidate k \<in> set out \<longrightarrow> known t k)"

lemma all_known_simps [simp]:
  "all_known t []" "all_known t (f # out) \<longleftrightarrow> (\<forall>k. f = Invalidate k \<longrightarrow> known t k) \<and> all_known t out"
  "all_known t (xs @ ys) \<longleftrightarrow> all_known t xs \<and> all_known t ys" "all_known t (map (snooze_effect i) os)"
  "all_known t (jif b f) \<longleftrightarrow> (b \<longrightarrow> (\<forall>k. f = Invalidate k \<longrightarrow> known t k))"
proof -
  have "snooze_effect i a \<noteq> Invalidate k" for a k by (cases a) simp_all
  then show "all_known t (map (snooze_effect i) os)" by (metis all_known_def image_iff list.set_map)
qed (auto simp: all_known_def)

lemma action_request_effect [simp]: "action_request a i \<noteq> Invalidate k"
  by (cases a) simp_all

lemma knownI: "(\<And>h. prefix (map JStr k) (fst (decl h t q))) \<Longrightarrow> known t k"
  by (auto simp: known_def)

lemma known_keys [simp]:
  "known t ([''session''])"
  "known t ([''aiops-findings'', t])"
  "known t ([''alert'', i])"
  "known t ([''alerts''])"
  "known t ([''itsm-changes''])"
  "known t ([''itsm-changes'', t])"
  "known t ([''itsm-rfc'', i])"
  "known t ([''amgr-sources''])"
  "known t ([''api-keys''])"
  "known t ([''automation-scripts'', t])"
  "known t ([''automation-schedules'', t])"
  "known t ([''automation-runs'', t])"
  "known t ([''notification-channels'', t])"
  "known t ([''resource-current'', src, i])"
  "known t ([''resource-problems'', src, i])"
  "known t ([''esc-policy'', i])"
  "known t ([''esc-policies'', t])"
  "known t ([''ir-events'', t])"
  "known t ([''ir-policy'', t])"
  "known t ([''infra-certs''])"
  "known t ([''infra-assets''])"
  "known t ([''kb-article'', i])"
  "known t ([''kb-articles''])"
  "known t ([''kb-categories''])"
  "known t ([''maintenance-windows''])"
  "known t ([''sources'', t])"
  "known t ([''branding'', t])"
  "known t ([''status-page-cfg'', t])"
  "known t ([''platform-organizations''])"
  "known t ([''platform-tenants''])"
  "known t ([''platform-commercial-accounts''])"
  "known t ([''alert-policies''])"
  "known t ([''report-templates'', t])"
  "known t ([''report-schedules'', t])"
  "known t ([''schedule-subscribers'', i])"
  "known t ([''sla-policies'', t])"
  "known t ([''team-members''])"
  "known t ([''tenant-roles''])"
  "known t ([''admin-users''])"
proof -
  show "known t [''session'']" by (rule knownI [where q = "OfApp QSession"]) (simp add: decl_defs)
  show "known t [''aiops-findings'', t]" by (rule knownI [where q = "OfArg (QFindings True)"]) (simp add: decl_defs)
  show "known t [''alert'', i]" by (rule knownI [where q = "OfArg (QAlert i)"]) (simp add: decl_defs)
  show "known t [''alerts'']" by (rule knownI [where q = "OfArg (QAlerts [])"]) (simp add: decl_defs)
  show "known t [''itsm-changes'']" by (rule knownI [where q = "OfTenant QChanges"]) (simp add: decl_defs)
  show "known t [''itsm-changes'', t]" by (rule knownI [where q = "OfTenant QChanges"]) (simp add: decl_defs)
  show "known t [''itsm-rfc'', i]" by (rule knownI [where q = "OfArg (QRfc i)"]) (simp add: decl_defs)
  show "known t [''amgr-sources'']" by (rule knownI [where q = "OfTenant QHookSources"]) (simp add: decl_defs)
  show "known t [''api-keys'']" by (rule knownI [where q = "OfTenant QApiKeys"]) (simp add: decl_defs)
  show "known t [''automation-scripts'', t]" by (rule knownI [where q = "OfTenant QScripts"]) (simp add: decl_defs)
  show "known t [''automation-schedules'', t]" by (rule knownI [where q = "OfTenant QSchedules"]) (simp add: decl_defs)
  show "known t [''automation-runs'', t]" by (rule knownI [where q = "OfTenant QRuns"]) (simp add: decl_defs)
  show "known t [''notification-channels'', t]" by (rule knownI [where q = "OfTenant QChannels"]) (simp add: decl_defs)
  show "known t [''resource-current'', src, i]" by (rule knownI [where q = "OfArg (QCurrent src i)"]) (simp add: decl_defs)
  show "known t [''resource-problems'', src, i]" by (rule knownI [where q = "OfArg (QProblems src i)"]) (simp add: decl_defs)
  show "known t [''esc-policy'', i]" by (rule knownI [where q = "OfArg (QEscPolicy i)"]) (simp add: decl_defs)
  show "known t [''esc-policies'', t]" by (rule knownI [where q = "OfTenant QEscPolicies"]) (simp add: decl_defs)
  show "known t [''ir-events'', t]" by (rule knownI [where q = "OfTenant QErrorEvents"]) (simp add: decl_defs)
  show "known t [''ir-policy'', t]" by (rule knownI [where q = "OfTenant QIrPolicy"]) (simp add: decl_defs)
  show "known t [''infra-certs'']" by (rule knownI [where q = "OfTenant QCerts"]) (simp add: decl_defs)
  show "known t [''infra-assets'']" by (rule knownI [where q = "OfTenant QAssets"]) (simp add: decl_defs)
  show "known t [''kb-article'', i]" by (rule knownI [where q = "OfArg (QArticle i)"]) (simp add: decl_defs)
  show "known t [''kb-articles'']" by (rule knownI [where q = "OfArg (QArticles [] [] [])"]) (simp add: decl_defs)
  show "known t [''kb-categories'']" by (rule knownI [where q = "OfTenant QCategories"]) (simp add: decl_defs)
  show "known t [''maintenance-windows'']" by (rule knownI [where q = "OfTenant QWindows"]) (simp add: decl_defs)
  show "known t [''sources'', t]" by (rule knownI [where q = "OfTenant QSources"]) (simp add: decl_defs)
  show "known t [''branding'', t]" by (rule knownI [where q = "OfTenant QBranding"]) (simp add: decl_defs)
  show "known t [''status-page-cfg'', t]" by (rule knownI [where q = "OfTenant QStatusConfig"]) (simp add: decl_defs)
  show "known t [''platform-organizations'']" by (rule knownI [where q = "OfApp QOrganizations"]) (simp add: decl_defs)
  show "known t [''platform-tenants'']" by (rule knownI [where q = "OfApp QTenants"]) (simp add: decl_defs)
  show "known t [''platform-commercial-accounts'']" by (rule knownI [where q = "OfApp QAccounts"]) (simp add: decl_defs)
  show "known t [''alert-policies'']" by (rule knownI [where q = "OfApp QPolicies"]) (simp add: decl_defs)
  show "known t [''report-templates'', t]" by (rule knownI [where q = "OfTenant QTemplates"]) (simp add: decl_defs)
  show "known t [''report-schedules'', t]" by (rule knownI [where q = "OfTenant QReportSchedules"]) (simp add: decl_defs)
  show "known t [''schedule-subscribers'', i]" by (rule knownI [where q = "OfArg (QSubscribers i)"]) (simp add: decl_defs)
  show "known t [''sla-policies'', t]" by (rule knownI [where q = "OfTenant QSlaPolicies"]) (simp add: decl_defs)
  show "known t [''team-members'']" by (rule knownI [where q = "OfApp QMembers"]) (simp add: decl_defs)
  show "known t [''tenant-roles'']" by (rule knownI [where q = "OfApp QRoles"]) (simp add: decl_defs)
  show "known t [''admin-users'']" by (rule knownI [where q = "OfApp QUsers"]) (simp add: decl_defs)
qed

text \<open>Every handler of the application, in any state and for any event: a user action, the answer of a request, or a timer.\<close>

inductive app_step :: "string \<Rightarrow> effect list \<Rightarrow> bool" for t :: string where
  aiops_step: "app_step t (snd (aiops_handle t s e))"
| detail_step: "app_step t (snd (detail_handle i s e))"
| am_form_step: "app_step t (snd (am_form_handle name e))"
| amgr_step: "app_step t (snd (amgr_handle s e))"
| alerts_step: "app_step t (snd (alerts_handle t s e))"
| new_key_step: "app_step t (snd (new_key_handle raw copied e))"
| key_form_step: "app_step t (snd (key_form_handle h s e))"
| keys_step: "app_step t (snd (keys_handle s e))"
| audit_step: "app_step t (snd (audit_handle h s e))"
| script_form_step: "app_step t (snd (script_form_handle t s e))"
| schedule_form_step: "app_step t (snd (schedule_form_handle t s e))"
| automation_step: "app_step t (snd (automation_handle t s e))"
| dest_step: "app_step t (snd (dest_handle t s e))"
| channels_step: "app_step t (snd (channels_handle t s e))"
| dv_step: "app_step t (snd (dv_handle src i s e))"
| step_step: "app_step t (snd (step_handle h i s e))"
| link_step: "app_step t (snd (link_handle t eid sel e))"
| esc_detail_step: "app_step t (snd (esc_detail_handle i s e))"
| esc_step: "app_step t (snd (esc_handle t s e))"
| event_detail_step: "app_step t (snd (event_detail_handle t e1 s e))"
| events_step: "app_step t (snd (events_handle s e))"
| policy_tab_step: "app_step t (snd (policy_tab_handle t s e))"
| certs_step: "app_step t (snd (certs_handle t s e))"
| assets_step: "app_step t (snd (assets_handle s e))"
| infra_step: "app_step t (snd (infra_handle t s e))"
| inv_step: "app_step t (snd (inv_handle s e))"
| rfc_form_step: "app_step t (snd (rfc_form_handle t s e))"
| rfc_step: "app_step t (snd (rfc_handle t i s e))"
| itsm_step: "app_step t (snd (itsm_handle t s e))"
| article_step: "app_step t (snd (article_handle i s e))"
| kb_step: "app_step t (snd (kb_handle t s e))"
| maint_step: "app_step t (snd (maint_handle h t s e))"
| src_form_step: "app_step t (snd (src_form_handle t s e))"
| rotate_step: "app_step t (snd (rotate_handle t i token e))"
| src_card_step: "app_step t (snd (src_card_handle t i s e))"
| mon_step: "app_step t (snd (mon_handle showAdd e))"
| panel_step: "app_step t (snd (panel_handle isSwitching e))"
| msp_step: "app_step t (snd (msp_handle sel e))"
| noc_step: "app_step t (snd (noc_handle h t s e))"
| onboarding_step: "app_step t (snd (onboarding_handle s e))"
| branding_step: "app_step t (snd (branding_handle t s e))"
| status_step: "app_step t (snd (status_handle t s e))"
| comps_step: "app_step t (snd (comps_handle t s e))"
| org_form_step: "app_step t (snd (org_form_handle s e))"
| orgs_step: "app_step t (snd (orgs_handle s e))"
| tenant_form_step: "app_step t (snd (tenant_form_handle s e))"
| tenants_step: "app_step t (snd (tenants_handle showCreate e))"
| contract_form_step: "app_step t (snd (contract_form_handle s e))"
| ent_form_step: "app_step t (snd (ent_form_handle s e))"
| contracts_step: "app_step t (snd (contracts_handle s e))"
| padmin_step: "app_step t (snd (padmin_handle activeTab e))"
| form_step: "app_step t (snd (form_handle s e))"
| policies_step: "app_step t (snd (policies_handle s e))"
| template_form_step: "app_step t (snd (template_form_handle t s e))"
| rep_schedule_step: "app_step t (snd (rep_schedule_handle t s e))"
| sub_step: "app_step t (snd (sub_handle i email e))"
| reports_step: "app_step t (snd (reports_handle t s e))"
| shell_step: "app_step t (snd (shell_handle h se s e))"
| sla_form_step: "app_step t (snd (sla_form_handle t s e))"
| sla_step: "app_step t (snd (sla_handle t s e))"
| credential_step: "app_step t (snd (credential_handle origin r copied e))"
| user_form_step: "app_step t (snd (user_form_handle t s e))"
| members_step: "app_step t (snd (members_handle s e))"
| roles_step: "app_step t (snd (roles_handle s e))"
| copy_step: "app_step t (snd (copy_handle t1 copied e))"
| invite_step: "app_step t (snd (invite_handle s e))"
| uarole_step: "app_step t (snd (uarole_handle u s e))"
| users_step: "app_step t (snd (users_handle s e))"

lemma aiops_known: "all_known t (snd (aiops_handle t s e))"
  by (cases e) (auto simp: Let_def split: option.splits if_splits prod.splits sum.splits)

lemma detail_known: "all_known t (snd (detail_handle i s e))"
  by (cases e) (auto simp: Let_def split: option.splits if_splits prod.splits sum.splits)

lemma am_form_known: "all_known t (snd (am_form_handle name e))"
  by (cases e) (auto simp: Let_def split: option.splits if_splits prod.splits sum.splits)

lemma amgr_known: "all_known t (snd (amgr_handle s e))"
  by (cases e) (auto simp: Let_def split: option.splits if_splits prod.splits sum.splits)

lemma alerts_known: "all_known t (snd (alerts_handle t s e))"
  by (cases e) (auto simp: Let_def split: option.splits if_splits prod.splits sum.splits)

lemma new_key_known: "all_known t (snd (new_key_handle raw copied e))"
  by (cases e) (auto simp: Let_def split: option.splits if_splits prod.splits sum.splits)

lemma key_form_known: "all_known t (snd (key_form_handle h s e))"
  by (cases e) (auto simp: Let_def key_request_def split: option.splits if_splits prod.splits sum.splits)

lemma keys_known: "all_known t (snd (keys_handle s e))"
  by (cases e) (auto simp: Let_def split: option.splits if_splits prod.splits sum.splits)

lemma audit_known: "all_known t (snd (audit_handle h s e))"
  by (cases e) (auto simp: Let_def split: option.splits if_splits prod.splits sum.splits)

lemma script_form_known: "all_known t (snd (script_form_handle t s e))"
  by (cases e) (auto simp: Let_def split: option.splits if_splits prod.splits sum.splits)

lemma schedule_form_known: "all_known t (snd (schedule_form_handle t s e))"
  by (cases e) (auto simp: Let_def split: option.splits if_splits prod.splits sum.splits)

lemma automation_known: "all_known t (snd (automation_handle t s e))"
  by (cases e) (auto simp: Let_def split: option.splits if_splits prod.splits sum.splits)

lemma dest_known: "all_known t (snd (dest_handle t s e))"
  by (cases e) (auto simp: Let_def split: option.splits if_splits prod.splits sum.splits)

lemma channels_known: "all_known t (snd (channels_handle t s e))"
  by (cases e) (auto simp: Let_def split: option.splits if_splits prod.splits sum.splits)

lemma dv_known: "all_known t (snd (dv_handle src i s e))"
  by (cases e) (auto simp: Let_def split: option.splits if_splits prod.splits sum.splits)

lemma step_known: "all_known t (snd (step_handle h i s e))"
  by (cases e) (auto simp: Let_def split: option.splits if_splits prod.splits sum.splits)

lemma link_known: "all_known t (snd (link_handle t eid sel e))"
  by (cases e) (auto simp: Let_def split: option.splits if_splits prod.splits sum.splits)

lemma esc_detail_known: "all_known t (snd (esc_detail_handle i s e))"
  by (cases e) (auto simp: Let_def split: option.splits if_splits prod.splits sum.splits)

lemma esc_known: "all_known t (snd (esc_handle t s e))"
  by (cases e) (auto simp: Let_def split: option.splits if_splits prod.splits sum.splits)

lemma event_detail_known: "all_known t (snd (event_detail_handle t e1 s e))"
  by (cases e) (auto simp: Let_def split: option.splits if_splits prod.splits sum.splits)

lemma events_known: "all_known t (snd (events_handle s e))"
  by (cases e) (auto simp: Let_def split: option.splits if_splits prod.splits sum.splits)

lemma policy_tab_known: "all_known t (snd (policy_tab_handle t s e))"
  by (cases e) (auto simp: Let_def ir_policy_put_def split: option.splits if_splits prod.splits sum.splits)

lemma certs_known: "all_known t (snd (certs_handle t s e))"
  by (cases e) (auto simp: Let_def split: option.splits if_splits prod.splits sum.splits)

lemma assets_known: "all_known t (snd (assets_handle s e))"
  by (cases e) (auto simp: Let_def split: option.splits if_splits prod.splits sum.splits)

lemma infra_known: "all_known t (snd (infra_handle t s e))"
  by (cases e) (auto simp: Let_def split: option.splits if_splits prod.splits sum.splits)

lemma inv_known: "all_known t (snd (inv_handle s e))"
  by (cases e) (auto simp: Let_def split: option.splits if_splits prod.splits sum.splits)

lemma rfc_form_known: "all_known t (snd (rfc_form_handle t s e))"
  by (cases e) (auto simp: Let_def split: option.splits if_splits prod.splits sum.splits)

lemma rfc_known: "all_known t (snd (rfc_handle t i s e))"
  by (cases e) (auto simp: Let_def split: option.splits if_splits prod.splits sum.splits)

lemma itsm_known: "all_known t (snd (itsm_handle t s e))"
  by (cases e) (auto simp: Let_def split: option.splits if_splits prod.splits sum.splits)

lemma article_known: "all_known t (snd (article_handle i s e))"
  by (cases e) (auto simp: Let_def split: option.splits if_splits prod.splits sum.splits)

lemma kb_known: "all_known t (snd (kb_handle t s e))"
  by (cases e) (auto simp: Let_def save_article_def split: option.splits if_splits prod.splits sum.splits)

lemma maint_known: "all_known t (snd (maint_handle h t s e))"
  by (cases e) (auto simp: Let_def handleCreate_def split: option.splits if_splits prod.splits sum.splits)

lemma src_form_known: "all_known t (snd (src_form_handle t s e))"
  by (cases e) (auto simp: Let_def split: option.splits if_splits prod.splits sum.splits)

lemma rotate_known: "all_known t (snd (rotate_handle t i token e))"
  by (cases e) (auto simp: Let_def split: option.splits if_splits prod.splits sum.splits)

lemma src_card_known: "all_known t (snd (src_card_handle t i s e))"
  by (cases e) (auto simp: Let_def split: option.splits if_splits prod.splits sum.splits)

lemma mon_known: "all_known t (snd (mon_handle showAdd e))"
  by (cases e) (auto simp: Let_def split: option.splits if_splits prod.splits sum.splits)

lemma panel_known: "all_known t (snd (panel_handle isSwitching e))"
  by (cases e) (auto simp: Let_def split: option.splits if_splits prod.splits sum.splits)

lemma msp_known: "all_known t (snd (msp_handle sel e))"
  by (cases e) (auto simp: Let_def split: option.splits if_splits prod.splits sum.splits)

lemma noc_known: "all_known t (snd (noc_handle h t s e))"
  by (cases e) (auto simp: Let_def fetch_alerts_def fetch_sources_def split: option.splits if_splits prod.splits sum.splits)

lemma onboarding_known: "all_known t (snd (onboarding_handle s e))"
  by (cases e) (auto simp: Let_def split: option.splits if_splits prod.splits sum.splits)

lemma branding_known: "all_known t (snd (branding_handle t s e))"
  by (cases e) (auto simp: Let_def split: option.splits if_splits prod.splits sum.splits)

lemma status_known: "all_known t (snd (status_handle t s e))"
  by (cases e) (auto simp: Let_def split: option.splits if_splits prod.splits sum.splits)

lemma comps_known: "all_known t (snd (comps_handle t s e))"
  by (cases e) (auto simp: Let_def split: option.splits if_splits prod.splits sum.splits)

lemma org_form_known: "all_known t (snd (org_form_handle s e))"
  by (cases e) (auto simp: Let_def split: option.splits if_splits prod.splits sum.splits)

lemma orgs_known: "all_known t (snd (orgs_handle s e))"
  by (cases e) (auto simp: Let_def split: option.splits if_splits prod.splits sum.splits)

lemma tenant_form_known: "all_known t (snd (tenant_form_handle s e))"
  by (cases e) (auto simp: Let_def split: option.splits if_splits prod.splits sum.splits)

lemma tenants_known: "all_known t (snd (tenants_handle showCreate e))"
  by (cases e) (auto simp: Let_def split: option.splits if_splits prod.splits sum.splits)

lemma contract_form_known: "all_known t (snd (contract_form_handle s e))"
  by (cases e) (auto simp: Let_def split: option.splits if_splits prod.splits sum.splits)

lemma ent_form_known: "all_known t (snd (ent_form_handle s e))"
  by (cases e) (auto simp: Let_def split: option.splits if_splits prod.splits sum.splits)

lemma contracts_known: "all_known t (snd (contracts_handle s e))"
  by (cases e) (auto simp: Let_def split: option.splits if_splits prod.splits sum.splits)

lemma padmin_known: "all_known t (snd (padmin_handle activeTab e))"
  by (cases e) (auto simp: Let_def split: option.splits if_splits prod.splits sum.splits)

lemma form_known: "all_known t (snd (form_handle s e))"
  by (cases e) (auto simp: Let_def split: option.splits if_splits prod.splits sum.splits)

lemma policies_known: "all_known t (snd (policies_handle s e))"
  by (cases e) (auto simp: Let_def split: option.splits if_splits prod.splits sum.splits)

lemma template_form_known: "all_known t (snd (template_form_handle t s e))"
  by (cases e) (auto simp: Let_def split: option.splits if_splits prod.splits sum.splits)

lemma rep_schedule_known: "all_known t (snd (rep_schedule_handle t s e))"
  by (cases e) (auto simp: Let_def split: option.splits if_splits prod.splits sum.splits)

lemma sub_known: "all_known t (snd (sub_handle i email e))"
  by (cases e) (auto simp: Let_def add_subscriber_def split: option.splits if_splits prod.splits sum.splits)

lemma reports_known: "all_known t (snd (reports_handle t s e))"
  by (cases e) (auto simp: Let_def split: option.splits if_splits prod.splits sum.splits)

lemma shell_known: "all_known t (snd (shell_handle h se s e))"
  by (cases e) (auto simp: Let_def select_tenant_request_def split: option.splits if_splits prod.splits sum.splits)

lemma sla_form_known: "all_known t (snd (sla_form_handle t s e))"
  by (cases e) (auto simp: Let_def split: option.splits if_splits prod.splits sum.splits)

lemma sla_known: "all_known t (snd (sla_handle t s e))"
  by (cases e) (auto simp: Let_def split: option.splits if_splits prod.splits sum.splits)

lemma credential_known: "all_known t (snd (credential_handle origin r copied e))"
  by (cases e) (auto simp: Let_def split: option.splits if_splits prod.splits sum.splits)

lemma user_form_known: "all_known t (snd (user_form_handle t s e))"
  by (cases e) (auto simp: Let_def split: option.splits if_splits prod.splits sum.splits)

lemma members_known: "all_known t (snd (members_handle s e))"
  by (cases e) (auto simp: Let_def split: option.splits if_splits prod.splits sum.splits)

lemma roles_known: "all_known t (snd (roles_handle s e))"
  by (cases e) (auto simp: Let_def split: option.splits if_splits prod.splits sum.splits)

lemma copy_known: "all_known t (snd (copy_handle t1 copied e))"
  by (cases e) (auto simp: Let_def split: option.splits if_splits prod.splits sum.splits)

lemma invite_known: "all_known t (snd (invite_handle s e))"
  by (cases e) (auto simp: Let_def split: option.splits if_splits prod.splits sum.splits)

lemma uarole_known: "all_known t (snd (uarole_handle u s e))"
  by (cases e) (auto simp: Let_def split: option.splits if_splits prod.splits sum.splits)

lemma users_known: "all_known t (snd (users_handle s e))"
  by (cases e) (auto simp: Let_def split: option.splits if_splits prod.splits sum.splits)

lemmas steps_known =
  aiops_known detail_known am_form_known amgr_known alerts_known new_key_known key_form_known keys_known audit_known
  script_form_known schedule_form_known automation_known dest_known channels_known dv_known step_known link_known
  esc_detail_known esc_known event_detail_known events_known policy_tab_known certs_known assets_known infra_known
  inv_known rfc_form_known rfc_known itsm_known article_known kb_known maint_known src_form_known rotate_known
  src_card_known mon_known panel_known msp_known noc_known onboarding_known branding_known status_known comps_known
  org_form_known orgs_known tenant_form_known tenants_known contract_form_known ent_form_known contracts_known
  padmin_known form_known policies_known template_form_known rep_schedule_known sub_known reports_known shell_known
  sla_form_known sla_known credential_known user_form_known members_known roles_known copy_known invite_known
  uarole_known users_known

text \<open>C8: no invalidation is in vain or misses its workspace: whatever any handler of the application invalidates, in any state and
  for any event, is the prefix of a key under which a query is declared in the workspace of the session, so that the entries of
  that query become stale.\<close>

theorem invalidations_hit:
  assumes "app_step t out" "Invalidate k \<in> set out"
  shows "\<exists>q. refreshes [Invalidate k] (fst (decl h t q))"
proof -
  have "all_known t out"
    using assms(1) by cases (simp_all only: steps_known)
  then show ?thesis using assms(2) by (auto simp: all_known_def known_def refreshes_def)
qed

theorem invalidations_hit_witness:
  "\<exists>q. refreshes [Invalidate [''alert'', ''al-1'']] (fst (decl sample_num ''t-1'' q))"
  by (rule invalidations_hit [OF detail_step [where i = "''al-1''" and s = detail_mount and e = AckSuccess]]) simp

section \<open>What stays as it was\<close>

text \<open>Choosing another workspace invalidates the session only; an entry whose key does not name the workspace is the one of
  the workspace that was left.\<close>

lemma hd_session: "hd (fst (decl h t q)) = JStr ''session'' \<longleftrightarrow> q = OfApp QSession"
  using read_back [of h t q] by (auto simp: read_key_def read_app app_of_def decl_defs canon_def split: if_splits)

lemma switch_keeps_entries:
  assumes "unscoped q" and "q \<noteq> OfApp QSession"
  shows "fst (decl h t q) = fst (decl h' t' q)" and "\<not> refreshes (snd (shell_handle hh se s SelectTenantSuccess)) (fst (decl h t q))"
  using key_unscoped [OF assms(1)] hd_session [of h t q] assms(2)
  by (auto simp: refreshes_def prefix_def)

text \<open>A source that is added or a channel that is created or removed does not reach the lists the other pages offer.\<close>

lemma sources_offered_before: "\<not> refreshes (snd (src_form_handle t s src_form_event.SfSuccess)) (fst (decl h t (OfApp QPolicySources)))"
  by (simp add: refreshes_def decl_defs)

lemma channels_offered_before:
  "\<not> refreshes (snd (dest_handle t s DfSuccess)) (fst (decl h t (OfTenant QPickedChannels)))"
  "\<not> refreshes (snd (channels_handle t c NcDeleted)) (fst (decl h t (OfTenant QPickedChannels)))"
  by (simp_all add: refreshes_def decl_defs)

text \<open>A note is stored as a change, but the list of changes is not refreshed; a report that is sent, but not the list of
  deliveries.\<close>

lemma note_not_listed: "\<not> refreshes (snd (detail_handle i s NoteSuccess)) (fst (decl h t (OfTenant QChanges)))"
  by (simp add: refreshes_def decl_defs)

lemma delivery_not_listed: "\<not> refreshes (snd (reports_handle t s RpTriggered)) (fst (decl h t (OfTenant QDeliveries)))"
  by (simp add: refreshes_def decl_defs)

end
