(* ===== verification/Spec2Isabelle.thy ===== *)
theory Spec2Isabelle
  imports Maintenance Itsm ApiKeys Onboarding Channels Automation Team Incident KnowledgeBase Noc UsersAdmin Sla AuditTrail
    Monitoring Reports Infra Alertmanager Msp Aiops FinOps StatusPublic
    PlatformAdmin DeviceDetail Settings Viewers Links QueryCache
begin

text \<open>
  The operations console of ReadyJLMirror, the React frontend under \<open>src/frontend/src\<close>: a protected
  shell that routes between pages, the pages, and the client through which they reach the API. Every theory
  models one part, translated from the TypeScript; where what a page shows hangs on an answer of the server,
  the few handlers that give it are modelled too, over lists and maps instead of the database.

  \<^bold>\<open>Layers.\<close>
  \<^item> \<open>JS_Prelude\<close>, \<open>JS_Sets\<close>, \<open>JS_Sort\<close>: the JavaScript operations the code uses (truthiness, \<open>??\<close>, \<open>trim\<close>,
    \<open>split\<close>, \<open>Number\<close>, \<open>slice\<close>, insertion-ordered \<open>Set\<close> and \<open>Map\<close>, \<open>sort\<close> with a comparison) and their lemmas.
    The locale \<open>js_set\<close> is the interface of the sets of expanded or collapsed keys; the list model interprets it.
  \<^item> \<open>Web\<close>: JSON, URI components, \<open>localStorage\<close>, the host (clock, dates, locale: a record of functions,
    since the browser provides them), the effects of handlers, query and mutation snapshots of the
    third-party query library. \<open>sample_host\<close> is a concrete host on which definitions are evaluated.
    The locales \<open>stored_setting\<close> and \<open>persisted\<close> are what a page provides for a value it keeps in \<open>localStorage\<close>.
  \<^item> \<open>JS_Timer\<close>: the locale \<open>delayed\<close> of the trailing timers (two debounced filters, the save of a layout).
  \<^item> \<open>Runtime\<close>: rendered trees, the events a user can cause in them (clicks with bubbling and
    \<open>stopPropagation\<close>, entries, submissions, disabled and read-only controls, required fields), and \<open>reach\<close>, the
    states a component can reach when the user acts on the view rendered from arbitrary props and
    the network settles requests at any time. The locale \<open>component\<close> asks of a page that its view
    offers only allowed events, one per click, and that every allowed event keeps the invariant and
    has only safe effects; it yields both for every reachable state and the whole log. \<open>read_only\<close>
    extends it to pages that never make a request. Each page interprets it on its own view and handler.
  \<^item> \<open>ApiClient\<close>: \<open>api/client.ts\<close>, the session types of \<open>api/types.ts\<close>, \<open>hooks/usePermission.ts\<close> and \<open>useBranding.ts\<close>.
  \<^item> \<open>UiKit\<close>: \<open>components/ui/*\<close>, \<open>components/ErrorBoundary.tsx\<close> and the mutation observer of \<open>main.tsx\<close>; the
    select, the tabs, the list and the overlay that several pages write alike.
  \<^item> \<open>Shell\<close>: \<open>components/Shell.tsx\<close>; the pages \<open>Alerts\<close> (\<open>AlertsPage.tsx\<close>), \<open>AlertDetail\<close>, \<open>Policies\<close>
    (\<open>AlertPoliciesPage.tsx\<close>), \<open>Escalation\<close> (\<open>EscalationPage.tsx\<close>), \<open>Inventory\<close> (\<open>InventoryPage.tsx\<close>) and
    \<open>Maintenance\<close> (\<open>MaintenancePage.tsx\<close>), which follow the alerting workflow. \<open>AlertDetail\<close> has the shape of the
    \<open>get_alert\<close> answer (\<open>api/routers/alerting.py\<close>).
  \<^item> \<open>DeviceDetail\<close> (\<open>DeviceDetail.tsx\<close>, mounted by the inventory): headline metrics found by the regular expressions
    of the source (matched by continuation), histories and their charts, the grid, and the layout with the two
    handlers of \<open>api/routers/layout.py\<close> that keep it (\<open>serve\<close> takes a request of the page apart as the route does).
  \<^item> \<open>Itsm\<close> (\<open>ITSMPage.tsx\<close>: changes, their tasks and approvals), \<open>ApiKeys\<close>
    (\<open>ApiKeysPage.tsx\<close>), \<open>Onboarding\<close> (\<open>OnboardingPage.tsx\<close>), \<open>Channels\<close> (\<open>NotificationChannelsPage.tsx\<close>), \<open>Automation\<close>
    (\<open>AutomationPage.tsx\<close>: scripts, schedules, runs), \<open>Team\<close> (\<open>TeamPage.tsx\<close>: provisioning, members, custom roles),
    \<open>Incident\<close> (\<open>IncidentResponsePage.tsx\<close>: error events, the response policy), \<open>KnowledgeBase\<close> (\<open>KnowledgeBasePage.tsx\<close>),
    \<open>Noc\<close> (\<open>NOCDashboard.tsx\<close>: the event stream and the widgets), \<open>UsersAdmin\<close> (\<open>UsersAdminPage.tsx\<close>), \<open>Sla\<close> (\<open>SLAPage.tsx\<close>)
    and \<open>AuditTrail\<close> (\<open>AuditPage.tsx\<close>).
  \<^item> \<open>Monitoring\<close> (\<open>MonitoringPage.tsx\<close>: registration of sources, tokens), \<open>Reports\<close> (\<open>ReportsPage.tsx\<close>: templates,
    schedules, subscribers, deliveries), \<open>Infra\<close> (\<open>InfraPage.tsx\<close>: certificates, assets), \<open>Alertmanager\<close>
    (\<open>AlertmanagerPage.tsx\<close>: webhook sources and their tokens), \<open>Msp\<close> (\<open>MSPOverviewPage.tsx\<close>: clients and the switch into
    their workspaces), \<open>Aiops\<close> (\<open>AIOpsPage.tsx\<close>, with the guard of the dismissal in \<open>api/routers/aiops.py\<close>) and \<open>FinOps\<close>
    (\<open>FinOpsPage.tsx\<close>: contract, usage and the data of its chart).
  \<^item> \<open>Platform\<close> (\<open>PlatformPage.tsx\<close>: health, branding, the two cards of the status page), \<open>StatusPublic\<close>
    (\<open>StatusPublicPage.tsx\<close>, with the schema, write and read of the configuration in \<open>api/routers/status_page.py\<close> and the public
    answer of \<open>bff/main.py\<close>) and \<open>PlatformAdmin\<close> (\<open>PlatformAdminPage.tsx\<close>: organizations, tenants, contracts, health, with the
    listings and the change of state in \<open>api/routers/platform.py\<close>).
  \<^item> \<open>Settings\<close>: the pages and the shell on their shared \<open>localStorage\<close>. \<open>Viewers\<close>: the pages that ask \<open>useCanOperate\<close>, run by a user
    without that permission (locale \<open>viewer_page\<close>; \<open>controls\<close> collects the form controls and the child components of a view). \<open>Links\<close>: the addresses by which the pages refer to alerts and articles,
    with \<open>URLSearchParams\<close>. \<open>QueryCache\<close>: every \<open>useQuery\<close> of the application as the pair of its key and path (\<open>decl\<close>), which of
    them share an entry, and what the handlers of the pages invalidate (\<open>app_step\<close> has a rule for every handler, \<open>known\<close> asks for a
    declared query, \<open>refreshes\<close> for a given one).

  \<^bold>\<open>How a page is modelled.\<close> The \<open>useState\<close> cells of a component are a record (\<open>shell\<close>, \<open>alerts\<close>, \<open>detail\<close>,
  \<open>form_state\<close>, \<open>policies\<close>, \<open>step_form\<close>, \<open>esc_detail\<close>, \<open>esc_page\<close>, \<open>inventory\<close>, \<open>maintenance\<close>, \<open>device\<close>, \<open>rfc_detail\<close>,
  \<open>key_form\<close>, \<open>kb\<close>, \<open>noc\<close>, \<open>audit\<close> and so on) with the value at mounting (\<open>_mount\<close>); everything else a render reads is a
  record of props. Each handler, mutation callback and effect of the source is a constructor of an event type and one
  equation of the \<open>_handle\<close> function, which returns the new state and the effects in their order. The JSX is the
  \<open>_view\<close> function; a child with state of its own is a mounted element with its callbacks as attributes.
  Styles, class names outside the UI kit and hover effects are left out; captions are transliterated.

  \<^bold>\<open>What the lemmas show.\<close> In \<open>ApiClient\<close>: the CSRF cookie round trip and the exact outcomes of a request. In
  \<open>UiKit\<close>: the toast queue and the life of a toast, the confirmation dialog, the report of refused
  mutations. In \<open>Shell\<close>: the session gate, the navigation tree and routing, persistence of the sidebar and of
  the last path. In the pages: which requests can ever be made and with which bodies (invariants
  through \<open>component\<close>), who can cause them, pagination (partition of the list; refinement of the cursor
  stack to a path of pages, \<open>pages_abs\<close>, and the way back to the first one by presses of the rendered button, \<open>back_run\<close>), grouping and selection of versions, parsing of
  source ids and tags, timers (the debounced filters of \<open>KnowledgeBase\<close> and \<open>AuditTrail\<close>, the back-off of the event stream in
  \<open>Noc\<close>, the delayed save of \<open>DeviceDetail\<close>), drafts over the server's value (\<open>Incident\<close>), merged histories, partition of the
  metrics into headlines and grid, rounding; \<open>Noc\<close> also refines a state machine of four phases. Across components: a refused
  request of any page ends in the overlay of the shell, the settings of the pages are independent, a user without the
  permission to operate writes nothing but notes on any page that asks for it, a link to an alert opens that alert, and the report
  of a refused mutation stays on the screen behind four more toasts, distinct queries have distinct entries of the cache, and
  whatever a handler invalidates is a query of the application in the workspace of the session (which operations refresh which
  query, and which do not, is stated by lemmas of \<open>QueryCache\<close> one by one). Across page and server: the components of the public
  status page and the layout of a device come back as they were saved, a device page writes no layout but its own, the two computations of the overall status agree, suspending and activating
  an organization. Some lemmas and theorems state behaviour that is hardly intended: \<open>ack_button_never_leaves\<close>,
  \<open>version_without_kind\<close>, \<open>viewer_can_post_note\<close>, \<open>stale_page_hides_alerts\<close>, \<open>step_error_lost\<close>, \<open>logout_leaves_page\<close>,
  \<open>separators_only\<close>, \<open>enter_creates_while_pending\<close>, \<open>binding_error_never_shown\<close>, \<open>schedule_of_disabled_script\<close>,
  \<open>edit_during_save_lost\<close>, \<open>noc_failure_looks_empty\<close>, \<open>audit_debounce_skips_page\<close>, \<open>audit_empty_page_no_way_back\<close>,
  \<open>invited_email_may_differ\<close>, \<open>status_save_hides_components\<close>, \<open>comps_lost_update\<close>, \<open>dismissed_still_offered\<close>,
  \<open>interval_rounded\<close>, \<open>tenants_tab_throws\<close>, \<open>contracts_never_created\<close>, \<open>activation_leaves_tenants_suspended\<close>,
  \<open>sent_bits_hidden\<close>, \<open>late_layout_overwritten\<close>, \<open>reopened_layout_stale\<close>, \<open>problems_failure_silent\<close>,
  \<open>earlier_snooze_unguarded\<close>, \<open>empty_page_no_way_back\<close>, \<open>dual_rows_unaligned\<close>,
  \<open>switch_keeps_entries\<close>, \<open>sources_offered_before\<close>, \<open>channels_offered_before\<close>, \<open>note_not_listed\<close>, \<open>delivery_not_listed\<close>.

  \<^bold>\<open>Bounds.\<close> All recursion is structural or has a termination proof; no fuel is used. Strings are lists of
  code units below 256, integers are unbounded (the code counts far below \<open>2 ^ 53\<close>), measured values are rationals;
  the jitter of the back-off is a rational factor of the event that a failed stream raises. Timers are values of the
  state (what they will apply, or when) and fire as events of their own, at any time after they were set.

  \<^bold>\<open>Hypotheses on the host.\<close> \<open>json_lists_ok\<close> (a list of strings is parsed as it was written) and \<open>times_ok\<close> (an
  instant written by \<open>toISOString\<close> is read back), both shown to hold of \<open>sample_host\<close>; \<open>decodes\<close> (the server decodes a query
  parameter that \<open>encodeURIComponent\<close> wrote); \<open>points_ok\<close> (the times of a history
  are valid dates); of the router \<open>router_ok\<close> (an address is taken apart at the first question mark), shown of \<open>sample_route\<close>.

  \<^bold>\<open>Not modelled.\<close> React's scheduling (a handler runs to completion and the view is rendered from its
  state), the router and the query library (their results are props; of its cache only that queries with equal keys share an entry, and that invalidating goes by prefixes of keys), the drawing of the charts, the helper that merges class
  names (third-party calls only), the Python services beyond the handlers named above, the SQL schema and the deployment. Of the handlers named: the
  answers 409, 500 and 503 of \<open>status_page.py\<close> (a slug already taken, no database), the check for an administrator, the audit event and the answer of
  \<open>update_organization_state\<close>. The dashboard is mounted for one workspace: a switch of the workspace while it is on the
  screen, which restarts its effect with the new \<open>tenantId\<close>, is not an event of \<open>Noc\<close>.
\<close>

end
